(* ===== verification/Prelude.thy ===== *)
theory Prelude
  imports Main "HOL-Library.AList" "HOL-Library.Multiset"
begin

text \<open>
  The prelude of the development: Go's maps, strings, integers and durations as the repository
  uses them, and the generic lemmas the component theories share.
  \<^item> A Go \<open>map[K]V\<close> is an association list with distinct keys (\<open>gm_ok\<close>); a missing key reads as
    the zero value. Where the order of a \<open>range\<close> loop over a map is observable, the component
    theories take that order as an argument.
  \<^item> A Go \<open>string\<close> is a HOL \<open>string\<close> (a list of bytes); the functions of the packages \<open>strings\<close>,
    \<open>strconv\<close> and \<open>fmt\<close> are modelled on ASCII text.
  \<^item> \<open>int\<close> and \<open>time.Duration\<close> are \<open>int\<close> with Go's 64-bit wrap-around (\<open>wrap64\<close>) and the saturation of
    \<open>time.Time.Sub\<close> (\<open>sat64\<close>) written out where the source can reach them.
  \<^item> An \<open>error\<close> is its message: a function that may fail returns \<open>err + 'a\<close> or an \<open>err option\<close>.
\<close>

section \<open>Definitions\<close>

named_theorems go_string_simps "rewrite rules of the string functions"
named_theorems gm_simps "rewrite rules of Go maps"

type_synonym err = string
type_synonym time = int
type_synonym duration = int
type_synonym ('k, 'v) gomap = "('k \<times> 'v) list"

subsection \<open>Maps\<close>

definition gm_ok :: "('k, 'v) gomap \<Rightarrow> bool" where
  "gm_ok m \<longleftrightarrow> distinct (map fst m)"

definition gm_put :: "'k \<Rightarrow> 'v \<Rightarrow> ('k, 'v) gomap \<Rightarrow> ('k, 'v) gomap" where
  "gm_put k v m = AList.update k v m"

definition gm_del :: "'k \<Rightarrow> ('k, 'v) gomap \<Rightarrow> ('k, 'v) gomap" where
  "gm_del k m = AList.delete k m"

definition gm_keys :: "('k, 'v) gomap \<Rightarrow> 'k list" where
  "gm_keys m = map fst m"

definition gm_str :: "('k, string) gomap \<Rightarrow> 'k \<Rightarrow> string" where
  "gm_str m k = (case map_of m k of None \<Rightarrow> [] | Some v \<Rightarrow> v)"

definition gm_list :: "('k, 'v list) gomap \<Rightarrow> 'k \<Rightarrow> 'v list" where
  "gm_list m k = (case map_of m k of None \<Rightarrow> [] | Some v \<Rightarrow> v)"

text \<open>Go ranges over a map in an unspecified order: \<open>ord\<close> permutes the list of keys.\<close>

definition any_order :: "(string list \<Rightarrow> string list) \<Rightarrow> bool" where
  "any_order ord \<longleftrightarrow> (\<forall>ks. mset (ord ks) = mset ks)"

subsection \<open>Integers and durations\<close>

definition wrap64 :: "int \<Rightarrow> int" where
  "wrap64 x = (x + 2 ^ 63) mod 2 ^ 64 - 2 ^ 63"

definition wrap32 :: "int \<Rightarrow> int" where
  "wrap32 x = (x + 2 ^ 31) mod 2 ^ 32 - 2 ^ 31"

definition sat64 :: "int \<Rightarrow> int" where
  "sat64 x = max (- (2 ^ 63)) (min (2 ^ 63 - 1) x)"

definition int64 :: "int \<Rightarrow> bool" where
  "int64 x \<longleftrightarrow> - (2 ^ 63) \<le> x \<and> x < 2 ^ 63"

definition second :: duration where
  "second = 1000000000"

definition minute :: duration where
  "minute = 60 * second"

text \<open>\<open>time.Since(t)\<close> at the clock reading \<open>now\<close>.\<close>

definition time_since :: "time \<Rightarrow> time \<Rightarrow> duration" where
  "time_since now t = sat64 (now - t)"

text \<open>Go's \<open>/\<close> and \<open>%\<close> truncate towards zero.\<close>

definition go_div :: "int \<Rightarrow> int \<Rightarrow> int" where
  "go_div a b = sgn a * sgn b * (\<bar>a\<bar> div \<bar>b\<bar>)"

definition go_mod :: "int \<Rightarrow> int \<Rightarrow> int" where
  "go_mod a b = a - b * go_div a b"

subsection \<open>Decimal numbers\<close>

definition digit_char :: "nat \<Rightarrow> char" where
  "digit_char d = char_of (48 + d)"

fun dec_nat :: "nat \<Rightarrow> string" where
  "dec_nat n = (if n < 10 then [digit_char n] else dec_nat (n div 10) @ [digit_char (n mod 10)])"

text \<open>\<open>strconv.Itoa\<close> and the verb \<open>%d\<close>.\<close>

definition Itoa :: "int \<Rightarrow> string" where
  "Itoa i = (if i < 0 then CHR ''-'' # dec_nat (nat (- i)) else dec_nat (nat i))"

definition digit_val :: "char \<Rightarrow> nat option" where
  "digit_val c = (let k = of_char c :: nat in if 48 \<le> k \<and> k \<le> 57 then Some (k - 48) else None)"

fun digits_val :: "nat \<Rightarrow> string \<Rightarrow> nat option" where
  "digits_val acc [] = Some acc"
| "digits_val acc (c # cs) =
     (case digit_val c of None \<Rightarrow> None | Some d \<Rightarrow> digits_val (10 * acc + d) cs)"

definition parse_digits :: "string \<Rightarrow> nat option" where
  "parse_digits s = (if s = [] then None else digits_val 0 s)"

text \<open>\<open>strconv.ParseInt(s, 10, bits)\<close>: an optional sign, digits, and a range check.\<close>

definition ParseInt :: "nat \<Rightarrow> string \<Rightarrow> int option" where
  "ParseInt bits s =
     (let r = (case s of
                 [] \<Rightarrow> None
               | c # cs \<Rightarrow>
                   if c = CHR ''-'' then map_option (\<lambda>n. - int n) (parse_digits cs)
                   else if c = CHR ''+'' then map_option int (parse_digits cs)
                   else map_option int (parse_digits s))
      in case r of
           None \<Rightarrow> None
         | Some i \<Rightarrow> if - (2 ^ (bits - 1)) \<le> i \<and> i < 2 ^ (bits - 1) then Some i else None)"

definition Atoi :: "string \<Rightarrow> int option" where
  "Atoi s = ParseInt 64 s"

subsection \<open>Strings\<close>

definition is_space :: "char \<Rightarrow> bool" where
  "is_space c \<longleftrightarrow> c \<in> {CHR 0x09, CHR 0x0A, CHR 0x0B, CHR 0x0C, CHR 0x0D, CHR 0x20}"

definition TrimSpace :: "string \<Rightarrow> string" where
  "TrimSpace s = rev (dropWhile is_space (rev (dropWhile is_space s)))"

fun has_prefix :: "string \<Rightarrow> string \<Rightarrow> bool" where
  "has_prefix [] s = True"
| "has_prefix (p # ps) [] = False"
| "has_prefix (p # ps) (c # cs) = (p = c \<and> has_prefix ps cs)"

definition HasSuffix :: "string \<Rightarrow> string \<Rightarrow> bool" where
  "HasSuffix s suf = has_prefix (rev suf) (rev s)"

definition TrimPrefix :: "string \<Rightarrow> string \<Rightarrow> string" where
  "TrimPrefix s p = (if has_prefix p s then drop (length p) s else s)"

definition TrimSuffix :: "string \<Rightarrow> string \<Rightarrow> string" where
  "TrimSuffix s suf = (if HasSuffix s suf then take (length s - length suf) s else s)"

text \<open>
  \<open>cut sep s\<close> splits at the first occurrence of \<open>sep\<close>: \<open>strings.SplitN(s, sep, 2)\<close> has two parts
  exactly when it is \<open>Some\<close>, and \<open>strings.Contains(s, sep)\<close> holds in the same case.
\<close>

fun cut :: "string \<Rightarrow> string \<Rightarrow> (string \<times> string) option" where
  "cut sep [] = (if sep = [] then Some ([], []) else None)"
| "cut sep (c # cs) =
     (if has_prefix sep (c # cs) then Some ([], drop (length sep) (c # cs))
      else map_option (\<lambda>(a, b). (c # a, b)) (cut sep cs))"

definition str_contains :: "string \<Rightarrow> string \<Rightarrow> bool" where
  "str_contains s sep \<longleftrightarrow> cut sep s \<noteq> None"

text \<open>\<open>strings.Split\<close> at a one-byte separator.\<close>

fun split_on :: "char \<Rightarrow> string \<Rightarrow> string list" where
  "split_on sep [] = [[]]"
| "split_on sep (c # cs) =
     (if c = sep then [] # split_on sep cs
      else (case split_on sep cs of [] \<Rightarrow> [[c]] | w # ws \<Rightarrow> (c # w) # ws))"

text \<open>\<open>strings.Join\<close> with a one-byte separator.\<close>

fun join_on :: "char \<Rightarrow> string list \<Rightarrow> string" where
  "join_on sep [] = []"
| "join_on sep [w] = w"
| "join_on sep (w # v # ws) = w @ sep # join_on sep (v # ws)"

text \<open>\<open>strings.Fields\<close>: the maximal runs of non-space bytes.\<close>

definition Fields :: "string \<Rightarrow> string list" where
  "Fields s = filter (\<lambda>w. w \<noteq> [])
     (split_on (CHR 0x20) (map (\<lambda>c. if is_space c then CHR 0x20 else c) s))"

definition to_lower :: "char \<Rightarrow> char" where
  "to_lower c = (let k = of_char c :: nat in if 65 \<le> k \<and> k \<le> 90 then char_of (k + 32) else c)"

text \<open>
  \<open>strings.ToLower\<close>, on ASCII letters and on the two characters outside ASCII whose lower case is an ASCII
  letter, the I with a dot and the Kelvin sign, here as UTF-8. Other bytes are kept.
\<close>

fun ToLower :: "string \<Rightarrow> string" where
  "ToLower [] = []"
| "ToLower (c # cs) =
     (case cs of
        d # ds \<Rightarrow>
          if c = CHR 0xC4 \<and> d = CHR 0xB0 then CHR ''i'' # ToLower ds
          else if c = CHR 0xE2 \<and> d = CHR 0x84 then
            (case ds of
               e # es \<Rightarrow> if e = CHR 0xAA then CHR ''k'' # ToLower es else c # ToLower cs
             | [] \<Rightarrow> c # ToLower cs)
          else to_lower c # ToLower cs
      | [] \<Rightarrow> [to_lower c])"

text \<open>
  Simple case folding, as \<open>strings.EqualFold\<close> and the field names of \<open>encoding/json\<close> use it: the two
  characters outside ASCII that fold to an ASCII letter are the long s and the Kelvin sign.
\<close>

definition upper_char :: "char \<Rightarrow> char" where
  "upper_char c = (let k = of_char c :: nat in if 97 \<le> k \<and> k \<le> 122 then char_of (k - 32) else c)"

fun foldName :: "string \<Rightarrow> string" where
  "foldName [] = []"
| "foldName (c # cs) =
     (case cs of
        d # ds \<Rightarrow>
          if c = CHR 0xC5 \<and> d = CHR 0xBF then CHR ''S'' # foldName ds
          else if c = CHR 0xE2 \<and> d = CHR 0x84 then
            (case ds of
               e # es \<Rightarrow> if e = CHR 0xAA then CHR ''K'' # foldName es else c # foldName cs
             | [] \<Rightarrow> c # foldName cs)
          else upper_char c # foldName cs
      | [] \<Rightarrow> [upper_char c])"

definition EqualFold :: "string \<Rightarrow> string \<Rightarrow> bool" where
  "EqualFold a b \<longleftrightarrow> foldName a = foldName b"

text \<open>The verb \<open>%q\<close>.\<close>

definition hex_digit :: "nat \<Rightarrow> char" where
  "hex_digit d = (if d < 10 then char_of (48 + d) else char_of (87 + d))"

definition quote_char :: "char \<Rightarrow> string" where
  "quote_char c =
     (if c = CHR 0x22 \<or> c = CHR 0x5C then [CHR 0x5C, c]
      else if c = CHR 0x07 then [CHR 0x5C, CHR ''a'']
      else if c = CHR 0x08 then [CHR 0x5C, CHR ''b'']
      else if c = CHR 0x0C then [CHR 0x5C, CHR ''f'']
      else if c = CHR 0x0A then [CHR 0x5C, CHR ''n'']
      else if c = CHR 0x0D then [CHR 0x5C, CHR ''r'']
      else if c = CHR 0x09 then [CHR 0x5C, CHR ''t'']
      else if c = CHR 0x0B then [CHR 0x5C, CHR ''v'']
      else (let k = of_char c :: nat in
            if 32 \<le> k \<and> k \<le> 126 then [c]
            else [CHR 0x5C, CHR ''x'', hex_digit (k div 16), hex_digit (k mod 16)]))"

definition quoted :: "string \<Rightarrow> string" where
  "quoted s = CHR 0x22 # concat (map quote_char s) @ [CHR 0x22]"

text \<open>The verb \<open>%v\<close> on a slice of strings.\<close>

definition fmt_list :: "string list \<Rightarrow> string" where
  "fmt_list xs = CHR ''['' # join_on (CHR 0x20) xs @ [CHR '']'']"

subsection \<open>Printing durations\<close>

fun pad_zero :: "nat \<Rightarrow> string \<Rightarrow> string" where
  "pad_zero w s = replicate (w - length s) (CHR ''0'') @ s"

text \<open>\<open>fmtFrac\<close> of package time: the fraction \<open>v mod 10^w\<close> without trailing zeros.\<close>

definition fmt_frac :: "nat \<Rightarrow> nat \<Rightarrow> string" where
  "fmt_frac w v =
     (let f = rev (dropWhile (\<lambda>c. c = CHR ''0'') (rev (pad_zero w (dec_nat (v mod 10 ^ w)))))
      in if f = [] then [] else CHR ''.'' # f)"

definition dur_abs :: "nat \<Rightarrow> string" where
  "dur_abs u =
     (if u < 1000000000 then
        (if u = 0 then ''0s''
         else if u < 1000 then dec_nat u @ ''ns''
         else if u < 1000000 then dec_nat (u div 1000) @ fmt_frac 3 u @ [CHR 0xC2, CHR 0xB5, CHR ''s'']
         else dec_nat (u div 1000000) @ fmt_frac 6 u @ ''ms'')
      else
        (let s = u div 1000000000; m = s div 60; h = m div 60;
             sec = dec_nat (s mod 60) @ fmt_frac 9 u @ ''s''
         in if h > 0 then dec_nat h @ ''h'' @ dec_nat (m mod 60) @ ''m'' @ sec
            else if m > 0 then dec_nat m @ ''m'' @ sec else sec))"

text \<open>\<open>time.Duration.String\<close>.\<close>

definition dur_str :: "duration \<Rightarrow> string" where
  "dur_str d = (if d < 0 then CHR ''-'' # dur_abs (nat (- d)) else dur_abs (nat d))"

text \<open>\<open>time.Duration.Round(time.Second)\<close>: half away from zero, saturating.\<close>

definition dur_round_second :: "duration \<Rightarrow> duration" where
  "dur_round_second d =
     (let r = \<bar>d\<bar> mod second; base = \<bar>d\<bar> - r;
          m = (if 2 * r < second then base else base + second)
      in sat64 (if d < 0 then - m else m))"

section \<open>Lemmas\<close>

subsection \<open>Maps\<close>

lemma gm_ok_Nil [simp, gm_simps]: "gm_ok []"
  by (simp add: gm_ok_def)

lemma find_filter: "find P (filter Q xs) = find (\<lambda>x. P x \<and> Q x) xs"
  by (induction xs) auto

lemma find_holds: "find P xs = Some y \<Longrightarrow> P y \<and> y \<in> set xs"
  by (induction xs) (auto split: if_splits)

lemma map_of_gm_put [simp, gm_simps]: "map_of (gm_put k v m) = (map_of m)(k \<mapsto> v)"
  by (simp add: gm_put_def update_conv')

lemma map_of_gm_del [simp, gm_simps]: "map_of (gm_del k m) = (map_of m)(k := None)"
  by (simp add: gm_del_def delete_conv')

lemma gm_ok_put [simp, gm_simps]: "gm_ok m \<Longrightarrow> gm_ok (gm_put k v m)"
  by (simp add: gm_ok_def gm_put_def distinct_update)

lemma gm_ok_del [simp, gm_simps]: "gm_ok m \<Longrightarrow> gm_ok (gm_del k m)"
  by (simp add: gm_ok_def gm_del_def distinct_delete)

lemma set_gm_keys: "set (gm_keys m) = dom (map_of m)"
  by (simp add: gm_keys_def dom_map_of_conv_image_fst)

lemma distinct_gm_keys: "gm_ok m \<Longrightarrow> distinct (gm_keys m)"
  by (simp add: gm_keys_def gm_ok_def)

lemma gm_str_put [simp, gm_simps]:
  "gm_str (gm_put k v m) k' = (if k' = k then v else gm_str m k')"
  by (simp add: gm_str_def)

lemma gm_str_del [simp, gm_simps]:
  "gm_str (gm_del k m) k' = (if k' = k then [] else gm_str m k')"
  by (simp add: gm_str_def)

lemma gm_list_put [simp, gm_simps]:
  "gm_list (gm_put k v m) k' = (if k' = k then v else gm_list m k')"
  by (simp add: gm_list_def)

lemma gm_list_del [simp, gm_simps]:
  "gm_list (gm_del k m) k' = (if k' = k then [] else gm_list m k')"
  by (simp add: gm_list_def)

lemma length_gm_card: "gm_ok m \<Longrightarrow> length m = card (dom (map_of m))"
  by (metis distinct_card dom_map_of_conv_image_fst gm_ok_def length_map set_map)

lemma any_order_set: "any_order ord \<Longrightarrow> set (ord ks) = set ks"
  unfolding any_order_def by (metis mset_eq_setD)

subsection \<open>Integers\<close>

lemma wrap64_id: "int64 x \<Longrightarrow> wrap64 x = x"
  by (simp add: wrap64_def int64_def)

lemma int64_wrap64: "int64 (wrap64 x)"
  using pos_mod_bound[of "2 ^ 64" "x + 2 ^ 63"] pos_mod_sign[of "2 ^ 64" "x + 2 ^ 63"]
  by (simp add: wrap64_def int64_def)

lemma int64_sat64: "int64 (sat64 x)"
  by (auto simp: sat64_def int64_def)

lemma sat64_id: "int64 x \<Longrightarrow> sat64 x = x"
  by (auto simp: sat64_def int64_def)

lemma sat64_mono: "x \<le> y \<Longrightarrow> sat64 x \<le> sat64 y"
  by (auto simp: sat64_def)

subsection \<open>Decimal numbers\<close>

declare dec_nat.simps [simp del]

lemma digit_val_char: "d < 10 \<Longrightarrow> digit_val (digit_char d) = Some d"
  by (simp add: digit_val_def digit_char_def)

lemma dec_nat_nonempty: "dec_nat n \<noteq> []"
  by (subst dec_nat.simps) simp

lemma digits_val_append:
  "digits_val acc (xs @ ys) =
     (case digits_val acc xs of None \<Rightarrow> None | Some a \<Rightarrow> digits_val a ys)"
  by (induction acc xs rule: digits_val.induct) (auto split: option.splits)

lemma digits_val_dec_nat: "digits_val 0 (dec_nat n) = Some n"
proof (induction n rule: dec_nat.induct)
  case (1 n)
  then show ?case
    by (cases "n < 10")
      (simp_all add: dec_nat.simps [of n] digits_val_append digit_val_char)
qed

lemma hd_dec_nat_digit: "\<exists>d < 10. hd (dec_nat n) = digit_char d"
proof (induction n rule: dec_nat.induct)
  case (1 n)
  then show ?case
    by (cases "n < 10") (auto simp: dec_nat.simps [of n] dec_nat_nonempty hd_append)
qed

lemma digit_val_sign [simp]: "digit_val CHR ''-'' = None" "digit_val CHR ''+'' = None"
  by (simp_all add: digit_val_def)

lemma digit_char_neq_sign:
  assumes "d < 10"
  shows "digit_char d \<noteq> CHR ''-''" "digit_char d \<noteq> CHR ''+''"
proof -
  have "digit_val (digit_char d) \<noteq> None" by (simp add: digit_val_char [OF assms])
  then show "digit_char d \<noteq> CHR ''-''" "digit_char d \<noteq> CHR ''+''"
    by (auto simp del: digit_val_char intro: digit_val_sign)
qed

lemma ParseInt_dec_nat:
  assumes "int n < 2 ^ (bits - 1)"
  shows "ParseInt bits (dec_nat n) = Some (int n)"
proof -
  obtain c cs where eq: "dec_nat n = c # cs"
    using dec_nat_nonempty [of n] by (cases "dec_nat n") auto
  obtain d where "d < 10" "c = digit_char d"
    using hd_dec_nat_digit [of n] eq by auto
  moreover have "digits_val 0 (c # cs) = Some n"
    using digits_val_dec_nat [of n] eq by simp
  moreover have "- (2 ^ (bits - 1)) \<le> int n"
    by (meson dual_order.trans neg_le_0_iff_le of_nat_0_le_iff zero_le_numeral zero_le_power)
  ultimately show ?thesis
    using assms digit_char_neq_sign
    by (simp add: eq ParseInt_def parse_digits_def del: digits_val.simps)
qed

lemma ParseInt_neg_dec_nat:
  assumes "int n \<le> 2 ^ (bits - 1)"
  shows "ParseInt bits (CHR ''-'' # dec_nat n) = Some (- int n)"
proof -
  have "- int n < 2 ^ (bits - 1)"
    by (meson le_less_trans neg_le_0_iff_le of_nat_0_le_iff zero_less_numeral zero_less_power)
  with assms show ?thesis
    by (simp add: ParseInt_def parse_digits_def dec_nat_nonempty digits_val_dec_nat)
qed

text \<open>Printing then parsing a 64-bit integer gives it back.\<close>

lemma Atoi_Itoa: "int64 i \<Longrightarrow> Atoi (Itoa i) = Some i"
  using ParseInt_dec_nat [of "nat i" 64] ParseInt_neg_dec_nat [of "nat (- i)" 64]
  by (auto simp: Atoi_def Itoa_def int64_def)

subsection \<open>Strings\<close>

lemma has_prefix_append: "has_prefix p (p @ s)"
  by (induction p) auto

lemma has_prefix_iff: "has_prefix p s \<longleftrightarrow> (\<exists>t. s = p @ t)"
  by (induction p s rule: has_prefix.induct) auto

lemma cut_Some: "cut sep s = Some (a, b) \<Longrightarrow> s = a @ sep @ b"
  by (induction sep s arbitrary: a rule: cut.induct)
    (auto simp: has_prefix_iff split: if_splits)

lemma cut_char: "c \<notin> set s \<Longrightarrow> cut [c] s = None"
  by (induction s) auto

lemma cut_char_Some: "c \<notin> set a \<Longrightarrow> cut [c] (a @ c # b) = Some (a, b)"
  by (induction a) auto

lemma split_on_nonempty: "split_on c s \<noteq> []"
  by (induction c s rule: split_on.induct) (auto split: list.splits)

lemma join_on_Cons_Cons [simp]: "join_on sep ((c # w) # ws) = c # join_on sep (w # ws)"
  by (cases ws) auto

lemma join_on_Nil_Cons: "ws \<noteq> [] \<Longrightarrow> join_on sep ([] # ws) = sep # join_on sep ws"
  by (cases ws) auto

lemma join_on_split_on: "join_on c (split_on c s) = s"
  by (induction c s rule: split_on.induct)
    (auto simp: split_on_nonempty join_on_Nil_Cons split: list.splits)

lemma split_on_append_sep: "c \<notin> set w \<Longrightarrow> split_on c (w @ c # s) = w # split_on c s"
  by (induction w) auto

lemma split_on_no_sep: "c \<notin> set w \<Longrightarrow> split_on c w = [w]"
  by (induction w) auto

lemma split_on_join_on:
  "ws \<noteq> [] \<Longrightarrow> \<forall>w \<in> set ws. c \<notin> set w \<Longrightarrow> split_on c (join_on c ws) = ws"
  by (induction c ws rule: join_on.induct) (simp_all add: split_on_no_sep split_on_append_sep)

lemma split_on_no_sep_in: "w \<in> set (split_on c s) \<Longrightarrow> c \<notin> set w"
  by (induction c s arbitrary: w rule: split_on.induct) (auto split: if_splits list.splits)

text \<open>Trimming at both ends, for \<open>strings.TrimSpace\<close> and \<open>strings.Trim\<close>.\<close>

lemma trim_ends:
  fixes P s
  defines "r \<equiv> rev (dropWhile P (rev (dropWhile P s)))"
  shows "r = [] \<or> (\<not> P (hd r) \<and> \<not> P (last r))"
proof -
  define t where "t = dropWhile P s"
  define u where "u = dropWhile P (rev t)"
  have eq: "r = rev u" by (simp add: r_def t_def u_def)
  show ?thesis
  proof (cases "u = []")
    case False
    then obtain v where v: "rev t = v @ u" unfolding u_def
      by (metis takeWhile_dropWhile_id)
    then have t: "t = rev u @ rev v" by (metis rev_append rev_rev_ident)
    have "\<not> P (hd u)" using False unfolding u_def by (rule hd_dropWhile)
    moreover have "\<not> P (hd t)" using False t unfolding t_def
      by (metis Nil_is_append_conv Nil_is_rev_conv hd_dropWhile t_def)
    moreover have "hd t = hd (rev u)" using False t by simp
    ultimately show ?thesis using False eq by (simp add: last_rev)
  qed (simp add: eq)
qed

lemma set_trim: "set (rev (dropWhile P (rev (dropWhile P s)))) \<subseteq> set s"
  by (auto dest!: set_dropWhileD)

lemma trim_id:
  assumes "s = [] \<or> (\<not> P (hd s) \<and> \<not> P (last s))"
  shows "rev (dropWhile P (rev (dropWhile P s))) = s"
proof (cases "s = []")
  case False
  with assms have "dropWhile P s = s" "dropWhile P (rev s) = rev s"
    by (auto simp: dropWhile_eq_self_iff hd_rev)
  then show ?thesis by simp
qed simp

lemma TrimSpace_ends:
  "TrimSpace s = [] \<or> (\<not> is_space (hd (TrimSpace s)) \<and> \<not> is_space (last (TrimSpace s)))"
  unfolding TrimSpace_def by (rule trim_ends)

lemma TrimSpace_no_space: "\<forall>c \<in> set s. \<not> is_space c \<Longrightarrow> TrimSpace s = s"
  unfolding TrimSpace_def by (rule trim_id) auto

end
