(* ===== verification/Api_Types.thy ===== *)
theory Api_Types
  imports Prelude Complex_Main
begin

text \<open>
  The data model of \<open>api/v1alpha1\<close>: the custom resources ChaosExperiment, ChaosWorkflow and
  BlastRadiusPolicy with the parts of \<open>metav1\<close> and \<open>runtime\<close> the repository reads. A pointer field
  is an \<open>option\<close>; an enumeration the code switches on is a datatype with one more constructor for
  the values of the underlying string that no \<open>case\<close> names. \<open>runtime.RawExtension\<close>, which holds JSON
  text, is kept as the tree of that text (\<open>json\<close>, with \<open>JInvalid\<close> for text that is not JSON), so
  that \<open>json.Unmarshal\<close> into a \<open>map[string]string\<close> is a function on trees. \<open>metav1.Time\<close> is an
  integer count of nanoseconds.
\<close>

section \<open>Definitions\<close>

subsection \<open>Shared kinds of data\<close>

datatype json =
    JInvalid
  | JNull
  | JBool bool
  | JNum string
  | JStr string
  | JArr "json list"
  | JObj "(string \<times> json) list"

record LabelSelectorRequirement =
  lsr_key :: string
  lsr_operator :: string
  lsr_values :: "string list"

record LabelSelector =
  sel_matchLabels :: "(string, string) gomap option"
  sel_matchExpressions :: "LabelSelectorRequirement list"

record ObjectMeta =
  m_name :: string
  m_namespace :: string
  m_uid :: string
  m_generation :: int
  m_deletionTimestamp :: "time option"
  m_finalizers :: "string list"
  m_labels :: "(string, string) gomap"
  m_annotations :: "(string, string) gomap"
  m_ownerUIDs :: "string list"

datatype ConditionStatus = ConditionTrue | ConditionFalse | ConditionUnknown

record Condition =
  c_type :: string
  c_status :: ConditionStatus
  c_reason :: string
  c_message :: string
  c_lastTransitionTime :: time
  c_observedGeneration :: int

subsection \<open>Probes and abort conditions\<close>

text \<open>A \<open>float64\<close>: the finite values as rationals, the infinities and the quiet NaN.\<close>

datatype float64 = F_NaN | F_NegInf | F_Fin rat | F_PosInf

record ProbeCondition =
  pc_operator :: string
  pc_threshold :: float64

record PrometheusProbe =
  pp_url :: string
  pp_query :: string
  pp_condition :: ProbeCondition

record HTTPProbe =
  hp_url :: string
  hp_method :: string
  hp_expectedStatus :: int
  hp_expectedBody :: string

record K8sProbe =
  kp_resource :: string
  kp_namespace :: string
  kp_labelSelector :: string
  kp_fieldSelector :: string
  kp_minReady :: int

record ProbeSpec =
  ps_name :: string
  ps_type :: string
  ps_prometheus :: "PrometheusProbe option"
  ps_http :: "HTTPProbe option"
  ps_k8s :: "K8sProbe option"

definition ProbeTypePrometheus :: string where "ProbeTypePrometheus = ''prometheus''"
definition ProbeTypeHTTP :: string where "ProbeTypeHTTP = ''http''"
definition ProbeTypeK8s :: string where "ProbeTypeK8s = ''k8s''"

datatype AbortAction =
    AbortActionAbort | AbortActionPause | AbortActionRollback | AbortActionOther string

record AbortConditionSpec =
  ac_name :: string
  ac_type :: string
  ac_prometheus :: "PrometheusProbe option"
  ac_http :: "HTTPProbe option"
  ac_k8s :: "K8sProbe option"
  ac_action :: AbortAction

record SteadyStateSpec =
  ss_before :: "ProbeSpec list"
  ss_after :: "ProbeSpec list"
  ss_recoveryTimeout :: duration

subsection \<open>ChaosExperiment\<close>

record TargetSpec =
  t_kind :: string
  t_namespace :: string
  t_labelSelector :: "LabelSelector option"
  t_names :: "string list"

record ActionSpec =
  a_type :: string
  a_parameters :: "json option"
  a_duration :: "duration option"

record RollbackSpec =
  rb_enabled :: bool
  rb_timeout :: "duration option"

record ExecutionSpec =
  ex_parallelism :: "int option"

record ChaosExperimentSpec =
  s_target :: TargetSpec
  s_action :: ActionSpec
  s_duration :: duration
  s_rollback :: "RollbackSpec option"
  s_execution :: ExecutionSpec
  s_steadyState :: "SteadyStateSpec option"
  s_abortConditions :: "AbortConditionSpec list"

datatype ExperimentPhase =
    PhaseEmpty
  | PhasePending
  | PhaseSteadyStateChecking
  | PhaseRunning
  | PhaseCompleting
  | PhaseRecovering
  | PhaseCompleted
  | PhaseFailed
  | PhaseAborted
  | PhaseOther string

fun phase_string :: "ExperimentPhase \<Rightarrow> string" where
  "phase_string PhaseEmpty = []"
| "phase_string PhasePending = ''Pending''"
| "phase_string PhaseSteadyStateChecking = ''SteadyStateChecking''"
| "phase_string PhaseRunning = ''Running''"
| "phase_string PhaseCompleting = ''Completing''"
| "phase_string PhaseRecovering = ''Recovering''"
| "phase_string PhaseCompleted = ''Completed''"
| "phase_string PhaseFailed = ''Failed''"
| "phase_string PhaseAborted = ''Aborted''"
| "phase_string (PhaseOther s) = s"

record ChaosExperimentStatus =
  st_phase :: ExperimentPhase
  st_startTime :: "time option"
  st_endTime :: "time option"
  st_recoveryStartTime :: "time option"
  st_conditions :: "Condition list"
  st_observedGeneration :: int
  st_affectedResources :: "string list"
  st_message :: string

record ChaosExperiment =
  e_meta :: ObjectMeta
  e_spec :: ChaosExperimentSpec
  e_status :: ChaosExperimentStatus

subsection \<open>ChaosWorkflow\<close>

record ExperimentRef =
  er_name :: string
  er_namespace :: string

record ConditionSpec =
  cs_expression :: string
  cs_ifTrue :: string
  cs_ifFalse :: string

datatype TemplateType =
    TemplateTypeExperiment | TemplateTypeDelay | TemplateTypeCondition
  | TemplateTypeParallel | TemplateTypeSuspend | TemplateTypeOther string

fun template_type_string :: "TemplateType \<Rightarrow> string" where
  "template_type_string TemplateTypeExperiment = ''experiment''"
| "template_type_string TemplateTypeDelay = ''delay''"
| "template_type_string TemplateTypeCondition = ''condition''"
| "template_type_string TemplateTypeParallel = ''parallel''"
| "template_type_string TemplateTypeSuspend = ''suspend''"
| "template_type_string (TemplateTypeOther s) = s"

record WorkflowTemplate =
  wt_name :: string
  wt_type :: TemplateType
  wt_experimentRef :: "ExperimentRef option"
  wt_delay :: "duration option"
  wt_condition :: "ConditionSpec option"
  wt_parallel :: "string list option"
  wt_suspend :: "duration option option"
  wt_dependencies :: "string list"

datatype ErrorHandlingStrategy =
    ErrorStrategyEmpty | ErrorStrategyAbort | ErrorStrategyContinue | ErrorStrategyRetry
  | ErrorStrategyRollback | ErrorStrategyOther string

fun strategy_string :: "ErrorHandlingStrategy \<Rightarrow> string" where
  "strategy_string ErrorStrategyEmpty = []"
| "strategy_string ErrorStrategyAbort = ''abort''"
| "strategy_string ErrorStrategyContinue = ''continue''"
| "strategy_string ErrorStrategyRetry = ''retry''"
| "strategy_string ErrorStrategyRollback = ''rollback''"
| "strategy_string (ErrorStrategyOther s) = s"

record ChaosWorkflowSpec =
  ws_templates :: "WorkflowTemplate list"
  ws_parameters :: "(string \<times> string \<times> string) list"
  ws_strategy :: ErrorHandlingStrategy
  ws_maxParallelism :: "int option"

datatype WorkflowPhase =
    WorkflowPhaseEmpty
  | WorkflowPhasePending
  | WorkflowPhaseRunning
  | WorkflowPhasePaused
  | WorkflowPhaseCompleted
  | WorkflowPhaseFailed
  | WorkflowPhaseAborted
  | WorkflowPhaseOther string

record TemplateStatus =
  ts_name :: string
  ts_phase :: WorkflowPhase
  ts_startTime :: "time option"
  ts_endTime :: "time option"
  ts_message :: string

record ChaosWorkflowStatus =
  wst_phase :: WorkflowPhase
  wst_startTime :: "time option"
  wst_endTime :: "time option"
  wst_templateStatuses :: "TemplateStatus list"
  wst_progress :: string
  wst_conditions :: "Condition list"
  wst_observedGeneration :: int

record ChaosWorkflow =
  w_meta :: ObjectMeta
  w_spec :: ChaosWorkflowSpec
  w_status :: ChaosWorkflowStatus

subsection \<open>BlastRadiusPolicy\<close>

record TimeWindow =
  tw_name :: string
  tw_schedule :: string
  tw_duration :: string
  tw_timezone :: string

record TimeWindowsSpec =
  tws_allowed :: "TimeWindow list"
  tws_blocked :: "TimeWindow list"

record ScopeSpec =
  sc_namespaces :: "string list"
  sc_labelSelector :: "LabelSelector option"

record TargetLimitsSpec =
  tl_maxTargets :: "int option"
  tl_maxPercentage :: "int option"

record ProtectedResource =
  pr_kind :: string
  pr_name :: string
  pr_namespace :: string

record ProtectedResourcesSpec =
  prs_namespaces :: "string list"
  prs_labels :: "(string, string) gomap"
  prs_names :: "ProtectedResource list"

record ActionLimitsSpec =
  al_allowedActions :: "string list"
  al_maxDuration :: "duration option"

datatype EnforcementMode = EnforcementEnforce | EnforcementAudit | EnforcementOther string

record BlastRadiusPolicySpec =
  bp_scope :: ScopeSpec
  bp_targetLimits :: TargetLimitsSpec
  bp_protectedResources :: ProtectedResourcesSpec
  bp_actionLimits :: "ActionLimitsSpec option"
  bp_timeWindows :: "TimeWindowsSpec option"
  bp_enforcement :: EnforcementMode

record BlastRadiusPolicy =
  b_meta :: ObjectMeta
  b_spec :: BlastRadiusPolicySpec

subsection \<open>Action parameters\<close>

text \<open>
  \<open>json.Unmarshal\<close> of a JSON object into a \<open>map[string]string\<close>: \<open>null\<close> stores the zero value, any
  other value that is not a string makes the call fail, and the last of several equal keys wins.
\<close>

fun unmarshal_fields :: "(string, string) gomap \<Rightarrow> (string \<times> json) list \<Rightarrow> (string, string) gomap option" where
  "unmarshal_fields m [] = Some m"
| "unmarshal_fields m ((k, JStr s) # r) = unmarshal_fields (gm_put k s m) r"
| "unmarshal_fields m ((k, JNull) # r) = unmarshal_fields (gm_put k [] m) r"
| "unmarshal_fields m ((k, _) # r) = None"

fun unmarshal_params :: "json \<Rightarrow> (string, string) gomap option" where
  "unmarshal_params (JObj fs) = unmarshal_fields [] fs"
| "unmarshal_params JNull = Some []"
| "unmarshal_params _ = None"

text \<open>
  \<open>ParseParameters\<close> of the packages \<open>pod\<close>, \<open>node\<close>, \<open>stress\<close> and \<open>cluster\<close>, which are the same
  function. The message of the JSON decoder is the argument \<open>jerr\<close>.
\<close>

definition ParseParameters :: "(json \<Rightarrow> err) \<Rightarrow> ChaosExperiment \<Rightarrow> err + (string, string) gomap" where
  "ParseParameters jerr xp =
     (case a_parameters (s_action (e_spec xp)) of
        None \<Rightarrow> Inr []
      | Some raw \<Rightarrow>
          (case unmarshal_params raw of
             None \<Rightarrow> Inl (''failed to parse action parameters: '' @ jerr raw)
           | Some params \<Rightarrow> Inr params))"

section \<open>Lemmas\<close>

lemma unmarshal_fields_ok:
  "unmarshal_fields m fs = Some m' \<Longrightarrow> gm_ok m \<Longrightarrow> gm_ok m'"
  by (induction m fs rule: unmarshal_fields.induct) auto

lemma ParseParameters_ok: "ParseParameters jerr xp = Inr ps \<Longrightarrow> gm_ok ps"
  by (auto simp: ParseParameters_def split: option.splits elim!: unmarshal_params.elims
      dest: unmarshal_fields_ok [OF sym])

text \<open>Encoding a map of strings as a JSON object and decoding it gives the map back.\<close>

lemma unmarshal_fields_map_of:
  "unmarshal_fields m (map (\<lambda>(k, v). (k, JStr v)) ps) = Some m' \<Longrightarrow> distinct (map fst ps) \<Longrightarrow>
     map_of m' = map_of m ++ map_of ps"
proof (induction ps arbitrary: m)
  case (Cons p ps)
  obtain k v where p: "p = (k, v)" by (cases p)
  from Cons.prems have "map_of m' = map_of (gm_put k v m) ++ map_of ps"
    by (intro Cons.IH) (auto simp: p)
  moreover have "k \<notin> dom (map_of ps)"
    using Cons.prems by (auto simp: p dom_map_of_conv_image_fst)
  ultimately show ?case
    by (auto simp: p map_add_upd_left fun_eq_iff map_add_def split: option.splits)
qed simp

end
