(* ===== verification/Executor_Registry.thy ===== *)
theory Executor_Registry
  imports Api_Types
begin

text \<open>
  The Executor interface (\<open>internal/executor/executor.go\<close>), the executor registry
  (\<open>internal/executor/registry.go\<close>) and the plugin registry (\<open>pkg/extension/registry.go\<close>).
  Every method of a registry holds its mutex from start to end, so concurrent calls are sequences
  of the operations below. The world the executors act on is the type \<open>'w\<close>.

  The locales \<open>keyed_table\<close> and \<open>removable_table\<close> are the contract of the tables of the system
  (registries, the daemon's execution store, the table of loaded eBPF programs): what a lookup
  returns after an insertion and after a removal. Each of those tables interprets one of them.
\<close>

section \<open>The contract of a table\<close>

locale keyed_table =
  fixes invar :: "'t \<Rightarrow> bool"
    and lookup :: "'t \<Rightarrow> 'k \<Rightarrow> 'v option"
    and insert_at :: "'k \<Rightarrow> 'v \<Rightarrow> 't \<Rightarrow> 't"
  assumes lookup_insert: "invar t \<Longrightarrow> lookup (insert_at k v t) = (lookup t)(k \<mapsto> v)"
    and invar_insert: "invar t \<Longrightarrow> invar (insert_at k v t)"
begin

lemma insert_hit: "invar t \<Longrightarrow> lookup (insert_at k v t) k = Some v"
  by (simp add: lookup_insert)

lemma insert_frame: "invar t \<Longrightarrow> k' \<noteq> k \<Longrightarrow> lookup (insert_at k v t) k' = lookup t k'"
  by (simp add: lookup_insert)

lemma invar_fold: "invar t \<Longrightarrow> invar (fold (\<lambda>(k, v). insert_at k v) kvs t)"
  by (induction kvs arbitrary: t) (auto simp: invar_insert)

lemma lookup_fold:
  "invar t \<Longrightarrow> distinct (map fst kvs) \<Longrightarrow>
     lookup (fold (\<lambda>(k, v). insert_at k v) kvs t) = lookup t ++ map_of kvs"
proof (induction kvs arbitrary: t)
  case (Cons kv kvs)
  obtain k v where kv: "kv = (k, v)" by (cases kv)
  have k: "map_of kvs k = None"
    using Cons.prems(2) by (auto simp: kv map_of_eq_None_iff)
  have "lookup (fold (\<lambda>(k, v). insert_at k v) kvs (insert_at k v t)) =
      lookup (insert_at k v t) ++ map_of kvs"
    using Cons by (simp add: kv invar_insert)
  with k Cons.prems(1) show ?case
    by (auto simp: kv lookup_insert map_add_def fun_eq_iff split: option.splits)
qed simp

end

locale removable_table = keyed_table +
  fixes remove_at :: "'k \<Rightarrow> 't \<Rightarrow> 't"
  assumes lookup_remove: "invar t \<Longrightarrow> lookup (remove_at k t) = (lookup t)(k := None)"
    and invar_remove: "invar t \<Longrightarrow> invar (remove_at k t)"
begin

lemma remove_insert:
  "invar t \<Longrightarrow> lookup t k = None \<Longrightarrow> lookup (remove_at k (insert_at k v t)) = lookup t"
  by (auto simp: lookup_remove lookup_insert invar_insert)

lemma remove_miss: "invar t \<Longrightarrow> lookup (remove_at k t) k = None"
  by (simp add: lookup_remove)

lemma remove_frame: "invar t \<Longrightarrow> k' \<noteq> k \<Longrightarrow> lookup (remove_at k t) k' = lookup t k'"
  by (simp add: lookup_remove)

end

section \<open>Definitions\<close>

subsection \<open>The Executor interface\<close>

record 'w Executor =
  ex_Execute :: "ChaosExperiment \<Rightarrow> 'w \<Rightarrow> err option \<times> 'w"
  ex_Rollback :: "ChaosExperiment \<Rightarrow> 'w \<Rightarrow> err option \<times> 'w"
  ex_Validate :: "ChaosExperiment \<Rightarrow> err option"

subsection \<open>The executor registry\<close>

record 'x Registry =
  r_executors :: "(string, 'x) gomap"

definition NewRegistry :: "'x Registry" where
  "NewRegistry = \<lparr>r_executors = []\<rparr>"

definition Register :: "string \<Rightarrow> 'x \<Rightarrow> 'x Registry \<Rightarrow> 'x Registry" where
  "Register actionType ex r = r\<lparr>r_executors := gm_put actionType ex (r_executors r)\<rparr>"

definition registry_Get :: "'x Registry \<Rightarrow> string \<Rightarrow> err + 'x" where
  "registry_Get r actionType =
     (case map_of (r_executors r) actionType of
        None \<Rightarrow> Inl (''no executor registered for action type '' @ quoted actionType)
      | Some ex \<Rightarrow> Inr ex)"

text \<open>\<open>MustRegister\<close> panics on a duplicate: \<open>Inl\<close> carries the panic message.\<close>

definition MustRegister :: "string \<Rightarrow> 'x \<Rightarrow> 'x Registry \<Rightarrow> err + 'x Registry" where
  "MustRegister actionType ex r =
     (if map_of (r_executors r) actionType \<noteq> None
      then Inl (''executor already registered for action type '' @ quoted actionType)
      else Inr (r\<lparr>r_executors := gm_put actionType ex (r_executors r)\<rparr>))"

fun registry_copy :: "(string, 'x) gomap \<Rightarrow> (string, 'x) gomap \<Rightarrow> (string, 'x) gomap" where
  "registry_copy c [] = c"
| "registry_copy c ((k, v) # r) = registry_copy (gm_put k v c) r"

definition registry_List :: "'x Registry \<Rightarrow> (string, 'x) gomap" where
  "registry_List r = registry_copy [] (r_executors r)"

definition registry_Count :: "'x Registry \<Rightarrow> nat" where
  "registry_Count r = length (r_executors r)"

definition registry_ok :: "'x Registry \<Rightarrow> bool" where
  "registry_ok r \<longleftrightarrow> gm_ok (r_executors r)"

definition registry_lookup :: "'x Registry \<Rightarrow> string \<Rightarrow> 'x option" where
  "registry_lookup r k = map_of (r_executors r) k"

text \<open>The registrations of \<open>cmd/operator/main.go\<close>, in order, stopping at the first panic.\<close>

definition operator_actions :: "string list" where
  "operator_actions =
     [''pod-kill'', ''container-kill'', ''pod-cpu-stress'', ''pod-memory-stress'', ''pod-io-stress'',
      ''pod-dns-error'', ''pod-http-abort'', ''pod-http-delay'',
      ''network-delay'', ''network-loss'', ''network-corrupt'', ''network-duplicate'',
      ''network-partition'', ''network-bandwidth'',
      ''node-drain'', ''node-taint'', ''node-restart'', ''node-cpu-stress'',
      ''stress-cpu'', ''stress-memory'',
      ''ebpf-network-delay'', ''ebpf-network-loss'', ''ebpf-dns-chaos'',
      ''aws-ec2-stop'', ''aws-ec2-terminate'', ''aws-rds-failover'', ''aws-ecs-stop-task'',
      ''aws-az-failure'', ''aws-elasticache-failover'', ''aws-eks-nodegroup-scale'',
      ''aws-lambda-throttle'', ''aws-s3-block'',
      ''configmap-chaos'', ''pvc-chaos'', ''etcd-latency'',
      ''time-chaos'',
      ''vm-cpu-stress'', ''vm-memory-stress'', ''vm-disk-stress'', ''vm-network-delay'',
      ''vm-process-kill'', ''vm-process-suspend'',
      ''azure-vm-stop'', ''azure-aks-scale'', ''azure-cosmosdb-failover'',
      ''gcp-gke-scale'', ''gcp-cloudsql-failover'', ''gcp-cloudrun-stop'']"

fun must_register_all :: "(string \<times> 'x) list \<Rightarrow> 'x Registry \<Rightarrow> err + 'x Registry" where
  "must_register_all [] r = Inr r"
| "must_register_all ((k, ex) # rest) r =
     (case MustRegister k ex r of Inl e \<Rightarrow> Inl e | Inr r' \<Rightarrow> must_register_all rest r')"

definition operator_registry :: "(string \<Rightarrow> 'x) \<Rightarrow> err + 'x Registry" where
  "operator_registry mk = must_register_all (map (\<lambda>k. (k, mk k)) operator_actions) NewRegistry"

subsection \<open>The plugin registry\<close>

record 'p PluginRegistry =
  pr_plugins :: "(string, 'p) gomap"

definition plugin_Register :: "('p \<Rightarrow> string) \<Rightarrow> 'p \<Rightarrow> 'p PluginRegistry \<Rightarrow> err option \<times> 'p PluginRegistry" where
  "plugin_Register Name p r =
     (let name = Name p in
      if map_of (pr_plugins r) name \<noteq> None
      then (Some (''plugin '' @ quoted name @ '' already registered''), r)
      else (None, r\<lparr>pr_plugins := gm_put name p (pr_plugins r)\<rparr>))"

definition plugin_Unregister :: "string \<Rightarrow> 'p PluginRegistry \<Rightarrow> err option \<times> 'p PluginRegistry" where
  "plugin_Unregister name r =
     (if map_of (pr_plugins r) name = None
      then (Some (''plugin '' @ quoted name @ '' not found''), r)
      else (None, r\<lparr>pr_plugins := gm_del name (pr_plugins r)\<rparr>))"

definition plugin_Get :: "'p PluginRegistry \<Rightarrow> string \<Rightarrow> err + 'p" where
  "plugin_Get r name =
     (case map_of (pr_plugins r) name of
        None \<Rightarrow> Inl (''plugin '' @ quoted name @ '' not found'')
      | Some p \<Rightarrow> Inr p)"

definition plugin_List :: "'p PluginRegistry \<Rightarrow> 'p list" where
  "plugin_List r = map snd (pr_plugins r)"

definition plugin_ok :: "('p \<Rightarrow> string) \<Rightarrow> 'p PluginRegistry \<Rightarrow> bool" where
  "plugin_ok Name r \<longleftrightarrow> gm_ok (pr_plugins r) \<and> (\<forall>(k, p) \<in> set (pr_plugins r). k = Name p)"

section \<open>Lemmas\<close>

interpretation reg: keyed_table registry_ok registry_lookup Register
  by unfold_locales (auto simp: registry_ok_def registry_lookup_def Register_def)

interpretation gomap_table: removable_table gm_ok map_of gm_put gm_del
  by unfold_locales auto

lemma registry_Get_lookup:
  "registry_Get r k = Inr ex \<longleftrightarrow> registry_lookup r k = Some ex"
  by (auto simp: registry_Get_def registry_lookup_def split: option.splits)

lemma registry_ok_New: "registry_ok NewRegistry"
  by (simp add: registry_ok_def NewRegistry_def)

lemma registry_lookup_New: "registry_lookup NewRegistry = Map.empty"
  by (simp add: registry_lookup_def NewRegistry_def fun_eq_iff)

lemma MustRegister_Register:
  "MustRegister k ex r =
     (if registry_lookup r k \<noteq> None
      then Inl (''executor already registered for action type '' @ quoted k)
      else Inr (Register k ex r))"
  by (simp add: MustRegister_def Register_def registry_lookup_def)

lemma registry_copy_map_of:
  "distinct (map fst m) \<Longrightarrow> map_of (registry_copy c m) = map_of c ++ map_of m"
proof (induction c m rule: registry_copy.induct)
  case (2 c k v r)
  then have "map_of r k = None" by (auto simp: map_of_eq_None_iff)
  with 2 show ?case by (auto simp: map_add_def fun_eq_iff split: option.splits)
qed simp

lemma must_register_all_fold:
  "registry_ok r \<Longrightarrow> distinct (map fst kvs) \<Longrightarrow>
     (\<forall>k \<in> fst ` set kvs. registry_lookup r k = None) \<Longrightarrow>
     must_register_all kvs r = Inr (fold (\<lambda>(k, v). Register k v) kvs r)"
proof (induction kvs r rule: must_register_all.induct)
  case (2 k ex rest r)
  have "registry_lookup (Register k ex r) j = None" if "j \<in> fst ` set rest" for j
    using "2.prems" that by (auto simp: reg.lookup_insert image_iff)
  then show ?case using 2 by (auto simp: MustRegister_Register reg.invar_insert)
qed simp

lemma must_register_all_duplicate:
  "registry_ok r \<Longrightarrow> registry_lookup r k \<noteq> None \<Longrightarrow> k \<in> fst ` set kvs \<Longrightarrow>
     \<exists>e. must_register_all kvs r = Inl e"
proof (induction kvs r rule: must_register_all.induct)
  case (2 j ex rest r)
  show ?case
  proof (cases "registry_lookup r j = None")
    case True
    with "2.prems" have "j \<noteq> k" by auto
    then have "\<exists>e. must_register_all rest (Register j ex r) = Inl e"
      using 2 True by (intro "2.IH") (auto simp: MustRegister_Register reg.invar_insert reg.lookup_insert)
    with True show ?thesis by (simp add: MustRegister_Register)
  qed (simp add: MustRegister_Register)
qed simp

lemma operator_actions_distinct: "distinct operator_actions"
  by (simp add: operator_actions_def)

lemma registry_fold_Register:
  "distinct ks \<Longrightarrow> registry_ok r \<Longrightarrow>
     registry_lookup (fold (\<lambda>(k, v). Register k v) (map (\<lambda>k. (k, mk k)) ks) r) a =
       (if a \<in> set ks then Some (mk a) else registry_lookup r a)"
  by (induction ks arbitrary: r) (auto simp: reg.invar_insert reg.lookup_insert)

text \<open>The operator starts, with an executor for exactly the action types of the list.\<close>

lemma operator_registry_lookup:
  "\<exists>r. operator_registry mk = Inr r \<and>
     (\<forall>a. registry_lookup r a = (if a \<in> set operator_actions then Some (mk a) else None))"
proof -
  let ?kvs = "map (\<lambda>k. (k, mk k)) operator_actions"
  have "map fst ?kvs = operator_actions" by (simp add: comp_def)
  then have "operator_registry mk = Inr (fold (\<lambda>(k, v). Register k v) ?kvs NewRegistry)"
    unfolding operator_registry_def
    by (intro must_register_all_fold)
      (simp_all add: registry_ok_New registry_lookup_New operator_actions_distinct comp_def)
  then show ?thesis
    by (simp add: registry_fold_Register operator_actions_distinct registry_ok_New registry_lookup_New)
qed

end
