(* ===== verification/Probe.thy ===== *)
theory Probe
  imports Executor_Registry
begin

text \<open>
  Steady-state probes (\<open>internal/probe\<close>): building a probe from its specification, running the
  HTTP, Prometheus and Kubernetes probes, running a list of probes, and the selector parser of the
  Kubernetes probe. The outside (HTTP transport, the API server's pod list) and the decoders the
  code calls (regexp, the JSON decoder of the query response, \<open>fmt.Sscanf\<close> with \<open>%f\<close>) are the
  fields of \<open>ProbeEnv\<close>; a call on the outside takes and returns the world \<open>'w\<close>.
\<close>

section \<open>Definitions\<close>

datatype PodPhase = PodRunning | PodNotRunning string

record HttpResponse =
  hr_status :: int
  hr_body :: "err + string"

record promQueryResponse =
  pq_status :: string
  pq_result :: "json list list"

record PodListOptions =
  lo_namespace :: "string option"
  lo_labels :: "(string, string) gomap option"
  lo_fields :: "(string, string) gomap option"

record 'w ProbeEnv =
  pe_new_request :: "string \<Rightarrow> string \<Rightarrow> err option"
  pe_with_query :: "string \<Rightarrow> string \<Rightarrow> string"
  pe_http_do :: "string \<Rightarrow> string \<Rightarrow> 'w \<Rightarrow> (err + HttpResponse) \<times> 'w"
  pe_regex :: "string \<Rightarrow> string \<Rightarrow> err + bool"
  pe_unmarshal :: "string \<Rightarrow> err + promQueryResponse"
  pe_json_err :: "json \<Rightarrow> err"
  pe_scan_float :: "string \<Rightarrow> err + float64"
  pe_list_pods :: "PodListOptions \<Rightarrow> 'w \<Rightarrow> (err + PodPhase list) \<times> 'w"

datatype Probe =
    prometheusProbe PrometheusProbe
  | httpProbe HTTPProbe
  | k8sProbe K8sProbe

definition NewProbe :: "ProbeSpec \<Rightarrow> err + Probe" where
  "NewProbe spec =
     (if ps_type spec = ProbeTypePrometheus then
        (case ps_prometheus spec of
           None \<Rightarrow> Inl (''probe '' @ quoted (ps_name spec) @ '': prometheus config required'')
         | Some p \<Rightarrow> Inr (prometheusProbe p))
      else if ps_type spec = ProbeTypeHTTP then
        (case ps_http spec of
           None \<Rightarrow> Inl (''probe '' @ quoted (ps_name spec) @ '': http config required'')
         | Some p \<Rightarrow> Inr (httpProbe p))
      else if ps_type spec = ProbeTypeK8s then
        (case ps_k8s spec of
           None \<Rightarrow> Inl (''probe '' @ quoted (ps_name spec) @ '': k8s config required'')
         | Some p \<Rightarrow> Inr (k8sProbe p))
      else Inl (''probe '' @ quoted (ps_name spec) @ '': unknown type '' @ quoted (ps_type spec)))"

subsection \<open>The HTTP probe\<close>

definition httpProbe_Run :: "'w ProbeEnv \<Rightarrow> HTTPProbe \<Rightarrow> 'w \<Rightarrow> (err + bool) \<times> 'w" where
  "httpProbe_Run env p w =
     (let meth = (if hp_method p = [] then ''GET'' else hp_method p) in
      case pe_new_request env meth (hp_url p) of
        Some e \<Rightarrow> (Inl (''building request: '' @ e), w)
      | None \<Rightarrow>
          (case pe_http_do env meth (hp_url p) w of
             (Inl e, w') \<Rightarrow> (Inl (''executing request: '' @ e), w')
           | (Inr resp, w') \<Rightarrow>
               (if hp_expectedStatus p \<noteq> 0 \<and> hr_status resp \<noteq> hp_expectedStatus p
                then (Inr False, w')
                else if hp_expectedBody p \<noteq> [] then
                  (case hr_body resp of
                     Inl e \<Rightarrow> (Inl (''reading body: '' @ e), w')
                   | Inr body \<Rightarrow>
                       (case pe_regex env (hp_expectedBody p) body of
                          Inl e \<Rightarrow> (Inl (''matching body regex: '' @ e), w')
                        | Inr matched \<Rightarrow> if \<not> matched then (Inr False, w') else (Inr True, w')))
                else (Inr True, w'))))"

subsection \<open>The Kubernetes probe\<close>

fun splitComma_loop :: "string \<Rightarrow> string \<Rightarrow> string list" where
  "splitComma_loop cur [] = [cur]"
| "splitComma_loop cur (c # cs) =
     (if c = CHR '','' then cur # splitComma_loop [] cs else splitComma_loop (cur @ [c]) cs)"

definition splitComma :: "string \<Rightarrow> string list" where
  "splitComma s = splitComma_loop [] s"

fun splitEquals_loop :: "string \<Rightarrow> string \<Rightarrow> string \<times> string \<times> bool" where
  "splitEquals_loop pre [] = ([], [], False)"
| "splitEquals_loop pre (c # cs) =
     (if c = CHR ''='' then (pre, cs, True) else splitEquals_loop (pre @ [c]) cs)"

definition splitEquals :: "string \<Rightarrow> string \<times> string \<times> bool" where
  "splitEquals s = splitEquals_loop [] s"

fun parseSelector_loop :: "(string, string) gomap \<Rightarrow> string list \<Rightarrow> err + (string, string) gomap" where
  "parseSelector_loop result [] = Inr result"
| "parseSelector_loop result (pair # pairs) =
     (case splitEquals pair of
        (k, v, ok) \<Rightarrow>
          if \<not> ok then Inl (''invalid selector pair: '' @ quoted pair)
          else parseSelector_loop (gm_put k v result) pairs)"

definition parseSelector :: "string \<Rightarrow> err + (string, string) gomap" where
  "parseSelector s = (if s = [] then Inr [] else parseSelector_loop [] (splitComma s))"

fun parseFieldSelector_loop :: "(string, string) gomap \<Rightarrow> string list \<Rightarrow> (string, string) gomap" where
  "parseFieldSelector_loop result [] = result"
| "parseFieldSelector_loop result (pair # pairs) =
     (case splitEquals pair of
        (k, v, ok) \<Rightarrow> parseFieldSelector_loop (if ok then gm_put k v result else result) pairs)"

definition parseFieldSelector :: "string \<Rightarrow> (string, string) gomap" where
  "parseFieldSelector s = (if s = [] then [] else parseFieldSelector_loop [] (splitComma s))"

definition checkPods :: "'w ProbeEnv \<Rightarrow> K8sProbe \<Rightarrow> 'w \<Rightarrow> (err + bool) \<times> 'w" where
  "checkPods env p w =
     (let ns = (if kp_namespace p \<noteq> [] then Some (kp_namespace p) else None);
          labels = (if kp_labelSelector p \<noteq> []
                    then map_sum id Some (parseSelector (kp_labelSelector p)) else Inr None) in
      case labels of
        Inl e \<Rightarrow> (Inl (''parsing label selector: '' @ e), w)
      | Inr ls \<Rightarrow>
          (let fs = (if kp_fieldSelector p \<noteq> []
                     then Some (parseFieldSelector (kp_fieldSelector p)) else None) in
           case pe_list_pods env \<lparr>lo_namespace = ns, lo_labels = ls, lo_fields = fs\<rparr> w of
             (Inl e, w') \<Rightarrow> (Inl (''listing pods: '' @ e), w')
           | (Inr phases, w') \<Rightarrow>
               (let readyCount = int (length (filter (\<lambda>ph. ph = PodRunning) phases))
                in (Inr (readyCount \<ge> kp_minReady p), w'))))"

definition k8sProbe_Run :: "'w ProbeEnv \<Rightarrow> K8sProbe \<Rightarrow> 'w \<Rightarrow> (err + bool) \<times> 'w" where
  "k8sProbe_Run env p w =
     (if kp_resource p = ''Pod'' \<or> kp_resource p = ''pods'' then checkPods env p w
      else (Inl (''unsupported resource kind '' @ quoted (kp_resource p)), w))"

subsection \<open>The Prometheus probe\<close>

text \<open>The comparisons of \<open>float64\<close>: every ordered comparison with a NaN is false.\<close>

fun f_less :: "float64 \<Rightarrow> float64 \<Rightarrow> bool" where
  "f_less F_NaN _ = False"
| "f_less _ F_NaN = False"
| "f_less F_NegInf y = (y \<noteq> F_NegInf)"
| "f_less _ F_NegInf = False"
| "f_less F_PosInf _ = False"
| "f_less (F_Fin _) F_PosInf = True"
| "f_less (F_Fin a) (F_Fin b) = (a < b)"

definition f_eq :: "float64 \<Rightarrow> float64 \<Rightarrow> bool" where
  "f_eq x y \<longleftrightarrow> x = y \<and> x \<noteq> F_NaN"

definition probe_evaluateCondition :: "float64 \<Rightarrow> ProbeCondition \<Rightarrow> bool" where
  "probe_evaluateCondition val cond =
     (let oper = pc_operator cond; t = pc_threshold cond in
      if oper = ''>'' then f_less t val
      else if oper = ''>='' then f_less t val \<or> f_eq t val
      else if oper = ''<'' then f_less val t
      else if oper = ''<='' then f_less val t \<or> f_eq val t
      else if oper = ''=='' then f_eq val t
      else if oper = ''!='' then \<not> f_eq val t
      else False)"

definition prom_value :: "'w ProbeEnv \<Rightarrow> PrometheusProbe \<Rightarrow> json list \<Rightarrow> err + bool" where
  "prom_value env p values =
     (if length values < 2 then Inl ''unexpected value format''
      else (case (case values ! 1 of JStr s \<Rightarrow> Inr s | JNull \<Rightarrow> Inr [] | j \<Rightarrow> Inl (pe_json_err env j)) of
              Inl e \<Rightarrow> Inl (''parsing value: '' @ e)
            | Inr valStr \<Rightarrow>
                (case pe_scan_float env valStr of
                   Inl e \<Rightarrow> Inl (''converting value '' @ quoted valStr @ '': '' @ e)
                 | Inr val \<Rightarrow> Inr (probe_evaluateCondition val (pp_condition p)))))"

definition prom_response :: "'w ProbeEnv \<Rightarrow> PrometheusProbe \<Rightarrow> HttpResponse \<Rightarrow> err + bool" where
  "prom_response env p resp =
     (case hr_body resp of
        Inl e \<Rightarrow> Inl (''reading response: '' @ e)
      | Inr body \<Rightarrow>
          (if hr_status resp \<noteq> 200
           then Inl (''prometheus returned status '' @ Itoa (hr_status resp) @ '': '' @ body)
           else (case pe_unmarshal env body of
                   Inl e \<Rightarrow> Inl (''parsing response: '' @ e)
                 | Inr promResp \<Rightarrow>
                     (if pq_status promResp \<noteq> ''success''
                      then Inl (''query status: '' @ pq_status promResp)
                      else (case pq_result promResp of
                              [] \<Rightarrow> Inr False
                            | values # _ \<Rightarrow> prom_value env p values)))))"

definition prometheusProbe_Run :: "'w ProbeEnv \<Rightarrow> PrometheusProbe \<Rightarrow> 'w \<Rightarrow> (err + bool) \<times> 'w" where
  "prometheusProbe_Run env p w =
     (case pe_new_request env ''GET'' (pp_url p @ ''/api/v1/query'') of
        Some e \<Rightarrow> (Inl (''building request: '' @ e), w)
      | None \<Rightarrow>
          (case pe_http_do env ''GET'' (pe_with_query env (pp_url p @ ''/api/v1/query'') (pp_query p)) w of
             (Inl e, w') \<Rightarrow> (Inl (''executing query: '' @ e), w')
           | (Inr resp, w') \<Rightarrow> (prom_response env p resp, w')))"

subsection \<open>Running probes\<close>

fun probe_Run :: "'w ProbeEnv \<Rightarrow> Probe \<Rightarrow> 'w \<Rightarrow> (err + bool) \<times> 'w" where
  "probe_Run env (prometheusProbe p) w = prometheusProbe_Run env p w"
| "probe_Run env (httpProbe p) w = httpProbe_Run env p w"
| "probe_Run env (k8sProbe p) w = k8sProbe_Run env p w"

fun RunAll :: "'w ProbeEnv \<Rightarrow> ProbeSpec list \<Rightarrow> 'w \<Rightarrow> (err + bool) \<times> 'w" where
  "RunAll env [] w = (Inr True, w)"
| "RunAll env (spec # specs) w =
     (case NewProbe spec of
        Inl e \<Rightarrow> (Inl (''probe '' @ quoted (ps_name spec) @ '': '' @ e), w)
      | Inr p \<Rightarrow>
          (case probe_Run env p w of
             (Inl e, w') \<Rightarrow> (Inl (''probe '' @ quoted (ps_name spec) @ '': '' @ e), w')
           | (Inr ok, w') \<Rightarrow> if \<not> ok then (Inr False, w') else RunAll env specs w'))"

text \<open>The text of a selector: \<open>k1=v1,k2=v2,\<dots>\<close>\<close>

definition render_selector :: "(string \<times> string) list \<Rightarrow> string" where
  "render_selector ps = join_on (CHR '','') (map (\<lambda>(k, v). k @ CHR ''='' # v) ps)"

definition plain_selector :: "(string \<times> string) list \<Rightarrow> bool" where
  "plain_selector ps \<longleftrightarrow> ps \<noteq> [] \<and>
     (\<forall>(k, v) \<in> set ps. CHR '','' \<notin> set k \<and> CHR ''='' \<notin> set k \<and> CHR '','' \<notin> set v)"

section \<open>Lemmas\<close>

lemma splitComma_loop_split_on:
  "splitComma_loop cur s =
     (case split_on (CHR '','') s of [] \<Rightarrow> [cur] | w # ws \<Rightarrow> (cur @ w) # ws)"
  by (induction cur s rule: splitComma_loop.induct) (auto split: list.splits simp: split_on_nonempty)

lemma splitComma_split_on: "splitComma s = split_on (CHR '','') s"
  by (auto simp: splitComma_def splitComma_loop_split_on split_on_nonempty split: list.splits)

lemma splitEquals_loop_append:
  "CHR ''='' \<notin> set k \<Longrightarrow> splitEquals_loop pre (k @ CHR ''='' # v) = (pre @ k, v, True)"
  by (induction k arbitrary: pre) auto

lemma splitEquals_pair: "CHR ''='' \<notin> set k \<Longrightarrow> splitEquals (k @ CHR ''='' # v) = (k, v, True)"
  by (simp add: splitEquals_def splitEquals_loop_append)

lemma splitEquals_loop_ok: "snd (snd (splitEquals_loop pre s)) \<longleftrightarrow> CHR ''='' \<in> set s"
  by (induction pre s rule: splitEquals_loop.induct) auto

lemma splitEquals_ok: "splitEquals s = (k, v, ok) \<Longrightarrow> ok \<longleftrightarrow> CHR ''='' \<in> set s"
  using splitEquals_loop_ok [of "[]" s] by (simp add: splitEquals_def)

lemma parseSelector_loop_field:
  "parseSelector_loop m pairs = Inr m' \<Longrightarrow> parseFieldSelector_loop m pairs = m'"
  by (induction m pairs rule: parseSelector_loop.induct) (auto split: prod.splits if_splits)

lemma parseSelector_loop_error:
  "(\<exists>e. parseSelector_loop m pairs = Inl e) \<longleftrightarrow> (\<exists>p \<in> set pairs. CHR ''='' \<notin> set p)"
  by (induction m pairs rule: parseSelector_loop.induct)
    (auto split: prod.splits if_splits dest: splitEquals_ok)

lemma parseSelector_loop_pairs:
  "\<forall>(k, v) \<in> set ps. CHR ''='' \<notin> set k \<Longrightarrow>
     parseSelector_loop m (map (\<lambda>(k, v). k @ CHR ''='' # v) ps) =
       Inr (fold (\<lambda>(k, v). gm_put k v) ps m)"
  by (induction ps arbitrary: m) (auto simp: splitEquals_pair)

lemma splitComma_render:
  "plain_selector ps \<Longrightarrow> splitComma (render_selector ps) = map (\<lambda>(k, v). k @ CHR ''='' # v) ps"
  unfolding splitComma_split_on render_selector_def plain_selector_def
  by (rule split_on_join_on) auto

lemma render_selector_nonempty: "ps \<noteq> [] \<Longrightarrow> render_selector ps \<noteq> []"
  by (cases ps; cases "tl ps") (auto simp: render_selector_def split: prod.splits)

text \<open>
  A list of probes runs in order and stops at the first probe that does not pass: if the
  probes \<open>ps\<close> all pass, \<open>ps @ qs\<close> behaves as \<open>qs\<close> from the world they leave, and otherwise the
  probes \<open>qs\<close> are neither built nor run.
\<close>

lemma RunAll_append:
  "RunAll env (ps @ qs) w =
     (case RunAll env ps w of
        (Inr True, w') \<Rightarrow> RunAll env qs w'
      | r \<Rightarrow> r)"
  by (induction env ps w rule: RunAll.induct) (auto split: sum.splits prod.splits if_splits)

text \<open>
  The selector parser inverts the rendering \<open>k1=v1,k2=v2\<close> of any non-empty list of pairs with
  distinct keys whose texts hold no separator.
\<close>

lemma parseSelector_roundtrip:
  assumes "plain_selector ps" and "distinct (map fst ps)"
  shows "\<exists>m. parseSelector (render_selector ps) = Inr m \<and> map_of m = map_of ps \<and>
           parseFieldSelector (render_selector ps) = m"
proof -
  let ?m = "fold (\<lambda>(k, v). gm_put k v) ps []"
  have ne: "ps \<noteq> []" and eqs: "\<forall>(k, v) \<in> set ps. CHR ''='' \<notin> set k"
    using assms(1) by (auto simp: plain_selector_def)
  have "parseSelector_loop [] (splitComma (render_selector ps)) = Inr ?m"
    by (simp add: splitComma_render [OF assms(1)] parseSelector_loop_pairs [OF eqs])
  moreover have "map_of ?m = map_of ps"
    using gomap_table.lookup_fold [OF gm_ok_Nil assms(2)] by simp
  ultimately show ?thesis
    using render_selector_nonempty [OF ne]
    by (auto simp: parseSelector_def parseFieldSelector_def dest: parseSelector_loop_field)
qed

text \<open>
  The label-selector parser rejects a non-empty text exactly when one of its comma-separated
  pairs has no equals sign; the field-selector parser drops such pairs instead.
\<close>

lemma parseSelector_error_iff:
  "(\<exists>e. parseSelector s = Inl e) \<longleftrightarrow>
     s \<noteq> [] \<and> (\<exists>p \<in> set (split_on (CHR '','') s). CHR ''='' \<notin> set p)"
  by (simp add: parseSelector_def parseSelector_loop_error splitComma_split_on)

end
