(* ===== verification/Kube_World.thy ===== *)
theory Kube_World
  imports Probe "HOL-Library.State_Monad"
begin

text \<open>
  What the two controllers share: the world they run in, the log of the calls they make on it, the
  result of a reconcile, and the list of status conditions with its update, which
  \<open>experiment_controller.go\<close> (\<open>setCondition\<close>) and \<open>workflow_controller.go\<close>
  (\<open>setWorkflowCondition\<close>) both contain.

  A world has an opaque part \<open>w_ext\<close> of type \<open>'x\<close> (API server, clock, targets of the faults: all of
  it code outside the repository or reached through an interface) and the log \<open>w_log\<close> of the calls
  made so far, in order, with their outcome. Controllers are programs of the state monad over it.
\<close>

section \<open>Definitions\<close>

type_synonym key = "string \<times> string"

datatype KErr = NotFound err | KOther err

fun kerr_msg :: "KErr \<Rightarrow> err" where
  "kerr_msg (NotFound e) = e"
| "kerr_msg (KOther e) = e"

text \<open>\<open>client.IgnoreNotFound\<close>\<close>

fun IgnoreNotFound :: "KErr \<Rightarrow> err option" where
  "IgnoreNotFound (NotFound e) = None"
| "IgnoreNotFound (KOther e) = Some e"

datatype Call =
    CEvent string string string
  | CExecute "err option"
  | CRollback "err option"
  | CUpdate ChaosExperiment "err option"
  | CStatusUpdate ChaosExperiment "err option"
  | CPatch ChaosExperiment "err option"
  | CWorkflowStatusUpdate ChaosWorkflow "err option"

record 'x World =
  w_ext :: 'x
  w_log :: "Call list"

type_synonym ('x, 'a) M = "('x World, 'a) state"

text \<open>A call on the outside, and an event handed to the recorder.\<close>

definition ext_call :: "('x \<Rightarrow> 'a \<times> 'x) \<Rightarrow> ('a \<Rightarrow> Call list) \<Rightarrow> ('x, 'a) M" where
  "ext_call f lg = State (\<lambda>w. case f (w_ext w) of
     (a, x) \<Rightarrow> (a, w\<lparr>w_ext := x, w_log := w_log w @ lg a\<rparr>))"

definition record_event :: "string \<Rightarrow> string \<Rightarrow> string \<Rightarrow> ('x, unit) M" where
  "record_event typ reason msg = State (\<lambda>w. ((), w\<lparr>w_log := w_log w @ [CEvent typ reason msg]\<rparr>))"

record Result =
  res_Requeue :: bool
  res_RequeueAfter :: duration

type_synonym outcome = "Result \<times> err option"

definition finished :: outcome where
  "finished = (\<lparr>res_Requeue = False, res_RequeueAfter = 0\<rparr>, None)"

definition failing :: "err \<Rightarrow> outcome" where
  "failing e = (\<lparr>res_Requeue = False, res_RequeueAfter = 0\<rparr>, Some e)"

definition requeue :: outcome where
  "requeue = (\<lparr>res_Requeue = True, res_RequeueAfter = 0\<rparr>, None)"

definition requeue_after :: "duration \<Rightarrow> outcome" where
  "requeue_after d = (\<lparr>res_Requeue = False, res_RequeueAfter = d\<rparr>, None)"

text \<open>The loop of \<open>setCondition\<close>: overwrite the first entry of the type, or append one.\<close>

fun set_condition :: "string \<Rightarrow> ConditionStatus \<Rightarrow> string \<Rightarrow> string \<Rightarrow> time \<Rightarrow> int \<Rightarrow>
    Condition list \<Rightarrow> Condition list" where
  "set_condition condType status reason message now gen [] =
     [\<lparr>c_type = condType, c_status = status, c_reason = reason, c_message = message,
       c_lastTransitionTime = now, c_observedGeneration = gen\<rparr>]"
| "set_condition condType status reason message now gen (c # cs) =
     (if c_type c = condType
      then c\<lparr>c_status := status, c_reason := reason, c_message := message,
             c_lastTransitionTime := now, c_observedGeneration := gen\<rparr> # cs
      else c # set_condition condType status reason message now gen cs)"

fun find_condition :: "string \<Rightarrow> Condition list \<Rightarrow> Condition option" where
  "find_condition t [] = None"
| "find_condition t (c # cs) = (if c_type c = t then Some c else find_condition t cs)"

text \<open>The calls that are not events.\<close>

fun visible :: "Call \<Rightarrow> bool" where
  "visible (CEvent _ _ _) = False"
| "visible _ = True"

text \<open>
  \<open>logs m R\<close>: whatever the outside answers, the program \<open>m\<close> only appends to the log, and its result
  and the calls it appended (events left out) satisfy \<open>R\<close>.
\<close>

definition logs :: "('x, 'a) M \<Rightarrow> ('a \<Rightarrow> Call list \<Rightarrow> bool) \<Rightarrow> bool" where
  "logs m R \<longleftrightarrow> (\<forall>w. \<exists>l. w_log (snd (run_state m w)) = w_log w @ l \<and>
     R (fst (run_state m w)) (filter visible l))"

section \<open>Lemmas\<close>

named_theorems logs_intros "the rules of \<open>logs\<close>"
named_theorems run_simps "running programs of the state monad"

lemma run_bind [run_simps]:
  "run_state (State_Monad.bind m f) w = (case run_state m w of (a, w') \<Rightarrow> run_state (f a) w')"
  by (simp add: State_Monad.bind_def)

lemma run_return [run_simps]: "run_state (State_Monad.return a) w = (a, w)"
  by (simp add: State_Monad.return_def)

lemma run_ext_call [run_simps]:
  "run_state (ext_call f lg) w =
     (case f (w_ext w) of (a, x) \<Rightarrow> (a, w\<lparr>w_ext := x, w_log := w_log w @ lg a\<rparr>))"
  by (simp add: ext_call_def)

lemma run_record_event [run_simps]:
  "run_state (record_event typ reason msg) w =
     ((), w\<lparr>w_log := w_log w @ [CEvent typ reason msg]\<rparr>)"
  by (simp add: record_event_def)

lemma set_condition_types:
  "map c_type (set_condition t s r m now g cs) =
     (if t \<in> c_type ` set cs then map c_type cs else map c_type cs @ [t])"
  by (induction cs) auto

lemma find_set_condition:
  "find_condition t' (set_condition t s r m now g cs) =
     (if t' = t then Some \<lparr>c_type = t, c_status = s, c_reason = r, c_message = m,
        c_lastTransitionTime = now, c_observedGeneration = g\<rparr> else find_condition t' cs)"
  by (induction cs) auto

subsection \<open>The logic of logs\<close>

lemma logs_return [logs_intros]: "R a [] \<Longrightarrow> logs (State_Monad.return a) R"
  by (simp add: logs_def run_return)

lemma logs_event [logs_intros]: "R () [] \<Longrightarrow> logs (record_event t r m) R"
  by (simp add: logs_def run_record_event)

lemma logs_ext_call [logs_intros]:
  "(\<And>a. R a (filter visible (lg a))) \<Longrightarrow> logs (ext_call f lg) R"
  by (auto simp: logs_def run_ext_call split: prod.splits)

lemma logs_bind [logs_intros]:
  assumes "logs m (\<lambda>a l1. logs (f a) (\<lambda>b l2. R b (l1 @ l2)))"
  shows "logs (State_Monad.bind m f) R"
  unfolding logs_def
proof
  fix w
  obtain a w1 where m: "run_state m w = (a, w1)" by (cases "run_state m w")
  obtain b w2 where f: "run_state (f a) w1 = (b, w2)" by (cases "run_state (f a) w1")
  from assms m obtain l1 where l1: "w_log w1 = w_log w @ l1"
    and "logs (f a) (\<lambda>b l2. R b (filter visible l1 @ l2))"
    unfolding logs_def by (metis fst_conv snd_conv)
  then obtain l2 where "w_log w2 = w_log w1 @ l2" "R b (filter visible l1 @ filter visible l2)"
    using f unfolding logs_def by (metis fst_conv snd_conv)
  with l1 m f show "\<exists>l. w_log (snd (run_state (State_Monad.bind m f) w)) = w_log w @ l \<and>
      R (fst (run_state (State_Monad.bind m f) w)) (filter visible l)"
    by (intro exI [of _ "l1 @ l2"]) (simp add: run_bind)
qed

lemma logs_mono: "logs m R \<Longrightarrow> (\<And>a l. R a l \<Longrightarrow> S a l) \<Longrightarrow> logs m S"
  unfolding logs_def by blast

end
