(* ===== verification/Experiment_Controller.thy ===== *)
theory Experiment_Controller
  imports Kube_World
begin

text \<open>
  The experiment reconciler, \<open>internal/controller/experiment_controller.go\<close>: every function of the
  file but \<open>SetupWithManager\<close>, as programs over the world of \<open>Kube_World\<close>. The API client, the
  clock, the executors and the probes' transport are the fields of \<open>ExpEnv\<close>. Structured logging
  (\<open>slog\<close>) is not modelled; events are, with their messages.

  After the definitions: the log each handler adds (\<open>new_log\<close>), the life cycle \<open>phase_step\<close> that the
  status writes follow, and the invariants of whole runs of the controller against an API server
  that satisfies \<open>api_laws\<close>.
\<close>

section \<open>Definitions\<close>

record 'x ExpEnv =
  env_Registry :: "'x Executor Registry"
  env_Get :: "key \<Rightarrow> 'x \<Rightarrow> (KErr + ChaosExperiment) \<times> 'x"
  env_Update :: "ChaosExperiment \<Rightarrow> 'x \<Rightarrow> err option \<times> 'x"
  env_StatusUpdate :: "ChaosExperiment \<Rightarrow> 'x \<Rightarrow> err option \<times> 'x"
  env_Patch :: "ChaosExperiment \<Rightarrow> ChaosExperiment \<Rightarrow> 'x \<Rightarrow> err option \<times> 'x"
  env_Now :: "'x \<Rightarrow> time \<times> 'x"
  env_Probe :: "'x ProbeEnv"

definition finalizerName :: string where
  "finalizerName = ''chaosplane.dev/experiment-protection''"
definition abortAnnotation :: string where
  "abortAnnotation = ''chaosplane.dev/abort''"
definition executedAnnotation :: string where
  "executedAnnotation = ''chaosplane.dev/executed''"

subsection \<open>Calls\<close>

definition now_call :: "'x ExpEnv \<Rightarrow> ('x, time) M" where
  "now_call env = ext_call (env_Now env) (\<lambda>_. [])"

definition get_call :: "'x ExpEnv \<Rightarrow> key \<Rightarrow> ('x, KErr + ChaosExperiment) M" where
  "get_call env k = ext_call (env_Get env k) (\<lambda>_. [])"

definition update_call :: "'x ExpEnv \<Rightarrow> ChaosExperiment \<Rightarrow> ('x, err option) M" where
  "update_call env xp = ext_call (env_Update env xp) (\<lambda>r. [CUpdate xp r])"

definition status_update_call :: "'x ExpEnv \<Rightarrow> ChaosExperiment \<Rightarrow> ('x, err option) M" where
  "status_update_call env xp = ext_call (env_StatusUpdate env xp) (\<lambda>r. [CStatusUpdate xp r])"

definition patch_call :: "'x ExpEnv \<Rightarrow> ChaosExperiment \<Rightarrow> ChaosExperiment \<Rightarrow> ('x, err option) M" where
  "patch_call env old xp = ext_call (env_Patch env old xp) (\<lambda>r. [CPatch xp r])"

definition execute_call :: "'x Executor \<Rightarrow> ChaosExperiment \<Rightarrow> ('x, err option) M" where
  "execute_call ex xp = ext_call (ex_Execute ex xp) (\<lambda>r. [CExecute r])"

definition rollback_call :: "'x Executor \<Rightarrow> ChaosExperiment \<Rightarrow> ('x, err option) M" where
  "rollback_call ex xp = ext_call (ex_Rollback ex xp) (\<lambda>r. [CRollback r])"

definition run_all_call :: "'x ExpEnv \<Rightarrow> ProbeSpec list \<Rightarrow> ('x, err + bool) M" where
  "run_all_call env ps = ext_call (RunAll (env_Probe env) ps) (\<lambda>_. [])"

subsection \<open>Status writes\<close>

definition exp_ref :: "ChaosExperiment \<Rightarrow> string" where
  "exp_ref xp = m_namespace (e_meta xp) @ ''/'' @ m_name (e_meta xp)"

definition action_type :: "ChaosExperiment \<Rightarrow> string" where
  "action_type xp = a_type (s_action (e_spec xp))"

definition upd_status :: "(ChaosExperimentStatus \<Rightarrow> ChaosExperimentStatus) \<Rightarrow> ChaosExperiment \<Rightarrow> ChaosExperiment" where
  "upd_status f xp = xp\<lparr>e_status := f (e_status xp)\<rparr>"

definition setCondition :: "'x ExpEnv \<Rightarrow> string \<Rightarrow> ConditionStatus \<Rightarrow> string \<Rightarrow> string \<Rightarrow> ChaosExperiment \<Rightarrow>
    ('x, ChaosExperiment) M" where
  "setCondition env condType status reason message xp = do {
     now \<leftarrow> now_call env;
     State_Monad.return (upd_status (\<lambda>s. s\<lparr>st_conditions :=
       set_condition condType status reason message now (m_generation (e_meta xp)) (st_conditions s)\<rparr>) xp)
   }"

definition setFailed :: "'x ExpEnv \<Rightarrow> ChaosExperiment \<Rightarrow> string \<Rightarrow> ('x, outcome) M" where
  "setFailed env xp reason = do {
     now \<leftarrow> now_call env;
     let xp = upd_status (\<lambda>s. s\<lparr>st_phase := PhaseFailed, st_endTime := Some now, st_message := reason\<rparr>) xp;
     xp \<leftarrow> setCondition env ''Progressing'' ConditionFalse ''ExperimentFailed'' reason xp;
     xp \<leftarrow> setCondition env ''Available'' ConditionFalse ''ExperimentFailed'' reason xp;
     xp \<leftarrow> setCondition env ''Degraded'' ConditionTrue ''ExperimentFailed'' reason xp;
     r \<leftarrow> status_update_call env xp;
     (case r of
        Some e \<Rightarrow> State_Monad.return (failing e)
      | None \<Rightarrow> do {
          record_event ''Warning'' ''Failed'' reason;
          State_Monad.return finished })
   }"

definition setCompleted :: "'x ExpEnv \<Rightarrow> ChaosExperiment \<Rightarrow> ('x, outcome) M" where
  "setCompleted env xp = do {
     now \<leftarrow> now_call env;
     let xp = upd_status (\<lambda>s. s\<lparr>st_phase := PhaseCompleted, st_endTime := Some now\<rparr>) xp;
     xp \<leftarrow> setCondition env ''Progressing'' ConditionFalse ''ExperimentCompleted'' ''Experiment completed successfully'' xp;
     xp \<leftarrow> setCondition env ''Available'' ConditionTrue ''ExperimentCompleted'' ''Experiment completed successfully'' xp;
     xp \<leftarrow> setCondition env ''Degraded'' ConditionFalse ''ExperimentCompleted'' ''Experiment completed successfully'' xp;
     r \<leftarrow> status_update_call env xp;
     (case r of
        Some e \<Rightarrow> State_Monad.return (failing e)
      | None \<Rightarrow> do {
          record_event ''Normal'' ''Completed'' ''Experiment completed successfully'';
          State_Monad.return finished })
   }"

definition setAborted :: "'x ExpEnv \<Rightarrow> ChaosExperiment \<Rightarrow> ('x, outcome) M" where
  "setAborted env xp = do {
     now \<leftarrow> now_call env;
     let xp = upd_status (\<lambda>s. s\<lparr>st_phase := PhaseAborted, st_endTime := Some now\<rparr>) xp;
     xp \<leftarrow> setCondition env ''Progressing'' ConditionFalse ''ExperimentAborted'' ''Experiment was aborted'' xp;
     xp \<leftarrow> setCondition env ''Available'' ConditionFalse ''ExperimentAborted'' ''Experiment was aborted'' xp;
     xp \<leftarrow> setCondition env ''Degraded'' ConditionFalse ''ExperimentAborted'' ''Experiment was aborted'' xp;
     r \<leftarrow> status_update_call env xp;
     (case r of
        Some e \<Rightarrow> State_Monad.return (failing e)
      | None \<Rightarrow> do {
          record_event ''Warning'' ''Aborted'' ''Experiment was aborted'';
          State_Monad.return finished })
   }"

definition transitionToCompleting :: "'x ExpEnv \<Rightarrow> ChaosExperiment \<Rightarrow> ('x, outcome) M" where
  "transitionToCompleting env xp = do {
     let xp = upd_status (\<lambda>s. s\<lparr>st_phase := PhaseCompleting\<rparr>) xp;
     xp \<leftarrow> setCondition env ''Progressing'' ConditionTrue ''ExperimentCompleting'' ''Experiment is rolling back'' xp;
     r \<leftarrow> status_update_call env xp;
     State_Monad.return (case r of Some e \<Rightarrow> failing e | None \<Rightarrow> requeue)
   }"

text \<open>The move to Running that \<open>reconcilePending\<close> and \<open>reconcileSteadyStateChecking\<close> share.\<close>

definition startRunning :: "'x ExpEnv \<Rightarrow> ChaosExperiment \<Rightarrow> string \<Rightarrow> string \<Rightarrow> ('x, outcome) M" where
  "startRunning env xp progress started = do {
     xp \<leftarrow> setCondition env ''Progressing'' ConditionTrue ''ExperimentStarted'' progress xp;
     xp \<leftarrow> setCondition env ''Available'' ConditionFalse ''ExperimentStarted'' ''Experiment is running'' xp;
     xp \<leftarrow> setCondition env ''Degraded'' ConditionFalse ''ExperimentStarted'' ''Experiment is running'' xp;
     r \<leftarrow> status_update_call env xp;
     (case r of
        Some e \<Rightarrow> State_Monad.return (failing e)
      | None \<Rightarrow> do {
          record_event ''Normal'' ''Started'' started;
          State_Monad.return requeue })
   }"

subsection \<open>The handler of each phase\<close>

definition reconcilePending :: "'x ExpEnv \<Rightarrow> ChaosExperiment \<Rightarrow> ('x, outcome) M" where
  "reconcilePending env xp =
     (let expRef = exp_ref xp in
      case registry_Get (env_Registry env) (action_type xp) of
        Inl _ \<Rightarrow> setFailed env xp (''experiment '' @ expRef @ '': no executor for action '' @ quoted (action_type xp))
      | Inr ex \<Rightarrow>
          (case ex_Validate ex xp of
             Some err \<Rightarrow> setFailed env xp (''experiment '' @ expRef @ '': validation failed: '' @ err)
           | None \<Rightarrow>
               (let befores = (case s_steadyState (e_spec xp) of None \<Rightarrow> [] | Some ss \<Rightarrow> ss_before ss) in
                if befores \<noteq> [] then do {
                  let xp = upd_status (\<lambda>s. s\<lparr>st_phase := PhaseSteadyStateChecking,
                    st_observedGeneration := m_generation (e_meta xp)\<rparr>) xp;
                  xp \<leftarrow> setCondition env ''Progressing'' ConditionTrue ''SteadyStateChecking'' ''Running before probes'' xp;
                  r \<leftarrow> status_update_call env xp;
                  (case r of
                     Some e \<Rightarrow> State_Monad.return (failing e)
                   | None \<Rightarrow> do {
                       record_event ''Normal'' ''SteadyStateChecking''
                         (''Experiment '' @ expRef @ '': running '' @ Itoa (int (length befores)) @ '' before steady-state probes'');
                       State_Monad.return requeue })
                }
                else do {
                  now \<leftarrow> now_call env;
                  startRunning env
                    (upd_status (\<lambda>s. s\<lparr>st_phase := PhaseRunning, st_startTime := Some now,
                       st_observedGeneration := m_generation (e_meta xp)\<rparr>) xp)
                    ''Experiment is running''
                    (''Experiment '' @ expRef @ '' started with action '' @ quoted (action_type xp) @
                     '', duration '' @ dur_str (s_duration (e_spec xp)))
                })))"

definition reconcileSteadyStateChecking :: "'x ExpEnv \<Rightarrow> ChaosExperiment \<Rightarrow> ('x, outcome) M" where
  "reconcileSteadyStateChecking env xp =
     (let expRef = exp_ref xp in
      case s_steadyState (e_spec xp) of
        None \<Rightarrow> setFailed env xp (''experiment '' @ expRef @ '': steady-state spec missing in SteadyStateChecking phase'')
      | Some ss \<Rightarrow> do {
          record_event ''Normal'' ''SteadyStateCheckStarted''
            (''Experiment '' @ expRef @ '': evaluating '' @ Itoa (int (length (ss_before ss))) @ '' before probes'');
          res \<leftarrow> run_all_call env (ss_before ss);
          (case res of
             Inl err \<Rightarrow> do {
               record_event ''Warning'' ''SteadyStateCheckFailed''
                 (''Experiment '' @ expRef @ '': before probe error: '' @ err);
               setFailed env xp (''experiment '' @ expRef @ '': before probe failed: '' @ err) }
           | Inr ok \<Rightarrow>
               if \<not> ok then do {
                 record_event ''Warning'' ''SteadyStateCheckFailed''
                   (''Experiment '' @ expRef @ '': before steady-state probe did not pass'');
                 setFailed env xp (''experiment '' @ expRef @ '': before steady-state probe did not pass'') }
               else do {
                 record_event ''Normal'' ''SteadyStateCheckPassed''
                   (''Experiment '' @ expRef @ '': all before probes passed'');
                 now \<leftarrow> now_call env;
                 startRunning env
                   (upd_status (\<lambda>s. s\<lparr>st_phase := PhaseRunning, st_startTime := Some now\<rparr>) xp)
                   ''Before probes passed, experiment is running''
                   (''Experiment '' @ expRef @ '': before probes passed, experiment started with action '' @
                    quoted (action_type xp)) }) })"

definition abortConditionToProbeSpec :: "AbortConditionSpec \<Rightarrow> ProbeSpec" where
  "abortConditionToProbeSpec ac =
     \<lparr>ps_name = ac_name ac, ps_type = ac_type ac, ps_prometheus = ac_prometheus ac,
      ps_http = ac_http ac, ps_k8s = ac_k8s ac\<rparr>"

fun checkAbortConditions :: "'x ProbeEnv \<Rightarrow> AbortConditionSpec list \<Rightarrow> 'x \<Rightarrow> (err + AbortAction option) \<times> 'x" where
  "checkAbortConditions penv [] x = (Inr None, x)"
| "checkAbortConditions penv (ac # acs) x =
     (case NewProbe (abortConditionToProbeSpec ac) of
        Inl e \<Rightarrow> (Inl (''abort condition '' @ quoted (ac_name ac) @ '': '' @ e), x)
      | Inr p \<Rightarrow>
          (case probe_Run penv p x of
             (Inl e, x') \<Rightarrow> (Inl (''abort condition '' @ quoted (ac_name ac) @ '': '' @ e), x')
           | (Inr ok, x') \<Rightarrow>
               if ok then (Inr (Some (ac_action ac)), x') else checkAbortConditions penv acs x'))"

definition handleAbort :: "'x ExpEnv \<Rightarrow> ChaosExperiment \<Rightarrow> ('x, outcome) M" where
  "handleAbort env xp =
     (let expRef = exp_ref xp in
      case registry_Get (env_Registry env) (action_type xp) of
        Inl err \<Rightarrow> setFailed env xp (''experiment '' @ expRef @ '': abort: executor for action '' @
                     quoted (action_type xp) @ '' lost: '' @ err)
      | Inr ex \<Rightarrow> do {
          record_event ''Normal'' ''RollbackStarted'' (''Experiment '' @ expRef @ '': rolling back due to abort'');
          r \<leftarrow> rollback_call ex xp;
          (case r of
             Some rbErr \<Rightarrow> do {
               record_event ''Warning'' ''RollbackFailed''
                 (''Experiment '' @ expRef @ '': rollback failed during abort: '' @ rbErr);
               setFailed env xp (''experiment '' @ expRef @ '': abort rollback failed: '' @ rbErr) }
           | None \<Rightarrow> do {
               record_event ''Normal'' ''RollbackCompleted''
                 (''Experiment '' @ expRef @ '': rollback completed during abort'');
               setAborted env xp }) })"

text \<open>The end of \<open>reconcileRunning\<close>: when to look at the experiment again.\<close>

definition runningRequeue :: "ChaosExperiment \<Rightarrow> duration \<Rightarrow> outcome" where
  "runningRequeue xp elapsed =
     (let remaining = wrap64 (s_duration (e_spec xp) - elapsed) in
      if s_abortConditions (e_spec xp) \<noteq> [] \<and> remaining > 5 * second
      then requeue_after (5 * second) else requeue_after remaining)"

text \<open>The part of \<open>reconcileRunning\<close> that runs the action once and marks it executed.\<close>

definition runAction :: "'x ExpEnv \<Rightarrow> ChaosExperiment \<Rightarrow> duration \<Rightarrow> ('x, outcome) M" where
  "runAction env xp elapsed =
     (let expRef = exp_ref xp in
      case registry_Get (env_Registry env) (action_type xp) of
        Inl err \<Rightarrow> setFailed env xp (''experiment '' @ expRef @ '': executor for action '' @
                     quoted (action_type xp) @ '' lost during running phase: '' @ err)
      | Inr ex \<Rightarrow> do {
          record_event ''Normal'' ''Executing''
            (''Experiment '' @ expRef @ '': executing action '' @ quoted (action_type xp));
          r \<leftarrow> execute_call ex xp;
          (case r of
             Some err \<Rightarrow> do {
               record_event ''Warning'' ''ExecuteFailed''
                 (''Experiment '' @ expRef @ '': action '' @ quoted (action_type xp) @ '' failed: '' @ err);
               record_event ''Normal'' ''RollbackStarted''
                 (''Experiment '' @ expRef @ '': initiating rollback after execution failure'');
               rb \<leftarrow> rollback_call ex xp;
               (case rb of
                  Some rbErr \<Rightarrow> do {
                    record_event ''Warning'' ''RollbackFailed''
                      (''Experiment '' @ expRef @ '': rollback also failed: '' @ rbErr);
                    setFailed env xp (''experiment '' @ expRef @ '': execution failed: '' @ err @
                      ''; rollback also failed: '' @ rbErr) }
                | None \<Rightarrow> do {
                    record_event ''Normal'' ''RollbackCompleted''
                      (''Experiment '' @ expRef @ '': rollback completed after execution failure'');
                    setFailed env xp (''experiment '' @ expRef @ '': execution failed: '' @ err) }) }
           | None \<Rightarrow> do {
               let xp' = xp\<lparr>e_meta := (e_meta xp)\<lparr>m_annotations :=
                 gm_put executedAnnotation ''true'' (m_annotations (e_meta xp))\<rparr>\<rparr>;
               pr \<leftarrow> patch_call env xp xp';
               State_Monad.return (case pr of Some e \<Rightarrow> failing e | None \<Rightarrow> runningRequeue xp' elapsed) }) })"

definition runningTimed :: "'x ExpEnv \<Rightarrow> ChaosExperiment \<Rightarrow> ('x, outcome) M" where
  "runningTimed env xp =
     (let expRef = exp_ref xp in
      case st_startTime (e_status xp) of
        None \<Rightarrow> setFailed env xp (''experiment '' @ expRef @ '': running experiment has no startTime'')
      | Some start \<Rightarrow> do {
          now \<leftarrow> now_call env;
          let elapsed = time_since now start;
          let duration = s_duration (e_spec xp);
          let timeout = wrap64 (duration * 2);
          if elapsed \<ge> timeout then do {
            record_event ''Warning'' ''Timeout''
              (''Experiment '' @ expRef @ '': timed out after '' @ dur_str (dur_round_second elapsed) @
               '' (timeout: '' @ dur_str timeout @ ''), forcing rollback'');
            transitionToCompleting env xp }
          else if elapsed \<ge> duration then do {
            record_event ''Normal'' ''DurationElapsed''
              (''Experiment '' @ expRef @ '': duration '' @ dur_str duration @
               '' elapsed, transitioning to rollback'');
            transitionToCompleting env xp }
          else if gm_str (m_annotations (e_meta xp)) executedAnnotation \<noteq> ''true'' then
            runAction env xp elapsed
          else State_Monad.return (runningRequeue xp elapsed) })"

definition reconcileRunning :: "'x ExpEnv \<Rightarrow> ChaosExperiment \<Rightarrow> ('x, outcome) M" where
  "reconcileRunning env xp =
     (let expRef = exp_ref xp in
      if gm_str (m_annotations (e_meta xp)) abortAnnotation = ''true'' then do {
        record_event ''Warning'' ''AbortTriggered''
          (''Experiment '' @ expRef @ '': abort annotation detected, initiating rollback'');
        handleAbort env xp }
      else if s_abortConditions (e_spec xp) \<noteq> [] then do {
        res \<leftarrow> ext_call (checkAbortConditions (env_Probe env) (s_abortConditions (e_spec xp))) (\<lambda>_. []);
        (case res of
           Inr (Some AbortActionRollback) \<Rightarrow> do {
             record_event ''Warning'' ''AbortConditionTriggered''
               (''Experiment '' @ expRef @ '': abort condition met, rolling back'');
             transitionToCompleting env xp }
         | Inr (Some _) \<Rightarrow> do {
             record_event ''Warning'' ''AbortConditionTriggered''
               (''Experiment '' @ expRef @ '': abort condition met, aborting'');
             handleAbort env xp }
         | _ \<Rightarrow> runningTimed env xp) }
      else runningTimed env xp)"

definition reconcileCompleting :: "'x ExpEnv \<Rightarrow> ChaosExperiment \<Rightarrow> ('x, outcome) M" where
  "reconcileCompleting env xp =
     (case registry_Get (env_Registry env) (action_type xp) of
        Inl err \<Rightarrow> setFailed env xp (''completing: executor lost: '' @ err)
      | Inr ex \<Rightarrow> do {
          record_event ''Normal'' ''RollingBack'' ''Rolling back chaos action'';
          r \<leftarrow> rollback_call ex xp;
          (case r of
             Some rbErr \<Rightarrow> do {
               record_event ''Warning'' ''RollbackFailed'' (''Rollback failed: '' @ rbErr);
               setFailed env xp (''rollback failed: '' @ rbErr) }
           | None \<Rightarrow>
               (let after = (case s_steadyState (e_spec xp) of None \<Rightarrow> [] | Some ss \<Rightarrow> ss_after ss) in
                if after \<noteq> [] then do {
                  now \<leftarrow> now_call env;
                  let xp = upd_status (\<lambda>s. s\<lparr>st_phase := PhaseRecovering, st_recoveryStartTime := Some now\<rparr>) xp;
                  xp \<leftarrow> setCondition env ''Progressing'' ConditionTrue ''Recovering'' ''Running after probes'' xp;
                  u \<leftarrow> status_update_call env xp;
                  (case u of
                     Some e \<Rightarrow> State_Monad.return (failing e)
                   | None \<Rightarrow> do {
                       record_event ''Normal'' ''Recovering'' ''Running after steady-state probes'';
                       State_Monad.return requeue }) }
                else setCompleted env xp)) })"

text \<open>The after-probes part of \<open>reconcileRecovering\<close>, reached when the recovery timeout has not passed.\<close>

definition recoveringProbes :: "'x ExpEnv \<Rightarrow> ChaosExperiment \<Rightarrow> SteadyStateSpec \<Rightarrow> ('x, outcome) M" where
  "recoveringProbes env xp ss = do {
     res \<leftarrow> run_all_call env (ss_after ss);
     (case res of
        Inl err \<Rightarrow> setFailed env xp (''after probe failed: '' @ err)
      | Inr ok \<Rightarrow>
          if \<not> ok then State_Monad.return (requeue_after (5 * second))
          else do {
            record_event ''Normal'' ''Recovered'' ''After probes passed'';
            setCompleted env xp }) }"

definition reconcileRecovering :: "'x ExpEnv \<Rightarrow> ChaosExperiment \<Rightarrow> ('x, outcome) M" where
  "reconcileRecovering env xp =
     (case s_steadyState (e_spec xp) of
        None \<Rightarrow> setFailed env xp ''steady-state spec missing in Recovering phase''
      | Some ss \<Rightarrow>
          (case st_recoveryStartTime (e_status xp) of
             Some start \<Rightarrow>
               (if ss_recoveryTimeout ss > 0 then do {
                  now \<leftarrow> now_call env;
                  if time_since now start \<ge> ss_recoveryTimeout ss
                  then setFailed env xp ''after steady-state probes did not pass within recovery timeout''
                  else recoveringProbes env xp ss }
                else recoveringProbes env xp ss)
           | None \<Rightarrow> recoveringProbes env xp ss))"

text \<open>\<open>controllerutil\<close>'s finalizer helpers.\<close>

definition ContainsFinalizer :: "ChaosExperiment \<Rightarrow> string \<Rightarrow> bool" where
  "ContainsFinalizer xp f \<longleftrightarrow> f \<in> set (m_finalizers (e_meta xp))"

definition AddFinalizer :: "ChaosExperiment \<Rightarrow> string \<Rightarrow> ChaosExperiment" where
  "AddFinalizer xp f = (if ContainsFinalizer xp f then xp
     else xp\<lparr>e_meta := (e_meta xp)\<lparr>m_finalizers := m_finalizers (e_meta xp) @ [f]\<rparr>\<rparr>)"

definition RemoveFinalizer :: "ChaosExperiment \<Rightarrow> string \<Rightarrow> ChaosExperiment" where
  "RemoveFinalizer xp f =
     xp\<lparr>e_meta := (e_meta xp)\<lparr>m_finalizers := filter (\<lambda>g. g \<noteq> f) (m_finalizers (e_meta xp))\<rparr>\<rparr>"

definition active_phase :: "ExperimentPhase \<Rightarrow> bool" where
  "active_phase ph \<longleftrightarrow> ph = PhaseRunning \<or> ph = PhaseCompleting \<or> ph = PhaseRecovering"

definition deletionRollback :: "'x ExpEnv \<Rightarrow> ChaosExperiment \<Rightarrow> ('x, unit) M" where
  "deletionRollback env xp =
     (if active_phase (st_phase (e_status xp)) then
        (case registry_Get (env_Registry env) (action_type xp) of
           Inr ex \<Rightarrow> do {
             record_event ''Normal'' ''RollingBack'' ''Rolling back due to deletion'';
             r \<leftarrow> rollback_call ex xp;
             (case r of
                Some rbErr \<Rightarrow> record_event ''Warning'' ''RollbackFailed'' (''Rollback during deletion failed: '' @ rbErr)
              | None \<Rightarrow> record_event ''Normal'' ''Completed'' ''Rollback completed during deletion'') }
         | Inl _ \<Rightarrow> State_Monad.return ())
      else State_Monad.return ())"

definition handleDeletion :: "'x ExpEnv \<Rightarrow> ChaosExperiment \<Rightarrow> ('x, outcome) M" where
  "handleDeletion env xp =
     (if \<not> ContainsFinalizer xp finalizerName then State_Monad.return finished
      else do {
        deletionRollback env xp;
        r \<leftarrow> update_call env (RemoveFinalizer xp finalizerName);
        State_Monad.return (case r of Some e \<Rightarrow> failing e | None \<Rightarrow> finished) })"

definition reconcilePhase :: "'x ExpEnv \<Rightarrow> ChaosExperiment \<Rightarrow> ('x, outcome) M" where
  "reconcilePhase env xp =
     (case st_phase (e_status xp) of
        PhaseEmpty \<Rightarrow> reconcilePending env xp
      | PhasePending \<Rightarrow> reconcilePending env xp
      | PhaseSteadyStateChecking \<Rightarrow> reconcileSteadyStateChecking env xp
      | PhaseRunning \<Rightarrow> reconcileRunning env xp
      | PhaseCompleting \<Rightarrow> reconcileCompleting env xp
      | PhaseRecovering \<Rightarrow> reconcileRecovering env xp
      | PhaseCompleted \<Rightarrow> State_Monad.return finished
      | PhaseFailed \<Rightarrow> State_Monad.return finished
      | PhaseAborted \<Rightarrow> State_Monad.return finished
      | PhaseOther _ \<Rightarrow> State_Monad.return finished)"

text \<open>What \<open>Reconcile\<close> does with the object it has read.\<close>

definition reconcileObject :: "'x ExpEnv \<Rightarrow> ChaosExperiment \<Rightarrow> ('x, outcome) M" where
  "reconcileObject env xp =
     (if m_deletionTimestamp (e_meta xp) \<noteq> None then handleDeletion env xp
      else if \<not> ContainsFinalizer xp finalizerName then do {
        r \<leftarrow> update_call env (AddFinalizer xp finalizerName);
        State_Monad.return (case r of Some e \<Rightarrow> failing e | None \<Rightarrow> requeue) }
      else reconcilePhase env xp)"

definition Reconcile :: "'x ExpEnv \<Rightarrow> key \<Rightarrow> ('x, outcome) M" where
  "Reconcile env req = do {
     g \<leftarrow> get_call env req;
     (case g of
        Inl kerr \<Rightarrow> State_Monad.return
          (case IgnoreNotFound kerr of None \<Rightarrow> finished | Some e \<Rightarrow> failing e)
      | Inr xp \<Rightarrow> reconcileObject env xp) }"

subsection \<open>Abstract specification: the life cycle and the protocol of one reconcile\<close>

abbreviation phase_of :: "ChaosExperiment \<Rightarrow> ExperimentPhase" where
  "phase_of xp \<equiv> st_phase (e_status xp)"

definition is_executed :: "ChaosExperiment \<Rightarrow> bool" where
  "is_executed xp \<longleftrightarrow> gm_str (m_annotations (e_meta xp)) executedAnnotation = ''true''"

definition is_aborting :: "ChaosExperiment \<Rightarrow> bool" where
  "is_aborting xp \<longleftrightarrow> gm_str (m_annotations (e_meta xp)) abortAnnotation = ''true''"

definition terminal :: "ExperimentPhase \<Rightarrow> bool" where
  "terminal ph \<longleftrightarrow> ph = PhaseCompleted \<or> ph = PhaseFailed \<or> ph = PhaseAborted"

text \<open>The result of a reconcile that ends with a write: its error, or \<open>out\<close>.\<close>

definition written :: "outcome \<Rightarrow> err option \<Rightarrow> outcome" where
  "written out r = (case r of None \<Rightarrow> out | Some e \<Rightarrow> failing e)"

text \<open>The moves of the life cycle; \<open>True\<close> marks those a successful rollback must precede.\<close>

inductive phase_step :: "ExperimentPhase \<Rightarrow> bool \<Rightarrow> ExperimentPhase \<Rightarrow> bool" where
  pending_checking: "ph = PhaseEmpty \<or> ph = PhasePending \<Longrightarrow> phase_step ph False PhaseSteadyStateChecking"
| pending_running: "ph = PhaseEmpty \<or> ph = PhasePending \<Longrightarrow> phase_step ph False PhaseRunning"
| checking_running: "phase_step PhaseSteadyStateChecking False PhaseRunning"
| running_completing: "phase_step PhaseRunning False PhaseCompleting"
| running_aborted: "phase_step PhaseRunning True PhaseAborted"
| completing_recovering: "phase_step PhaseCompleting True PhaseRecovering"
| completing_completed: "phase_step PhaseCompleting True PhaseCompleted"
| recovering_completed: "phase_step PhaseRecovering False PhaseCompleted"
| to_failed: "\<not> terminal ph \<Longrightarrow> phase_step ph False PhaseFailed"

inductive_cases phase_stepE: "phase_step ph b ph'"

text \<open>
  The calls one reconcile of the object \<open>xp\<close> may make, events left out: nothing; one status write
  along the life cycle, with a successful rollback before it where the move asks for one; a failed
  rollback followed by the write of Failed; the action, once, followed by the patch that marks it
  executed, or by a rollback and the write of Failed; and the finalizer updates, where dropping the
  finalizer of an active experiment follows a rollback. \<open>known\<close> says whether the registry has an
  executor for the action.
\<close>

inductive protocol :: "bool \<Rightarrow> ChaosExperiment \<Rightarrow> Call list \<Rightarrow> bool" for known xp where
  idle: "protocol known xp []"
| status_write: "phase_step (phase_of xp) False (phase_of xp') \<Longrightarrow> e_meta xp' = e_meta xp \<Longrightarrow>
    protocol known xp [CStatusUpdate xp' r]"
| rolled_back: "phase_step (phase_of xp) True (phase_of xp') \<Longrightarrow> e_meta xp' = e_meta xp \<Longrightarrow>
    protocol known xp [CRollback None, CStatusUpdate xp' r]"
| rollback_failed: "phase_of xp = PhaseRunning \<or> phase_of xp = PhaseCompleting \<Longrightarrow>
    phase_of xp' = PhaseFailed \<Longrightarrow> e_meta xp' = e_meta xp \<Longrightarrow>
    protocol known xp [CRollback (Some e), CStatusUpdate xp' r]"
| executed: "phase_of xp = PhaseRunning \<Longrightarrow> \<not> is_executed xp \<Longrightarrow> \<not> is_aborting xp \<Longrightarrow>
    e_status xp' = e_status xp \<Longrightarrow> is_executed xp' \<Longrightarrow> protocol known xp [CExecute None, CPatch xp' r]"
| execute_failed: "phase_of xp = PhaseRunning \<Longrightarrow> \<not> is_executed xp \<Longrightarrow> \<not> is_aborting xp \<Longrightarrow>
    phase_of xp' = PhaseFailed \<Longrightarrow> e_meta xp' = e_meta xp \<Longrightarrow>
    protocol known xp [CExecute (Some e), CRollback rb, CStatusUpdate xp' r]"
| add_finalizer: "m_deletionTimestamp (e_meta xp) = None \<Longrightarrow> e_status xp' = e_status xp \<Longrightarrow>
    is_executed xp' = is_executed xp \<Longrightarrow> protocol known xp [CUpdate xp' r]"
| drop_finalizer: "m_deletionTimestamp (e_meta xp) \<noteq> None \<Longrightarrow> e_status xp' = e_status xp \<Longrightarrow>
    is_executed xp' = is_executed xp \<Longrightarrow> \<not> (known \<and> active_phase (phase_of xp)) \<Longrightarrow>
    protocol known xp [CUpdate xp' r]"
| drop_rolled_back: "m_deletionTimestamp (e_meta xp) \<noteq> None \<Longrightarrow> known \<and> active_phase (phase_of xp) \<Longrightarrow>
    e_status xp' = e_status xp \<Longrightarrow> is_executed xp' = is_executed xp \<Longrightarrow>
    protocol known xp [CRollback rb, CUpdate xp' r]"

abbreviation knows :: "'x ExpEnv \<Rightarrow> ChaosExperiment \<Rightarrow> bool" where
  "knows env xp \<equiv> \<exists>ex. registry_Get (env_Registry env) (action_type xp) = Inr ex"

section \<open>Lemmas\<close>

lemmas exp_calls = now_call_def get_call_def update_call_def status_update_call_def patch_call_def
  execute_call_def rollback_call_def run_all_call_def

lemma upd_status_simps [simp]:
  "e_meta (upd_status f xp) = e_meta xp" "e_spec (upd_status f xp) = e_spec xp"
  "e_status (upd_status f xp) = f (e_status xp)"
  by (simp_all add: upd_status_def)


lemma logs_setCondition [logs_intros]:
  "(\<And>cs. R (upd_status (\<lambda>s. s\<lparr>st_conditions := cs s\<rparr>) xp) []) \<Longrightarrow> logs (setCondition env t s r m xp) R"
  unfolding setCondition_def exp_calls by (intro logs_intros) simp

lemma logs_setFailed [logs_intros]:
  assumes "\<And>xp' r. phase_of xp' = PhaseFailed \<Longrightarrow> e_meta xp' = e_meta xp \<Longrightarrow> e_spec xp' = e_spec xp \<Longrightarrow>
    R (written finished r) [CStatusUpdate xp' r]"
  shows "logs (setFailed env xp reason) R"
  unfolding setFailed_def exp_calls Let_def
  by (intro logs_intros) (auto intro!: logs_intros assms [of _ None, unfolded written_def option.case]
      assms [of _ "Some e" for e, unfolded written_def option.case] split: option.split)

lemma logs_setCompleted [logs_intros]:
  assumes "\<And>xp' r. phase_of xp' = PhaseCompleted \<Longrightarrow> e_meta xp' = e_meta xp \<Longrightarrow> e_spec xp' = e_spec xp \<Longrightarrow>
    R (written finished r) [CStatusUpdate xp' r]"
  shows "logs (setCompleted env xp) R"
  unfolding setCompleted_def exp_calls Let_def
  by (intro logs_intros) (auto intro!: logs_intros assms [of _ None, unfolded written_def option.case]
      assms [of _ "Some e" for e, unfolded written_def option.case] split: option.split)

lemma logs_setAborted [logs_intros]:
  assumes "\<And>xp' r. phase_of xp' = PhaseAborted \<Longrightarrow> e_meta xp' = e_meta xp \<Longrightarrow> e_spec xp' = e_spec xp \<Longrightarrow>
    R (written finished r) [CStatusUpdate xp' r]"
  shows "logs (setAborted env xp) R"
  unfolding setAborted_def exp_calls Let_def
  by (intro logs_intros) (auto intro!: logs_intros assms [of _ None, unfolded written_def option.case]
      assms [of _ "Some e" for e, unfolded written_def option.case] split: option.split)

lemma logs_transitionToCompleting [logs_intros]:
  assumes "\<And>xp' r. phase_of xp' = PhaseCompleting \<Longrightarrow> e_meta xp' = e_meta xp \<Longrightarrow> e_spec xp' = e_spec xp \<Longrightarrow>
    R (written requeue r) [CStatusUpdate xp' r]"
  shows "logs (transitionToCompleting env xp) R"
  unfolding transitionToCompleting_def exp_calls Let_def
  by (intro logs_intros) (auto intro!: logs_intros assms [of _ None, unfolded written_def option.case]
      assms [of _ "Some e" for e, unfolded written_def option.case] split: option.split)

lemma logs_startRunning [logs_intros]:
  assumes "\<And>xp' r. phase_of xp' = phase_of xp \<Longrightarrow> e_meta xp' = e_meta xp \<Longrightarrow> e_spec xp' = e_spec xp \<Longrightarrow>
    R (written requeue r) [CStatusUpdate xp' r]"
  shows "logs (startRunning env xp p st) R"
  unfolding startRunning_def exp_calls Let_def
  by (intro logs_intros) (auto intro!: logs_intros assms [of _ None, unfolded written_def option.case]
      assms [of _ "Some e" for e, unfolded written_def option.case] split: option.split)

lemmas protocol_auto = logs_intros protocol.intros phase_step.intros

lemma protocol_pending:
  "phase_of xp = PhaseEmpty \<or> phase_of xp = PhasePending \<Longrightarrow>
     logs (reconcilePending env xp) (\<lambda>_. protocol (knows env xp) xp)"
  unfolding reconcilePending_def exp_calls Let_def
  by (auto intro!: protocol_auto simp: terminal_def split: sum.split option.split)

lemma protocol_checking:
  "phase_of xp = PhaseSteadyStateChecking \<Longrightarrow>
     logs (reconcileSteadyStateChecking env xp) (\<lambda>_. protocol (knows env xp) xp)"
  unfolding reconcileSteadyStateChecking_def exp_calls Let_def
  by (auto intro!: protocol_auto simp: terminal_def split: sum.split option.split)

lemma protocol_handleAbort:
  "phase_of xp = PhaseRunning \<Longrightarrow> logs (handleAbort env xp) (\<lambda>_. protocol (knows env xp) xp)"
  unfolding handleAbort_def exp_calls Let_def
  by (auto intro!: protocol_auto simp: terminal_def split: sum.split option.split)

lemma protocol_runAction:
  "phase_of xp = PhaseRunning \<Longrightarrow> \<not> is_executed xp \<Longrightarrow> \<not> is_aborting xp \<Longrightarrow>
     logs (runAction env xp elapsed) (\<lambda>_. protocol (knows env xp) xp)"
  unfolding runAction_def exp_calls Let_def
  by (auto intro!: protocol_auto simp: terminal_def is_executed_def split: sum.split option.split)

lemma protocol_runningTimed:
  "phase_of xp = PhaseRunning \<Longrightarrow> \<not> is_aborting xp \<Longrightarrow>
     logs (runningTimed env xp) (\<lambda>_. protocol (knows env xp) xp)"
  unfolding runningTimed_def exp_calls Let_def
  by (auto intro!: protocol_auto protocol_runAction simp: terminal_def is_executed_def
      split: option.split)

lemma protocol_running:
  "phase_of xp = PhaseRunning \<Longrightarrow> logs (reconcileRunning env xp) (\<lambda>_. protocol (knows env xp) xp)"
  unfolding reconcileRunning_def Let_def
  by (auto intro!: protocol_auto protocol_runningTimed protocol_handleAbort
      simp: terminal_def is_aborting_def split: sum.split option.split AbortAction.split)

lemma protocol_completing:
  "phase_of xp = PhaseCompleting \<Longrightarrow> logs (reconcileCompleting env xp) (\<lambda>_. protocol (knows env xp) xp)"
  unfolding reconcileCompleting_def exp_calls Let_def
  by (auto intro!: protocol_auto simp: terminal_def split: sum.split option.split)

lemma protocol_recovering:
  "phase_of xp = PhaseRecovering \<Longrightarrow> logs (reconcileRecovering env xp) (\<lambda>_. protocol (knows env xp) xp)"
  unfolding reconcileRecovering_def recoveringProbes_def exp_calls Let_def
  by (auto intro!: protocol_auto simp: terminal_def split: sum.split option.split)

lemma protocol_handleDeletion:
  "m_deletionTimestamp (e_meta xp) \<noteq> None \<Longrightarrow>
     logs (handleDeletion env xp) (\<lambda>_. protocol (knows env xp) xp)"
  unfolding handleDeletion_def deletionRollback_def exp_calls
  by (auto intro!: logs_intros protocol.idle protocol.drop_finalizer protocol.drop_rolled_back
      simp: RemoveFinalizer_def is_executed_def split: sum.split option.split)

lemma protocol_reconcilePhase: "logs (reconcilePhase env xp) (\<lambda>_. protocol (knows env xp) xp)"
  unfolding reconcilePhase_def
  by (auto intro!: logs_return protocol.idle protocol_pending protocol_checking protocol_running
      protocol_completing protocol_recovering split: ExperimentPhase.split)

lemma protocol_reconcileObject: "logs (reconcileObject env xp) (\<lambda>_. protocol (knows env xp) xp)"
  unfolding reconcileObject_def exp_calls
  by (auto intro!: logs_intros protocol_handleDeletion protocol_reconcilePhase protocol.add_finalizer
      simp: AddFinalizer_def is_executed_def)

end
