(* ===== verification/Experiment_Runs.thy ===== *)
theory Experiment_Runs
  imports Experiment_Controller
begin

text \<open>
  Runs of the experiment reconciler against an API server. The server is code outside the
  repository: what the controller relies on is the predicate \<open>api_laws\<close>, over a function \<open>obj\<close> that
  reads the stored object out of the world: a Get returns the stored object, a status update
  replaces the status only, an update replaces metadata and spec (or removes the object, when it
  drops the last finalizer of a deleted object), a merge patch changes the annotations that differ
  between its two arguments, a failed write changes nothing, and executors, probes and the clock
  do not touch the object. A run interleaves reconciles with steps of other clients, which may
  change labels, spec and other annotations, request deletion and remove the object, but not write
  the status or the executed annotation.
\<close>

section \<open>Definitions\<close>

type_synonym obs = "ExperimentPhase \<times> bool"

definition observe :: "ChaosExperiment \<Rightarrow> obs" where
  "observe xp = (phase_of xp, is_executed xp)"

definition key_of :: "ChaosExperiment \<Rightarrow> key" where
  "key_of xp = (m_namespace (e_meta xp), m_name (e_meta xp))"

text \<open>What a logged call does to the observed part of the stored object.\<close>

fun track :: "Call \<Rightarrow> obs \<Rightarrow> obs" where
  "track (CStatusUpdate xp None) s = (phase_of xp, snd s)"
| "track (CPatch xp None) s = (fst s, is_executed xp)"
| "track (CUpdate xp None) s = (fst s, is_executed xp)"
| "track _ s = s"

definition keeps :: "('x \<Rightarrow> 'o) \<Rightarrow> ('x \<Rightarrow> 'a \<times> 'x) \<Rightarrow> bool" where
  "keeps obj f \<longleftrightarrow> (\<forall>x. obj (snd (f x)) = obj x)"

definition merged_annotations :: "ChaosExperiment \<Rightarrow> ChaosExperiment \<Rightarrow> ChaosExperiment \<Rightarrow> ChaosExperiment \<Rightarrow> bool" where
  "merged_annotations old new o1 o2 \<longleftrightarrow>
     e_status o2 = e_status o1 \<and>
     (\<forall>q. gm_str (m_annotations (e_meta o2)) q =
        (if gm_str (m_annotations (e_meta new)) q \<noteq> gm_str (m_annotations (e_meta old)) q
         then gm_str (m_annotations (e_meta new)) q else gm_str (m_annotations (e_meta o1)) q))"

definition api_laws :: "'x ExpEnv \<Rightarrow> ('x \<Rightarrow> ChaosExperiment option) \<Rightarrow> key \<Rightarrow> bool" where
  "api_laws env obj k \<longleftrightarrow>
     keeps obj (env_Get env k) \<and>
     (\<forall>x xp x'. env_Get env k x = (Inr xp, x') \<longrightarrow> obj x = Some xp \<and> key_of xp = k) \<and>
     (\<forall>xp x e x'. key_of xp = k \<longrightarrow>
        (env_StatusUpdate env xp x = (None, x') \<longrightarrow> obj x' = map_option (\<lambda>b. b\<lparr>e_status := e_status xp\<rparr>) (obj x)) \<and>
        (env_StatusUpdate env xp x = (Some e, x') \<longrightarrow> obj x' = obj x) \<and>
        (env_Update env xp x = (None, x') \<longrightarrow>
           obj x' = None \<or> obj x' = map_option (\<lambda>b. b\<lparr>e_meta := e_meta xp, e_spec := e_spec xp\<rparr>) (obj x)) \<and>
        (env_Update env xp x = (Some e, x') \<longrightarrow> obj x' = obj x)) \<and>
     (\<forall>old xp x e x'. key_of xp = k \<longrightarrow>
        (env_Patch env old xp x = (None, x') \<longrightarrow>
           (case obj x of None \<Rightarrow> obj x' = None
            | Some b \<Rightarrow> (\<exists>b'. obj x' = Some b' \<and> merged_annotations old xp b b'))) \<and>
        (env_Patch env old xp x = (Some e, x') \<longrightarrow> obj x' = obj x)) \<and>
     keeps obj (env_Now env) \<and>
     (\<forall>t ex xp. registry_Get (env_Registry env) t = Inr ex \<longrightarrow>
        keeps obj (ex_Execute ex xp) \<and> keeps obj (ex_Rollback ex xp)) \<and>
     (\<forall>m u. keeps obj (pe_http_do (env_Probe env) m u)) \<and>
     (\<forall>opts. keeps obj (pe_list_pods (env_Probe env) opts))"

text \<open>Reachable worlds.\<close>

inductive exp_run :: "'x ExpEnv \<Rightarrow> ('x \<Rightarrow> ChaosExperiment option) \<Rightarrow> key \<Rightarrow> 'x World \<Rightarrow> bool"
  for env obj k where
  created: "obj (w_ext w) = Some xp \<Longrightarrow> phase_of xp = PhaseEmpty \<Longrightarrow> \<not> is_executed xp \<Longrightarrow>
    w_log w = [] \<Longrightarrow> exp_run env obj k w"
| reconciled: "exp_run env obj k w \<Longrightarrow> exp_run env obj k (snd (run_state (Reconcile env k) w))"
| other_client: "exp_run env obj k w \<Longrightarrow> w_log w' = w_log w \<Longrightarrow>
    obj (w_ext w') = None \<or> map_option observe (obj (w_ext w')) = map_option observe (obj (w_ext w)) \<Longrightarrow>
    exp_run env obj k w'"

text \<open>The calls of a log, events left out, and what they say of the fault.\<close>

definition calls :: "'x World \<Rightarrow> Call list" where
  "calls w = filter visible (w_log w)"

fun is_execute :: "Call \<Rightarrow> bool" where
  "is_execute (CExecute _) = True"
| "is_execute _ = False"

fun is_failed_write :: "Call \<Rightarrow> bool" where
  "is_failed_write (CStatusUpdate _ (Some _)) = True"
| "is_failed_write (CPatch _ (Some _)) = True"
| "is_failed_write _ = False"

text \<open>A fault is live from an Execute until the next Rollback that succeeds.\<close>

fun fault_step :: "Call \<Rightarrow> bool \<Rightarrow> bool" where
  "fault_step (CExecute _) live = True"
| "fault_step (CRollback None) live = False"
| "fault_step _ live = live"

definition fault_live :: "Call list \<Rightarrow> bool" where
  "fault_live l = fold fault_step l False"

definition executes :: "Call list \<Rightarrow> nat" where
  "executes l = length (filter is_execute l)"

definition failed_writes :: "Call list \<Rightarrow> nat" where
  "failed_writes l = length (filter is_failed_write l)"

definition rolled_back_phase :: "ExperimentPhase \<Rightarrow> bool" where
  "rolled_back_phase ph \<longleftrightarrow> ph = PhaseRecovering \<or> ph = PhaseCompleted \<or> ph = PhaseAborted"

definition exp_inv :: "('x \<Rightarrow> ChaosExperiment option) \<Rightarrow> 'x World \<Rightarrow> bool" where
  "exp_inv obj w \<longleftrightarrow>
     executes (calls w) \<le> failed_writes (calls w) + 1 \<and>
     (\<forall>xp. obj (w_ext w) = Some xp \<longrightarrow>
        (\<not> is_executed xp \<and> phase_of xp \<noteq> PhaseFailed \<longrightarrow> executes (calls w) \<le> failed_writes (calls w)) \<and>
        (rolled_back_phase (phase_of xp) \<longrightarrow> \<not> fault_live (calls w)))"

text \<open>
  \<open>tracks obj m\<close>: the program \<open>m\<close> changes the observed part of the stored object exactly as its log
  says, or the object goes away.
\<close>

definition tracks :: "('x \<Rightarrow> ChaosExperiment option) \<Rightarrow> ('x, 'a) M \<Rightarrow> bool" where
  "tracks obj m \<longleftrightarrow> (\<forall>w. \<exists>l. w_log (snd (run_state m w)) = w_log w @ l \<and>
     (obj (w_ext (snd (run_state m w))) = None \<or>
      map_option observe (obj (w_ext (snd (run_state m w)))) =
        map_option (fold track (filter visible l) \<circ> observe) (obj (w_ext w))))"

definition follows :: "bool \<Rightarrow> ChaosExperiment \<Rightarrow> Call list \<Rightarrow> ChaosExperiment option \<Rightarrow> bool" where
  "follows known xp l after \<longleftrightarrow> protocol known xp l \<and>
     (\<forall>xp'. after = Some xp' \<longrightarrow> observe xp' = fold track l (observe xp))"

subsection \<open>An API server in memory\<close>

text \<open>
  The witnesses run the reconciler against this one: one stored object and a clock that moves by ten
  seconds per reading, with one executor that always succeeds.
\<close>

definition mem_patch :: "ChaosExperiment \<Rightarrow> ChaosExperiment \<Rightarrow> ChaosExperiment \<Rightarrow> ChaosExperiment" where
  "mem_patch old xp b = b\<lparr>e_meta := (e_meta b)\<lparr>m_annotations :=
     map (\<lambda>q. (q, if gm_str (m_annotations (e_meta xp)) q \<noteq> gm_str (m_annotations (e_meta old)) q
                  then gm_str (m_annotations (e_meta xp)) q else gm_str (m_annotations (e_meta b)) q))
       (remdups (map fst (m_annotations (e_meta xp)) @ map fst (m_annotations (e_meta old)) @
                 map fst (m_annotations (e_meta b))))\<rparr>\<rparr>"

definition mem_executor :: "'x Executor" where
  "mem_executor = \<lparr>ex_Execute = (\<lambda>xp x. (None, x)), ex_Rollback = (\<lambda>xp x. (None, x)), ex_Validate = (\<lambda>xp. None)\<rparr>"

definition mem_probe :: "'x ProbeEnv" where
  "mem_probe = \<lparr>pe_new_request = (\<lambda>m u. None), pe_with_query = (\<lambda>u q. u),
     pe_http_do = (\<lambda>m u x. (Inr \<lparr>hr_status = 200, hr_body = Inr []\<rparr>, x)),
     pe_regex = (\<lambda>r s. Inr True), pe_unmarshal = (\<lambda>s. Inl ''json''), pe_json_err = (\<lambda>j. ''json''),
     pe_scan_float = (\<lambda>s. Inl ''scan''), pe_list_pods = (\<lambda>opts x. (Inr [], x))\<rparr>"

definition mem_env :: "(ChaosExperiment option \<times> time) ExpEnv" where
  "mem_env =
     \<lparr>env_Registry = Register ''pod-kill'' mem_executor NewRegistry,
      env_Get = (\<lambda>k x. case fst x of
        Some xp \<Rightarrow> (if key_of xp = k then Inr xp else Inl (NotFound ''not found''), x)
      | None \<Rightarrow> (Inl (NotFound ''not found''), x)),
      env_Update = (\<lambda>xp x. (None, map_option (\<lambda>b. b\<lparr>e_meta := e_meta xp, e_spec := e_spec xp\<rparr>) (fst x), snd x)),
      env_StatusUpdate = (\<lambda>xp x. (None, map_option (\<lambda>b. b\<lparr>e_status := e_status xp\<rparr>) (fst x), snd x)),
      env_Patch = (\<lambda>old xp x. (None, map_option (mem_patch old xp) (fst x), snd x)),
      env_Now = (\<lambda>x. (snd x, fst x, snd x + 10 * second)),
      env_Probe = mem_probe\<rparr>"

definition mem_xp :: ChaosExperiment where
  "mem_xp =
     \<lparr>e_meta = \<lparr>m_name = ''kill-web'', m_namespace = ''prod'', m_uid = ''u1'', m_generation = 1,
        m_deletionTimestamp = None, m_finalizers = [], m_labels = [], m_annotations = [], m_ownerUIDs = []\<rparr>,
      e_spec = \<lparr>s_target = \<lparr>t_kind = ''Pod'', t_namespace = ''prod'', t_labelSelector = None, t_names = [''web'']\<rparr>,
        s_action = \<lparr>a_type = ''pod-kill'', a_parameters = None, a_duration = None\<rparr>,
        s_duration = 60 * second, s_rollback = None, s_execution = \<lparr>ex_parallelism = None\<rparr>,
        s_steadyState = None, s_abortConditions = []\<rparr>,
      e_status = \<lparr>st_phase = PhaseEmpty, st_startTime = None, st_endTime = None, st_recoveryStartTime = None,
        st_conditions = [], st_observedGeneration = 0, st_affectedResources = [], st_message = []\<rparr>\<rparr>"

fun mem_reconciles :: "nat \<Rightarrow> time \<Rightarrow> (ChaosExperiment option \<times> time) World" where
  "mem_reconciles 0 t = \<lparr>w_ext = (Some mem_xp, t), w_log = []\<rparr>"
| "mem_reconciles (Suc n) t = snd (run_state (Reconcile mem_env (''prod'', ''kill-web'')) (mem_reconciles n t))"

text \<open>The phase an abort ends in, by what the rollback answered.\<close>

fun abort_phase :: "err option \<Rightarrow> ExperimentPhase" where
  "abort_phase None = PhaseAborted"
| "abort_phase (Some e) = PhaseFailed"

definition mem_aborting :: ChaosExperiment where
  "mem_aborting = mem_xp\<lparr>e_meta := (e_meta mem_xp)\<lparr>m_finalizers := [finalizerName],
     m_annotations := [(abortAnnotation, ''true'')]\<rparr>,
     e_status := (e_status mem_xp)\<lparr>st_phase := PhaseRunning\<rparr>\<rparr>"

definition mem_running :: ChaosExperiment where
  "mem_running = mem_xp\<lparr>e_status := (e_status mem_xp)\<lparr>st_phase := PhaseRunning\<rparr>\<rparr>"

definition mem_deleted :: ChaosExperiment where
  "mem_deleted = mem_running\<lparr>e_meta := (e_meta mem_running)\<lparr>m_deletionTimestamp := Some 7,
     m_finalizers := [''other'', finalizerName]\<rparr>\<rparr>"

definition mem_broken :: "'x Executor" where
  "mem_broken = \<lparr>ex_Execute = (\<lambda>xp x. (Some ''boom'', x)), ex_Rollback = (\<lambda>xp x. (Some ''stuck'', x)),
     ex_Validate = (\<lambda>xp. None)\<rparr>"

definition mem_broken_env :: "(ChaosExperiment option \<times> time) ExpEnv" where
  "mem_broken_env = mem_env\<lparr>env_Registry := Register ''pod-kill'' mem_broken NewRegistry\<rparr>"

definition mem_executed :: ChaosExperiment where
  "mem_executed = mem_running\<lparr>e_meta := (e_meta mem_running)\<lparr>m_annotations := [(executedAnnotation, ''true'')]\<rparr>,
     e_status := (e_status mem_running)\<lparr>st_startTime := Some (10 * second)\<rparr>\<rparr>"

definition mem_still_env :: "(ChaosExperiment option \<times> time) ExpEnv" where
  "mem_still_env = mem_env\<lparr>env_Now := (\<lambda>x. (30 * second, x))\<rparr>"

section \<open>Lemmas\<close>

named_theorems tracks_intros "the rules of \<open>tracks\<close>"

lemma tracks_return [tracks_intros]: "tracks obj (State_Monad.return a)"
  by (simp add: tracks_def run_return option.map_comp)

lemma tracks_event [tracks_intros]: "tracks obj (record_event t r m)"
  by (simp add: tracks_def run_record_event)

lemma tracks_ext_call:
  assumes "\<And>x. obj (snd (f x)) = None \<or>
    map_option observe (obj (snd (f x))) =
      map_option (fold track (filter visible (lg (fst (f x)))) \<circ> observe) (obj x)"
  shows "tracks obj (ext_call f lg)"
  unfolding tracks_def
proof
  fix w
  show "\<exists>l. w_log (snd (run_state (ext_call f lg) w)) = w_log w @ l \<and>
     (obj (w_ext (snd (run_state (ext_call f lg) w))) = None \<or>
      map_option observe (obj (w_ext (snd (run_state (ext_call f lg) w)))) =
        map_option (fold track (filter visible l) \<circ> observe) (obj (w_ext w)))"
    using assms [of "w_ext w"]
    by (cases "f (w_ext w)") (auto simp: run_ext_call)
qed

lemma tracks_bind [tracks_intros]:
  assumes m: "tracks obj m" and f: "\<And>a. tracks obj (f a)"
  shows "tracks obj (State_Monad.bind m f)"
  unfolding tracks_def
proof
  fix w
  obtain a w1 where mw: "run_state m w = (a, w1)" by (cases "run_state m w")
  obtain b w2 where fw: "run_state (f a) w1 = (b, w2)" by (cases "run_state (f a) w1")
  from m mw obtain l1 where l1: "w_log w1 = w_log w @ l1" and o1: "obj (w_ext w1) = None \<or>
      map_option observe (obj (w_ext w1)) = map_option (fold track (filter visible l1) \<circ> observe) (obj (w_ext w))"
    unfolding tracks_def by (metis snd_conv)
  from f [of a] fw obtain l2 where l2: "w_log w2 = w_log w1 @ l2" and o2: "obj (w_ext w2) = None \<or>
      map_option observe (obj (w_ext w2)) = map_option (fold track (filter visible l2) \<circ> observe) (obj (w_ext w1))"
    unfolding tracks_def by (metis snd_conv)
  have "obj (w_ext w2) = None \<or> map_option observe (obj (w_ext w2)) =
      map_option (fold track (filter visible (l1 @ l2)) \<circ> observe) (obj (w_ext w))"
    using o1 o2 by (cases "obj (w_ext w2)"; cases "obj (w_ext w1)"; cases "obj (w_ext w)") auto
  with l1 l2 mw fw show "\<exists>l. w_log (snd (run_state (State_Monad.bind m f) w)) = w_log w @ l \<and>
      (obj (w_ext (snd (run_state (State_Monad.bind m f) w))) = None \<or>
       map_option observe (obj (w_ext (snd (run_state (State_Monad.bind m f) w)))) =
         map_option (fold track (filter visible l) \<circ> observe) (obj (w_ext w)))"
    by (intro exI [of _ "l1 @ l2"]) (simp add: run_bind)
qed

lemma tracks_keeps: "keeps obj f \<Longrightarrow> (\<And>a s. fold track (filter visible (lg a)) s = s) \<Longrightarrow> tracks obj (ext_call f lg)"
  by (rule tracks_ext_call) (auto simp: keeps_def option.map_comp comp_def intro!: option.map_cong)

subsection \<open>What the probes keep\<close>

lemma keeps_simp: "keeps obj f \<Longrightarrow> f x = (a, x') \<Longrightarrow> obj x' = obj x"
  unfolding keeps_def by (metis snd_conv)

lemma keeps_probe_Run:
  assumes "api_laws env obj k"
  shows "keeps obj (probe_Run (env_Probe env) p)"
proof -
  have http: "keeps obj (pe_http_do (env_Probe env) m u)" for m u
    using assms by (simp add: api_laws_def)
  have pods: "keeps obj (pe_list_pods (env_Probe env) opts)" for opts
    using assms by (simp add: api_laws_def)
  show ?thesis unfolding keeps_def
    by (cases p) (auto simp: httpProbe_Run_def prometheusProbe_Run_def k8sProbe_Run_def checkPods_def
        Let_def dest!: keeps_simp [OF http] keeps_simp [OF pods]
        split: option.splits sum.splits prod.splits if_splits)
qed

lemma keeps_RunAll: "api_laws env obj k \<Longrightarrow> keeps obj (RunAll (env_Probe env) ps)"
proof (induction ps)
  case (Cons p ps)
  note rec = keeps_probe_Run [OF Cons.prems] Cons.IH [OF Cons.prems]
  show ?case unfolding keeps_def
    by (auto split: sum.splits prod.splits dest: keeps_simp [OF rec(1)] simp: rec(2) [unfolded keeps_def, rule_format])
qed (simp add: keeps_def)

lemma keeps_checkAbortConditions:
  "api_laws env obj k \<Longrightarrow> keeps obj (checkAbortConditions (env_Probe env) acs)"
proof (induction acs)
  case (Cons ac acs)
  note rec = keeps_probe_Run [OF Cons.prems] Cons.IH [OF Cons.prems]
  show ?case unfolding keeps_def
    by (auto split: sum.splits prod.splits dest: keeps_simp [OF rec(1)] simp: rec(2) [unfolded keeps_def, rule_format])
qed (simp add: keeps_def)

subsection \<open>The calls follow their log\<close>

lemma tracks_now: "api_laws env obj k \<Longrightarrow> tracks obj (now_call env)"
  unfolding now_call_def api_laws_def by (intro tracks_keeps) auto

lemma tracks_get: "api_laws env obj k \<Longrightarrow> tracks obj (get_call env k)"
  unfolding get_call_def api_laws_def by (intro tracks_keeps) auto

lemma tracks_run_all: "api_laws env obj k \<Longrightarrow> tracks obj (run_all_call env ps)"
  unfolding run_all_call_def by (intro tracks_keeps keeps_RunAll) auto

lemma tracks_abort_check:
  "api_laws env obj k \<Longrightarrow> tracks obj (ext_call (checkAbortConditions (env_Probe env) acs) (\<lambda>_. []))"
  by (intro tracks_keeps keeps_checkAbortConditions) auto

lemma tracks_executor:
  assumes "api_laws env obj k" and "registry_Get (env_Registry env) t = Inr ex"
  shows "tracks obj (execute_call ex xp)" "tracks obj (rollback_call ex xp)"
  using assms unfolding execute_call_def rollback_call_def api_laws_def
  by (auto intro!: tracks_keeps)

lemma tracks_status_update:
  assumes "api_laws env obj k" and "key_of xp = k"
  shows "tracks obj (status_update_call env xp)"
  unfolding status_update_call_def
proof (rule tracks_ext_call)
  fix x
  obtain r x' where r: "env_StatusUpdate env xp x = (r, x')" by (cases "env_StatusUpdate env xp x")
  then show "obj (snd (env_StatusUpdate env xp x)) = None \<or>
     map_option observe (obj (snd (env_StatusUpdate env xp x))) =
     map_option (fold track (filter visible [CStatusUpdate xp (fst (env_StatusUpdate env xp x))]) \<circ> observe) (obj x)"
    using assms unfolding api_laws_def
    by (cases r) (auto simp: observe_def is_executed_def comp_def option.map_comp intro!: option.map_cong)
qed

lemma tracks_update:
  assumes "api_laws env obj k" and "key_of xp = k"
  shows "tracks obj (update_call env xp)"
  unfolding update_call_def
proof (rule tracks_ext_call)
  fix x
  obtain r x' where r: "env_Update env xp x = (r, x')" by (cases "env_Update env xp x")
  show "obj (snd (env_Update env xp x)) = None \<or>
     map_option observe (obj (snd (env_Update env xp x))) =
     map_option (fold track (filter visible [CUpdate xp (fst (env_Update env xp x))]) \<circ> observe) (obj x)"
  proof (cases r)
    case None
    with r assms have "obj x' = None \<or> obj x' = map_option (\<lambda>b. b\<lparr>e_meta := e_meta xp, e_spec := e_spec xp\<rparr>) (obj x)"
      unfolding api_laws_def by blast
    with r None show ?thesis
      by (auto simp: observe_def is_executed_def comp_def option.map_comp)
  next
    case (Some e)
    with r assms have "obj x' = obj x" unfolding api_laws_def by blast
    with r Some show ?thesis by (auto simp: comp_def intro!: option.map_cong)
  qed
qed

lemma tracks_patch:
  assumes "api_laws env obj k" and "key_of xp = k" and "\<not> is_executed old" and "is_executed xp"
  shows "tracks obj (patch_call env old xp)"
  unfolding patch_call_def
proof (rule tracks_ext_call)
  fix x
  obtain r x' where r: "env_Patch env old xp x = (r, x')" by (cases "env_Patch env old xp x")
  show "obj (snd (env_Patch env old xp x)) = None \<or>
     map_option observe (obj (snd (env_Patch env old xp x))) =
     map_option (fold track (filter visible [CPatch xp (fst (env_Patch env old xp x))]) \<circ> observe) (obj x)"
  proof (cases r)
    case None
    with r assms have law: "case obj x of None \<Rightarrow> obj x' = None
      | Some b \<Rightarrow> (\<exists>b'. obj x' = Some b' \<and> merged_annotations old xp b b')"
      unfolding api_laws_def by blast
    with r None assms(3,4) show ?thesis
      by (auto simp: observe_def is_executed_def merged_annotations_def split: option.splits)
  next
    case (Some e)
    with r assms have "obj x' = obj x" unfolding api_laws_def by blast
    with r Some show ?thesis by (auto simp: comp_def intro!: option.map_cong)
  qed
qed

subsection \<open>The handlers follow their log\<close>

lemma key_of_upd_status [simp]: "key_of (upd_status f xp) = key_of xp"
  by (simp add: key_of_def)

lemma key_of_with_meta: "e_meta xp' = e_meta xp \<Longrightarrow> key_of xp' = key_of xp"
  by (simp add: key_of_def)

lemma tracks_bind_set:
  assumes "api_laws env obj k" and "\<And>xp'. e_meta xp' = e_meta xp \<Longrightarrow> tracks obj (f xp')"
  shows "tracks obj (State_Monad.bind (setCondition env t s r m xp) f)"
  unfolding setCondition_def
  by (simp, intro tracks_bind tracks_now [OF assms(1)], simp add: assms(2))

lemma tracks_setters:
  assumes laws: "api_laws env obj k" and key: "key_of xp = k"
  shows "tracks obj (setFailed env xp reason)" "tracks obj (setCompleted env xp)"
    "tracks obj (setAborted env xp)" "tracks obj (transitionToCompleting env xp)"
    "tracks obj (startRunning env xp p st)"
  unfolding setFailed_def setCompleted_def setAborted_def transitionToCompleting_def startRunning_def Let_def
  by (intro tracks_bind tracks_now [OF laws] tracks_bind_set [OF laws] tracks_status_update [OF laws];
      auto intro!: tracks_intros simp: key [symmetric] key_of_def split: option.split)+

lemma tracks_pending:
  assumes laws: "api_laws env obj k" and key: "key_of xp = k"
  shows "tracks obj (reconcilePending env xp)"
  unfolding reconcilePending_def Let_def
  by (auto intro!: tracks_intros tracks_setters [OF laws] tracks_now [OF laws] tracks_bind_set [OF laws]
      tracks_status_update [OF laws] simp: key [symmetric] key_of_def split: option.split sum.split)

lemma tracks_checking:
  assumes laws: "api_laws env obj k" and key: "key_of xp = k"
  shows "tracks obj (reconcileSteadyStateChecking env xp)"
  unfolding reconcileSteadyStateChecking_def Let_def
  by (auto intro!: tracks_intros tracks_setters [OF laws] tracks_now [OF laws] tracks_run_all [OF laws]
      simp: key split: option.split sum.split)

lemma tracks_handleAbort:
  assumes laws: "api_laws env obj k" and key: "key_of xp = k"
  shows "tracks obj (handleAbort env xp)"
  unfolding handleAbort_def Let_def
  by (auto intro!: tracks_intros tracks_setters [OF laws key] tracks_executor [OF laws]
      split: option.split sum.split)

lemma tracks_runAction:
  assumes laws: "api_laws env obj k" and key: "key_of xp = k" and "\<not> is_executed xp"
  shows "tracks obj (runAction env xp elapsed)"
  unfolding runAction_def Let_def
  using assms(3)
  by (auto intro!: tracks_intros tracks_setters [OF laws key] tracks_executor [OF laws] tracks_patch [OF laws]
      simp: is_executed_def key [symmetric] key_of_def split: option.split sum.split)

lemma tracks_runningTimed:
  assumes laws: "api_laws env obj k" and key: "key_of xp = k"
  shows "tracks obj (runningTimed env xp)"
  unfolding runningTimed_def Let_def
  by (auto intro!: tracks_intros tracks_setters [OF laws key] tracks_now [OF laws] tracks_runAction [OF laws key]
      simp: is_executed_def split: option.split)

lemma tracks_running:
  assumes laws: "api_laws env obj k" and key: "key_of xp = k"
  shows "tracks obj (reconcileRunning env xp)"
  unfolding reconcileRunning_def Let_def
  by (auto intro!: tracks_intros tracks_setters [OF laws key] tracks_abort_check [OF laws]
      tracks_runningTimed [OF laws key] tracks_handleAbort [OF laws key]
      split: option.split sum.split AbortAction.split)

lemma tracks_completing:
  assumes laws: "api_laws env obj k" and key: "key_of xp = k"
  shows "tracks obj (reconcileCompleting env xp)"
  unfolding reconcileCompleting_def Let_def
  by (auto intro!: tracks_intros tracks_setters [OF laws key] tracks_now [OF laws] tracks_bind_set [OF laws]
      tracks_executor [OF laws] tracks_status_update [OF laws]
      simp: key [symmetric] key_of_def split: option.split sum.split)

lemma tracks_recovering:
  assumes laws: "api_laws env obj k" and key: "key_of xp = k"
  shows "tracks obj (reconcileRecovering env xp)"
  unfolding reconcileRecovering_def recoveringProbes_def Let_def
  by (auto intro!: tracks_intros tracks_setters [OF laws key] tracks_now [OF laws] tracks_run_all [OF laws]
      split: option.split sum.split)

lemma tracks_handleDeletion:
  assumes laws: "api_laws env obj k" and key: "key_of xp = k"
  shows "tracks obj (handleDeletion env xp)"
  unfolding handleDeletion_def deletionRollback_def
  by (auto intro!: tracks_intros tracks_executor [OF laws] tracks_update [OF laws]
      simp: RemoveFinalizer_def key [symmetric] key_of_def split: option.split sum.split)

lemma tracks_reconcileObject:
  assumes laws: "api_laws env obj k" and key: "key_of xp = k"
  shows "tracks obj (reconcileObject env xp)"
  unfolding reconcileObject_def reconcilePhase_def
  by (auto intro!: tracks_intros tracks_handleDeletion [OF laws key] tracks_pending [OF laws key]
      tracks_checking [OF laws key] tracks_running [OF laws key] tracks_completing [OF laws key]
      tracks_recovering [OF laws key] tracks_update [OF laws]
      simp: AddFinalizer_def key [symmetric] key_of_def split: ExperimentPhase.split)

subsection \<open>One reconcile, and whole runs\<close>

lemma api_laws_get:
  assumes "api_laws env obj k"
  shows "keeps obj (env_Get env k)"
    and "env_Get env k x = (Inr xp, x') \<Longrightarrow> obj x = Some xp"
    and "env_Get env k x = (Inr xp, x') \<Longrightarrow> key_of xp = k"
  using assms unfolding api_laws_def by (elim conjE, blast)+

lemma Reconcile_follows:
  assumes laws: "api_laws env obj k" and st: "obj (w_ext w) = Some xp"
  shows "\<exists>l. calls (snd (run_state (Reconcile env k) w)) = calls w @ l \<and>
    follows (knows env xp) xp l (obj (w_ext (snd (run_state (Reconcile env k) w))))"
proof -
  obtain g x' where g: "env_Get env k (w_ext w) = (g, x')" by (cases "env_Get env k (w_ext w)")
  have x': "obj x' = Some xp"
    using keeps_simp [OF api_laws_get(1) [OF laws] g] st by simp
  show ?thesis
  proof (cases g)
    case (Inl e)
    then show ?thesis using g x'
      by (intro exI [of _ "[]"]) (simp add: Reconcile_def get_call_def run_simps calls_def follows_def protocol.idle)
  next
    case (Inr xp0)
    with g st have xp0: "xp0 = xp" and key: "key_of xp = k"
      using api_laws_get(2,3) [OF laws, of "w_ext w" xp0 x'] by auto
    let ?w = "w\<lparr>w_ext := x'\<rparr>"
    have run: "run_state (Reconcile env k) w = run_state (reconcileObject env xp) ?w"
      using g Inr xp0 by (simp add: Reconcile_def get_call_def run_simps)
    obtain l where l: "w_log (snd (run_state (reconcileObject env xp) ?w)) = w_log w @ l"
      and pr: "protocol (knows env xp) xp (filter visible l)"
      using protocol_reconcileObject [of env xp] unfolding logs_def by (metis World.simps(2,3) World.surjective World.update_convs(1))
    have "obj (w_ext (snd (run_state (reconcileObject env xp) ?w))) = None \<or>
      map_option observe (obj (w_ext (snd (run_state (reconcileObject env xp) ?w)))) =
      map_option (fold track (filter visible l) \<circ> observe) (obj (w_ext ?w))"
      using tracks_reconcileObject [OF laws key] l unfolding tracks_def by (metis World.simps(2,3) World.surjective World.update_convs(1) same_append_eq)
    then show ?thesis using run l pr x'
      by (intro exI [of _ "filter visible l"]) (auto simp: calls_def follows_def)
  qed
qed

lemma Reconcile_absent:
  assumes laws: "api_laws env obj k" and st: "obj (w_ext w) = None"
  shows "calls (snd (run_state (Reconcile env k) w)) = calls w"
    "obj (w_ext (snd (run_state (Reconcile env k) w))) = None"
proof -
  obtain g x' where g: "env_Get env k (w_ext w) = (g, x')" by (cases "env_Get env k (w_ext w)")
  have x': "obj x' = None" using keeps_simp [OF api_laws_get(1) [OF laws] g] st by simp
  have "\<exists>e. g = Inl e" using api_laws_get(2) [OF laws, of "w_ext w" _ x'] g st by (cases g) auto
  then show "calls (snd (run_state (Reconcile env k) w)) = calls w"
    "obj (w_ext (snd (run_state (Reconcile env k) w))) = None"
    using g x' by (auto simp: Reconcile_def get_call_def run_simps calls_def)
qed

lemma executes_append [simp]: "executes (l @ l') = executes l + executes l'"
  by (simp add: executes_def)

lemma failed_writes_append [simp]: "failed_writes (l @ l') = failed_writes l + failed_writes l'"
  by (simp add: failed_writes_def)

lemma fault_live_append [simp]: "fault_live (l @ l') = fold fault_step l' (fault_live l)"
  by (simp add: fault_live_def)

lemma active_may_fail [simp]:
  "\<exists>b. phase_step PhaseRunning b PhaseFailed" "\<exists>b. phase_step PhaseCompleting b PhaseFailed"
  by (auto intro!: exI [of _ False] phase_step.to_failed simp: terminal_def)

lemma track_optional [simp]:
  "track (CRollback rb) s = s" "track (CExecute r) s = s"
  "fst (track (CPatch xp r) s) = fst s" "fst (track (CUpdate xp r) s) = fst s"
  "fst (track (CStatusUpdate xp r) s) = (if r = None then phase_of xp else fst s)"
  "snd (track (CPatch xp r) s) = (if r = None then is_executed xp else snd s)"
  "snd (track (CUpdate xp r) s) = (if r = None then is_executed xp else snd s)"
  "snd (track (CStatusUpdate xp r) s) = snd s"
  by (cases r; simp)+

lemma observe_eq: "observe xp = s \<longleftrightarrow> phase_of xp = fst s \<and> is_executed xp = snd s"
  by (cases s) (simp add: observe_def)

lemma observe_sel [simp]: "fst (observe xp) = phase_of xp" "snd (observe xp) = is_executed xp"
  by (simp_all add: observe_def)

lemma fault_step_rollback [simp]: "fault_step (CRollback r) live \<longleftrightarrow> live \<and> r \<noteq> None"
  by (cases r) auto

lemma track_phase:
  assumes "protocol known xp l" and "observe xp' = fold track l (observe xp)"
  shows "phase_of xp' = phase_of xp \<or> (\<exists>b. phase_step (phase_of xp) b (phase_of xp'))"
  using assms by (cases rule: protocol.cases) (auto simp: observe_eq split: if_splits)

lemma exp_inv_follows:
  assumes inv: "exp_inv obj w" and st: "obj (w_ext w) = Some xp"
    and calls: "calls w' = calls w @ l" and f: "follows known xp l (obj (w_ext w'))"
  shows "exp_inv obj w'"
proof -
  have pr: "protocol known xp l"
    and ob: "\<And>xp'. obj (w_ext w') = Some xp' \<Longrightarrow>
      phase_of xp' = fst (fold track l (observe xp)) \<and> is_executed xp' = snd (fold track l (observe xp))"
    using f by (simp_all add: follows_def observe_eq)
  have bound: "executes (calls w) \<le> failed_writes (calls w) + 1"
    and fresh: "\<not> is_executed xp \<and> phase_of xp \<noteq> PhaseFailed \<Longrightarrow> executes (calls w) \<le> failed_writes (calls w)"
    and safe: "rolled_back_phase (phase_of xp) \<Longrightarrow> \<not> fault_live (calls w)"
    using inv st by (auto simp: exp_inv_def)
  have "executes (calls w') \<le> failed_writes (calls w') + 1"
    using pr bound fresh
    by (cases rule: protocol.cases) (auto simp: calls executes_def failed_writes_def split: option.split)
  moreover have "executes (calls w') \<le> failed_writes (calls w')"
    if "obj (w_ext w') = Some xp'" "\<not> is_executed xp'" "phase_of xp' \<noteq> PhaseFailed" for xp'
    using pr bound fresh ob [OF that(1)] that(2,3)
    by (cases rule: protocol.cases)
      (auto simp: calls executes_def failed_writes_def split: option.split if_splits elim: phase_stepE)
  moreover have "\<not> fault_live (calls w')"
    if "obj (w_ext w') = Some xp'" "rolled_back_phase (phase_of xp')" for xp'
    using pr safe ob [OF that(1)] that(2)
    by (cases rule: protocol.cases)
      (auto simp: calls rolled_back_phase_def split: if_splits elim: phase_stepE)
  ultimately show ?thesis by (auto simp: exp_inv_def)
qed

lemma exp_run_inv:
  assumes laws: "api_laws env obj k" and run: "exp_run env obj k w"
  shows "exp_inv obj w"
  using run
proof (induction rule: exp_run.induct)
  case (created w xp)
  then show ?case
    by (simp add: exp_inv_def calls_def executes_def failed_writes_def fault_live_def)
next
  case (reconciled w)
  show ?case
  proof (cases "obj (w_ext w)")
    case None
    with Reconcile_absent [OF laws None] reconciled.IH show ?thesis by (simp add: exp_inv_def)
  next
    case (Some xp)
    with Reconcile_follows [OF laws Some] reconciled.IH show ?thesis
      by (auto intro: exp_inv_follows)
  qed
next
  case (other_client w w')
  then show ?case
    by (cases "obj (w_ext w')"; cases "obj (w_ext w)") (auto simp: exp_inv_def calls_def observe_def)
qed

subsection \<open>The in-memory API server satisfies the laws\<close>

lemma gm_str_keys: "gm_str m q = [] \<or> q \<in> fst ` set m"
proof (cases "map_of m q")
  case (Some v)
  then show ?thesis by (force dest: map_of_SomeD)
qed (simp add: gm_str_def)

lemma map_of_keyed: "map_of (map (\<lambda>q. (q, f q)) ks) q = (if q \<in> set ks then Some (f q) else None)"
  by (induction ks) auto

lemma merged_mem_patch: "merged_annotations old xp b (mem_patch old xp b)"
proof -
  have "gm_str (m_annotations (e_meta (mem_patch old xp b))) q =
     (if gm_str (m_annotations (e_meta xp)) q \<noteq> gm_str (m_annotations (e_meta old)) q
      then gm_str (m_annotations (e_meta xp)) q else gm_str (m_annotations (e_meta b)) q)" for q
    using gm_str_keys [of "m_annotations (e_meta xp)" q] gm_str_keys [of "m_annotations (e_meta old)" q]
      gm_str_keys [of "m_annotations (e_meta b)" q]
    by (auto simp: mem_patch_def gm_str_def map_of_keyed)
  then show ?thesis by (simp add: merged_annotations_def mem_patch_def)
qed

lemma api_laws_mem: "api_laws mem_env fst k"
  unfolding api_laws_def keeps_def
  by (auto simp: mem_env_def mem_probe_def mem_executor_def registry_Get_def Register_def NewRegistry_def merged_mem_patch
      split: option.splits if_splits)

section \<open>Properties\<close>

lemma logs_calls: "logs m R \<Longrightarrow> \<exists>l. calls (snd (run_state m w)) = calls w @ l \<and> R (fst (run_state m w)) l"
  unfolding logs_def calls_def by (metis filter_append)

lemmas mem_eval = mem_env_def mem_executor_def Register_def NewRegistry_def registry_Get_def mem_xp_def
  key_of_def Reconcile_def reconcileObject_def exp_calls run_simps ContainsFinalizer_def AddFinalizer_def
  reconcilePhase_def reconcilePending_def startRunning_def setCondition_def upd_status_def exp_ref_def
  action_type_def reconcileRunning_def runningTimed_def runAction_def runningRequeue_def Let_def
  abortAnnotation_def executedAnnotation_def gm_str_def gm_put_def wrap64_def time_since_def sat64_def
  second_def mem_patch_def transitionToCompleting_def reconcileCompleting_def setCompleted_def finalizerName_def

lemma mem_run: "exp_run mem_env fst (''prod'', ''kill-web'') (mem_reconciles n 0)"
proof (induction n)
  case 0
  show ?case by (rule exp_run.created [of _ _ mem_xp]) (simp_all add: mem_xp_def is_executed_def gm_str_def)
next
  case (Suc n)
  then show ?case by (simp add: exp_run.reconciled)
qed

lemma snd_written [simp]: "snd (written finished r) = r" "snd (written requeue r) = r"
  by (auto simp: written_def finished_def failing_def requeue_def split: option.split)





text \<open>
  C4. The reconciler refines the protocol of the specification: whatever the API server, the
  executors, the probes and the clock answer, the calls a reconcile makes on the object \<open>xp\<close> (events
  left out) are one of the sequences \<open>protocol\<close> allows for it. In particular the action runs only in
  phase Running, without the abort and the executed annotation, and every status write moves along
  the life cycle.
\<close>

theorem reconcile_protocol:
  "\<exists>l. calls (snd (run_state (reconcileObject env xp) w)) = calls w @ l \<and> protocol (knows env xp) xp l"
  using logs_calls [OF protocol_reconcileObject, of env xp w] .

text \<open>
  C5. A reconcile leaves the stored experiment in its phase or moves it along one edge of the life
  cycle, and never out of Completed, Failed or Aborted.
\<close>

theorem reconcile_lifecycle:
  assumes "api_laws env obj k" and "obj (w_ext w) = Some xp"
    and "obj (w_ext (snd (run_state (Reconcile env k) w))) = Some xp'"
  shows "(phase_of xp' = phase_of xp \<or> (\<exists>b. phase_step (phase_of xp) b (phase_of xp'))) \<and>
         (terminal (phase_of xp) \<longrightarrow> phase_of xp' = phase_of xp)"
proof -
  obtain l where "follows (knows env xp) xp l (Some xp')"
    using Reconcile_follows [OF assms(1,2)] assms(3) by auto
  then have "phase_of xp' = phase_of xp \<or> (\<exists>b. phase_step (phase_of xp) b (phase_of xp'))"
    unfolding follows_def using track_phase [of "knows env xp" xp l xp'] by simp
  then show ?thesis by (auto simp: terminal_def elim: phase_stepE)
qed

theorem reconcile_lifecycle_witness:
  "api_laws mem_env fst (''prod'', ''kill-web'') \<and>
   (\<exists>xp xp'. fst (w_ext (mem_reconciles 1 0)) = Some xp \<and> fst (w_ext (mem_reconciles 2 0)) = Some xp' \<and>
      phase_of xp = PhaseEmpty \<and> phase_of xp' = PhaseRunning \<and> (\<exists>b. phase_step (phase_of xp) b (phase_of xp')))"
proof -
  have "map_option phase_of (fst (w_ext (mem_reconciles 1 0))) = Some PhaseEmpty"
    "map_option phase_of (fst (w_ext (mem_reconciles 2 0))) = Some PhaseRunning"
    by (simp_all add: mem_eval eval_nat_numeral)
  then obtain xp xp' where x: "fst (w_ext (mem_reconciles 1 0)) = Some xp" "phase_of xp = PhaseEmpty"
    "fst (w_ext (mem_reconciles 2 0)) = Some xp'" "phase_of xp' = PhaseRunning" by auto
  have "mem_reconciles 2 0 = snd (run_state (Reconcile mem_env (''prod'', ''kill-web'')) (mem_reconciles 1 0))"
    by (simp add: eval_nat_numeral)
  with reconcile_lifecycle [of mem_env fst "(''prod'', ''kill-web'')", OF api_laws_mem x(1), of xp'] x api_laws_mem show ?thesis by auto
qed

lemma aborting_calls:
  assumes "phase_of xp = PhaseRunning" and "is_aborting xp"
    and "m_deletionTimestamp (e_meta xp) = None" and "ContainsFinalizer xp finalizerName"
    and "registry_Get (env_Registry env) (action_type xp) = Inr ex"
  shows "\<exists>xp' r. calls (snd (run_state (reconcileObject env xp) w)) =
      calls w @ [CRollback r, CStatusUpdate xp' (snd (fst (run_state (reconcileObject env xp) w)))] \<and>
    phase_of xp' = abort_phase r \<and>
    e_meta xp' = e_meta xp \<and> e_spec xp' = e_spec xp"
proof -
  have "logs (reconcileObject env xp) (\<lambda>out l. \<exists>xp' r. l = [CRollback r, CStatusUpdate xp' (snd out)] \<and>
    phase_of xp' = abort_phase r \<and>
    e_meta xp' = e_meta xp \<and> e_spec xp' = e_spec xp)"
    using assms
    unfolding reconcileObject_def reconcilePhase_def reconcileRunning_def handleAbort_def exp_calls Let_def
    by (auto intro!: logs_intros simp: is_aborting_def split: option.split)
  from logs_calls [OF this, of w] show ?thesis by auto
qed

text \<open>
  C7. An experiment that is running and carries the abort annotation is never executed again: the
  reconcile rolls the action back exactly once and then writes Aborted, or Failed when the rollback
  reports an error, changes nothing but the status, and returns the error of that write, if any.
\<close>

theorem abort_annotation_rolls_back:
  assumes "phase_of xp = PhaseRunning" and "is_aborting xp"
    and "m_deletionTimestamp (e_meta xp) = None" and "ContainsFinalizer xp finalizerName"
    and "registry_Get (env_Registry env) (action_type xp) = Inr ex"
  shows "\<exists>xp' r. calls (snd (run_state (reconcileObject env xp) w)) =
      calls w @ [CRollback r, CStatusUpdate xp' (snd (fst (run_state (reconcileObject env xp) w)))] \<and>
    phase_of xp' = abort_phase r \<and>
    e_meta xp' = e_meta xp \<and> e_spec xp' = e_spec xp"
  using assms by (rule aborting_calls)

theorem abort_annotation_rolls_back_witness:
  "\<exists>xp' r. calls (snd (run_state (reconcileObject mem_env mem_aborting) \<lparr>w_ext = (Some mem_aborting, 0), w_log = []\<rparr>)) =
      [CRollback r, CStatusUpdate xp' (snd (fst (run_state (reconcileObject mem_env mem_aborting)
        \<lparr>w_ext = (Some mem_aborting, 0), w_log = []\<rparr>)))] \<and>
    phase_of xp' = abort_phase r"
  using abort_annotation_rolls_back [of mem_aborting mem_env mem_executor "\<lparr>w_ext = (Some mem_aborting, 0), w_log = []\<rparr>"]
  by (auto simp: mem_aborting_def mem_xp_def is_aborting_def gm_str_def ContainsFinalizer_def calls_def
      registry_Get_def mem_env_def Register_def NewRegistry_def action_type_def)

text \<open>
  C8. When the action fails to execute, the same reconcile rolls it back exactly once, whatever the
  rollback answers, and writes Failed; it does not mark the experiment executed.
\<close>

theorem execute_failure_rolls_back:
  assumes "phase_of xp = PhaseRunning" and "\<not> is_executed xp"
    and "registry_Get (env_Registry env) (action_type xp) = Inr ex"
    and "\<And>x. fst (ex_Execute ex xp x) = Some err"
  shows "\<exists>xp' rb. calls (snd (run_state (runAction env xp elapsed) w)) =
      calls w @ [CExecute (Some err), CRollback rb,
        CStatusUpdate xp' (snd (fst (run_state (runAction env xp elapsed) w)))] \<and>
    phase_of xp' = PhaseFailed \<and> e_meta xp' = e_meta xp \<and> \<not> is_executed xp'"
proof -
  have "logs (execute_call ex xp) (\<lambda>r l. r = Some err \<and> l = [CExecute (Some err)])"
    using assms(4) by (auto simp: logs_def execute_call_def run_simps split: prod.split) (metis fst_conv)+
  then have ex: "logs (State_Monad.bind (execute_call ex xp) f) R"
    if "logs (f (Some err)) (\<lambda>b l. R b (CExecute (Some err) # l))" for f :: "err option \<Rightarrow> ('a, outcome) M" and R
    using that by (auto intro!: logs_bind elim: logs_mono)
  have "logs (runAction env xp elapsed) (\<lambda>out l. \<exists>xp' rb. l = [CExecute (Some err), CRollback rb, CStatusUpdate xp' (snd out)] \<and>
    phase_of xp' = PhaseFailed \<and> e_meta xp' = e_meta xp)"
    unfolding runAction_def Let_def assms(3) sum.case rollback_call_def
    by (rule logs_bind, rule logs_event, rule ex) (auto intro!: logs_intros split: option.split)
  from logs_calls [OF this, of w] assms(2) show ?thesis by (auto simp: is_executed_def)
qed

theorem execute_failure_rolls_back_witness:
  "\<exists>xp' rb. calls (snd (run_state (runAction mem_broken_env mem_running 0) \<lparr>w_ext = (None, 0), w_log = []\<rparr>)) =
      [CExecute (Some ''boom''), CRollback rb, CStatusUpdate xp'
        (snd (fst (run_state (runAction mem_broken_env mem_running 0) \<lparr>w_ext = (None, 0), w_log = []\<rparr>)))] \<and>
    phase_of xp' = PhaseFailed"
  using execute_failure_rolls_back [of mem_running mem_broken_env mem_broken "''boom''" 0 "\<lparr>w_ext = (None, 0), w_log = []\<rparr>"]
  by (auto simp: mem_running_def mem_xp_def is_executed_def gm_str_def calls_def mem_broken_def
      registry_Get_def mem_broken_env_def Register_def NewRegistry_def action_type_def)

text \<open>
  C9. Deleting an experiment that is running, completing or recovering rolls its action back exactly
  once before the finalizer is dropped, and drops it even when that rollback fails; the update
  removes this finalizer, keeps the others and leaves spec and status alone.
\<close>

theorem deletion_rolls_back_first:
  assumes "m_deletionTimestamp (e_meta xp) \<noteq> None" and "ContainsFinalizer xp finalizerName"
    and "active_phase (phase_of xp)" and "registry_Get (env_Registry env) (action_type xp) = Inr ex"
  shows "\<exists>rb xp'. calls (snd (run_state (reconcileObject env xp) w)) =
      calls w @ [CRollback rb, CUpdate xp' (snd (fst (run_state (reconcileObject env xp) w)))] \<and>
    m_finalizers (e_meta xp') = filter (\<lambda>f. f \<noteq> finalizerName) (m_finalizers (e_meta xp)) \<and>
    e_spec xp' = e_spec xp \<and> e_status xp' = e_status xp"
proof -
  have "logs (reconcileObject env xp) (\<lambda>out l. \<exists>rb xp'. l = [CRollback rb, CUpdate xp' (snd out)] \<and>
    m_finalizers (e_meta xp') = filter (\<lambda>f. f \<noteq> finalizerName) (m_finalizers (e_meta xp)) \<and>
    e_spec xp' = e_spec xp \<and> e_status xp' = e_status xp)"
    using assms unfolding reconcileObject_def handleDeletion_def deletionRollback_def exp_calls
    by (auto intro!: logs_intros simp: RemoveFinalizer_def finished_def failing_def split: option.split)
  from logs_calls [OF this, of w] show ?thesis by auto
qed

theorem deletion_rolls_back_first_witness:
  "\<exists>rb xp'. calls (snd (run_state (reconcileObject mem_broken_env mem_deleted) \<lparr>w_ext = (None, 0), w_log = []\<rparr>)) =
      [CRollback rb, CUpdate xp' (snd (fst (run_state (reconcileObject mem_broken_env mem_deleted)
         \<lparr>w_ext = (None, 0), w_log = []\<rparr>)))] \<and>
    m_finalizers (e_meta xp') = [''other'']"
  using deletion_rolls_back_first [of mem_deleted mem_broken_env mem_broken "\<lparr>w_ext = (None, 0), w_log = []\<rparr>"]
  by (auto simp: mem_deleted_def mem_running_def mem_xp_def ContainsFinalizer_def active_phase_def calls_def
      finalizerName_def mem_broken_def registry_Get_def mem_broken_env_def Register_def NewRegistry_def action_type_def)

lemma runningTimed_waits:
  assumes "is_executed xp" and "st_startTime (e_status xp) = Some start"
    and "\<And>x. fst (env_Now env x) = now"
    and "start \<le> now" and "now - start < s_duration (e_spec xp)" and "s_duration (e_spec xp) < 2 ^ 62"
  shows "\<exists>d. fst (run_state (runningTimed env xp) w) = requeue_after d \<and>
      0 < d \<and> (now - start) + d \<le> s_duration (e_spec xp) \<and>
      (s_abortConditions (e_spec xp) \<noteq> [] \<longrightarrow> d \<le> 5 * second) \<and>
      calls (snd (run_state (runningTimed env xp) w)) = calls w"
proof -
  define el where "el = now - start"
  have el: "0 \<le> el" "el < s_duration (e_spec xp)" "s_duration (e_spec xp) < 2 ^ 62"
    using assms(4,5,6) by (simp_all add: el_def)
  have since: "time_since now start = el"
    using el by (simp add: time_since_def sat64_def el_def)
  have w1: "wrap64 (s_duration (e_spec xp) * 2) = s_duration (e_spec xp) * 2"
    and w2: "wrap64 (s_duration (e_spec xp) - el) = s_duration (e_spec xp) - el"
    using el by (simp_all add: wrap64_id int64_def)
  obtain x' where now: "env_Now env (w_ext w) = (now, x')"
    using assms(3) by (metis fst_conv surj_pair)
  have "run_state (runningTimed env xp) w = (runningRequeue xp el, w\<lparr>w_ext := x'\<rparr>)"
    using assms(1,2) el by (simp add: runningTimed_def now_call_def run_simps now since w1 Let_def is_executed_def)
  then show ?thesis using el
    unfolding el_def [symmetric]
    by (auto simp: runningRequeue_def w2 Let_def calls_def requeue_after_def second_def)
qed

text \<open>
  C16. A running, already executed experiment whose duration has not elapsed is looked at again after
  a positive time that does not go past its end, and within five seconds when it has abort
  conditions; nothing is called. The duration must be below \<open>2^62\<close> nanoseconds.
\<close>

theorem running_requeue_bounds:
  assumes "is_executed xp" and "st_startTime (e_status xp) = Some start"
    and "\<And>x. fst (env_Now env x) = now"
    and "start \<le> now" and "now - start < s_duration (e_spec xp)" and "s_duration (e_spec xp) < 2 ^ 62"
  shows "\<exists>d. fst (run_state (runningTimed env xp) w) = requeue_after d \<and>
      0 < d \<and> (now - start) + d \<le> s_duration (e_spec xp) \<and>
      (s_abortConditions (e_spec xp) \<noteq> [] \<longrightarrow> d \<le> 5 * second) \<and>
      calls (snd (run_state (runningTimed env xp) w)) = calls w"
  using assms by (rule runningTimed_waits)

theorem running_requeue_bounds_witness:
  "\<exists>d. fst (run_state (runningTimed mem_still_env mem_executed) \<lparr>w_ext = (None, 0), w_log = []\<rparr>) = requeue_after d \<and>
     0 < d \<and> 20 * second + d \<le> 60 * second"
  using running_requeue_bounds [of mem_executed "10 * second" mem_still_env "30 * second" "\<lparr>w_ext = (None, 0), w_log = []\<rparr>"]
  by (auto simp: mem_executed_def mem_running_def mem_xp_def is_executed_def gm_str_def mem_still_env_def second_def)

text \<open>
  A condition set by \<open>setCondition\<close> is the one later found under its type, the conditions of the
  other types are kept, no type ever appears twice, and metadata and spec are untouched.
\<close>

lemma setCondition_spec:
  assumes "distinct (map c_type (st_conditions (e_status xp)))"
    and "run_state (setCondition env t s r m xp) w = (xp', w')"
  shows "\<exists>now. find_condition t (st_conditions (e_status xp')) = Some \<lparr>c_type = t, c_status = s, c_reason = r,
        c_message = m, c_lastTransitionTime = now, c_observedGeneration = m_generation (e_meta xp)\<rparr> \<and>
      (\<forall>t'. t' \<noteq> t \<longrightarrow> find_condition t' (st_conditions (e_status xp')) = find_condition t' (st_conditions (e_status xp))) \<and>
      distinct (map c_type (st_conditions (e_status xp'))) \<and>
      e_meta xp' = e_meta xp \<and> e_spec xp' = e_spec xp \<and> phase_of xp' = phase_of xp"
  using assms
  by (auto simp: setCondition_def now_call_def run_simps find_set_condition set_condition_types split: prod.splits)

end
