(* ===== verification/Workflow_Dag.thy ===== *)
theory Workflow_Dag
  imports Experiment_Runs
begin

text \<open>
  The DAG engine of \<open>internal/controller/workflow_controller.go\<close>: \<open>buildDAG\<close>, \<open>TopologicalSort\<close>,
  \<open>ReadyTemplates\<close> and \<open>FormatProgress\<close>. Go ranges over a map in an unspecified order, so the two
  functions that do take the order as an argument \<open>ord\<close>, which permutes the list of keys; the
  theorems hold for every \<open>ord\<close> with \<open>mset (ord ks) = mset ks\<close>. A nil dereference, which would be a
  panic of the Go program, is the error value \<open>nil_deref\<close>; the theorems show it is never reached.

  The specification is the relation \<open>dep_rel\<close> of the dependencies. \<open>TopologicalSort\<close> succeeds
  exactly when the names are distinct, every dependency names a template and the relation is acyclic,
  and then lists every template once, after everything it depends on.
\<close>

section \<open>Definitions\<close>

record dagNode =
  dn_template :: WorkflowTemplate
  dn_inDegree :: int
  dn_dependents :: "string list"

type_synonym dag = "(string, dagNode) gomap"

definition nil_deref :: err where
  "nil_deref = ''runtime error: invalid memory address or nil pointer dereference''"

fun dag_nodes :: "dag \<Rightarrow> WorkflowTemplate list \<Rightarrow> dag" where
  "dag_nodes nodes [] = nodes"
| "dag_nodes nodes (t # ts) =
     dag_nodes (gm_put (wt_name t) \<lparr>dn_template = t, dn_inDegree = 0, dn_dependents = []\<rparr> nodes) ts"

fun link_deps :: "string \<Rightarrow> string list \<Rightarrow> dag \<Rightarrow> err + dag" where
  "link_deps name [] nodes = Inr nodes"
| "link_deps name (dep # deps) nodes =
     (case map_of nodes dep of
        None \<Rightarrow> Inl (''template '' @ quoted name @ '' depends on unknown template '' @ quoted dep)
      | Some parent \<Rightarrow>
          (let nodes' = gm_put dep (parent\<lparr>dn_dependents := dn_dependents parent @ [name]\<rparr>) nodes in
           case map_of nodes' name of
             None \<Rightarrow> Inl nil_deref
           | Some nd \<Rightarrow> link_deps name deps (gm_put name (nd\<lparr>dn_inDegree := dn_inDegree nd + 1\<rparr>) nodes')))"

fun link_all :: "WorkflowTemplate list \<Rightarrow> dag \<Rightarrow> err + dag" where
  "link_all [] nodes = Inr nodes"
| "link_all (t # ts) nodes =
     (case link_deps (wt_name t) (wt_dependencies t) nodes of
        Inl e \<Rightarrow> Inl e
      | Inr nodes' \<Rightarrow> link_all ts nodes')"

definition buildDAG :: "WorkflowTemplate list \<Rightarrow> err + dag" where
  "buildDAG templates = link_all templates (dag_nodes [] templates)"

text \<open>The inner loop of \<open>TopologicalSort\<close>, over the dependents of the node just taken.\<close>

fun relax :: "string list \<Rightarrow> dag \<Rightarrow> string list \<Rightarrow> err + dag \<times> string list" where
  "relax [] nodes queue = Inr (nodes, queue)"
| "relax (dep # deps) nodes queue =
     (case map_of nodes dep of
        None \<Rightarrow> Inl nil_deref
      | Some nd \<Rightarrow>
          (let nd' = nd\<lparr>dn_inDegree := dn_inDegree nd - 1\<rparr> in
           relax deps (gm_put dep nd' nodes) (if dn_inDegree nd' = 0 then queue @ [dep] else queue)))"

definition positives :: "dag \<Rightarrow> nat" where
  "positives nodes = card {n. \<exists>nd. map_of nodes n = Some nd \<and> dn_inDegree nd > 0}"

lemma positives_put:
  assumes "map_of nodes d = Some nd"
  shows "positives (gm_put d nd' nodes) + (if dn_inDegree nd > 0 then 1 else 0) =
         positives nodes + (if dn_inDegree nd' > 0 then 1 else 0)"
proof -
  let ?R = "{n. n \<noteq> d \<and> (\<exists>nd. map_of nodes n = Some nd \<and> dn_inDegree nd > 0)}"
  have fin: "finite ?R"
    by (rule finite_subset [of _ "dom (map_of nodes)"]) (auto simp: finite_dom_map_of)
  have "{n. \<exists>nd. map_of nodes n = Some nd \<and> dn_inDegree nd > 0} = (if dn_inDegree nd > 0 then insert d ?R else ?R)"
    using assms by auto
  moreover have "{n. \<exists>x. map_of (gm_put d nd' nodes) n = Some x \<and> dn_inDegree x > 0} =
      (if dn_inDegree nd' > 0 then insert d ?R else ?R)" by auto
  ultimately show ?thesis using fin by (simp add: positives_def)
qed

lemma relax_measure:
  "relax ds nodes q = Inr (nodes', q') \<Longrightarrow> length q' + positives nodes' \<le> length q + positives nodes"
proof (induction ds nodes q rule: relax.induct)
  case (2 dep deps nodes queue)
  then obtain nd where nd: "map_of nodes dep = Some nd" by (auto split: option.splits)
  let ?nd = "nd\<lparr>dn_inDegree := dn_inDegree nd - 1\<rparr>"
  have "length q' + positives nodes' \<le>
      length (if dn_inDegree ?nd = 0 then queue @ [dep] else queue) + positives (gm_put dep ?nd nodes)"
    using 2 nd by (auto simp: Let_def)
  then show ?case using positives_put [OF nd, of ?nd] by (auto split: if_splits)
qed auto

function kahn :: "dag \<Rightarrow> string list \<Rightarrow> string list \<Rightarrow> err + string list" where
  "kahn nodes [] order = Inr order"
| "kahn nodes (name # queue) order =
     (case map_of nodes name of
        None \<Rightarrow> Inl nil_deref
      | Some nd \<Rightarrow>
          (case relax (dn_dependents nd) nodes queue of
             Inl e \<Rightarrow> Inl e
           | Inr (nodes', queue') \<Rightarrow> kahn nodes' queue' (order @ [name])))"
  by pat_completeness auto
termination
  by (relation "measure (\<lambda>(nodes, queue, order). length queue + positives nodes)")
    (auto dest: relax_measure)

definition TopologicalSort :: "(string list \<Rightarrow> string list) \<Rightarrow> WorkflowTemplate list \<Rightarrow> err + string list" where
  "TopologicalSort ord templates =
     (case buildDAG templates of
        Inl e \<Rightarrow> Inl e
      | Inr nodes \<Rightarrow>
          (let queue = filter (\<lambda>name. case map_of nodes name of None \<Rightarrow> False | Some nd \<Rightarrow> dn_inDegree nd = 0)
                         (ord (gm_keys nodes)) in
           case kahn nodes queue [] of
             Inl e \<Rightarrow> Inl e
           | Inr order \<Rightarrow>
               (if length order \<noteq> length templates then Inl ''cycle detected in workflow DAG''
                else Inr order)))"

definition gm_true :: "(string, bool) gomap \<Rightarrow> string \<Rightarrow> bool" where
  "gm_true m k \<longleftrightarrow> map_of m k = Some True"

definition ReadyTemplates :: "(string list \<Rightarrow> string list) \<Rightarrow> WorkflowTemplate list \<Rightarrow> (string, bool) gomap \<Rightarrow> string list" where
  "ReadyTemplates ord templates completed =
     (case buildDAG templates of
        Inl e \<Rightarrow> []
      | Inr nodes \<Rightarrow>
          filter (\<lambda>name. case map_of nodes name of
              None \<Rightarrow> False
            | Some nd \<Rightarrow> \<not> gm_true completed name \<and>
                (\<forall>dep \<in> set (wt_dependencies (dn_template nd)). gm_true completed dep))
            (ord (gm_keys nodes)))"

definition FormatProgress :: "TemplateStatus list \<Rightarrow> int \<Rightarrow> string" where
  "FormatProgress statuses all =
     Itoa (int (length (filter (\<lambda>s. ts_phase s = WorkflowPhaseCompleted \<or> ts_phase s = WorkflowPhaseFailed) statuses)))
     @ ''/'' @ Itoa all"

subsection \<open>Specification\<close>

text \<open>The dependencies of the templates of a name, and the relation they span.\<close>

definition deps_of :: "WorkflowTemplate list \<Rightarrow> string \<Rightarrow> string list" where
  "deps_of ts n = concat (map wt_dependencies (filter (\<lambda>t. wt_name t = n) ts))"

definition names :: "WorkflowTemplate list \<Rightarrow> string set" where
  "names ts = wt_name ` set ts"

definition dep_rel :: "WorkflowTemplate list \<Rightarrow> (string \<times> string) set" where
  "dep_rel ts = {(d, n). d \<in> set (deps_of ts n)}"

definition deps_known :: "WorkflowTemplate list \<Rightarrow> bool" where
  "deps_known ts \<longleftrightarrow> (\<forall>t \<in> set ts. set (wt_dependencies t) \<subseteq> names ts)"

definition dep_ordered :: "WorkflowTemplate list \<Rightarrow> string list \<Rightarrow> bool" where
  "dep_ordered ts order \<longleftrightarrow>
     (\<forall>i < length order. set (deps_of ts (order ! i)) \<subseteq> set (take i order))"

definition indeg :: "dag \<Rightarrow> string \<Rightarrow> int" where
  "indeg nodes n = (case map_of nodes n of None \<Rightarrow> 0 | Some nd \<Rightarrow> dn_inDegree nd)"

definition dependents :: "dag \<Rightarrow> string \<Rightarrow> string list" where
  "dependents nodes n = (case map_of nodes n of None \<Rightarrow> [] | Some nd \<Rightarrow> dn_dependents nd)"

definition node_template :: "dag \<Rightarrow> string \<Rightarrow> WorkflowTemplate option" where
  "node_template nodes n = map_option dn_template (map_of nodes n)"

text \<open>The invariant of the queue loop.\<close>

definition kahn_inv :: "WorkflowTemplate list \<Rightarrow> dag \<Rightarrow> string list \<Rightarrow> string list \<Rightarrow> bool" where
  "kahn_inv ts nodes queue order \<longleftrightarrow>
     dom (map_of nodes) = names ts \<and>
     (\<forall>p n. count_list (dependents nodes p) n = count_list (deps_of ts n) p) \<and>
     (\<forall>p. set (dependents nodes p) \<subseteq> names ts) \<and>
     distinct (order @ queue) \<and> set (order @ queue) \<subseteq> names ts \<and>
     (\<forall>n. indeg nodes n = int (length (filter (\<lambda>d. d \<notin> set order) (deps_of ts n)))) \<and>
     (\<forall>n \<in> names ts. n \<in> set (order @ queue) \<longleftrightarrow> indeg nodes n = 0) \<and>
     dep_ordered ts order"

text \<open>The templates of the witnesses.\<close>

definition demo_template :: "string \<Rightarrow> string list \<Rightarrow> WorkflowTemplate" where
  "demo_template n ds = \<lparr>wt_name = n, wt_type = TemplateTypeDelay, wt_experimentRef = None, wt_delay = Some second,
     wt_condition = None, wt_parallel = None, wt_suspend = None, wt_dependencies = ds\<rparr>"

section \<open>Building the graph\<close>

lemma empty_dag_view [simp]: "indeg [] n = 0" "dependents [] n = []"
  by (simp_all add: indeg_def dependents_def)

lemma dag_nodes_view:
  "indeg (dag_nodes nodes ts) n = (if n \<in> names ts then 0 else indeg nodes n)"
  "dependents (dag_nodes nodes ts) n = (if n \<in> names ts then [] else dependents nodes n)"
  "dom (map_of (dag_nodes nodes ts)) = names ts \<union> dom (map_of nodes)"
  by (induction nodes ts rule: dag_nodes.induct)
    (auto simp: names_def indeg_def dependents_def)

lemma dag_nodes_fresh: "indeg (dag_nodes [] ts) n = 0" "dependents (dag_nodes [] ts) n = []"
  by (cases "n \<in> names ts"; simp add: dag_nodes_view)+

lemma dag_nodes_template:
  "distinct (map wt_name ts) \<Longrightarrow> t \<in> set ts \<Longrightarrow> node_template (dag_nodes nodes ts) (wt_name t) = Some t"
proof (induction nodes ts rule: dag_nodes.induct)
  case (2 nodes t' ts)
  have keep: "n \<notin> names ts \<Longrightarrow> node_template (dag_nodes nodes ts) n = node_template nodes n" for n nodes
    by (induction nodes ts rule: dag_nodes.induct) (auto simp: names_def node_template_def)
  show ?case
  proof (cases "t = t'")
    case True
    with 2 have "wt_name t \<notin> names ts" by (auto simp: names_def)
    then have "node_template (dag_nodes nodes (t' # ts)) (wt_name t) = node_template (gm_put (wt_name t')
        \<lparr>dn_template = t', dn_inDegree = 0, dn_dependents = []\<rparr> nodes) (wt_name t)"
      unfolding dag_nodes.simps by (rule keep)
    with True show ?thesis by (simp add: node_template_def)
  next
    case False
    with 2 show ?thesis by auto
  qed
qed simp

lemma gm_ok_dag_nodes: "gm_ok nodes \<Longrightarrow> gm_ok (dag_nodes nodes ts)"
  by (induction nodes ts rule: dag_nodes.induct) auto

lemma link_deps_ok:
  assumes "set deps \<subseteq> dom (map_of nodes)" and "name \<in> dom (map_of nodes)"
  shows "\<exists>nodes'. link_deps name deps nodes = Inr nodes' \<and> dom (map_of nodes') = dom (map_of nodes) \<and>
    (gm_ok nodes \<longrightarrow> gm_ok nodes') \<and>
    (\<forall>n. indeg nodes' n = indeg nodes n + (if n = name then int (length deps) else 0)) \<and>
    (\<forall>p. dependents nodes' p = dependents nodes p @ replicate (count_list deps p) name) \<and>
    (\<forall>n. node_template nodes' n = node_template nodes n)"
  using assms
proof (induction name deps nodes rule: link_deps.induct)
  case (2 name dep deps nodes)
  then obtain parent where p: "map_of nodes dep = Some parent" by auto
  let ?n1 = "gm_put dep (parent\<lparr>dn_dependents := dn_dependents parent @ [name]\<rparr>) nodes"
  obtain nd where nd: "map_of ?n1 name = Some nd" using 2(3) by (cases "name = dep") auto
  let ?n2 = "gm_put name (nd\<lparr>dn_inDegree := dn_inDegree nd + 1\<rparr>) ?n1"
  have dom: "dom (map_of ?n2) = dom (map_of nodes)" using 2(2,3) by auto
  have view: "indeg ?n2 n = indeg nodes n + (if n = name then 1 else 0)"
    "dependents ?n2 q = dependents nodes q @ (if q = dep then [name] else [])"
    "node_template ?n2 n = node_template nodes n" for n q
    using p nd by (auto simp: indeg_def dependents_def node_template_def split: if_splits)
  obtain nodes' where IH: "link_deps name deps ?n2 = Inr nodes'" "dom (map_of nodes') = dom (map_of ?n2)"
    "gm_ok ?n2 \<Longrightarrow> gm_ok nodes'"
    "\<And>n. indeg nodes' n = indeg ?n2 n + (if n = name then int (length deps) else 0)"
    "\<And>q. dependents nodes' q = dependents ?n2 q @ replicate (count_list deps q) name"
    "\<And>n. node_template nodes' n = node_template ?n2 n"
    using 2(1) [OF p refl nd] 2(2,3) unfolding dom by auto
  have "link_deps name (dep # deps) nodes = Inr nodes'"
    using p nd IH(1) by (simp add: Let_def)
  then show ?case using IH(2-) dom view by (auto simp: gm_ok_put)
qed simp

lemma link_deps_unknown:
  assumes "\<not> set deps \<subseteq> dom (map_of nodes)"
  shows "\<exists>e. link_deps name deps nodes = Inl e"
  using assms
proof (induction name deps nodes rule: link_deps.induct)
  case (2 name dep deps nodes)
  show ?case
  proof (cases "map_of nodes dep")
    case (Some parent)
    let ?n1 = "gm_put dep (parent\<lparr>dn_dependents := dn_dependents parent @ [name]\<rparr>) nodes"
    show ?thesis
    proof (cases "map_of ?n1 name")
      case (Some nd)
      have "\<not> set deps \<subseteq> dom (map_of (gm_put name (nd\<lparr>dn_inDegree := dn_inDegree nd + 1\<rparr>) ?n1))"
        using 2(2) \<open>map_of nodes dep = Some parent\<close> Some by (auto split: if_splits)
      from 2(1) [OF \<open>map_of nodes dep = Some parent\<close> refl Some this] show ?thesis
        using Some \<open>map_of nodes dep = Some parent\<close> by (auto simp: Let_def)
    qed (use Some in \<open>simp add: Let_def\<close>)
  qed simp
qed simp

lemma concat_deps_Cons:
  "deps_of (t # ts) n = (if wt_name t = n then wt_dependencies t else []) @ deps_of ts n"
  by (simp add: deps_of_def)

lemma link_all_ok:
  assumes "\<forall>t \<in> set ts. set (wt_dependencies t) \<subseteq> dom (map_of nodes) \<and> wt_name t \<in> dom (map_of nodes)"
  shows "\<exists>nodes'. link_all ts nodes = Inr nodes' \<and> dom (map_of nodes') = dom (map_of nodes) \<and>
    (gm_ok nodes \<longrightarrow> gm_ok nodes') \<and>
    (\<forall>n. indeg nodes' n = indeg nodes n + int (length (deps_of ts n))) \<and>
    (\<forall>p n. count_list (dependents nodes' p) n = count_list (dependents nodes p) n + count_list (deps_of ts n) p) \<and>
    (\<forall>p. set (dependents nodes' p) \<subseteq> set (dependents nodes p) \<union> names ts) \<and>
    (\<forall>n. node_template nodes' n = node_template nodes n)"
  using assms
proof (induction ts arbitrary: nodes)
  case Nil
  then show ?case by (simp add: deps_of_def)
next
  case (Cons t ts)
  obtain n1 where l: "link_deps (wt_name t) (wt_dependencies t) nodes = Inr n1"
    "dom (map_of n1) = dom (map_of nodes)" "gm_ok nodes \<Longrightarrow> gm_ok n1"
    "\<And>n. indeg n1 n = indeg nodes n + (if n = wt_name t then int (length (wt_dependencies t)) else 0)"
    "\<And>p. dependents n1 p = dependents nodes p @ replicate (count_list (wt_dependencies t) p) (wt_name t)"
    "\<And>n. node_template n1 n = node_template nodes n"
    using link_deps_ok [of "wt_dependencies t" nodes "wt_name t"] Cons.prems by auto
  have rep: "count_list (replicate k x) y = (if y = x then k else 0)" for k and x y :: string
    by (induction k) auto
  from Cons.IH [of n1] Cons.prems l(2) obtain n2 where
    "link_all ts n1 = Inr n2" "dom (map_of n2) = dom (map_of n1)" "gm_ok n1 \<Longrightarrow> gm_ok n2"
    "\<And>n. indeg n2 n = indeg n1 n + int (length (deps_of ts n))"
    "\<And>p n. count_list (dependents n2 p) n = count_list (dependents n1 p) n + count_list (deps_of ts n) p"
    and sub: "\<And>p. set (dependents n2 p) \<subseteq> set (dependents n1 p) \<union> names ts"
    and "\<And>n. node_template n2 n = node_template n1 n" by auto
  with l show ?case
    by (intro exI [of _ n2])
      (auto simp: concat_deps_Cons rep names_def set_replicate_conv_if split: if_splits dest!: subsetD [OF sub])
qed

lemma link_all_unknown:
  assumes "\<forall>t \<in> set ts. wt_name t \<in> dom (map_of nodes)"
    and "\<exists>t \<in> set ts. \<not> set (wt_dependencies t) \<subseteq> dom (map_of nodes)"
  shows "\<exists>e. link_all ts nodes = Inl e"
  using assms
proof (induction ts arbitrary: nodes)
  case (Cons t ts)
  show ?case
  proof (cases "set (wt_dependencies t) \<subseteq> dom (map_of nodes)")
    case True
    obtain n1 where l: "link_deps (wt_name t) (wt_dependencies t) nodes = Inr n1" "dom (map_of n1) = dom (map_of nodes)"
      using link_deps_ok [OF True, of "wt_name t"] Cons.prems(1) by auto
    with Cons.IH [of n1] Cons.prems True show ?thesis by auto
  next
    case False
    then show ?thesis using link_deps_unknown [OF False, of "wt_name t"] by auto
  qed
qed simp

lemma buildDAG_ok:
  assumes "deps_known ts"
  shows "\<exists>nodes. buildDAG ts = Inr nodes \<and> gm_ok nodes \<and> dom (map_of nodes) = names ts \<and>
    (\<forall>n. indeg nodes n = int (length (deps_of ts n))) \<and>
    (\<forall>p n. count_list (dependents nodes p) n = count_list (deps_of ts n) p) \<and>
    (\<forall>p. set (dependents nodes p) \<subseteq> names ts) \<and>
    (distinct (map wt_name ts) \<longrightarrow> (\<forall>t \<in> set ts. node_template nodes (wt_name t) = Some t))"
proof -
  let ?n = "dag_nodes [] ts"
  have dom: "dom (map_of ?n) = names ts" by (simp add: dag_nodes_view)
  have "\<forall>t \<in> set ts. set (wt_dependencies t) \<subseteq> dom (map_of ?n) \<and> wt_name t \<in> dom (map_of ?n)"
    unfolding dom using assms by (auto simp: deps_known_def names_def)
  from link_all_ok [OF this] obtain nodes where "link_all ts ?n = Inr nodes"
    "dom (map_of nodes) = names ts" "gm_ok nodes"
    "\<forall>n. indeg nodes n = indeg ?n n + int (length (deps_of ts n))"
    "\<forall>p n. count_list (dependents nodes p) n = count_list (dependents ?n p) n + count_list (deps_of ts n) p"
    "\<forall>p. set (dependents nodes p) \<subseteq> set (dependents ?n p) \<union> names ts"
    "\<forall>n. node_template nodes n = node_template ?n n"
    using gm_ok_dag_nodes [OF gm_ok_Nil, of ts] unfolding dom by blast
  then show ?thesis
    by (intro exI [of _ nodes])
      (auto simp: buildDAG_def dag_nodes_fresh dag_nodes_template)
qed

lemma buildDAG_unknown: "\<not> deps_known ts \<Longrightarrow> \<exists>e. buildDAG ts = Inl e"
  unfolding buildDAG_def
  by (rule link_all_unknown) (auto simp: dag_nodes_view deps_known_def names_def)

section \<open>The queue loop\<close>

lemma relax_ok:
  assumes "set ds \<subseteq> dom (map_of nodes)" and "\<And>m. int (count_list ds m) \<le> indeg nodes m"
  shows "\<exists>nodes' new. relax ds nodes q = Inr (nodes', q @ new) \<and> dom (map_of nodes') = dom (map_of nodes) \<and>
    (\<forall>m. indeg nodes' m = indeg nodes m - int (count_list ds m)) \<and>
    (\<forall>m. dependents nodes' m = dependents nodes m) \<and>
    distinct new \<and> set new = {m \<in> set ds. indeg nodes m = int (count_list ds m)}"
  using assms
proof (induction ds arbitrary: nodes q)
  case (Cons d ds)
  then obtain nd where nd: "map_of nodes d = Some nd" by auto
  define nd' where "nd' = nd\<lparr>dn_inDegree := dn_inDegree nd - 1\<rparr>"
  define n1 where "n1 = gm_put d nd' nodes"
  define q1 where "q1 = (if dn_inDegree nd' = 0 then q @ [d] else q)"
  have deg: "indeg n1 m = indeg nodes m - (if m = d then 1 else 0)" for m
    using nd by (simp add: indeg_def n1_def nd'_def)
  have dom: "dom (map_of n1) = dom (map_of nodes)" using nd by (auto simp: n1_def)
  have sub: "set ds \<subseteq> dom (map_of n1)" using Cons.prems(1) unfolding dom by simp
  have cnt: "int (count_list ds m) \<le> indeg n1 m" for m
    using Cons.prems(2) [of m] unfolding deg by (cases "m = d") auto
  obtain nodes' new where IH: "relax ds n1 q1 = Inr (nodes', q1 @ new)" "dom (map_of nodes') = dom (map_of n1)"
    "\<And>m. indeg nodes' m = indeg n1 m - int (count_list ds m)"
    "\<And>m. dependents nodes' m = dependents n1 m"
    "distinct new" "set new = {m \<in> set ds. indeg n1 m = int (count_list ds m)}"
    using Cons.IH [OF sub cnt, of q1] by auto
  have dep: "dependents n1 m = dependents nodes m" for m using nd by (simp add: dependents_def n1_def nd'_def)
  have d0: "dn_inDegree nd' = indeg nodes d - 1" using nd by (simp add: indeg_def nd'_def)
  define new' where "new' = (if dn_inDegree nd' = 0 then d # new else new)"
  have mem: "d \<in> set ds \<longleftrightarrow> count_list ds d \<noteq> 0" by (simp add: count_list_0_iff)
  have le: "1 + int (count_list ds d) \<le> indeg nodes d" using Cons.prems(2) [of d] by simp
  have new: "m \<in> set new \<longleftrightarrow> m \<in> set ds \<and> indeg nodes m - (if m = d then 1 else 0) = int (count_list ds m)" for m
    using IH(6) deg by auto
  have "m \<in> set new' \<longleftrightarrow> m \<in> set (d # ds) \<and> indeg nodes m = int (count_list (d # ds) m)" for m
    using new [of m] mem le unfolding new'_def d0 by (cases "m = d") auto
  then have "set new' = {m \<in> set (d # ds). indeg nodes m = int (count_list (d # ds) m)}" by blast
  moreover have "distinct new'"
    using IH(5) new [of d] mem le unfolding new'_def d0 by auto
  moreover have "relax (d # ds) nodes q = Inr (nodes', q @ new')"
    using nd IH(1) by (simp add: Let_def n1_def q1_def nd'_def new'_def split: if_splits)
  ultimately show ?case
    using IH(2-4) dom deg dep by (intro exI [of _ nodes'] exI [of _ new']) auto
qed simp

lemma count_le_filter: "P n \<Longrightarrow> count_list xs n \<le> length (filter P xs)"
  by (induction xs) auto

lemma filter_drop_one:
  "n \<notin> set order \<Longrightarrow> length (filter (\<lambda>d. d \<notin> set order) xs) =
     length (filter (\<lambda>d. d \<notin> set (order @ [n])) xs) + count_list xs n"
  by (induction xs) auto

lemma dep_ordered_snoc:
  "dep_ordered ts order \<Longrightarrow> set (deps_of ts n) \<subseteq> set order \<Longrightarrow> dep_ordered ts (order @ [n])"
  by (auto simp: dep_ordered_def nth_append less_Suc_eq)

lemma kahn_inv_step:
  assumes "kahn_inv ts nodes (n # q) order"
  shows "\<exists>nd nodes' q'. map_of nodes n = Some nd \<and> relax (dn_dependents nd) nodes q = Inr (nodes', q') \<and>
    kahn_inv ts nodes' q' (order @ [n])"
proof -
  note inv = assms [unfolded kahn_inv_def]
  let ?ds = "dependents nodes n"
  have n: "n \<in> names ts" "n \<notin> set order" using inv by auto
  moreover have "dom (map_of nodes) = names ts" using inv by simp
  ultimately obtain nd where nd: "map_of nodes n = Some nd" by (metis domD)
  have ds: "dn_dependents nd = ?ds" using nd by (simp add: dependents_def)
  have deg: "indeg nodes m = int (length (filter (\<lambda>d. d \<notin> set order) (deps_of ts m)))"
    and cnt: "count_list ?ds m = count_list (deps_of ts m) n" for m using inv by auto
  have "int (count_list ?ds m) \<le> indeg nodes m" for m
    unfolding deg cnt using n(2) by (simp add: count_le_filter)
  with inv obtain nodes' new where r: "relax ?ds nodes q = Inr (nodes', q @ new)"
    "dom (map_of nodes') = dom (map_of nodes)"
    "\<And>m. indeg nodes' m = indeg nodes m - int (count_list ?ds m)"
    "\<And>m. dependents nodes' m = dependents nodes m"
    "distinct new" "set new = {m \<in> set ?ds. indeg nodes m = int (count_list ?ds m)}"
    using relax_ok [of ?ds nodes q] by auto
  have deg': "indeg nodes' m = int (length (filter (\<lambda>d. d \<notin> set (order @ [n])) (deps_of ts m)))" for m
    unfolding r(3) deg cnt using filter_drop_one [OF n(2), of "deps_of ts m"] by simp
  have old: "m \<in> set (order @ n # q) \<longleftrightarrow> indeg nodes m = 0" if "m \<in> names ts" for m
    using inv that by blast
  have pos: "m \<in> set ?ds \<longleftrightarrow> count_list ?ds m \<noteq> 0" for m by (simp add: count_list_0_iff)
  have r6: "m \<in> set new \<longleftrightarrow> m \<in> set ?ds \<and> indeg nodes m = int (count_list ?ds m)" for m
    using r(6) by blast
  have sub: "set ?ds \<subseteq> names ts" using inv by blast
  have new: "m \<in> names ts \<and> m \<notin> set (order @ n # q)" if "m \<in> set new" for m
  proof -
    have "m \<in> names ts" "indeg nodes m \<noteq> 0" using that r6 [of m] pos [of m] sub by auto
    then show ?thesis using old by blast
  qed
  have mem: "m \<in> set ((order @ [n]) @ q @ new) \<longleftrightarrow> indeg nodes' m = 0" if "m \<in> names ts" for m
  proof -
    have "0 \<le> indeg nodes' m" unfolding deg' by simp
    then have "indeg nodes' m = 0 \<longleftrightarrow> indeg nodes m = 0 \<or> m \<in> set new"
      using r(3) [of m] r6 [of m] pos [of m] by linarith
    then show ?thesis using old [OF that] by auto
  qed
  have "set (deps_of ts n) \<subseteq> set order"
    using old [OF n(1)] deg [of n] by (auto simp: filter_empty_conv)
  then have "dep_ordered ts (order @ [n])" using inv by (simp add: dep_ordered_snoc)
  moreover have "distinct ((order @ [n]) @ q @ new)" 
  proof -
    have "distinct (order @ n # q)" using inv by blast
    moreover have "set new \<inter> set (order @ n # q) = {}" using new by blast
    ultimately show ?thesis using r(5) by auto
  qed
  moreover have "set ((order @ [n]) @ q @ new) \<subseteq> names ts" using inv new by auto
  ultimately have "kahn_inv ts nodes' (q @ new) (order @ [n])"
    using inv deg' mem unfolding kahn_inv_def r(2,4) by blast
  with nd ds r(1) show ?thesis by auto
qed

lemma kahn_ok:
  "kahn_inv ts nodes queue order \<Longrightarrow> \<exists>nodes' order'. kahn nodes queue order = Inr order' \<and> kahn_inv ts nodes' [] order'"
proof (induction nodes queue order rule: kahn.induct)
  case (2 nodes name queue order)
  from kahn_inv_step [OF 2(2)] obtain nd nodes' q' where
    "map_of nodes name = Some nd" "relax (dn_dependents nd) nodes queue = Inr (nodes', q')"
    "kahn_inv ts nodes' q' (order @ [name])" by blast
  with 2(1) [OF this(1,2) refl this(3)] show ?case by auto
qed auto

section \<open>Topological order\<close>

lemma finite_names [simp]: "finite (names ts)"
  by (simp add: names_def)

lemma card_names: "card (names ts) \<le> length ts" "card (names ts) = length ts \<longleftrightarrow> distinct (map wt_name ts)"
proof -
  have n: "names ts = set (map wt_name ts)" by (simp add: names_def)
  show "card (names ts) \<le> length ts" unfolding n by (metis card_length length_map)
  show "card (names ts) = length ts \<longleftrightarrow> distinct (map wt_name ts)"
    unfolding n using card_distinct distinct_card by (metis length_map)
qed

lemma kahn_inv_start:
  assumes "deps_known ts" and "buildDAG ts = Inr nodes" and "any_order ord"
  shows "kahn_inv ts nodes (filter (\<lambda>name. case map_of nodes name of None \<Rightarrow> False
    | Some nd \<Rightarrow> dn_inDegree nd = 0) (ord (gm_keys nodes))) []"
proof -
  have nodes: "gm_ok nodes" "dom (map_of nodes) = names ts" "\<And>n. indeg nodes n = int (length (deps_of ts n))"
    "\<And>p n. count_list (dependents nodes p) n = count_list (deps_of ts n) p"
    "\<And>p. set (dependents nodes p) \<subseteq> names ts"
    using buildDAG_ok [OF assms(1)] assms(2) by auto
  have perm: "mset (ord (gm_keys nodes)) = mset (gm_keys nodes)" using assms(3) by (simp add: any_order_def)
  have set: "set (ord (gm_keys nodes)) = names ts"
    using mset_eq_setD [OF perm] nodes(2) by (simp add: set_gm_keys)
  have dist: "distinct (ord (gm_keys nodes))"
    using perm distinct_gm_keys [OF nodes(1)] by (metis mset_eq_imp_distinct_iff)
  have deg: "(case map_of nodes n of None \<Rightarrow> False | Some nd \<Rightarrow> dn_inDegree nd = 0) \<longleftrightarrow> indeg nodes n = 0"
    if "n \<in> names ts" for n
    using that nodes(2) by (auto simp: indeg_def split: option.splits)
  show ?thesis
    unfolding kahn_inv_def using nodes set dist deg by (auto simp: dep_ordered_def)
qed

text \<open>What the loop leaves: every node it could reach, each after its dependencies.\<close>

lemma TopologicalSort_cases:
  assumes "deps_known ts" and "any_order ord"
  shows "\<exists>order. distinct order \<and> set order \<subseteq> names ts \<and> dep_ordered ts order \<and>
    (\<forall>n \<in> names ts. set (deps_of ts n) \<subseteq> set order \<longrightarrow> n \<in> set order) \<and>
    TopologicalSort ord ts = (if length order = length ts then Inr order else Inl ''cycle detected in workflow DAG'')"
proof -
  obtain nodes where nodes: "buildDAG ts = Inr nodes" using buildDAG_ok [OF assms(1)] by auto
  obtain nodes' order where k: "kahn nodes (filter (\<lambda>name. case map_of nodes name of None \<Rightarrow> False
      | Some nd \<Rightarrow> dn_inDegree nd = 0) (ord (gm_keys nodes))) [] = Inr order"
    and inv: "kahn_inv ts nodes' [] order"
    using kahn_ok [OF kahn_inv_start [OF assms(1) nodes assms(2)]] by blast
  have "n \<in> set order" if "n \<in> names ts" "set (deps_of ts n) \<subseteq> set order" for n
    using inv that unfolding kahn_inv_def by (auto simp: filter_empty_conv)
  moreover have "distinct order" "set order \<subseteq> names ts" "dep_ordered ts order"
    using inv by (auto simp: kahn_inv_def)
  ultimately show ?thesis using nodes k
    by (intro exI [of _ order]) (auto simp: TopologicalSort_def Let_def)
qed

lemma dep_rel_known: "deps_known ts \<Longrightarrow> (d, n) \<in> dep_rel ts \<Longrightarrow> d \<in> names ts \<and> n \<in> names ts"
  by (auto simp: dep_rel_def deps_of_def deps_known_def names_def)

lemma dep_ordered_acyclic:
  assumes "dep_ordered ts order" and "names ts \<subseteq> set order" and "distinct order" and "deps_known ts"
  shows "acyclic (dep_rel ts)"
proof -
  define rank where "rank n = length (takeWhile (\<lambda>m. m \<noteq> n) order)" for n
  have rank: "rank (order ! i) = i" if "i < length order" for i
  proof -
    have "takeWhile (\<lambda>m. m \<noteq> order ! i) order = take i order"
      using assms(3) that by (intro takeWhile_eq_take_P_nth) (auto simp: nth_eq_iff_index_eq)
    then show ?thesis using that by (simp add: rank_def)
  qed
  have "dep_rel ts \<subseteq> measure rank"
  proof
    fix e assume e: "e \<in> dep_rel ts"
    obtain d n where dn: "e = (d, n)" by (cases e)
    have "n \<in> set order" using e dn dep_rel_known [OF assms(4)] assms(2) by blast
    then obtain i where i: "i < length order" "n = order ! i" by (auto simp: in_set_conv_nth)
    then have "d \<in> set (take i order)" using e dn assms(1) by (auto simp: dep_ordered_def dep_rel_def)
    then obtain j where "j < i" "d = order ! j" using i by (auto simp: in_set_conv_nth)
    with i rank dn show "e \<in> measure rank" by simp
  qed
  then show ?thesis using wf_acyclic [OF wf_subset [OF wf_measure]] by blast
qed

lemma acyclic_order_full:
  assumes "acyclic (dep_rel ts)" and "deps_known ts"
    and closed: "\<And>n. n \<in> names ts \<Longrightarrow> set (deps_of ts n) \<subseteq> S \<Longrightarrow> n \<in> S"
  shows "names ts \<subseteq> S"
proof -
  have "dep_rel ts \<subseteq> names ts \<times> names ts" using dep_rel_known [OF assms(2)] by auto
  then have "wf (dep_rel ts)"
    using assms(1) by (meson finite_SigmaI finite_acyclic_wf finite_names finite_subset)
  then have "n \<in> names ts \<longrightarrow> n \<in> S" for n
  proof (induction n rule: wf_induct_rule)
    case (less n)
    then show ?case using closed [of n] dep_rel_known [OF assms(2)] by (auto simp: dep_rel_def)
  qed
  then show ?thesis by blast
qed

section \<open>Ready templates\<close>

lemma deps_of_template:
  "distinct (map wt_name ts) \<Longrightarrow> t \<in> set ts \<Longrightarrow> deps_of ts (wt_name t) = wt_dependencies t"
proof (induction ts)
  case (Cons t' ts)
  have none: "n \<notin> names ts \<Longrightarrow> deps_of ts n = []" for n
    by (auto simp: deps_of_def names_def)
  from Cons show ?case by (auto simp: concat_deps_Cons none names_def)
qed simp

lemma ReadyTemplates_member:
  assumes "deps_known ts" and "distinct (map wt_name ts)" and "any_order ord"
  shows "n \<in> set (ReadyTemplates ord ts c) \<longleftrightarrow>
    n \<in> names ts \<and> \<not> gm_true c n \<and> (\<forall>d \<in> set (deps_of ts n). gm_true c d)"
proof -
  obtain nodes where nodes: "buildDAG ts = Inr nodes" "dom (map_of nodes) = names ts"
    "\<forall>t \<in> set ts. node_template nodes (wt_name t) = Some t"
    using buildDAG_ok [OF assms(1)] assms(2) by auto
  have keys: "set (ord (gm_keys nodes)) = names ts"
    using assms(3) nodes(2) by (metis any_order_def mset_eq_setD set_gm_keys)
  have "(case map_of nodes n of None \<Rightarrow> False | Some nd \<Rightarrow> \<not> gm_true c n \<and>
      (\<forall>dep \<in> set (wt_dependencies (dn_template nd)). gm_true c dep)) \<longleftrightarrow>
    \<not> gm_true c n \<and> (\<forall>d \<in> set (deps_of ts n). gm_true c d)" if n: "n \<in> names ts"
  proof -
    obtain t where t: "t \<in> set ts" "n = wt_name t" using n by (auto simp: names_def)
    then obtain nd where "map_of nodes n = Some nd" "dn_template nd = t"
      using nodes(3) by (auto simp: node_template_def)
    then show ?thesis using t deps_of_template [OF assms(2) t(1)] by simp
  qed
  then show ?thesis using keys by (auto simp: ReadyTemplates_def nodes(1))
qed

lemma TopologicalSort_accepts:
  assumes "any_order ord"
  shows "(\<exists>order. TopologicalSort ord ts = Inr order) \<longleftrightarrow>
    distinct (map wt_name ts) \<and> deps_known ts \<and> acyclic (dep_rel ts)"
proof (cases "deps_known ts")
  case False
  then show ?thesis using buildDAG_unknown [of ts] by (auto simp: TopologicalSort_def)
next
  case True
  obtain o' where o': "distinct o'" "set o' \<subseteq> names ts" "dep_ordered ts o'"
    "\<forall>n \<in> names ts. set (deps_of ts n) \<subseteq> set o' \<longrightarrow> n \<in> set o'"
    and sort: "TopologicalSort ord ts = (if length o' = length ts then Inr o' else Inl ''cycle detected in workflow DAG'')"
    using TopologicalSort_cases [OF True assms] by blast
  have len: "length o' = card (set o')" using distinct_card [OF o'(1)] by simp
  show ?thesis
  proof
    assume "\<exists>order. TopologicalSort ord ts = Inr order"
    then have l: "length o' = length ts" using sort by (auto split: if_splits)
    then have "card (names ts) = length ts"
      using card_mono [OF finite_names o'(2)] card_names(1) [of ts] len by simp
    moreover from this have "set o' = names ts"
      using card_subset_eq [OF finite_names o'(2)] len l by simp
    ultimately show "distinct (map wt_name ts) \<and> deps_known ts \<and> acyclic (dep_rel ts)"
      using True card_names(2) dep_ordered_acyclic [OF o'(3) _ o'(1) True] by auto
  next
    assume "distinct (map wt_name ts) \<and> deps_known ts \<and> acyclic (dep_rel ts)"
    then have "set o' = names ts" "card (names ts) = length ts"
      using acyclic_order_full [OF _ True, of "set o'"] o'(2,4) card_names(2) [of ts] by blast+
    then show "\<exists>order. TopologicalSort ord ts = Inr order" using sort len by simp
  qed
qed

section \<open>Properties\<close>

text \<open>
  C10. Topological sort is sound: whatever order the map is ranged over, an order it returns lists
  the name of every template exactly once, and every dependency of a template stands before it.
\<close>

theorem TopologicalSort_sound:
  assumes "any_order ord" and "TopologicalSort ord ts = Inr order"
  shows "distinct order \<and> set order = names ts \<and> length order = length ts \<and>
    (\<forall>i < length order. \<forall>t \<in> set ts. wt_name t = order ! i \<longrightarrow> set (wt_dependencies t) \<subseteq> set (take i order))"
proof -
  have known: "deps_known ts"
    using assms(2) buildDAG_unknown [of ts] by (cases "deps_known ts") (auto simp: TopologicalSort_def)
  obtain o' where o': "distinct o'" "set o' \<subseteq> names ts" "dep_ordered ts o'"
    "TopologicalSort ord ts = (if length o' = length ts then Inr o' else Inl ''cycle detected in workflow DAG'')"
    using TopologicalSort_cases [OF known assms(1)] by blast
  then have len: "length order = length ts" and eq: "order = o'" using assms(2) by (auto split: if_splits)
  have full: "set order = names ts"
    using card_subset_eq [OF finite_names, of "set order" ts] o'(1,2) len card_names(1) [of ts]
    by (metis eq card_mono distinct_card finite_names le_antisym)
  have "set (wt_dependencies t) \<subseteq> set (deps_of ts (wt_name t))" if "t \<in> set ts" for t
    using that by (auto simp: deps_of_def)
  then show ?thesis using o'(1,3) full len eq by (fastforce simp: dep_ordered_def)
qed

theorem TopologicalSort_sound_witness:
  "any_order rev \<and> TopologicalSort rev [demo_template ''b'' [''a''], demo_template ''a'' []] = Inr [''a'', ''b''] \<and>
   distinct [''a'', ''b''] \<and> set [''a'', ''b''] = names [demo_template ''b'' [''a''], demo_template ''a'' []]"
proof -
  have ord: "any_order rev" by (simp add: any_order_def)
  have sort: "TopologicalSort rev [demo_template ''b'' [''a''], demo_template ''a'' []] = Inr [''a'', ''b'']"
    by code_simp
  from TopologicalSort_sound [OF ord sort] ord sort show ?thesis by blast
qed

text \<open>
  C11. Topological sort is complete, and its error cases are exact: it returns an order if and only
  if the template names are distinct, every dependency names a template, and the dependency relation
  is acyclic; whether it succeeds does not depend on the iteration order of the map.
\<close>

theorem TopologicalSort_complete:
  assumes "any_order ord"
  shows "(\<exists>order. TopologicalSort ord ts = Inr order) \<longleftrightarrow>
    distinct (map wt_name ts) \<and> deps_known ts \<and> acyclic (dep_rel ts)"
  by (rule TopologicalSort_accepts [OF assms])

theorem TopologicalSort_complete_witness:
  "any_order rev \<and> (\<exists>order. TopologicalSort rev [demo_template ''b'' [''a''], demo_template ''a'' []] = Inr order) \<and>
   acyclic (dep_rel [demo_template ''b'' [''a''], demo_template ''a'' []])"
proof -
  have ord: "any_order rev" by (simp add: any_order_def)
  have "TopologicalSort rev [demo_template ''b'' [''a''], demo_template ''a'' []] = Inr [''a'', ''b'']"
    by code_simp
  with TopologicalSort_complete [OF ord, of "[demo_template ''b'' [''a''], demo_template ''a'' []]"] ord
  show ?thesis by blast
qed

text \<open>
  C12. The scheduler never gets stuck and never runs ahead: for an accepted workflow, a template is
  ready exactly when it is not completed and all its dependencies are, and as long as some template
  is not completed at least one is ready.
\<close>

theorem ReadyTemplates_progress:
  assumes "any_order ord" and "TopologicalSort ord' ts = Inr order" and "any_order ord'"
  shows "(\<forall>t \<in> set ts. wt_name t \<in> set (ReadyTemplates ord ts c) \<longleftrightarrow>
            \<not> gm_true c (wt_name t) \<and> (\<forall>d \<in> set (wt_dependencies t). gm_true c d)) \<and>
         set (ReadyTemplates ord ts c) \<subseteq> wt_name ` set ts \<and>
         ((\<exists>t \<in> set ts. \<not> gm_true c (wt_name t)) \<longrightarrow> ReadyTemplates ord ts c \<noteq> [])"
proof -
  obtain d: "distinct (map wt_name ts)" and known: "deps_known ts" and ac: "acyclic (dep_rel ts)"
    using TopologicalSort_accepts [OF assms(3), of ts] assms(2) by blast
  note ready = ReadyTemplates_member [OF known d assms(1), where c = c]
  have "names ts \<subseteq> {n. gm_true c n}" if "ReadyTemplates ord ts c = []"
    using ready that by (intro acyclic_order_full [OF ac known]) auto
  then show ?thesis using ready deps_of_template [OF d] by (auto simp: names_def)
qed

theorem ReadyTemplates_progress_witness:
  "TopologicalSort rev [demo_template ''b'' [''a''], demo_template ''a'' []] = Inr [''a'', ''b''] \<and>
   ReadyTemplates rev [demo_template ''b'' [''a''], demo_template ''a'' []] [] \<noteq> []"
proof -
  have ord: "any_order rev" by (simp add: any_order_def)
  have sort: "TopologicalSort rev [demo_template ''b'' [''a''], demo_template ''a'' []] = Inr [''a'', ''b'']"
    by code_simp
  from ReadyTemplates_progress [OF ord sort ord, of "[]"] sort show ?thesis by (auto simp: gm_true_def)
qed

end
