(* ===== verification/Workflow_Controller.thy ===== *)
theory Workflow_Controller
  imports Workflow_Dag
begin

text \<open>
  The workflow reconciler, \<open>internal/controller/workflow_controller.go\<close>: everything but the DAG engine
  (\<open>Workflow_Dag\<close>) and \<open>SetupWithManager\<close>. The API client and the clock are the fields of \<open>WfEnv\<close>; the
  order in which Go ranges over a map is drawn from the world for each range (\<open>wenv_Ord\<close>).

  The source keeps pointers into \<open>wf.Status.TemplateStatuses\<close> in \<open>statusMap\<close>. The model keeps the values
  in the map; \<open>sync_statuses\<close> writes them back into the list where the source reads the list after
  mutating through the pointers (before \<open>setCompleted\<close>). \<open>executeTemplate\<close> and \<open>checkTemplateProgress\<close>
  always return a nil error, so here they return the result only.
\<close>

section \<open>Definitions\<close>

record 'x WfEnv =
  wenv_Get :: "key \<Rightarrow> 'x \<Rightarrow> (KErr + ChaosWorkflow) \<times> 'x"
  wenv_GetExp :: "key \<Rightarrow> 'x \<Rightarrow> (KErr + ChaosExperiment) \<times> 'x"
  wenv_ListExp :: "string \<Rightarrow> 'x \<Rightarrow> (err + ChaosExperiment list) \<times> 'x"
  wenv_UpdateExp :: "ChaosExperiment \<Rightarrow> 'x \<Rightarrow> err option \<times> 'x"
  wenv_StatusUpdate :: "ChaosWorkflow \<Rightarrow> 'x \<Rightarrow> err option \<times> 'x"
  wenv_Now :: "'x \<Rightarrow> time \<times> 'x"
  wenv_Ord :: "'x \<Rightarrow> (string list \<Rightarrow> string list) \<times> 'x"

definition workflowAbortAnnotation :: string where
  "workflowAbortAnnotation = ''chaosplane.dev/abort''"
definition workflowResumeAnnotation :: string where
  "workflowResumeAnnotation = ''chaosplane.dev/resume''"
definition maxRetries :: int where
  "maxRetries = 3"

subsection \<open>Calls\<close>

definition wf_now :: "'x WfEnv \<Rightarrow> ('x, time) M" where
  "wf_now env = ext_call (wenv_Now env) (\<lambda>_. [])"
definition wf_ord :: "'x WfEnv \<Rightarrow> ('x, string list \<Rightarrow> string list) M" where
  "wf_ord env = ext_call (wenv_Ord env) (\<lambda>_. [])"
definition wf_get_exp :: "'x WfEnv \<Rightarrow> key \<Rightarrow> ('x, KErr + ChaosExperiment) M" where
  "wf_get_exp env k = ext_call (wenv_GetExp env k) (\<lambda>_. [])"
definition wf_status_update :: "'x WfEnv \<Rightarrow> ChaosWorkflow \<Rightarrow> ('x, err option) M" where
  "wf_status_update env wk = ext_call (wenv_StatusUpdate env wk) (\<lambda>r. [CWorkflowStatusUpdate wk r])"
definition wf_update_exp :: "'x WfEnv \<Rightarrow> ChaosExperiment \<Rightarrow> ('x, err option) M" where
  "wf_update_exp env xp = ext_call (wenv_UpdateExp env xp) (\<lambda>r. [CUpdate xp r])"

subsection \<open>Helpers\<close>

definition upd_wstatus :: "(ChaosWorkflowStatus \<Rightarrow> ChaosWorkflowStatus) \<Rightarrow> ChaosWorkflow \<Rightarrow> ChaosWorkflow" where
  "upd_wstatus f wk = wk\<lparr>w_status := f (w_status wk)\<rparr>"

fun findTemplate :: "WorkflowTemplate list \<Rightarrow> string \<Rightarrow> WorkflowTemplate option" where
  "findTemplate [] name = None"
| "findTemplate (t # ts) name = (if wt_name t = name then Some t else findTemplate ts name)"

type_synonym statusMap = "(string, TemplateStatus) gomap"

definition flattenStatuses :: "(string list \<Rightarrow> string list) \<Rightarrow> statusMap \<Rightarrow> TemplateStatus list" where
  "flattenStatuses ord sm = List.map_filter (map_of sm) (ord (gm_keys sm))"

definition evaluateCondition :: "string \<Rightarrow> bool" where
  "evaluateCondition expression =
     (let xs = TrimSpace expression in
      if xs = ''true'' then True
      else if xs = ''false'' then False
      else (case cut ''=='' xs of
              Some (a, b) \<Rightarrow> TrimSpace a = TrimSpace b
            | None \<Rightarrow>
                (case cut ''!='' xs of
                   Some (a, b) \<Rightarrow> TrimSpace a \<noteq> TrimSpace b
                 | None \<Rightarrow> False)))"

definition setWorkflowCondition :: "'x WfEnv \<Rightarrow> string \<Rightarrow> ConditionStatus \<Rightarrow> string \<Rightarrow> string \<Rightarrow> ChaosWorkflow \<Rightarrow>
    ('x, ChaosWorkflow) M" where
  "setWorkflowCondition env condType status reason message wk = do {
     now \<leftarrow> wf_now env;
     State_Monad.return (upd_wstatus (\<lambda>s. s\<lparr>wst_conditions :=
       set_condition condType status reason message now (m_generation (w_meta wk)) (wst_conditions s)\<rparr>) wk)
   }"

definition isOwnedBy :: "ChaosExperiment \<Rightarrow> ChaosWorkflow \<Rightarrow> bool" where
  "isOwnedBy xp wk \<longleftrightarrow> m_uid (w_meta wk) \<in> set (m_ownerUIDs (e_meta xp))"

text \<open>
  \<open>fmt.Sscanf(ts.Message, "retry %d", &retryCount)\<close> with \<open>retryCount\<close> zero before: the literal, a
  space at least, and an optionally signed run of digits; anything else leaves zero.
\<close>

definition sscanf_retry :: "string \<Rightarrow> int" where
  "sscanf_retry m =
     (if has_prefix ''retry'' m then
        (case drop 5 m of
           [] \<Rightarrow> 0
         | c # r \<Rightarrow>
             (if \<not> is_space c then 0
              else
                let s = dropWhile (\<lambda>d. is_space d \<and> d \<noteq> CHR 0x0A) (c # r);
                    sgn = takeWhile (\<lambda>d. d = CHR ''-'' \<or> d = CHR ''+'') (take 1 s);
                    ds = takeWhile (\<lambda>d. digit_val d \<noteq> None) (drop (length sgn) s)
                in case ParseInt 64 (sgn @ ds) of Some v \<Rightarrow> v | None \<Rightarrow> 0))
      else 0)"

subsection \<open>Terminal states\<close>

definition wf_setFailed :: "'x WfEnv \<Rightarrow> ChaosWorkflow \<Rightarrow> string \<Rightarrow> ('x, outcome) M" where
  "wf_setFailed env wk reason = do {
     now \<leftarrow> wf_now env;
     let wk = upd_wstatus (\<lambda>s. s\<lparr>wst_phase := WorkflowPhaseFailed, wst_endTime := Some now\<rparr>) wk;
     wk \<leftarrow> setWorkflowCondition env ''Progressing'' ConditionFalse ''WorkflowFailed'' reason wk;
     wk \<leftarrow> setWorkflowCondition env ''Available'' ConditionFalse ''WorkflowFailed'' reason wk;
     wk \<leftarrow> setWorkflowCondition env ''Degraded'' ConditionTrue ''WorkflowFailed'' reason wk;
     r \<leftarrow> wf_status_update env wk;
     (case r of
        Some e \<Rightarrow> State_Monad.return (failing e)
      | None \<Rightarrow> do {
          record_event ''Warning'' ''Failed'' reason;
          State_Monad.return finished })
   }"

definition wf_setCompleted :: "'x WfEnv \<Rightarrow> ChaosWorkflow \<Rightarrow> ('x, outcome) M" where
  "wf_setCompleted env wk = do {
     now \<leftarrow> wf_now env;
     let wk = upd_wstatus (\<lambda>s. s\<lparr>wst_phase := WorkflowPhaseCompleted, wst_endTime := Some now,
       wst_progress := FormatProgress (wst_templateStatuses s) (int (length (ws_templates (w_spec wk))))\<rparr>) wk;
     wk \<leftarrow> setWorkflowCondition env ''Progressing'' ConditionFalse ''WorkflowCompleted'' ''Workflow completed successfully'' wk;
     wk \<leftarrow> setWorkflowCondition env ''Available'' ConditionTrue ''WorkflowCompleted'' ''Workflow completed successfully'' wk;
     wk \<leftarrow> setWorkflowCondition env ''Degraded'' ConditionFalse ''WorkflowCompleted'' ''Workflow completed successfully'' wk;
     r \<leftarrow> wf_status_update env wk;
     (case r of
        Some e \<Rightarrow> State_Monad.return (failing e)
      | None \<Rightarrow> do {
          record_event ''Normal'' ''Completed'' ''Workflow completed successfully'';
          State_Monad.return finished })
   }"

definition wf_setAborted :: "'x WfEnv \<Rightarrow> ChaosWorkflow \<Rightarrow> ('x, outcome) M" where
  "wf_setAborted env wk = do {
     now \<leftarrow> wf_now env;
     let wk = upd_wstatus (\<lambda>s. s\<lparr>wst_phase := WorkflowPhaseAborted, wst_endTime := Some now\<rparr>) wk;
     wk \<leftarrow> setWorkflowCondition env ''Progressing'' ConditionFalse ''WorkflowAborted'' ''Workflow was aborted'' wk;
     wk \<leftarrow> setWorkflowCondition env ''Available'' ConditionFalse ''WorkflowAborted'' ''Workflow was aborted'' wk;
     wk \<leftarrow> setWorkflowCondition env ''Degraded'' ConditionFalse ''WorkflowAborted'' ''Workflow was aborted'' wk;
     r \<leftarrow> wf_status_update env wk;
     (case r of
        Some e \<Rightarrow> State_Monad.return (failing e)
      | None \<Rightarrow> do {
          record_event ''Warning'' ''Aborted'' ''Workflow was aborted'';
          State_Monad.return finished })
   }"

subsection \<open>Executing a template\<close>

definition no_result :: Result where "no_result = \<lparr>res_Requeue = False, res_RequeueAfter = 0\<rparr>"
definition result_after :: "duration \<Rightarrow> Result" where
  "result_after d = \<lparr>res_Requeue = False, res_RequeueAfter = d\<rparr>"
definition result_requeue :: Result where "result_requeue = \<lparr>res_Requeue = True, res_RequeueAfter = 0\<rparr>"

definition exp_key :: "ChaosWorkflow \<Rightarrow> ExperimentRef \<Rightarrow> key" where
  "exp_key wk ref = (if er_namespace ref = [] then m_namespace (w_meta wk) else er_namespace ref, er_name ref)"

definition started :: "time \<Rightarrow> TemplateStatus \<Rightarrow> TemplateStatus" where
  "started now ts = ts\<lparr>ts_phase := WorkflowPhaseRunning, ts_startTime := Some now\<rparr>"

definition fail_status :: "string \<Rightarrow> TemplateStatus \<Rightarrow> TemplateStatus" where
  "fail_status msg ts = ts\<lparr>ts_phase := WorkflowPhaseFailed, ts_message := msg\<rparr>"

definition complete_status :: "time \<Rightarrow> string \<Rightarrow> TemplateStatus \<Rightarrow> TemplateStatus" where
  "complete_status now msg ts = ts\<lparr>ts_phase := WorkflowPhaseCompleted, ts_endTime := Some now, ts_message := msg\<rparr>"

text \<open>The arms of the \<open>switch\<close> of \<open>executeTemplate\<close>; each returns its result and what it leaves in \<open>*ts\<close>.\<close>

definition execute_experiment :: "'x WfEnv \<Rightarrow> ChaosWorkflow \<Rightarrow> WorkflowTemplate \<Rightarrow> TemplateStatus \<Rightarrow> ('x, Result \<times> TemplateStatus) M" where
  "execute_experiment env wk tmpl ts =
     (let ts = ts\<lparr>ts_message := ''creating experiment''\<rparr> in
      case wt_experimentRef tmpl of
        None \<Rightarrow> State_Monad.return (no_result, fail_status ''experimentRef is required'' ts)
      | Some ref \<Rightarrow> do {
          g \<leftarrow> wf_get_exp env (exp_key wk ref);
          let ts = (case g of
               Inr _ \<Rightarrow> ts
             | Inl err \<Rightarrow>
                 (case IgnoreNotFound err of
                    None \<Rightarrow> ts\<lparr>ts_message := ''waiting for experiment to be created''\<rparr>
                  | Some e \<Rightarrow> fail_status (''failed to get experiment: '' @ e) ts));
          record_event ''Normal'' ''TemplateStarted'' (''Started experiment template '' @ quoted (wt_name tmpl));
          State_Monad.return (result_after (5 * second), ts) })"

definition execute_delay :: "WorkflowTemplate \<Rightarrow> TemplateStatus \<Rightarrow> ('x, Result \<times> TemplateStatus) M" where
  "execute_delay tmpl ts =
     (case wt_delay tmpl of
        None \<Rightarrow> State_Monad.return (no_result, fail_status ''delay spec is required'' ts)
      | Some d \<Rightarrow> do {
          record_event ''Normal'' ''TemplateStarted''
            (''Started delay template '' @ quoted (wt_name tmpl) @ '' for '' @ dur_str d);
          State_Monad.return (result_after d, ts\<lparr>ts_message := ''waiting '' @ dur_str d\<rparr>) })"

definition execute_condition :: "'x WfEnv \<Rightarrow> WorkflowTemplate \<Rightarrow> TemplateStatus \<Rightarrow> ('x, Result \<times> TemplateStatus) M" where
  "execute_condition env tmpl ts =
     (case wt_condition tmpl of
        None \<Rightarrow> State_Monad.return (no_result, fail_status ''condition spec is required'' ts)
      | Some c \<Rightarrow> do {
          let res = evaluateCondition (cs_expression c);
          endNow \<leftarrow> wf_now env;
          let msg = (if res then ''condition true, routing to '' @ cs_ifTrue c
                     else ''condition false, routing to '' @ cs_ifFalse c);
          record_event ''Normal'' ''ConditionEvaluated'' msg;
          State_Monad.return (result_requeue, complete_status endNow msg ts) })"

definition execute_parallel :: "WorkflowTemplate \<Rightarrow> TemplateStatus \<Rightarrow> ('x, Result \<times> TemplateStatus) M" where
  "execute_parallel tmpl ts =
     (case wt_parallel tmpl of
        None \<Rightarrow> State_Monad.return (no_result, fail_status ''parallel spec is required'' ts)
      | Some subs \<Rightarrow> do {
          record_event ''Normal'' ''TemplateStarted''
            (''Started parallel template '' @ quoted (wt_name tmpl) @ '' with '' @ Itoa (int (length subs)) @ '' sub-templates'');
          State_Monad.return (result_after (5 * second),
            ts\<lparr>ts_message := ''running '' @ Itoa (int (length subs)) @ '' parallel templates''\<rparr>) })"

definition execute_suspend :: "'x WfEnv \<Rightarrow> ChaosWorkflow \<Rightarrow> WorkflowTemplate \<Rightarrow> TemplateStatus \<Rightarrow>
    ('x, (Result \<times> TemplateStatus) \<times> ChaosWorkflow) M" where
  "execute_suspend env wk tmpl ts = do {
     record_event ''Normal'' ''TemplateStarted'' (''Suspended at template '' @ quoted (wt_name tmpl));
     let wk = upd_wstatus (\<lambda>s. s\<lparr>wst_phase := WorkflowPhasePaused\<rparr>) wk;
     wk \<leftarrow> setWorkflowCondition env ''Progressing'' ConditionFalse ''WorkflowPaused''
       (''Waiting for resume at '' @ wt_name tmpl) wk;
     State_Monad.return ((result_after (10 * second), ts\<lparr>ts_message := ''waiting for resume''\<rparr>), wk) }"

definition keep_wf :: "ChaosWorkflow \<Rightarrow> ('x, 'a) M \<Rightarrow> ('x, 'a \<times> ChaosWorkflow) M" where
  "keep_wf wk m = do { a \<leftarrow> m; State_Monad.return (a, wk) }"

definition status_or_new :: "statusMap \<Rightarrow> string \<Rightarrow> TemplateStatus" where
  "status_or_new sm name = (case map_of sm name of
     Some ts \<Rightarrow> ts
   | None \<Rightarrow> \<lparr>ts_name = name, ts_phase = WorkflowPhaseEmpty, ts_startTime = None, ts_endTime = None, ts_message = []\<rparr>)"

definition executeTemplate :: "'x WfEnv \<Rightarrow> ChaosWorkflow \<Rightarrow> WorkflowTemplate \<Rightarrow> statusMap \<Rightarrow>
    ('x, Result \<times> ChaosWorkflow \<times> statusMap) M" where
  "executeTemplate env wk tmpl sm = do {
     now \<leftarrow> wf_now env;
     let ts = status_or_new sm (wt_name tmpl);
     ((res, ts'), wk') \<leftarrow>
       (case wt_type tmpl of
          TemplateTypeExperiment \<Rightarrow> keep_wf wk (execute_experiment env wk tmpl (started now ts))
        | TemplateTypeDelay \<Rightarrow> keep_wf wk (execute_delay tmpl (started now ts))
        | TemplateTypeCondition \<Rightarrow> keep_wf wk (execute_condition env tmpl (started now ts))
        | TemplateTypeParallel \<Rightarrow> keep_wf wk (execute_parallel tmpl (started now ts))
        | TemplateTypeSuspend \<Rightarrow> execute_suspend env wk tmpl (started now ts)
        | TemplateTypeOther t \<Rightarrow> State_Monad.return ((no_result, fail_status (''unknown template type: '' @ t) ts), wk));
     State_Monad.return (res, wk', gm_put (wt_name tmpl) ts' sm) }"

subsection \<open>Checking a running template\<close>

definition progress_experiment :: "'x WfEnv \<Rightarrow> ChaosWorkflow \<Rightarrow> WorkflowTemplate \<Rightarrow> TemplateStatus \<Rightarrow> ('x, Result \<times> TemplateStatus) M" where
  "progress_experiment env wk tmpl ts =
     (case wt_experimentRef tmpl of
        None \<Rightarrow> State_Monad.return (no_result, ts)
      | Some ref \<Rightarrow> do {
          g \<leftarrow> wf_get_exp env (exp_key wk ref);
          (case g of
             Inl err \<Rightarrow> State_Monad.return (result_after (5 * second), ts)
           | Inr xp \<Rightarrow>
               if phase_of xp = PhaseCompleted then do {
                 now \<leftarrow> wf_now env;
                 State_Monad.return (no_result, complete_status now ''experiment completed'' ts) }
               else if phase_of xp = PhaseFailed \<or> phase_of xp = PhaseAborted then do {
                 now \<leftarrow> wf_now env;
                 State_Monad.return (no_result,
                   fail_status (''experiment '' @ phase_string (phase_of xp)) (ts\<lparr>ts_endTime := Some now\<rparr>)) }
               else State_Monad.return (result_after (5 * second), ts)) })"

definition progress_delay :: "'x WfEnv \<Rightarrow> WorkflowTemplate \<Rightarrow> TemplateStatus \<Rightarrow> ('x, Result \<times> TemplateStatus) M" where
  "progress_delay env tmpl ts =
     (case (ts_startTime ts, wt_delay tmpl) of
        (Some start, Some d) \<Rightarrow> do {
          t \<leftarrow> wf_now env;
          let elapsed = time_since t start;
          if elapsed \<ge> d then do {
            now \<leftarrow> wf_now env;
            State_Monad.return (no_result, complete_status now ''delay completed'' ts) }
          else State_Monad.return (result_after (wrap64 (d - elapsed)), ts) }
      | _ \<Rightarrow> State_Monad.return (no_result, ts))"

definition ended :: "TemplateStatus option \<Rightarrow> bool" where
  "ended st = (case st of None \<Rightarrow> False
     | Some s \<Rightarrow> ts_phase s = WorkflowPhaseCompleted \<or> ts_phase s = WorkflowPhaseFailed)"

definition progress_parallel :: "'x WfEnv \<Rightarrow> WorkflowTemplate \<Rightarrow> statusMap \<Rightarrow> TemplateStatus \<Rightarrow> ('x, Result \<times> TemplateStatus) M" where
  "progress_parallel env tmpl sm ts =
     (case wt_parallel tmpl of
        None \<Rightarrow> State_Monad.return (no_result, ts)
      | Some subs \<Rightarrow>
          if list_all (\<lambda>sub. ended (map_of sm sub)) subs then do {
            now \<leftarrow> wf_now env;
            State_Monad.return (no_result, complete_status now ''all parallel templates completed'' ts) }
          else State_Monad.return (result_after (5 * second), ts))"

definition progress_suspend :: "'x WfEnv \<Rightarrow> ChaosWorkflow \<Rightarrow> WorkflowTemplate \<Rightarrow> TemplateStatus \<Rightarrow> ('x, Result \<times> TemplateStatus) M" where
  "progress_suspend env wk tmpl ts =
     (if gm_str (m_annotations (w_meta wk)) workflowResumeAnnotation = ''true'' then do {
        now \<leftarrow> wf_now env;
        State_Monad.return (result_after (10 * second), complete_status now ''resumed'' ts) }
      else (case (wt_suspend tmpl, ts_startTime ts) of
              (Some (Some timeout), Some start) \<Rightarrow> do {
                t \<leftarrow> wf_now env;
                if time_since t start \<ge> timeout then do {
                  now \<leftarrow> wf_now env;
                  State_Monad.return (result_after (10 * second), complete_status now ''suspend timed out'' ts) }
                else State_Monad.return (result_after (10 * second), ts) }
            | _ \<Rightarrow> State_Monad.return (result_after (10 * second), ts)))"

definition checkTemplateProgress :: "'x WfEnv \<Rightarrow> ChaosWorkflow \<Rightarrow> WorkflowTemplate \<Rightarrow> statusMap \<Rightarrow>
    ('x, Result \<times> statusMap) M" where
  "checkTemplateProgress env wk tmpl sm =
     (case map_of sm (wt_name tmpl) of
        None \<Rightarrow> State_Monad.return (no_result, sm)
      | Some ts \<Rightarrow> do {
          (res, ts') \<leftarrow>
            (case wt_type tmpl of
               TemplateTypeExperiment \<Rightarrow> progress_experiment env wk tmpl ts
             | TemplateTypeDelay \<Rightarrow> progress_delay env tmpl ts
             | TemplateTypeParallel \<Rightarrow> progress_parallel env tmpl sm ts
             | TemplateTypeSuspend \<Rightarrow> progress_suspend env wk tmpl ts
             | TemplateTypeCondition \<Rightarrow> State_Monad.return (no_result, ts)
             | TemplateTypeOther t \<Rightarrow> State_Monad.return (no_result, ts));
          State_Monad.return (res, gm_put (wt_name tmpl) ts' sm) })"

subsection \<open>Reconciling\<close>

definition earlier :: "duration \<Rightarrow> Result \<Rightarrow> duration" where
  "earlier requeueAfter res =
     (if res_RequeueAfter res > 0 \<and> (requeueAfter = 0 \<or> res_RequeueAfter res < requeueAfter)
      then res_RequeueAfter res else requeueAfter)"

definition statuses_map :: "TemplateStatus list \<Rightarrow> statusMap" where
  "statuses_map ss = fold (\<lambda>s. gm_put (ts_name s) s) ss []"

definition in_phase :: "(WorkflowPhase \<Rightarrow> bool) \<Rightarrow> statusMap \<Rightarrow> (string, bool) gomap" where
  "in_phase p sm = map (\<lambda>(n, s). (n, True)) (filter (\<lambda>(n, s). p (ts_phase s)) sm)"

text \<open>The statuses of the list the pointers of the map point to: the last of each name.\<close>

fun sync_statuses :: "statusMap \<Rightarrow> TemplateStatus list \<Rightarrow> TemplateStatus list" where
  "sync_statuses sm [] = []"
| "sync_statuses sm (s # ss) =
     (if ts_name s \<in> ts_name ` set ss then s
      else (case map_of sm (ts_name s) of Some s' \<Rightarrow> s' | None \<Rightarrow> s)) # sync_statuses sm ss"

text \<open>The retry loop, over the failed names in the order the map is ranged over.\<close>

definition retryCount :: "TemplateStatus \<Rightarrow> int" where
  "retryCount ts = (if ts_message ts \<noteq> [] then sscanf_retry (ts_message ts) else 0)"

definition retried :: "TemplateStatus \<Rightarrow> TemplateStatus" where
  "retried ts = ts\<lparr>ts_phase := WorkflowPhasePending, ts_message := ''retry '' @ Itoa (retryCount ts + 1)\<rparr>"

fun retryFailed :: "string list \<Rightarrow> statusMap \<Rightarrow> (string, bool) gomap \<Rightarrow> statusMap \<times> (string, bool) gomap" where
  "retryFailed [] sm completed = (sm, completed)"
| "retryFailed (name # rest) sm completed =
     (case map_of sm name of
        None \<Rightarrow> retryFailed rest sm completed
      | Some ts \<Rightarrow>
          if retryCount ts < maxRetries
          then retryFailed rest (gm_put name (retried ts) sm) (gm_del name completed)
          else retryFailed rest sm completed)"

fun executeReady :: "'x WfEnv \<Rightarrow> (string, bool) gomap \<Rightarrow> string list \<Rightarrow> ChaosWorkflow \<Rightarrow> statusMap \<Rightarrow> duration \<Rightarrow>
    ('x, ChaosWorkflow \<times> statusMap \<times> duration) M" where
  "executeReady env running [] wk sm after = State_Monad.return (wk, sm, after)"
| "executeReady env running (name # rest) wk sm after =
     (if gm_true running name then executeReady env running rest wk sm after
      else (case findTemplate (ws_templates (w_spec wk)) name of
              None \<Rightarrow> executeReady env running rest wk sm after
            | Some tmpl \<Rightarrow> do {
                (res, wk', sm') \<leftarrow> executeTemplate env wk tmpl sm;
                executeReady env running rest wk' sm' (earlier after res) }))"

fun checkRunning :: "'x WfEnv \<Rightarrow> string list \<Rightarrow> ChaosWorkflow \<Rightarrow> statusMap \<Rightarrow> duration \<Rightarrow>
    ('x, statusMap \<times> duration) M" where
  "checkRunning env [] wk sm after = State_Monad.return (sm, after)"
| "checkRunning env (name # rest) wk sm after =
     (case findTemplate (ws_templates (w_spec wk)) name of
        None \<Rightarrow> checkRunning env rest wk sm after
      | Some tmpl \<Rightarrow> do {
          (res, sm') \<leftarrow> checkTemplateProgress env wk tmpl sm;
          checkRunning env rest wk sm' (earlier after res) })"

text \<open>The end of \<open>reconcileRunning\<close>: flatten the map, write the status, ask for the next look.\<close>

definition publishStatuses :: "'x WfEnv \<Rightarrow> ChaosWorkflow \<Rightarrow> statusMap \<Rightarrow> duration \<Rightarrow> ('x, outcome) M" where
  "publishStatuses env wk sm after = do {
     ord \<leftarrow> wf_ord env;
     let flat = flattenStatuses ord sm;
     let wk = upd_wstatus (\<lambda>s. s\<lparr>wst_templateStatuses := flat,
       wst_progress := FormatProgress flat (int (length (ws_templates (w_spec wk))))\<rparr>) wk;
     r \<leftarrow> wf_status_update env wk;
     State_Monad.return (case r of
       Some e \<Rightarrow> failing e
     | None \<Rightarrow> if after > 0 then requeue_after after else requeue_after (5 * second)) }"

text \<open>The rest of \<open>reconcileRunning\<close>, after the failed templates have been dealt with.\<close>

definition runTemplates :: "'x WfEnv \<Rightarrow> ChaosWorkflow \<Rightarrow> statusMap \<Rightarrow> (string, bool) gomap \<Rightarrow> (string, bool) gomap \<Rightarrow>
    ('x, outcome) M" where
  "runTemplates env wk sm completed running =
     (if length completed = length (ws_templates (w_spec wk))
      then wf_setCompleted env (upd_wstatus (\<lambda>s. s\<lparr>wst_templateStatuses := sync_statuses sm (wst_templateStatuses s)\<rparr>) wk)
      else do {
        ord1 \<leftarrow> wf_ord env;
        (wk, sm, after) \<leftarrow> executeReady env running (ReadyTemplates ord1 (ws_templates (w_spec wk)) completed) wk sm 0;
        ord2 \<leftarrow> wf_ord env;
        (sm, after) \<leftarrow> checkRunning env (ord2 (gm_keys running)) wk sm after;
        publishStatuses env wk sm after })"

definition wf_reconcilePending :: "'x WfEnv \<Rightarrow> ChaosWorkflow \<Rightarrow> ('x, outcome) M" where
  "wf_reconcilePending env wk = do {
     ord \<leftarrow> wf_ord env;
     (case TopologicalSort ord (ws_templates (w_spec wk)) of
        Inl err \<Rightarrow> wf_setFailed env wk err
      | Inr _ \<Rightarrow> do {
          now \<leftarrow> wf_now env;
          let wk = upd_wstatus (\<lambda>s. s\<lparr>wst_phase := WorkflowPhaseRunning, wst_startTime := Some now,
            wst_observedGeneration := m_generation (w_meta wk),
            wst_progress := FormatProgress [] (int (length (ws_templates (w_spec wk))))\<rparr>) wk;
          wk \<leftarrow> setWorkflowCondition env ''Progressing'' ConditionTrue ''WorkflowStarted'' ''Workflow is running'' wk;
          r \<leftarrow> wf_status_update env wk;
          (case r of
             Some e \<Rightarrow> State_Monad.return (failing e)
           | None \<Rightarrow> do {
               record_event ''Normal'' ''Started'' ''Workflow started'';
               State_Monad.return requeue }) }) }"

definition wf_reconcileRunning :: "'x WfEnv \<Rightarrow> ChaosWorkflow \<Rightarrow> ('x, outcome) M" where
  "wf_reconcileRunning env wk =
     (let sm = statuses_map (wst_templateStatuses (w_status wk));
          completed = in_phase (\<lambda>p. p = WorkflowPhaseCompleted \<or> p = WorkflowPhaseFailed) sm;
          running = in_phase (\<lambda>p. p = WorkflowPhaseRunning) sm;
          failed = in_phase (\<lambda>p. p = WorkflowPhaseFailed) sm;
          strategy = (if ws_strategy (w_spec wk) = ErrorStrategyEmpty then ErrorStrategyAbort else ws_strategy (w_spec wk)) in
      if failed = [] then runTemplates env wk sm completed running
      else (case strategy of
              ErrorStrategyAbort \<Rightarrow> wf_setFailed env wk (''template failed, strategy: '' @ strategy_string strategy)
            | ErrorStrategyRollback \<Rightarrow> wf_setFailed env wk (''template failed, strategy: '' @ strategy_string strategy)
            | ErrorStrategyRetry \<Rightarrow> do {
                ord \<leftarrow> wf_ord env;
                (case retryFailed (ord (gm_keys failed)) sm completed of
                   (sm', completed') \<Rightarrow> runTemplates env wk sm' completed' running) }
            | _ \<Rightarrow> runTemplates env wk sm completed running))"

definition reconcilePaused :: "'x WfEnv \<Rightarrow> ChaosWorkflow \<Rightarrow> ('x, outcome) M" where
  "reconcilePaused env wk =
     (if gm_str (m_annotations (w_meta wk)) workflowResumeAnnotation = ''true'' then do {
        let wk = upd_wstatus (\<lambda>s. s\<lparr>wst_phase := WorkflowPhaseRunning\<rparr>) wk;
        wk \<leftarrow> setWorkflowCondition env ''Progressing'' ConditionTrue ''WorkflowResumed'' ''Workflow resumed'' wk;
        r \<leftarrow> wf_status_update env wk;
        (case r of
           Some e \<Rightarrow> State_Monad.return (failing e)
         | None \<Rightarrow> do {
             record_event ''Normal'' ''Resumed'' ''Workflow resumed'';
             State_Monad.return requeue }) }
      else State_Monad.return (requeue_after (10 * second)))"

definition to_abort :: "ChaosWorkflow \<Rightarrow> ChaosExperiment \<Rightarrow> bool" where
  "to_abort wk xp \<longleftrightarrow> isOwnedBy xp wk \<and> (phase_of xp = PhaseRunning \<or> phase_of xp = PhasePending)"

definition with_abort :: "ChaosExperiment \<Rightarrow> ChaosExperiment" where
  "with_abort xp = xp\<lparr>e_meta := (e_meta xp)\<lparr>m_annotations :=
     gm_put abortAnnotation ''true'' (m_annotations (e_meta xp))\<rparr>\<rparr>"

fun abort_experiments :: "'x WfEnv \<Rightarrow> ChaosWorkflow \<Rightarrow> ChaosExperiment list \<Rightarrow> ('x, unit) M" where
  "abort_experiments env wk [] = State_Monad.return ()"
| "abort_experiments env wk (xp # xps) =
     (if to_abort wk xp then do {
        _ \<leftarrow> wf_update_exp env (with_abort xp);
        abort_experiments env wk xps }
      else abort_experiments env wk xps)"

definition wf_handleAbort :: "'x WfEnv \<Rightarrow> ChaosWorkflow \<Rightarrow> ('x, outcome) M" where
  "wf_handleAbort env wk = do {
     l \<leftarrow> ext_call (wenv_ListExp env (m_namespace (w_meta wk))) (\<lambda>_. []);
     (case l of
        Inl err \<Rightarrow> State_Monad.return ()
      | Inr items \<Rightarrow> abort_experiments env wk items);
     wf_setAborted env wk }"

definition wf_reconcileObject :: "'x WfEnv \<Rightarrow> ChaosWorkflow \<Rightarrow> ('x, outcome) M" where
  "wf_reconcileObject env wk =
     (if gm_str (m_annotations (w_meta wk)) workflowAbortAnnotation = ''true'' \<and>
         wst_phase (w_status wk) = WorkflowPhaseRunning
      then wf_handleAbort env wk
      else (case wst_phase (w_status wk) of
              WorkflowPhaseEmpty \<Rightarrow> wf_reconcilePending env wk
            | WorkflowPhasePending \<Rightarrow> wf_reconcilePending env wk
            | WorkflowPhaseRunning \<Rightarrow> wf_reconcileRunning env wk
            | WorkflowPhasePaused \<Rightarrow> reconcilePaused env wk
            | WorkflowPhaseCompleted \<Rightarrow> State_Monad.return finished
            | WorkflowPhaseFailed \<Rightarrow> State_Monad.return finished
            | WorkflowPhaseAborted \<Rightarrow> State_Monad.return finished
            | WorkflowPhaseOther _ \<Rightarrow> State_Monad.return finished))"

definition wf_Reconcile :: "'x WfEnv \<Rightarrow> key \<Rightarrow> ('x, outcome) M" where
  "wf_Reconcile env req = do {
     g \<leftarrow> ext_call (wenv_Get env req) (\<lambda>_. []);
     (case g of
        Inl kerr \<Rightarrow> State_Monad.return
          (case IgnoreNotFound kerr of None \<Rightarrow> finished | Some e \<Rightarrow> failing e)
      | Inr wk \<Rightarrow> wf_reconcileObject env wk) }"

subsection \<open>Specification\<close>

fun last_status :: "TemplateStatus list \<Rightarrow> string \<Rightarrow> TemplateStatus option" where
  "last_status [] n = None"
| "last_status (s # ss) n = (case last_status ss n of Some s' \<Rightarrow> Some s' | None \<Rightarrow> if ts_name s = n then Some s else None)"

definition status_of :: "ChaosWorkflow \<Rightarrow> string \<Rightarrow> TemplateStatus option" where
  "status_of wk = last_status (wst_templateStatuses (w_status wk))"

definition sm_ok :: "statusMap \<Rightarrow> bool" where
  "sm_ok sm \<longleftrightarrow> gm_ok sm \<and> (\<forall>n s. map_of sm n = Some s \<longrightarrow> ts_name s = n)"

text \<open>What a reconcile of a running workflow may change: the templates for which \<open>P\<close> holds.\<close>

definition changes_only :: "(string \<Rightarrow> bool) \<Rightarrow> statusMap \<Rightarrow> statusMap \<Rightarrow> bool" where
  "changes_only P sm sm' \<longleftrightarrow> sm_ok sm' \<and> dom (map_of sm) \<subseteq> dom (map_of sm') \<and>
     (\<forall>n. map_of sm' n \<noteq> map_of sm n \<longrightarrow> P n)"

definition deps_ended :: "ChaosWorkflow \<Rightarrow> string \<Rightarrow> bool" where
  "deps_ended wk n \<longleftrightarrow> (\<exists>t \<in> set (ws_templates (w_spec wk)). wt_name t = n \<and>
     (\<forall>d \<in> set (wt_dependencies t). ended (status_of wk d)))"

definition was_in :: "WorkflowPhase \<Rightarrow> ChaosWorkflow \<Rightarrow> string \<Rightarrow> bool" where
  "was_in ph wk n \<longleftrightarrow> (\<exists>s. status_of wk n = Some s \<and> ts_phase s = ph)"

text \<open>No failed template carries a message that counts as a retry.\<close>

definition no_retry_count :: "TemplateStatus option \<Rightarrow> bool" where
  "no_retry_count st \<longleftrightarrow> (\<forall>s. st = Some s \<and> ts_phase s = WorkflowPhaseFailed \<longrightarrow> sscanf_retry (ts_message s) = 0)"

definition orders_ok :: "'x WfEnv \<Rightarrow> bool" where
  "orders_ok env \<longleftrightarrow> (\<forall>x. any_order (fst (wenv_Ord env x)))"

definition no_retries :: "statusMap \<Rightarrow> bool" where
  "no_retries sm \<longleftrightarrow> (\<forall>n. no_retry_count (map_of sm n))"

text \<open>What both loops keep, on the workflow and the map they thread.\<close>

definition loop_inv :: "(string \<Rightarrow> bool) \<Rightarrow> ChaosWorkflow \<Rightarrow> statusMap \<Rightarrow> ChaosWorkflow \<Rightarrow> statusMap \<Rightarrow> bool" where
  "loop_inv P wk0 sm0 wk sm \<longleftrightarrow> w_spec wk = w_spec wk0 \<and> w_meta wk = w_meta wk0 \<and> changes_only P sm0 sm \<and>
     (no_retries sm0 \<longrightarrow> no_retries sm)"

text \<open>What a status write of a running workflow may contain.\<close>

definition good_write :: "(string \<Rightarrow> bool) \<Rightarrow> ChaosWorkflow \<Rightarrow> ChaosWorkflow \<Rightarrow> bool" where
  "good_write P wk wk' \<longleftrightarrow> w_spec wk' = w_spec wk \<and> w_meta wk' = w_meta wk \<and>
     (\<forall>n. status_of wk' n \<noteq> status_of wk n \<longrightarrow> P n) \<and>
     ((\<forall>n. no_retry_count (status_of wk n)) \<longrightarrow> (\<forall>n. no_retry_count (status_of wk' n)))"

definition running_outcome :: "(string \<Rightarrow> bool) \<Rightarrow> ChaosWorkflow \<Rightarrow> outcome \<Rightarrow> Call list \<Rightarrow> bool" where
  "running_outcome P wk out l \<longleftrightarrow> (\<exists>wk' r. l = [CWorkflowStatusUpdate wk' r] \<and> good_write P wk wk' \<and>
     (wst_phase (w_status wk') \<in> {WorkflowPhaseCompleted, WorkflowPhaseFailed} \<and> out = written finished r \<or>
      (\<exists>d > 0. out = written (requeue_after d) r)))"

text \<open>The workflow and the client of the witnesses.\<close>

definition demo_status :: "string \<Rightarrow> WorkflowPhase \<Rightarrow> TemplateStatus" where
  "demo_status n ph = \<lparr>ts_name = n, ts_phase = ph, ts_startTime = Some 0, ts_endTime = None, ts_message = ''experiment Failed''\<rparr>"

definition demo_wf :: "TemplateStatus list \<Rightarrow> WorkflowPhase \<Rightarrow> ChaosWorkflow" where
  "demo_wf ss ph =
     \<lparr>w_meta = \<lparr>m_name = ''wf'', m_namespace = ''prod'', m_uid = ''w1'', m_generation = 1,
        m_deletionTimestamp = None, m_finalizers = [], m_labels = [], m_annotations = [], m_ownerUIDs = []\<rparr>,
      w_spec = \<lparr>ws_templates = [demo_template ''b'' [''a''], demo_template ''a'' []], ws_parameters = [],
        ws_strategy = ErrorStrategyRetry, ws_maxParallelism = None\<rparr>,
      w_status = \<lparr>wst_phase = ph, wst_startTime = Some 0, wst_endTime = None, wst_templateStatuses = ss,
        wst_progress = [], wst_conditions = [], wst_observedGeneration = 1\<rparr>\<rparr>"

definition demo_owned :: ChaosExperiment where
  "demo_owned = mem_running\<lparr>e_meta := (e_meta mem_running)\<lparr>m_ownerUIDs := [''w1'']\<rparr>\<rparr>"

definition demo_wf_env :: "unit WfEnv" where
  "demo_wf_env = \<lparr>wenv_Get = (\<lambda>k x. (Inl (NotFound ''no''), x)), wenv_GetExp = (\<lambda>k x. (Inl (NotFound ''no''), x)),
     wenv_ListExp = (\<lambda>n x. (Inr [mem_running, demo_owned], x)), wenv_UpdateExp = (\<lambda>xp x. (None, x)),
     wenv_StatusUpdate = (\<lambda>wk x. (None, x)), wenv_Now = (\<lambda>x. (0, x)), wenv_Ord = (\<lambda>x. (rev, x))\<rparr>"

definition demo_world :: "unit World" where
  "demo_world = \<lparr>w_ext = (), w_log = []\<rparr>"

section \<open>Lemmas\<close>

lemmas wf_calls = wf_now_def wf_get_exp_def wf_status_update_def wf_update_exp_def

lemma upd_wstatus_simps [simp]:
  "w_meta (upd_wstatus f wk) = w_meta wk" "w_spec (upd_wstatus f wk) = w_spec wk"
  "w_status (upd_wstatus f wk) = f (w_status wk)"
  by (simp_all add: upd_wstatus_def)

lemma logs_ord [logs_intros]:
  assumes "orders_ok env" and "\<And>ord. any_order ord \<Longrightarrow> R ord []"
  shows "logs (wf_ord env) R"
  unfolding logs_def wf_ord_def
proof
  fix w :: "'a World"
  obtain ord x where x: "wenv_Ord env (w_ext w) = (ord, x)" by (cases "wenv_Ord env (w_ext w)")
  then have "any_order ord" using assms(1) unfolding orders_ok_def by (metis fst_conv)
  with assms(2) x show "\<exists>l. w_log (snd (run_state (ext_call (wenv_Ord env) (\<lambda>_. [])) w)) = w_log w @ l \<and>
    R (fst (run_state (ext_call (wenv_Ord env) (\<lambda>_. [])) w)) (filter visible l)"
    by (simp add: run_ext_call)
qed

lemma logs_setWorkflowCondition [logs_intros]:
  "(\<And>cs. R (upd_wstatus (\<lambda>s. s\<lparr>wst_conditions := cs s\<rparr>) wk) []) \<Longrightarrow> logs (setWorkflowCondition env t s r m wk) R"
  unfolding setWorkflowCondition_def wf_calls by (intro logs_intros) simp

subsection \<open>Status maps\<close>

lemma map_of_fold_statuses:
  "map_of (fold (\<lambda>s. gm_put (ts_name s) s) ss m) n = (case last_status ss n of Some s \<Rightarrow> Some s | None \<Rightarrow> map_of m n)"
  by (induction ss arbitrary: m) (auto split: option.splits)

lemma map_of_statuses_map: "map_of (statuses_map ss) = last_status ss"
  by (rule ext) (simp add: statuses_map_def map_of_fold_statuses split: option.splits)

lemma last_status_name: "last_status ss n = Some s \<Longrightarrow> ts_name s = n \<and> s \<in> set ss"
  by (induction ss) (auto split: option.splits if_splits)

lemma last_status_None: "last_status ss n = None \<longleftrightarrow> n \<notin> ts_name ` set ss"
  by (induction ss) (auto split: option.splits)

lemma gm_ok_fold_statuses: "gm_ok m \<Longrightarrow> gm_ok (fold (\<lambda>s. gm_put (ts_name s) s) ss m)"
  by (induction ss arbitrary: m) auto

lemma sm_ok_statuses_map: "sm_ok (statuses_map ss)"
  unfolding sm_ok_def map_of_statuses_map
  by (auto simp: statuses_map_def gm_ok_fold_statuses dest: last_status_name)

lemma sm_ok_put: "sm_ok sm \<Longrightarrow> ts_name s = n \<Longrightarrow> sm_ok (gm_put n s sm)"
  by (auto simp: sm_ok_def)

lemma sync_names: "sm_ok sm \<Longrightarrow> map ts_name (sync_statuses sm ss) = map ts_name ss"
  by (induction ss) (auto simp: sm_ok_def split: option.splits)

lemma last_status_sync:
  assumes "sm_ok sm" and "ts_name ` set ss \<subseteq> dom (map_of sm)"
  shows "last_status (sync_statuses sm ss) n = (if n \<in> ts_name ` set ss then map_of sm n else None)"
  using assms(2)
proof (induction ss)
  case (Cons s ss)
  have names: "ts_name ` set (sync_statuses sm ss) = ts_name ` set ss"
    using sync_names [OF assms(1), of ss] by (metis set_map)
  have s: "ts_name s \<in> dom (map_of sm)" using Cons.prems by simp
  then show ?case
    using Cons assms(1) by (auto simp: sm_ok_def split: option.splits)
qed simp

lemma last_status_flatten_keys:
  assumes "sm_ok sm" and "set ks \<subseteq> dom (map_of sm)"
  shows "last_status (List.map_filter (map_of sm) ks) n = (if n \<in> set ks then map_of sm n else None)"
  using assms(2)
proof (induction ks)
  case (Cons k ks)
  then obtain s where "map_of sm k = Some s" by auto
  moreover from this have "ts_name s = k" using assms(1) by (simp add: sm_ok_def)
  ultimately show ?case using Cons by (auto simp: map_filter_simps split: option.splits)
qed (simp add: map_filter_simps)

lemma last_status_flatten:
  assumes "sm_ok sm" and "any_order ord"
  shows "last_status (flattenStatuses ord sm) = map_of sm"
proof
  fix n
  have "set (ord (gm_keys sm)) = dom (map_of sm)"
    using assms(2) by (metis any_order_def mset_eq_setD set_gm_keys)
  then show "last_status (flattenStatuses ord sm) n = map_of sm n"
    using last_status_flatten_keys [OF assms(1), of "ord (gm_keys sm)" n]
    by (auto simp: flattenStatuses_def domIff)
qed

lemma keys_in_phase: "gm_ok sm \<Longrightarrow> n \<in> set (gm_keys (in_phase p sm)) \<longleftrightarrow> (\<exists>s. map_of sm n = Some s \<and> p (ts_phase s))"
  by (force simp: gm_keys_def in_phase_def gm_ok_def dest: map_of_SomeD)

lemma gm_true_in_phase: "gm_ok sm \<Longrightarrow> gm_true (in_phase p sm) n \<longleftrightarrow> (\<exists>s. map_of sm n = Some s \<and> p (ts_phase s))"
proof -
  have "map_of (in_phase p sm) n = Some True \<longleftrightarrow> n \<in> set (gm_keys (in_phase p sm))"
    by (induction sm) (auto simp: in_phase_def gm_keys_def)
  then show "gm_ok sm \<Longrightarrow> ?thesis" by (simp add: gm_true_def keys_in_phase)
qed

subsection \<open>Executing and checking templates\<close>

lemma no_retry_fail [simp]:
  "no_retry_count (Some (fail_status msg ts)) \<longleftrightarrow> sscanf_retry msg = 0"
  by (simp add: no_retry_count_def fail_status_def)

lemma no_retry_started [simp]:
  "no_retry_count (Some ((started now ts)\<lparr>ts_message := m\<rparr>))" "no_retry_count (Some (started now ts))"
  "no_retry_count (Some (complete_status now m ts))"
  by (simp_all add: no_retry_count_def started_def complete_status_def)

lemma ts_name_updates [simp]:
  "ts_name (fail_status m ts) = ts_name ts" "ts_name (started now ts) = ts_name ts"
  "ts_name (complete_status now m ts) = ts_name ts"
  by (simp_all add: fail_status_def started_def complete_status_def)

lemma sscanf_no_prefix: "\<not> has_prefix ''retry'' m \<Longrightarrow> sscanf_retry m = 0"
  by (simp add: sscanf_retry_def)

lemmas sscanf_messages = sscanf_no_prefix

lemma logs_executeTemplate [logs_intros]:
  assumes "\<And>res ts' wk'. ts_name ts' = ts_name (status_or_new sm (wt_name tmpl)) \<Longrightarrow> no_retry_count (Some ts') \<Longrightarrow>
    w_spec wk' = w_spec wk \<Longrightarrow> w_meta wk' = w_meta wk \<Longrightarrow> R (res, wk', gm_put (wt_name tmpl) ts' sm) []"
  shows "logs (executeTemplate env wk tmpl sm) R"
  unfolding executeTemplate_def wf_calls keep_wf_def execute_experiment_def execute_delay_def
    execute_condition_def execute_parallel_def execute_suspend_def Let_def
  by (auto intro!: logs_intros assms simp: sscanf_messages
      split: TemplateType.split option.split sum.split KErr.split)

lemma logs_progress:
  fixes ts defines "R \<equiv> \<lambda>r l. l = [] \<and> ts_name (snd r) = ts_name ts \<and> (snd r = ts \<or> no_retry_count (Some (snd r)))"
  shows "logs (progress_experiment env wk tmpl ts) R" "logs (progress_delay env tmpl ts) R"
    "logs (progress_parallel env tmpl sm ts) R" "logs (progress_suspend env wk tmpl ts) R"
  unfolding R_def progress_experiment_def progress_delay_def progress_parallel_def progress_suspend_def wf_calls Let_def
  by (auto intro!: logs_intros simp: sscanf_messages split: option.split sum.split)

lemma logs_checkTemplateProgress:
  "logs (checkTemplateProgress env wk tmpl sm) (\<lambda>(res, sm') l. l = [] \<and>
     (sm' = sm \<or> (\<exists>ts ts'. map_of sm (wt_name tmpl) = Some ts \<and> sm' = gm_put (wt_name tmpl) ts' sm \<and>
        ts_name ts' = ts_name ts \<and> (ts' = ts \<or> no_retry_count (Some ts')))))"
proof (cases "map_of sm (wt_name tmpl)")
  case None
  then show ?thesis by (auto intro!: logs_intros simp: checkTemplateProgress_def)
next
  case (Some ts)
  let ?R = "\<lambda>r l. l = [] \<and> ts_name (snd r) = ts_name ts \<and> (snd r = ts \<or> no_retry_count (Some (snd r)))"
  have arm: "logs (case wt_type tmpl of
       TemplateTypeExperiment \<Rightarrow> progress_experiment env wk tmpl ts
     | TemplateTypeDelay \<Rightarrow> progress_delay env tmpl ts
     | TemplateTypeParallel \<Rightarrow> progress_parallel env tmpl sm ts
     | TemplateTypeSuspend \<Rightarrow> progress_suspend env wk tmpl ts
     | TemplateTypeCondition \<Rightarrow> State_Monad.return (no_result, ts)
     | TemplateTypeOther t \<Rightarrow> State_Monad.return (no_result, ts)) ?R"
    using logs_progress by (auto intro!: logs_return split: TemplateType.split)
  show ?thesis
    unfolding checkTemplateProgress_def Some option.case
    by (rule logs_bind, rule logs_mono [OF arm]) (auto intro!: logs_return)
qed

lemma changes_only_refl: "sm_ok sm \<Longrightarrow> changes_only P sm sm"
  by (simp add: changes_only_def)

lemma changes_only_put:
  assumes "changes_only P sm0 sm" and "ts_name ts = n" and "P n"
  shows "changes_only P sm0 (gm_put n ts sm)"
  using assms by (auto simp: changes_only_def sm_ok_put)

lemma no_retries_put: "no_retries sm \<Longrightarrow> no_retry_count (Some ts) \<Longrightarrow> no_retries (gm_put n ts sm)"
  by (simp add: no_retries_def)

lemma findTemplate_Some: "findTemplate ts n = Some t \<Longrightarrow> t \<in> set ts \<and> wt_name t = n"
  by (induction ts) (auto split: if_splits)

lemma status_or_new_name: "sm_ok sm \<Longrightarrow> ts_name (status_or_new sm n) = n"
  by (auto simp: status_or_new_def sm_ok_def split: option.split)

lemma logs_executeReady:
  assumes "loop_inv P wk0 sm0 wk sm" and "\<And>n. n \<in> set ready \<Longrightarrow> \<not> gm_true running n \<Longrightarrow> P n"
  shows "logs (executeReady env running ready wk sm after) (\<lambda>(wk', sm', after') l. l = [] \<and> loop_inv P wk0 sm0 wk' sm')"
  using assms
proof (induction ready arbitrary: wk sm after)
  case (Cons n ready)
  note IH = Cons.IH [OF _ Cons.prems(2)]
  show ?case
  proof (cases "gm_true running n \<or> findTemplate (ws_templates (w_spec wk)) n = None")
    case True
    then show ?thesis using IH [OF Cons.prems(1)] by auto
  next
    case False
    then obtain tmpl where t: "\<not> gm_true running n" "findTemplate (ws_templates (w_spec wk)) n = Some tmpl" by auto
    have name: "wt_name tmpl = n" using findTemplate_Some [OF t(2)] by simp
    have P: "P n" using Cons.prems(2) t(1) by simp
    have sm: "sm_ok sm" using Cons.prems(1) by (simp add: loop_inv_def changes_only_def)
    have "logs (executeReady env running ready wk' (gm_put n ts' sm) (earlier after res))
        (\<lambda>(wk', sm', after') l. l = [] \<and> loop_inv P wk0 sm0 wk' sm')"
      if "ts_name ts' = ts_name (status_or_new sm n)" "no_retry_count (Some ts')" "w_spec wk' = w_spec wk" "w_meta wk' = w_meta wk"
      for res ts' wk'
      by (rule IH) (use that Cons.prems(1) P sm in
          \<open>auto simp: loop_inv_def status_or_new_name intro: changes_only_put no_retries_put\<close>)
    then show ?thesis using t name by (auto intro!: logs_bind logs_executeTemplate)
  qed
qed (auto intro!: logs_return)

lemma logs_checkRunning:
  assumes "loop_inv P wk0 sm0 wk sm" and "\<And>n. n \<in> set ns \<Longrightarrow> P n"
  shows "logs (checkRunning env ns wk sm after) (\<lambda>(sm', after') l. l = [] \<and> loop_inv P wk0 sm0 wk sm')"
  using assms
proof (induction ns arbitrary: sm after)
  case (Cons n ns)
  note IH = Cons.IH [OF _ Cons.prems(2)]
  show ?case
  proof (cases "findTemplate (ws_templates (w_spec wk)) n")
    case None
    then show ?thesis using IH [OF Cons.prems(1)] by auto
  next
    case (Some tmpl)
    have name: "wt_name tmpl = n" using findTemplate_Some [OF Some] by simp
    have P: "P n" using Cons.prems(2) by simp
    have sm: "sm_ok sm" using Cons.prems(1) by (simp add: loop_inv_def changes_only_def)
    have put: "loop_inv P wk0 sm0 wk (gm_put n ts' sm)"
      if "map_of sm n = Some ts" "ts_name ts' = ts_name ts" "ts' = ts \<or> no_retry_count (Some ts')" for ts ts'
    proof -
      have "no_retries sm \<Longrightarrow> no_retry_count (Some ts')" using that(1,3) unfolding no_retries_def by metis
      moreover have "ts_name ts' = n" using that(1,2) sm by (simp add: sm_ok_def)
      ultimately show ?thesis
        using Cons.prems(1) P by (auto simp: loop_inv_def intro: changes_only_put no_retries_put)
    qed
    have "logs (checkTemplateProgress env wk tmpl sm) (\<lambda>(res, sm') l. l = [] \<and> loop_inv P wk0 sm0 wk sm')"
      by (rule logs_mono [OF logs_checkTemplateProgress]) (use put Cons.prems(1) name in \<open>auto\<close>)
    then have "logs (checkTemplateProgress env wk tmpl sm) (\<lambda>(res, sm') l1. logs (checkRunning env ns wk sm' (earlier after res))
        (\<lambda>(sm', after') l2. l1 @ l2 = [] \<and> loop_inv P wk0 sm0 wk sm'))"
      by (rule logs_mono) (use IH in \<open>auto\<close>)
    then show ?thesis using Some by (auto intro!: logs_bind elim!: logs_mono)
  qed
qed (auto intro!: logs_return)

subsection \<open>Reconciling a running workflow\<close>

lemma logs_wf_setters:
  shows logs_wf_setFailed: "(\<And>wk' r. wst_phase (w_status wk') = WorkflowPhaseFailed \<Longrightarrow> w_meta wk' = w_meta wk \<Longrightarrow>
      w_spec wk' = w_spec wk \<Longrightarrow> wst_templateStatuses (w_status wk') = wst_templateStatuses (w_status wk) \<Longrightarrow>
      R (written finished r) [CWorkflowStatusUpdate wk' r]) \<Longrightarrow> logs (wf_setFailed env wk reason) R"
    and logs_wf_setCompleted: "(\<And>wk' r. wst_phase (w_status wk') = WorkflowPhaseCompleted \<Longrightarrow> w_meta wk' = w_meta wk \<Longrightarrow>
      w_spec wk' = w_spec wk \<Longrightarrow> wst_templateStatuses (w_status wk') = wst_templateStatuses (w_status wk) \<Longrightarrow>
      R (written finished r) [CWorkflowStatusUpdate wk' r]) \<Longrightarrow> logs (wf_setCompleted env wk) R"
    and logs_wf_setAborted: "(\<And>wk' r. wst_phase (w_status wk') = WorkflowPhaseAborted \<Longrightarrow> w_meta wk' = w_meta wk \<Longrightarrow>
      w_spec wk' = w_spec wk \<Longrightarrow> wst_templateStatuses (w_status wk') = wst_templateStatuses (w_status wk) \<Longrightarrow>
      R (written finished r) [CWorkflowStatusUpdate wk' r]) \<Longrightarrow> logs (wf_setAborted env wk) R"
  unfolding wf_setFailed_def wf_setCompleted_def wf_setAborted_def wf_calls Let_def
proof (goal_cases)
  case 1
  show ?case by (intro logs_intros)
    (auto intro!: logs_intros 1 [of _ None, unfolded written_def option.case]
      1 [of _ "Some e" for e, unfolded written_def option.case] split: option.split)
next
  case 2
  show ?case by (intro logs_intros)
    (auto intro!: logs_intros 2 [of _ None, unfolded written_def option.case]
      2 [of _ "Some e" for e, unfolded written_def option.case] split: option.split)
next
  case 3
  show ?case by (intro logs_intros)
    (auto intro!: logs_intros 3 [of _ None, unfolded written_def option.case]
      3 [of _ "Some e" for e, unfolded written_def option.case] split: option.split)
qed

lemma good_write_flatten:
  assumes "loop_inv P wk (statuses_map (wst_templateStatuses (w_status wk))) wk' sm" and "any_order ord"
  shows "good_write P wk (upd_wstatus (\<lambda>s. s\<lparr>wst_templateStatuses := flattenStatuses ord sm, wst_progress := pr\<rparr>) wk')"
proof -
  have "sm_ok sm" using assms(1) by (simp add: loop_inv_def changes_only_def)
  then show ?thesis using assms
    by (simp add: good_write_def status_of_def loop_inv_def changes_only_def no_retries_def
        last_status_flatten map_of_statuses_map)
qed

lemma good_write_sync:
  assumes "loop_inv P wk (statuses_map (wst_templateStatuses (w_status wk))) wk sm"
    and "w_meta wk' = w_meta wk" "w_spec wk' = w_spec wk"
    and "wst_templateStatuses (w_status wk') = sync_statuses sm (wst_templateStatuses (w_status wk))"
  shows "good_write P wk wk'"
proof -
  let ?ss = "wst_templateStatuses (w_status wk)"
  have sm: "sm_ok sm" and dom: "dom (last_status ?ss) \<subseteq> dom (map_of sm)"
    and ch: "\<And>n. map_of sm n \<noteq> last_status ?ss n \<Longrightarrow> P n"
    and nr: "(\<forall>n. no_retry_count (last_status ?ss n)) \<Longrightarrow> \<forall>n. no_retry_count (map_of sm n)"
    using assms(1) by (auto simp: loop_inv_def changes_only_def map_of_statuses_map no_retries_def)
  have names: "ts_name ` set ?ss \<subseteq> dom (map_of sm)" using dom last_status_None by fast
  have st: "status_of wk' n = (if n \<in> ts_name ` set ?ss then map_of sm n else None)" for n
    using last_status_sync [OF sm names] assms(4) by (simp add: status_of_def)
  show ?thesis unfolding good_write_def
  proof (intro conjI allI impI)
    show "P n" if "status_of wk' n \<noteq> status_of wk n" for n
      using that ch [of n] st [of n] last_status_None [of ?ss n] by (auto simp: status_of_def split: if_splits)
    show "no_retry_count (status_of wk' n)" if "\<forall>n. no_retry_count (status_of wk n)" for n
      using nr that st [of n] by (auto simp: status_of_def no_retry_count_def)
  qed (use assms(2,3) in simp_all)
qed

lemma logs_publishStatuses:
  assumes "loop_inv P wk0 (statuses_map (wst_templateStatuses (w_status wk0))) wk sm" and "orders_ok env"
  shows "logs (publishStatuses env wk sm after) (running_outcome P wk0)"
proof -
  have out: "(case r of Some e \<Rightarrow> failing e | None \<Rightarrow> if after > 0 then requeue_after after else requeue_after (5 * second)) =
      written (requeue_after (if after > 0 then after else 5 * second)) r" for r
    by (simp add: written_def split: option.split)
  have "running_outcome P wk0 (written (requeue_after (if after > 0 then after else 5 * second)) r)
      [CWorkflowStatusUpdate (upd_wstatus (\<lambda>s. s\<lparr>wst_templateStatuses := flattenStatuses ord sm, wst_progress := pr\<rparr>) wk) r]"
    if "any_order ord" for ord r pr
  proof -
    have "0 < (if after > 0 then after else 5 * second)" by (simp add: second_def)
    then show ?thesis unfolding running_outcome_def using good_write_flatten [OF assms(1) that] by blast
  qed
  then show ?thesis unfolding publishStatuses_def wf_calls Let_def out
    by (auto intro!: logs_intros assms(2))
qed

lemma logs_runTemplates:
  assumes inv: "loop_inv P wk (statuses_map (wst_templateStatuses (w_status wk))) wk sm"
    and ready: "\<And>ord n. any_order ord \<Longrightarrow> n \<in> set (ReadyTemplates ord (ws_templates (w_spec wk)) completed) \<Longrightarrow>
      \<not> gm_true running n \<Longrightarrow> P n"
    and run: "\<And>n. n \<in> set (gm_keys running) \<Longrightarrow> P n" and ords: "orders_ok env"
  shows "logs (runTemplates env wk sm completed running) (running_outcome P wk)"
proof (cases "length completed = length (ws_templates (w_spec wk))")
  case True
  then show ?thesis unfolding runTemplates_def running_outcome_def
    by (auto intro!: logs_wf_setCompleted good_write_sync [OF inv])
next
  case False
  let ?inv = "loop_inv P wk (statuses_map (wst_templateStatuses (w_status wk)))"
  have keys: "set (ord ks) = set ks" if "any_order ord" for ord ks
    using that by (metis any_order_def mset_eq_setD)
  have check: "logs (checkRunning env (ord (gm_keys running)) wk' sm' after)
      (\<lambda>a l1. logs (case a of (sm2, after2) \<Rightarrow> publishStatuses env wk' sm2 after2) (\<lambda>b l2. running_outcome P wk b (l1 @ l2)))"
    if "any_order ord" "?inv wk' sm'" for ord wk' sm' after
    by (rule logs_mono [OF logs_checkRunning [OF that(2)]])
      (use run keys [OF that(1)] logs_publishStatuses [OF _ ords] in \<open>auto\<close>)
  have exec: "logs (executeReady env running (ReadyTemplates ord (ws_templates (w_spec wk)) completed) wk sm 0)
      (\<lambda>a l. l = [] \<and> ?inv (fst a) (fst (snd a)))" if "any_order ord" for ord
    by (rule logs_mono [OF logs_executeReady [OF inv]]) (use ready that in \<open>auto\<close>)
  show ?thesis unfolding runTemplates_def using False
    by (auto intro!: logs_bind logs_ord [OF ords] check logs_mono [OF exec])
qed

lemma retried_simps [simp]:
  "ts_name (retried ts) = ts_name ts" "ts_phase (retried ts) = WorkflowPhasePending"
  "no_retry_count (Some (retried ts))"
  by (simp_all add: retried_def no_retry_count_def)

lemma retryFailed_inv:
  assumes "loop_inv P wk0 sm0 wk sm" and "\<And>n. n \<in> set ns \<Longrightarrow> P n"
  shows "loop_inv P wk0 sm0 wk (fst (retryFailed ns sm c))"
  using assms
proof (induction ns arbitrary: sm c)
  case (Cons n ns)
  show ?case
  proof (cases "map_of sm n")
    case None
    with Cons show ?thesis by simp
  next
    case (Some ts)
    have "ts_name ts = n" using Cons.prems(1) Some by (auto simp: loop_inv_def changes_only_def sm_ok_def)
    then have "loop_inv P wk0 sm0 wk (gm_put n (retried ts) sm)"
      using Cons.prems by (auto simp: loop_inv_def intro: changes_only_put no_retries_put)
    with Cons Some show ?thesis by simp
  qed
qed simp

lemma retryFailed_completed: "gm_true (snd (retryFailed ns sm c)) n \<Longrightarrow> gm_true c n"
proof (induction ns arbitrary: sm c)
  case (Cons m ns)
  have del: "gm_true (gm_del m c) n \<Longrightarrow> gm_true c n" by (auto simp: gm_true_def split: if_splits)
  show ?case using Cons.prems Cons.IH [of sm c] Cons.IH [of _ "gm_del m c"] del
    by (auto split: option.splits if_splits)
qed simp

lemma retryFailed_frame: "n \<notin> set ns \<Longrightarrow> map_of (fst (retryFailed ns sm c)) n = map_of sm n"
  by (induction ns arbitrary: sm c) (auto split: option.splits)

lemma retryFailed_all:
  assumes "\<And>n. n \<in> set ns \<Longrightarrow> (\<exists>s. map_of sm n = Some s \<and> ts_phase s = WorkflowPhaseFailed)"
    and "no_retries sm" and "distinct ns" and "n \<in> set ns"
  shows "\<exists>s. map_of (fst (retryFailed ns sm c)) n = Some s \<and> ts_phase s = WorkflowPhasePending \<and>
      ts_message s = ''retry 1'' \<and> \<not> gm_true (snd (retryFailed ns sm c)) n"
  using assms
proof (induction ns arbitrary: sm c)
  case (Cons m ns)
  obtain ts where ts: "map_of sm m = Some ts" "ts_phase ts = WorkflowPhaseFailed"
    using Cons.prems(1) [of m] by auto
  have "no_retry_count (Some ts)" using Cons.prems(2) ts(1) by (metis no_retries_def)
  then have count: "retryCount ts = 0" using ts(2) by (simp add: retryCount_def no_retry_count_def)
  let ?sm = "gm_put m (retried ts) sm" and ?c = "gm_del m c"
  have step: "retryFailed (m # ns) sm c = retryFailed ns ?sm ?c"
    using ts count by (simp add: maxRetries_def)
  show ?case
  proof (cases "n = m")
    case True
    then have "n \<notin> set ns" using Cons.prems(3) by simp
    then have "map_of (fst (retryFailed ns ?sm ?c)) n = Some (retried ts)"
      using retryFailed_frame [of n ns ?sm ?c] True by simp
    moreover have "\<not> gm_true (snd (retryFailed ns ?sm ?c)) n"
      using retryFailed_completed [of ns ?sm ?c n] True by (auto simp: gm_true_def)
    moreover have "ts_message (retried ts) = ''retry 1''" unfolding retried_def count by simp code_simp
    ultimately show ?thesis unfolding step by simp
  next
    case False
    have "\<exists>s. map_of ?sm n' = Some s \<and> ts_phase s = WorkflowPhaseFailed" if "n' \<in> set ns" for n'
      using Cons.prems(1,3) that by auto
    from Cons.IH [OF this] False Cons.prems show ?thesis unfolding step by (simp add: no_retries_put)
  qed
qed simp

lemma ready_deps_ended:
  assumes "distinct (map wt_name (ws_templates (w_spec wk)))" and "any_order ord"
    and "n \<in> set (ReadyTemplates ord (ws_templates (w_spec wk)) c)"
    and c: "\<And>d. gm_true c d \<Longrightarrow> ended (status_of wk d)"
  shows "deps_ended wk n"
proof -
  let ?ts = "ws_templates (w_spec wk)"
  have "deps_known ?ts"
    using assms(3) buildDAG_unknown [of ?ts] by (cases "deps_known ?ts") (auto simp: ReadyTemplates_def)
  from ReadyTemplates_member [OF this assms(1,2)] assms(3) have
    "n \<in> names ?ts" "\<forall>d \<in> set (deps_of ?ts n). gm_true c d" by auto
  then show ?thesis using deps_of_template [OF assms(1)] c by (auto simp: names_def deps_ended_def)
qed

lemma logs_wf_reconcileRunning:
  assumes "distinct (map wt_name (ws_templates (w_spec wk)))" and "orders_ok env"
  shows "logs (wf_reconcileRunning env wk)
    (running_outcome (\<lambda>n. deps_ended wk n \<or> was_in WorkflowPhaseRunning wk n \<or> was_in WorkflowPhaseFailed wk n) wk)"
proof -
  let ?P = "\<lambda>n. deps_ended wk n \<or> was_in WorkflowPhaseRunning wk n \<or> was_in WorkflowPhaseFailed wk n"
  define sm where "sm = statuses_map (wst_templateStatuses (w_status wk))"
  define c where "c = in_phase (\<lambda>p. p = WorkflowPhaseCompleted \<or> p = WorkflowPhaseFailed) sm"
  define r where "r = in_phase (\<lambda>p. p = WorkflowPhaseRunning) sm"
  define f where "f = in_phase (\<lambda>p. p = WorkflowPhaseFailed) sm"
  have ok: "sm_ok sm" "gm_ok sm" and sm: "map_of sm = status_of wk"
    using sm_ok_statuses_map by (auto simp: sm_def sm_ok_def map_of_statuses_map status_of_def)
  have inv: "loop_inv ?P wk (statuses_map (wst_templateStatuses (w_status wk))) wk sm"
    using ok by (simp add: sm_def loop_inv_def changes_only_refl)
  have ended: "gm_true c d \<Longrightarrow> ended (status_of wk d)" for d
    using gm_true_in_phase [OF ok(2)] sm by (auto simp: c_def ended_def)
  have run: "n \<in> set (gm_keys r) \<Longrightarrow> ?P n" and failed: "n \<in> set (gm_keys f) \<Longrightarrow> ?P n" for n
    using keys_in_phase [OF ok(2)] sm by (auto simp: r_def f_def was_in_def)
  have plain: "logs (runTemplates env wk sm c r) (running_outcome ?P wk)"
    using ready_deps_ended [OF assms(1) _ _ ended] run
    by (intro logs_runTemplates [OF inv _ _ assms(2)]) auto
  have retry: "logs (runTemplates env wk (fst (retryFailed (ord (gm_keys f)) sm c)) (snd (retryFailed (ord (gm_keys f)) sm c)) r)
      (running_outcome ?P wk)" if "any_order ord" for ord
  proof (rule logs_runTemplates [OF retryFailed_inv [OF inv] _ _ assms(2)])
    have "set (ord (gm_keys f)) = set (gm_keys f)" using that by (metis any_order_def mset_eq_setD)
    then show "?P n" if "n \<in> set (ord (gm_keys f))" for n using failed that by blast
    show "?P n" if "any_order o'" "n \<in> set (ReadyTemplates o' (ws_templates (w_spec wk)) (snd (retryFailed (ord (gm_keys f)) sm c)))"
      for o' n using ready_deps_ended [OF assms(1) that] ended retryFailed_completed by blast
  qed (use run in blast)
  have fail: "logs (wf_setFailed env wk reason) (running_outcome ?P wk)" for reason
    by (rule logs_wf_setFailed) (auto simp: running_outcome_def good_write_def status_of_def)
  show ?thesis
    unfolding wf_reconcileRunning_def Let_def sm_def [symmetric] c_def [symmetric] r_def [symmetric] f_def [symmetric]
    using plain fail retry
    by (auto intro!: logs_bind logs_ord [OF assms(2)] split: ErrorHandlingStrategy.split prod.split)
      (metis fst_conv snd_conv)
qed

lemma logs_ext_call_result:
  "(\<And>x. fst (f x) = a) \<Longrightarrow> R a (filter visible (lg a)) \<Longrightarrow> logs (ext_call f lg) R"
  by (auto simp: logs_def run_ext_call split: prod.splits) (metis fst_conv)

lemma logs_abort_experiments:
  "logs (abort_experiments env wk xps) (\<lambda>_ l. \<exists>rs. length rs = length (filter (to_abort wk) xps) \<and>
     l = map (\<lambda>(xp, u). CUpdate (with_abort xp) u) (zip (filter (to_abort wk) xps) rs))"
proof (induction xps)
  case (Cons xp xps)
  let ?R = "\<lambda>hit l. \<exists>rs. length rs = length hit \<and> l = map (\<lambda>(xp, u). CUpdate (with_abort xp) u) (zip hit rs)"
  have cons: "?R hit l \<Longrightarrow> ?R (xp # hit) (CUpdate (with_abort xp) r # l)" for hit l r
    by (elim exE) (rule_tac x = "r # rs" in exI, simp)
  show ?case
  proof (cases "to_abort wk xp")
    case True
    show ?thesis unfolding wf_calls abort_experiments.simps using True
      by (simp, intro logs_bind logs_ext_call logs_mono [OF Cons.IH]) (use cons in simp)
  qed (use Cons in simp)
qed (auto intro!: logs_return)

lemma orders_ok_demo: "orders_ok demo_wf_env"
  by (simp add: orders_ok_def demo_wf_env_def any_order_def)

lemma distinct_demo: "distinct (map wt_name (ws_templates (w_spec (demo_wf ss ph))))"
  by (simp add: demo_wf_def demo_template_def)

section \<open>Properties\<close>

text \<open>
  C13. Workflow steps respect the dependency order: whatever the API server answers and whatever order
  the maps are ranged over, a reconcile of a running workflow with distinct template names writes the
  status exactly once, keeps metadata and spec, and changes the status of a template only if that
  template was running, had failed, or has all its dependencies completed or failed. Unless the
  written phase is Completed or Failed, a successful write is followed by another look after a
  positive time, so a running workflow is never dropped.
\<close>

theorem running_respects_dependencies:
  assumes "distinct (map wt_name (ws_templates (w_spec wk)))" and "orders_ok env"
  shows "\<exists>wk' r. calls (snd (run_state (wf_reconcileRunning env wk) w)) = calls w @ [CWorkflowStatusUpdate wk' r] \<and>
    w_spec wk' = w_spec wk \<and> w_meta wk' = w_meta wk \<and>
    (\<forall>n. status_of wk' n \<noteq> status_of wk n \<longrightarrow>
       deps_ended wk n \<or> was_in WorkflowPhaseRunning wk n \<or> was_in WorkflowPhaseFailed wk n) \<and>
    (wst_phase (w_status wk') \<in> {WorkflowPhaseCompleted, WorkflowPhaseFailed} \<or>
     (\<exists>d > 0. fst (run_state (wf_reconcileRunning env wk) w) = written (requeue_after d) r))"
  using logs_calls [OF logs_wf_reconcileRunning [OF assms], of w]
  unfolding running_outcome_def good_write_def by blast

theorem running_respects_dependencies_witness:
  "\<exists>wk' r. calls (snd (run_state (wf_reconcileRunning demo_wf_env (demo_wf [] WorkflowPhaseRunning)) demo_world)) =
      [CWorkflowStatusUpdate wk' r] \<and>
    (\<forall>n. status_of wk' n \<noteq> status_of (demo_wf [] WorkflowPhaseRunning) n \<longrightarrow> deps_ended (demo_wf [] WorkflowPhaseRunning) n)"
  using running_respects_dependencies [OF distinct_demo [of "[]" WorkflowPhaseRunning] orders_ok_demo, of demo_world]
  by (auto simp: was_in_def status_of_def demo_wf_def calls_def demo_world_def)



text \<open>
  A pending workflow is started if and only if its graph is valid: with distinct names, known
  dependencies and no cycle the one status write moves it to Running, and otherwise to Failed; the
  statuses of the templates are not touched.
\<close>

lemma pending_validates_graph:
  assumes "orders_ok env"
  shows "\<exists>wk' r. calls (snd (run_state (wf_reconcilePending env wk) w)) = calls w @ [CWorkflowStatusUpdate wk' r] \<and>
    wst_phase (w_status wk') =
      (if distinct (map wt_name (ws_templates (w_spec wk))) \<and> deps_known (ws_templates (w_spec wk)) \<and>
          acyclic (dep_rel (ws_templates (w_spec wk)))
       then WorkflowPhaseRunning else WorkflowPhaseFailed) \<and>
    w_meta wk' = w_meta wk \<and> w_spec wk' = w_spec wk \<and>
    wst_templateStatuses (w_status wk') = wst_templateStatuses (w_status wk)"
proof -
  let ?valid = "distinct (map wt_name (ws_templates (w_spec wk))) \<and> deps_known (ws_templates (w_spec wk)) \<and>
    acyclic (dep_rel (ws_templates (w_spec wk)))"
  let ?R = "\<lambda>(out::outcome) l. \<exists>wk' r. l = [CWorkflowStatusUpdate wk' r] \<and>
    wst_phase (w_status wk') = (if ?valid then WorkflowPhaseRunning else WorkflowPhaseFailed) \<and>
    w_meta wk' = w_meta wk \<and> w_spec wk' = w_spec wk \<and>
    wst_templateStatuses (w_status wk') = wst_templateStatuses (w_status wk)"
  have valid: "(\<exists>o'. TopologicalSort ord (ws_templates (w_spec wk)) = Inr o') \<longleftrightarrow> ?valid" if "any_order ord" for ord
    by (rule TopologicalSort_accepts [OF that])
  have "logs (wf_reconcilePending env wk) ?R"
    unfolding wf_reconcilePending_def wf_calls Let_def
  proof (rule logs_bind, rule logs_ord [OF assms])
    fix ord :: "string list \<Rightarrow> string list" assume "any_order ord"
    note v = valid [OF this]
    show "logs (case TopologicalSort ord (ws_templates (w_spec wk)) of
        Inl err \<Rightarrow> wf_setFailed env wk err
      | Inr _ \<Rightarrow> ext_call (wenv_Now env) (\<lambda>_. []) \<bind> (\<lambda>now.
          setWorkflowCondition env ''Progressing'' ConditionTrue ''WorkflowStarted'' ''Workflow is running''
            (upd_wstatus (\<lambda>s. s\<lparr>wst_phase := WorkflowPhaseRunning, wst_startTime := Some now,
              wst_observedGeneration := m_generation (w_meta wk),
              wst_progress := FormatProgress [] (int (length (ws_templates (w_spec wk))))\<rparr>) wk) \<bind>
          (\<lambda>wk. ext_call (wenv_StatusUpdate env wk) (\<lambda>r. [CWorkflowStatusUpdate wk r]) \<bind>
          (\<lambda>r. case r of None \<Rightarrow> record_event ''Normal'' ''Started'' ''Workflow started'' \<bind> (\<lambda>_. State_Monad.return requeue)
             | Some e \<Rightarrow> State_Monad.return (failing e))))) (\<lambda>b l2. ?R b ([] @ l2))"
    proof (cases ?valid)
      case True
      then obtain o' where "TopologicalSort ord (ws_templates (w_spec wk)) = Inr o'" using v by blast
      with True show ?thesis by (auto intro!: logs_intros split: option.split)
    next
      case False
      then obtain e where "TopologicalSort ord (ws_templates (w_spec wk)) = Inl e" using v
        by (cases "TopologicalSort ord (ws_templates (w_spec wk))") auto
      with False show ?thesis by (auto intro!: logs_wf_setFailed)
    qed
  qed
  from logs_calls [OF this, of w] show ?thesis by auto
qed

text \<open>
  C15. Aborting a running workflow updates exactly the listed experiments that it owns and that are
  running or pending, in list order, each with the abort annotation added and nothing else changed,
  and then writes Aborted, whatever the updates answer; when the list cannot be read it only writes
  Aborted.
\<close>

theorem abort_marks_owned_experiments:
  assumes "\<And>x. fst (wenv_ListExp env (m_namespace (w_meta wk)) x) = res"
  shows "\<exists>rs wk' r. calls (snd (run_state (wf_handleAbort env wk) w)) = calls w @
      map (\<lambda>(xp, u). CUpdate (with_abort xp) u) (zip (case res of Inl e \<Rightarrow> [] | Inr xps \<Rightarrow> filter (to_abort wk) xps) rs) @
      [CWorkflowStatusUpdate wk' r] \<and>
    length rs = length (case res of Inl e \<Rightarrow> [] | Inr xps \<Rightarrow> filter (to_abort wk) xps) \<and>
    wst_phase (w_status wk') = WorkflowPhaseAborted \<and> w_spec wk' = w_spec wk \<and> w_meta wk' = w_meta wk"
proof -
  define hit where "hit = (case res of Inl e \<Rightarrow> [] | Inr xps \<Rightarrow> filter (to_abort wk) xps)"
  have loop: "logs (case res of Inl err \<Rightarrow> State_Monad.return () | Inr items \<Rightarrow> abort_experiments env wk items)
      (\<lambda>_ l. \<exists>rs. length rs = length hit \<and> l = map (\<lambda>(xp, u). CUpdate (with_abort xp) u) (zip hit rs))"
    using logs_abort_experiments by (auto intro!: logs_return simp: hit_def split: sum.split)
  have "logs (wf_handleAbort env wk) (\<lambda>_ l. \<exists>rs wk' r. l = map (\<lambda>(xp, u). CUpdate (with_abort xp) u) (zip hit rs) @
      [CWorkflowStatusUpdate wk' r] \<and> length rs = length hit \<and>
      wst_phase (w_status wk') = WorkflowPhaseAborted \<and> w_spec wk' = w_spec wk \<and> w_meta wk' = w_meta wk)"
    unfolding wf_handleAbort_def
    by (intro logs_bind logs_ext_call_result [OF assms] logs_mono [OF loop] logs_wf_setAborted) auto
  from logs_calls [OF this, of w] show ?thesis unfolding hit_def by auto
qed

theorem abort_marks_owned_experiments_witness:
  "\<exists>u wk' r. calls (snd (run_state (wf_handleAbort demo_wf_env (demo_wf [] WorkflowPhaseRunning)) demo_world)) =
      [CUpdate (with_abort demo_owned) u, CWorkflowStatusUpdate wk' r] \<and>
    wst_phase (w_status wk') = WorkflowPhaseAborted"
proof -
  have "fst (wenv_ListExp demo_wf_env (m_namespace (w_meta (demo_wf [] WorkflowPhaseRunning))) x) =
      Inr [mem_running, demo_owned]" for x by (simp add: demo_wf_env_def)
  from abort_marks_owned_experiments [OF this, of demo_world] show ?thesis
    by (auto simp: to_abort_def isOwnedBy_def demo_owned_def mem_running_def mem_xp_def demo_wf_def
        calls_def demo_world_def length_Suc_conv)
qed

text \<open>
  A paused workflow only reacts to the resume annotation: without it a reconcile makes no call
  at all and looks again after ten seconds, so neither the timeout of the suspended template nor the
  abort annotation has any effect while the workflow is paused.
\<close>

lemma paused_waits_for_resume:
  assumes "wst_phase (w_status wk) = WorkflowPhasePaused"
    and "gm_str (m_annotations (w_meta wk)) workflowResumeAnnotation \<noteq> ''true''"
  shows "run_state (wf_reconcileObject env wk) w = (requeue_after (10 * second), w)"
  using assms by (simp add: wf_reconcileObject_def reconcilePaused_def run_simps)

end
