(* ===== verification/Webhook.thy ===== *)
theory Webhook
  imports Api_Types
begin

text \<open>
  The admission webhook of the blast-radius policies, \<open>internal/webhook/blastradius_webhook.go\<close>.

  \<open>filepath.Match\<close> of the standard library is modelled as its algorithm works on Unix, a character
  being one byte (namespace names and patterns are ASCII); its error cases only matter as "no match",
  which is what \<open>matchGlob\<close> makes of them. Parameters of the model (\<open>HookEnv\<close>): the label-selector
  matcher of the Kubernetes library, the time-zone database (\<open>time.LoadLocation\<close>, giving the wall
  clock of an instant), \<open>time.ParseDuration\<close>, and the clock. \<open>int(dur.Minutes())\<close> is the truncated
  quotient; the rounding of the \<open>float64\<close> sum is not modelled. It can differ only for windows of more
  than half a year that end less than a minute's rounding error before a full minute.
\<close>

section \<open>Definitions\<close>

subsection \<open>Globs\<close>

text \<open>\<open>scanChunk\<close>: strip leading stars, then split off the chunk up to the next star outside brackets.\<close>

fun scan_body :: "bool \<Rightarrow> string \<Rightarrow> string \<times> string" where
  "scan_body inrange [] = ([], [])"
| "scan_body inrange (c # cs) =
     (if c = CHR 0x5C then
        (case cs of
           [] \<Rightarrow> ([c], [])
         | d # ds \<Rightarrow> (case scan_body inrange ds of (a, b) \<Rightarrow> (c # d # a, b)))
      else if c = CHR ''*'' \<and> \<not> inrange then ([], c # cs)
      else (case scan_body (if c = CHR ''['' then True else if c = CHR '']'' then False else inrange) cs of
              (a, b) \<Rightarrow> (c # a, b)))"

definition scanChunk :: "string \<Rightarrow> bool \<times> string \<times> string" where
  "scanChunk p =
     (let q = dropWhile (\<lambda>c. c = CHR ''*'') p in
      case scan_body False q of (chunk, rest) \<Rightarrow> (q \<noteq> p, chunk, rest))"

text \<open>\<open>getEsc\<close>; \<open>None\<close> is \<open>ErrBadPattern\<close>.\<close>

definition getEsc :: "string \<Rightarrow> (char \<times> string) option" where
  "getEsc chunk =
     (case chunk of
        [] \<Rightarrow> None
      | c # cs \<Rightarrow>
          if c = CHR ''-'' \<or> c = CHR '']'' then None
          else (case (if c = CHR 0x5C then cs else c # cs) of
                  [] \<Rightarrow> None
                | r # rest \<Rightarrow> if rest = [] then None else Some (r, rest)))"

lemma getEsc_shorter: "getEsc chunk = Some (r, rest) \<Longrightarrow> length rest < length chunk"
  by (auto simp: getEsc_def split: list.splits if_splits)

text \<open>The ranges of a character class up to the closing bracket: the rest of the chunk, and whether one contains \<open>r\<close>.\<close>

function class_ranges :: "char \<Rightarrow> bool \<Rightarrow> bool \<Rightarrow> string \<Rightarrow> (bool \<times> string) option" where
  "class_ranges r match first chunk =
     (if \<not> first \<and> chunk \<noteq> [] \<and> hd chunk = CHR '']'' then Some (match, tl chunk)
      else (case getEsc chunk of
              None \<Rightarrow> None
            | Some (lo, rest) \<Rightarrow>
                if hd rest = CHR ''-'' then
                  (case getEsc (tl rest) of
                     None \<Rightarrow> None
                   | Some (hi, rest') \<Rightarrow>
                       class_ranges r (match \<or> (of_char lo \<le> (of_char r :: nat) \<and> of_char r \<le> (of_char hi :: nat))) False rest')
                else class_ranges r (match \<or> lo = r) False rest))"
  by pat_completeness auto
termination
  by (relation "measure (\<lambda>(r, match, first, chunk). length chunk)")
    (auto dest!: getEsc_shorter)

text \<open>\<open>matchChunk\<close> on a chunk that has not failed yet; \<open>None\<close> is a failed match or \<open>ErrBadPattern\<close>.\<close>

function matchChunk :: "string \<Rightarrow> string \<Rightarrow> string option" where
  "matchChunk chunk s =
     (case chunk of
        [] \<Rightarrow> Some s
      | c # cs \<Rightarrow>
          (case s of
             [] \<Rightarrow> None
           | d # ds \<Rightarrow>
               if c = CHR ''['' then
                 (let negated = (cs \<noteq> [] \<and> hd cs = CHR ''^'') in
                  case class_ranges d False True (if negated then tl cs else cs) of
                    None \<Rightarrow> None
                  | Some (match, rest) \<Rightarrow> if match = negated then None else matchChunk rest ds)
               else if c = CHR ''?'' then (if d = CHR ''/'' then None else matchChunk cs ds)
               else if c = CHR 0x5C then
                 (case cs of [] \<Rightarrow> None | e # es \<Rightarrow> if e = d then matchChunk es ds else None)
               else if c = d then matchChunk cs ds else None))"
  by pat_completeness auto
termination
  by (relation "measure (\<lambda>(chunk, s). length s)") auto

text \<open>The search after a star: skip bytes that are not separators until the chunk matches.\<close>

fun star_skip :: "string \<Rightarrow> string \<Rightarrow> string \<Rightarrow> string option" where
  "star_skip chunk rest [] = None"
| "star_skip chunk rest (d # ds) =
     (if d = CHR ''/'' then None
      else (case matchChunk chunk ds of
              Some t \<Rightarrow> if rest = [] \<and> t \<noteq> [] then star_skip chunk rest ds else Some t
            | None \<Rightarrow> star_skip chunk rest ds))"

lemma scan_body_length: "scan_body r p = (a, b) \<Longrightarrow> length a + length b = length p"
  by (induction r p arbitrary: a b rule: scan_body.induct) (auto split: if_splits list.splits prod.splits)

lemma scanChunk_shorter:
  assumes "p \<noteq> []" and "scanChunk p = (star, chunk, rest)"
  shows "length rest < length p"
proof -
  let ?q = "dropWhile (\<lambda>c. c = CHR ''*'') p"
  obtain a b where ab: "scan_body False ?q = (a, b)" by (cases "scan_body False ?q")
  have len: "length a + length b = length ?q" by (rule scan_body_length [OF ab])
  have rest: "rest = b" using assms(2) ab by (simp add: scanChunk_def Let_def)
  show ?thesis
  proof (cases "?q = p")
    case True
    obtain c cs where pc: "p = c # cs" using assms(1) by (cases p) auto
    have "c \<noteq> CHR ''*''"
      using True pc length_dropWhile_le [of "\<lambda>c. c = CHR ''*''" cs] by (auto split: if_splits)
    note p = pc this
    with ab True have "a \<noteq> []" by (auto split: if_splits list.splits prod.splits)
    then show ?thesis using len True rest by (cases a) auto
  next
    case False
    then have "length ?q < length p" 
      by (cases p) (auto simp: less_Suc_eq_le length_dropWhile_le split: if_splits)
    then show ?thesis using len rest by simp
  qed
qed

text \<open>\<open>filepath.Match\<close>\<close>

function glob_match :: "string \<Rightarrow> string \<Rightarrow> bool" where
  "glob_match pattern name =
     (if pattern = [] then name = []
      else (case scanChunk pattern of
              (star, chunk, rest) \<Rightarrow>
                if star \<and> chunk = [] then CHR ''/'' \<notin> set name
                else (case (case matchChunk chunk name of
                              Some t \<Rightarrow> if t = [] \<or> rest \<noteq> [] then Some t
                                        else if star then star_skip chunk rest name else None
                            | None \<Rightarrow> if star then star_skip chunk rest name else None) of
                        Some t \<Rightarrow> glob_match rest t
                      | None \<Rightarrow> False)))"
  by pat_completeness auto
termination
  by (relation "measure (\<lambda>(pattern, name). length pattern)")
    (simp_all del: matchChunk.simps, metis scanChunk_shorter)

declare class_ranges.simps [simp del] matchChunk.simps [simp del] glob_match.simps [simp del]

definition matchGlob :: "string \<Rightarrow> string \<Rightarrow> bool" where
  "matchGlob pattern value = (pattern = value \<or> glob_match pattern value)"

subsection \<open>The policy checks\<close>

text \<open>The wall clock of an instant in a location; \<open>time.Weekday\<close> counts from Sunday, 0.\<close>

record Civil =
  cv_minute :: int
  cv_hour :: int
  cv_day :: int
  cv_month :: int
  cv_weekday :: int

record 'x HookEnv =
  he_selector :: "LabelSelector \<Rightarrow> err + ((string, string) gomap \<Rightarrow> bool)"
  he_location :: "string \<Rightarrow> (time \<Rightarrow> Civil) option"
  he_parse_duration :: "string \<Rightarrow> duration option"
  he_ord :: "string list \<Rightarrow> string list"
  he_now :: "'x \<Rightarrow> time \<times> 'x"

definition matchCronPart :: "string \<Rightarrow> int \<Rightarrow> int \<Rightarrow> int \<Rightarrow> bool" where
  "matchCronPart part value mn mx =
     (case cut ''/'' part of
        Some (base, stepText) \<Rightarrow>
          (case Atoi stepText of
             None \<Rightarrow> False
           | Some step \<Rightarrow>
               if step \<le> 0 then False
               else (case (if base \<noteq> ''*'' then Atoi base else Some mn) of
                       None \<Rightarrow> False
                     | Some start \<Rightarrow> if value < start then False else go_mod (wrap64 (value - start)) step = 0))
      | None \<Rightarrow>
          (case cut ''-'' part of
             Some (loText, hiText) \<Rightarrow>
               (case (Atoi loText, Atoi hiText) of
                  (Some lo, Some hi) \<Rightarrow> value \<ge> lo \<and> value \<le> hi
                | _ \<Rightarrow> False)
           | None \<Rightarrow>
               (case Atoi part of None \<Rightarrow> False | Some n \<Rightarrow> value = n)))"

definition fieldMatches :: "string \<Rightarrow> int \<Rightarrow> int \<Rightarrow> int \<Rightarrow> bool" where
  "fieldMatches field value mn mx =
     (if field = ''*'' then True
      else list_ex (\<lambda>part. matchCronPart part value mn mx) (split_on (CHR '','') field))"

definition cronMatches :: "string \<Rightarrow> Civil \<Rightarrow> bool" where
  "cronMatches schedule t =
     (case Fields schedule of
        [f0, f1, f2, f3, f4] \<Rightarrow>
          fieldMatches f0 (cv_minute t) 0 59 \<and> fieldMatches f1 (cv_hour t) 0 23 \<and>
          fieldMatches f2 (cv_day t) 1 31 \<and> fieldMatches f3 (cv_month t) 1 12 \<and>
          fieldMatches f4 (cv_weekday t) 0 6
      | _ \<Rightarrow> False)"

definition window_minutes :: "duration \<Rightarrow> nat" where
  "window_minutes dur = nat (max 1 (go_div dur minute))"

definition truncate_minute :: "time \<Rightarrow> time" where
  "truncate_minute t = t - t mod minute"

definition isInTimeWindow :: "'x HookEnv \<Rightarrow> TimeWindow \<Rightarrow> time \<Rightarrow> bool" where
  "isInTimeWindow env tw now =
     (case he_location env (tw_timezone tw) of
        None \<Rightarrow> False
      | Some loc \<Rightarrow>
          (case he_parse_duration env (tw_duration tw) of
             None \<Rightarrow> False
           | Some dur \<Rightarrow>
               list_ex (\<lambda>i. cronMatches (tw_schedule tw) (loc (truncate_minute (now - int i * minute))))
                 [0..<Suc (window_minutes dur)]))"

definition checkTimeWindows :: "'x HookEnv \<Rightarrow> BlastRadiusPolicy \<Rightarrow> time \<Rightarrow> string" where
  "checkTimeWindows env policy now =
     (case bp_timeWindows (b_spec policy) of
        None \<Rightarrow> []
      | Some tw \<Rightarrow>
          (case find (\<lambda>b. isInTimeWindow env b now) (tws_blocked tw) of
             Some b \<Rightarrow> ''blocked by time window '' @ quoted (tw_name b)
           | None \<Rightarrow>
               (if tws_allowed tw = [] then []
                else if list_ex (\<lambda>a. isInTimeWindow env a now) (tws_allowed tw) then []
                else ''outside allowed time window'')))"

definition getExperimentDuration :: "ChaosExperiment \<Rightarrow> duration" where
  "getExperimentDuration xp =
     (case a_duration (s_action (e_spec xp)) of Some d \<Rightarrow> d | None \<Rightarrow> s_duration (e_spec xp))"

definition checkTargetLimits :: "BlastRadiusPolicy \<Rightarrow> ChaosExperiment \<Rightarrow> string" where
  "checkTargetLimits policy xp =
     (let limits = bp_targetLimits (b_spec policy);
          n = int (length (t_names (s_target (e_spec xp))));
          percent = (case (tl_maxPercentage limits, ex_parallelism (s_execution (e_spec xp))) of
              (Some mp, Some par) \<Rightarrow>
                if par > mp then ''parallelism '' @ Itoa par @ '' exceeds maxPercentage '' @ Itoa mp else []
            | _ \<Rightarrow> [])
      in case tl_maxTargets limits of
           Some mt \<Rightarrow>
             if n > 0 \<and> wrap32 n > mt then ''target count '' @ Itoa n @ '' exceeds maxTargets '' @ Itoa mt
             else percent
         | None \<Rightarrow> percent)"

definition checkActionLimits :: "BlastRadiusPolicy \<Rightarrow> ChaosExperiment \<Rightarrow> string" where
  "checkActionLimits policy xp =
     (case bp_actionLimits (b_spec policy) of
        None \<Rightarrow> []
      | Some limits \<Rightarrow>
          (let act = a_type (s_action (e_spec xp)) in
           if al_allowedActions limits \<noteq> [] \<and> \<not> list_ex (\<lambda>a. a = act) (al_allowedActions limits)
           then ''action '' @ quoted act @ '' is not in allowed actions '' @ fmt_list (al_allowedActions limits)
           else (case al_maxDuration limits of
                   None \<Rightarrow> []
                 | Some md \<Rightarrow>
                     if getExperimentDuration xp > md
                     then ''duration '' @ dur_str (getExperimentDuration xp) @ '' exceeds max allowed '' @ dur_str md
                     else [])))"

definition checkProtectedNamespaces :: "BlastRadiusPolicy \<Rightarrow> ChaosExperiment \<Rightarrow> string" where
  "checkProtectedNamespaces policy xp =
     (let ns = t_namespace (s_target (e_spec xp)) in
      if list_ex (\<lambda>p. matchGlob p ns) (prs_namespaces (bp_protectedResources (b_spec policy)))
      then ''namespace '' @ quoted ns @ '' is protected'' else [])"

definition protects_name :: "TargetSpec \<Rightarrow> ProtectedResource \<Rightarrow> bool" where
  "protects_name target pr \<longleftrightarrow>
     \<not> (pr_kind pr \<noteq> [] \<and> \<not> EqualFold (pr_kind pr) (t_kind target)) \<and>
     \<not> (pr_namespace pr \<noteq> [] \<and> pr_namespace pr \<noteq> t_namespace target) \<and>
     list_ex (\<lambda>n. pr_name pr = n) (t_names target)"

definition protected_label :: "'x HookEnv \<Rightarrow> (string, string) gomap \<Rightarrow> TargetSpec \<Rightarrow> string option" where
  "protected_label env prot target =
     (case t_labelSelector target of
        None \<Rightarrow> None
      | Some sel \<Rightarrow>
          (case sel_matchLabels sel of
             None \<Rightarrow> None
           | Some ml \<Rightarrow> find (\<lambda>k. map_of ml k \<noteq> None \<and> map_of ml k = map_of prot k) (he_ord env (gm_keys prot))))"

definition checkProtectedResources :: "'x HookEnv \<Rightarrow> BlastRadiusPolicy \<Rightarrow> ChaosExperiment \<Rightarrow> string" where
  "checkProtectedResources env policy xp =
     (let prot = bp_protectedResources (b_spec policy); target = s_target (e_spec xp) in
      case find (protects_name target) (prs_names prot) of
        Some pr \<Rightarrow> ''targets protected resource '' @ pr_kind pr @ ''/'' @ pr_name pr
      | None \<Rightarrow>
          (case protected_label env (prs_labels prot) target of
             Some k \<Rightarrow> ''targets resources with protected label '' @ k @ ''='' @ gm_str (prs_labels prot) k
           | None \<Rightarrow> []))"

definition policyMatchesExperiment :: "'x HookEnv \<Rightarrow> BlastRadiusPolicy \<Rightarrow> ChaosExperiment \<Rightarrow> bool" where
  "policyMatchesExperiment env policy xp =
     (let scope = bp_scope (b_spec policy) in
      if sc_namespaces scope \<noteq> [] \<and>
         \<not> list_ex (\<lambda>ns. matchGlob ns (t_namespace (s_target (e_spec xp)))) (sc_namespaces scope) then False
      else (case sc_labelSelector scope of
              None \<Rightarrow> True
            | Some sel \<Rightarrow>
                (case he_selector env sel of
                   Inl _ \<Rightarrow> False
                 | Inr matches \<Rightarrow> matches (m_labels (e_meta xp)))))"

record evalResult =
  ev_allowed :: bool
  ev_reason :: string

definition eval_of :: "string \<Rightarrow> evalResult \<Rightarrow> evalResult" where
  "eval_of reason next = (if reason \<noteq> [] then \<lparr>ev_allowed = False, ev_reason = reason\<rparr> else next)"

definition evaluatePolicyAt :: "'x HookEnv \<Rightarrow> BlastRadiusPolicy \<Rightarrow> ChaosExperiment \<Rightarrow> time \<Rightarrow> evalResult" where
  "evaluatePolicyAt env policy xp now =
     (if bp_enforcement (b_spec policy) \<noteq> EnforcementEnforce \<and> bp_enforcement (b_spec policy) \<noteq> EnforcementAudit
      then \<lparr>ev_allowed = True, ev_reason = []\<rparr>
      else eval_of (checkProtectedResources env policy xp)
             (eval_of (checkProtectedNamespaces policy xp)
                (eval_of (checkActionLimits policy xp)
                   (eval_of (checkTimeWindows env policy now)
                      (eval_of (checkTargetLimits policy xp) \<lparr>ev_allowed = True, ev_reason = []\<rparr>)))))"

subsection \<open>The handler\<close>

text \<open>An admission response: the audit annotation, when set, holds the JSON text of the warnings.\<close>

datatype Response =
    Allowed string "string list option"
  | Denied string
  | Errored int string

fun handle_policies :: "'x HookEnv \<Rightarrow> ChaosExperiment \<Rightarrow> BlastRadiusPolicy list \<Rightarrow> string list \<Rightarrow> 'x \<Rightarrow> Response \<times> 'x" where
  "handle_policies env xp [] warnings x =
     (Allowed ''all policies passed'' (if warnings \<noteq> [] then Some warnings else None), x)"
| "handle_policies env xp (policy # ps) warnings x =
     (if \<not> policyMatchesExperiment env policy xp then handle_policies env xp ps warnings x
      else (case he_now env x of
              (now, x') \<Rightarrow>
                (let res = evaluatePolicyAt env policy xp now; name = quoted (m_name (b_meta policy)) in
                 if ev_allowed res then handle_policies env xp ps warnings x'
                 else if bp_enforcement (b_spec policy) = EnforcementAudit
                 then handle_policies env xp ps (warnings @ [''policy '' @ name @ '' would deny: '' @ ev_reason res]) x'
                 else (Denied (''denied by policy '' @ name @ '': '' @ ev_reason res), x'))))"

text \<open>\<open>decoded\<close> is the result of decoding the request, \<open>lst\<close> the policy client, if one is configured.\<close>

definition Handle :: "'x HookEnv \<Rightarrow> err + ChaosExperiment \<Rightarrow> ('x \<Rightarrow> (err + BlastRadiusPolicy list) \<times> 'x) option \<Rightarrow>
    'x \<Rightarrow> Response \<times> 'x" where
  "Handle env decoded lst x =
     (case decoded of
        Inl e \<Rightarrow> (Errored 400 (''failed to decode ChaosExperiment: '' @ e), x)
      | Inr xp \<Rightarrow>
          (case lst of
             None \<Rightarrow> (Allowed ''no policy client configured'' None, x)
           | Some l \<Rightarrow>
               (case l x of
                  (Inl e, x') \<Rightarrow> (Errored 500 (''failed to list policies: '' @ e), x')
                | (Inr policies, x') \<Rightarrow>
                    if policies = [] then (Allowed ''no blast radius policies configured'' None, x')
                    else handle_policies env xp policies [] x')))"

subsection \<open>Specification\<close>

text \<open>A glob of literal bytes and stars, and what it means.\<close>

definition plain_glob :: "string \<Rightarrow> bool" where
  "plain_glob p \<longleftrightarrow> CHR ''['' \<notin> set p \<and> CHR ''?'' \<notin> set p \<and> CHR 0x5C \<notin> set p"

fun glob_spec :: "string \<Rightarrow> string \<Rightarrow> bool" where
  "glob_spec [] s = (s = [])"
| "glob_spec (c # p) s =
     (if c = CHR ''*'' then (\<exists>k \<le> length s. glob_spec p (drop k s))
      else (\<exists>ds. s = c # ds \<and> glob_spec p ds))"

text \<open>Cron fields as data, their text and their meaning.\<close>

datatype CronPart =
    CronValue nat
  | CronRange nat nat
  | CronStep "nat option" nat

fun cron_part_text :: "CronPart \<Rightarrow> string" where
  "cron_part_text (CronValue n) = dec_nat n"
| "cron_part_text (CronRange lo hi) = dec_nat lo @ ''-'' @ dec_nat hi"
| "cron_part_text (CronStep None step) = ''*/'' @ dec_nat step"
| "cron_part_text (CronStep (Some start) step) = dec_nat start @ ''/'' @ dec_nat step"

fun cron_part_ok :: "CronPart \<Rightarrow> bool" where
  "cron_part_ok (CronValue n) = (n < 2 ^ 31)"
| "cron_part_ok (CronRange lo hi) = (lo < 2 ^ 31 \<and> hi < 2 ^ 31)"
| "cron_part_ok (CronStep start step) = (0 < step \<and> step < 2 ^ 31 \<and> (\<forall>n. start = Some n \<longrightarrow> n < 2 ^ 31))"

fun cron_part_means :: "nat \<Rightarrow> CronPart \<Rightarrow> nat \<Rightarrow> bool" where
  "cron_part_means mn (CronValue n) v = (v = n)"
| "cron_part_means mn (CronRange lo hi) v = (lo \<le> v \<and> v \<le> hi)"
| "cron_part_means mn (CronStep start step) v = (\<exists>j. v = (case start of None \<Rightarrow> mn | Some n \<Rightarrow> n) + j * step)"

definition cron_field_text :: "CronPart list \<Rightarrow> string" where
  "cron_field_text parts = join_on (CHR '','') (map cron_part_text parts)"

text \<open>When a policy objects to an experiment, said without the messages.\<close>

definition hits_protected :: "ProtectedResourcesSpec \<Rightarrow> TargetSpec \<Rightarrow> bool" where
  "hits_protected prot target \<longleftrightarrow>
     (\<exists>pr \<in> set (prs_names prot). (pr_kind pr = [] \<or> EqualFold (pr_kind pr) (t_kind target)) \<and>
        (pr_namespace pr = [] \<or> pr_namespace pr = t_namespace target) \<and> pr_name pr \<in> set (t_names target)) \<or>
     (\<exists>sel ml k v. t_labelSelector target = Some sel \<and> sel_matchLabels sel = Some ml \<and>
        map_of ml k = Some v \<and> map_of (prs_labels prot) k = Some v) \<or>
     (\<exists>ns \<in> set (prs_namespaces prot). matchGlob ns (t_namespace target))"

definition exceeds_limits :: "BlastRadiusPolicySpec \<Rightarrow> ChaosExperimentSpec \<Rightarrow> bool" where
  "exceeds_limits p xs \<longleftrightarrow>
     (\<exists>al. bp_actionLimits p = Some al \<and>
        (al_allowedActions al \<noteq> [] \<and> a_type (s_action xs) \<notin> set (al_allowedActions al) \<or>
         (\<exists>md. al_maxDuration al = Some md \<and>
            md < (case a_duration (s_action xs) of Some d \<Rightarrow> d | None \<Rightarrow> s_duration xs)))) \<or>
     (\<exists>mt. tl_maxTargets (bp_targetLimits p) = Some mt \<and> t_names (s_target xs) \<noteq> [] \<and>
        mt < int (length (t_names (s_target xs)))) \<or>
     (\<exists>mp par. tl_maxPercentage (bp_targetLimits p) = Some mp \<and> ex_parallelism (s_execution xs) = Some par \<and> mp < par)"

definition outside_windows :: "'x HookEnv \<Rightarrow> BlastRadiusPolicySpec \<Rightarrow> time \<Rightarrow> bool" where
  "outside_windows env p now \<longleftrightarrow>
     (\<exists>tw. bp_timeWindows p = Some tw \<and>
        ((\<exists>b \<in> set (tws_blocked tw). isInTimeWindow env b now) \<or>
         tws_allowed tw \<noteq> [] \<and> (\<forall>a \<in> set (tws_allowed tw). \<not> isInTimeWindow env a now)))"

definition objects :: "'x HookEnv \<Rightarrow> time \<Rightarrow> ChaosExperiment \<Rightarrow> BlastRadiusPolicy \<Rightarrow> bool" where
  "objects env now xp p \<longleftrightarrow> policyMatchesExperiment env p xp \<and>
     (hits_protected (bp_protectedResources (b_spec p)) (s_target (e_spec xp)) \<or>
      exceeds_limits (b_spec p) (e_spec xp) \<or> outside_windows env (b_spec p) now)"

text \<open>The environment, policy and experiment of the witnesses.\<close>

definition demo_hook :: "unit HookEnv" where
  "demo_hook = \<lparr>he_selector = (\<lambda>sel. Inr (\<lambda>ls. True)),
     he_location = (\<lambda>n. Some (\<lambda>t. \<lparr>cv_minute = t div minute mod 60, cv_hour = t div (60 * minute) mod 24, cv_day = 1, cv_month = 1, cv_weekday = 0\<rparr>)),
     he_parse_duration = (\<lambda>s. Some (2 * minute)), he_ord = rev, he_now = (\<lambda>x. (0, x))\<rparr>"

definition demo_policy :: BlastRadiusPolicy where
  "demo_policy =
     \<lparr>b_meta = \<lparr>m_name = ''guard'', m_namespace = [], m_uid = ''p1'', m_generation = 1, m_deletionTimestamp = None,
        m_finalizers = [], m_labels = [], m_annotations = [], m_ownerUIDs = []\<rparr>,
      b_spec = \<lparr>bp_scope = \<lparr>sc_namespaces = [], sc_labelSelector = None\<rparr>,
        bp_targetLimits = \<lparr>tl_maxTargets = None, tl_maxPercentage = None\<rparr>,
        bp_protectedResources = \<lparr>prs_namespaces = [''kube-*''], prs_labels = [], prs_names = []\<rparr>,
        bp_actionLimits = None, bp_timeWindows = None, bp_enforcement = EnforcementEnforce\<rparr>\<rparr>"

definition demo_target :: "string \<Rightarrow> ChaosExperiment" where
  "demo_target ns =
     \<lparr>e_meta = \<lparr>m_name = ''x'', m_namespace = ns, m_uid = ''u'', m_generation = 1, m_deletionTimestamp = None,
        m_finalizers = [], m_labels = [], m_annotations = [], m_ownerUIDs = []\<rparr>,
      e_spec = \<lparr>s_target = \<lparr>t_kind = ''Pod'', t_namespace = ns, t_labelSelector = None, t_names = [''web'']\<rparr>,
        s_action = \<lparr>a_type = ''pod-kill'', a_parameters = None, a_duration = None\<rparr>, s_duration = minute,
        s_rollback = None, s_execution = \<lparr>ex_parallelism = None\<rparr>, s_steadyState = None, s_abortConditions = []\<rparr>,
      e_status = \<lparr>st_phase = PhaseEmpty, st_startTime = None, st_endTime = None, st_recoveryStartTime = None,
        st_conditions = [], st_observedGeneration = 0, st_affectedResources = [], st_message = []\<rparr>\<rparr>"

text \<open>The chunk stands at position \<open>k\<close>, at the end of the name if it is the last chunk.\<close>

definition chunk_at :: "string \<Rightarrow> string \<Rightarrow> string \<Rightarrow> nat \<Rightarrow> bool" where
  "chunk_at chunk rest s k \<longleftrightarrow> has_prefix chunk (drop k s) \<and> (rest = [] \<longrightarrow> drop (length chunk) (drop k s) = [])"

section \<open>Globs\<close>

lemma scan_body_plain:
  "plain_glob p \<Longrightarrow> scan_body False p = (takeWhile (\<lambda>c. c \<noteq> CHR ''*'') p, dropWhile (\<lambda>c. c \<noteq> CHR ''*'') p)"
proof (induction p)
  case (Cons c cs)
  then have "plain_glob cs" "c \<noteq> CHR ''[''" "c \<noteq> CHR 0x5C" by (auto simp: plain_glob_def)
  with Cons.IH show ?case by auto
qed simp

lemma plain_glob_append [simp]: "plain_glob (a @ b) \<longleftrightarrow> plain_glob a \<and> plain_glob b"
  by (auto simp: plain_glob_def)

lemma matchChunk_plain:
  "plain_glob chunk \<Longrightarrow> matchChunk chunk s = (if has_prefix chunk s then Some (drop (length chunk) s) else None)"
proof (induction chunk arbitrary: s)
  case (Cons c cs)
  then have "plain_glob cs" "c \<noteq> CHR ''[''" "c \<noteq> CHR ''?''" "c \<noteq> CHR 0x5C" by (auto simp: plain_glob_def)
  with Cons.IH show ?case by (cases s) (simp_all add: matchChunk.simps [of "c # cs"])
qed (simp add: matchChunk.simps [of "[]"])

lemma glob_spec_literal:
  "CHR ''*'' \<notin> set chunk \<Longrightarrow> glob_spec (chunk @ rest) s \<longleftrightarrow> (\<exists>t. s = chunk @ t \<and> glob_spec rest t)"
  by (induction chunk arbitrary: s) auto

lemma glob_spec_stars:
  "glob_spec (CHR ''*'' # p) s \<longleftrightarrow> (\<exists>k \<le> length s. glob_spec (dropWhile (\<lambda>c. c = CHR ''*'') p) (drop k s))"
proof (induction p arbitrary: s)
  case (Cons c p)
  show ?case
  proof (cases "c = CHR ''*''")
    case True
    have "glob_spec (CHR ''*'' # c # p) s \<longleftrightarrow> (\<exists>k \<le> length s. glob_spec (CHR ''*'' # p) (drop k s))"
      using True by simp
    also have "\<dots> \<longleftrightarrow> (\<exists>k \<le> length s. \<exists>j \<le> length (drop k s). glob_spec (dropWhile (\<lambda>c. c = CHR ''*'') p) (drop j (drop k s)))"
      using Cons.IH by blast
    also have "\<dots> \<longleftrightarrow> (\<exists>k \<le> length s. glob_spec (dropWhile (\<lambda>c. c = CHR ''*'') p) (drop k s))"
    proof
      assume "\<exists>k \<le> length s. \<exists>j \<le> length (drop k s). glob_spec (dropWhile (\<lambda>c. c = CHR ''*'') p) (drop j (drop k s))"
      then obtain k j where "k \<le> length s" "j \<le> length s - k"
        "glob_spec (dropWhile (\<lambda>c. c = CHR ''*'') p) (drop (j + k) s)" by auto
      then show "\<exists>k \<le> length s. glob_spec (dropWhile (\<lambda>c. c = CHR ''*'') p) (drop k s)"
        by (intro exI [of _ "j + k"]) auto
    qed (fastforce intro: exI [of _ 0])
    finally show ?thesis using True by simp
  qed simp
qed simp

lemma glob_spec_star_last: "glob_spec [CHR ''*''] s"
  by (auto intro: exI [of _ "length s"])

text \<open>A star takes the remaining pattern to any shorter suffix.\<close>

lemma glob_spec_star_mono:
  "glob_spec (CHR ''*'' # p) (drop k s) \<Longrightarrow> glob_spec (CHR ''*'' # p) s"
proof -
  assume "glob_spec (CHR ''*'' # p) (drop k s)"
  then obtain j where "j \<le> length s - k" "glob_spec p (drop (j + k) s)" by auto
  then show ?thesis by (cases "k \<le> length s") (auto intro: exI [of _ "j + k"] exI [of _ "length s"])
qed

lemma has_prefix_drop: "has_prefix chunk s \<longleftrightarrow> s = chunk @ drop (length chunk) s"
  unfolding has_prefix_iff by (metis append_eq_conv_conj)

text \<open>
  The search after a star finds the first place where the chunk matches (at the end of the name, when
  the chunk is the last one).
\<close>

lemma star_skip_first:
  assumes "plain_glob chunk" and "CHR ''/'' \<notin> set s"
  shows "case star_skip chunk rest s of
      Some t \<Rightarrow> (\<exists>k. 0 < k \<and> k \<le> length s \<and> chunk_at chunk rest s k \<and> t = drop (length chunk + k) s \<and>
                  (\<forall>j. 0 < j \<and> j < k \<longrightarrow> \<not> chunk_at chunk rest s j))
    | None \<Rightarrow> (\<forall>k. 0 < k \<and> k \<le> length s \<longrightarrow> \<not> chunk_at chunk rest s k)"
  using assms(2)
proof (induction s)
  case (Cons d ds)
  have at: "chunk_at chunk rest (d # ds) (Suc k) = chunk_at chunk rest ds k" for k by (simp add: chunk_at_def)
  have ok: "CHR ''/'' \<notin> set ds" "d \<noteq> CHR ''/''" using Cons.prems by auto
  show ?case
  proof (cases "chunk_at chunk rest ds 0")
    case True
    then have "star_skip chunk rest (d # ds) = Some (drop (length chunk) ds)"
      using ok by (auto simp: chunk_at_def matchChunk_plain [OF assms(1)])
    then show ?thesis using True at [of 0] by (auto intro!: exI [of _ 1])
  next
    case False
    then have skip: "star_skip chunk rest (d # ds) = star_skip chunk rest ds"
      using ok by (auto simp: chunk_at_def matchChunk_plain [OF assms(1)])
    have up: "(\<forall>j. 0 < j \<and> j < Suc k \<longrightarrow> \<not> chunk_at chunk rest (d # ds) j)"
      if "0 < k" "\<forall>j. 0 < j \<and> j < k \<longrightarrow> \<not> chunk_at chunk rest ds j" for k
    proof (intro allI impI)
      fix j assume j: "0 < j \<and> j < Suc k"
      then obtain i where i: "j = Suc i" by (cases j) auto
      show "\<not> chunk_at chunk rest (d # ds) j"
        using that j False at [of i] unfolding i by (cases i) auto
    qed
    show ?thesis
    proof (cases "star_skip chunk rest ds")
      case None
      then show ?thesis using Cons.IH [OF ok(1)] False at unfolding skip
        by (auto simp: gr0_conv_Suc Suc_le_eq) (metis not0_implies_Suc)
    next
      case (Some t)
      then obtain k where k: "0 < k" "k \<le> length ds" "chunk_at chunk rest ds k" "t = drop (length chunk + k) ds"
        "\<forall>j. 0 < j \<and> j < k \<longrightarrow> \<not> chunk_at chunk rest ds j" using Cons.IH [OF ok(1)] by auto
      then show ?thesis unfolding skip Some using at [of k] up [OF k(1,5)]
        by (auto intro!: exI [of _ "Suc k"])
    qed
  qed
qed simp

lemma star_search:
  assumes "plain_glob chunk" and "CHR ''/'' \<notin> set s" and "rest = [] \<or> (\<exists>p. rest = CHR ''*'' # p)"
  shows "(\<exists>t. star_skip chunk rest s = Some t \<and> glob_spec rest t) \<longleftrightarrow>
    (\<exists>k. 0 < k \<and> k \<le> length s \<and> has_prefix chunk (drop k s) \<and> glob_spec rest (drop (length chunk + k) s))"
proof
  assume "\<exists>t. star_skip chunk rest s = Some t \<and> glob_spec rest t"
  then show "\<exists>k. 0 < k \<and> k \<le> length s \<and> has_prefix chunk (drop k s) \<and> glob_spec rest (drop (length chunk + k) s)"
    using star_skip_first [OF assms(1,2), of rest] by (auto simp: chunk_at_def)
next
  assume "\<exists>k. 0 < k \<and> k \<le> length s \<and> has_prefix chunk (drop k s) \<and> glob_spec rest (drop (length chunk + k) s)"
  then obtain k where k: "0 < k" "k \<le> length s" "has_prefix chunk (drop k s)" "glob_spec rest (drop (length chunk + k) s)"
    by blast
  then have at: "chunk_at chunk rest s k" by (auto simp: chunk_at_def)
  then obtain t where t: "star_skip chunk rest s = Some t"
    using star_skip_first [OF assms(1,2), of rest] k(1,2) by (cases "star_skip chunk rest s") auto
  then obtain k0 where k0: "chunk_at chunk rest s k0" "t = drop (length chunk + k0) s"
    "\<forall>j. 0 < j \<and> j < k0 \<longrightarrow> \<not> chunk_at chunk rest s j"
    using star_skip_first [OF assms(1,2), of rest] by auto
  have "glob_spec rest t"
  proof (cases "rest = []")
    case True
    then show ?thesis using k0(1,2) by (auto simp: chunk_at_def add.commute)
  next
    case False
    then obtain p where p: "rest = CHR ''*'' # p" using assms(3) by auto
    have "k0 \<le> k" using k0(3) at k(1) by (meson not_le_imp_less)
    then have "drop (length chunk + k) s = drop (k - k0) t" using k0(2) by (simp add: add.commute)
    then show ?thesis using k(4) glob_spec_star_mono unfolding p by metis
  qed
  with t show "\<exists>t. star_skip chunk rest s = Some t \<and> glob_spec rest t" by blast
qed

lemma scanChunk_plain:
  assumes "plain_glob p" and "scanChunk p = (star, chunk, rest)"
  shows "star = (dropWhile (\<lambda>c. c = CHR ''*'') p \<noteq> p)" "dropWhile (\<lambda>c. c = CHR ''*'') p = chunk @ rest"
    "CHR ''*'' \<notin> set chunk" "plain_glob chunk" "plain_glob rest" "rest = [] \<or> (\<exists>q. rest = CHR ''*'' # q)"
proof -
  let ?q = "dropWhile (\<lambda>c. c = CHR ''*'') p"
  have q: "plain_glob ?q" using assms(1) by (auto simp: plain_glob_def dest: set_dropWhileD)
  have eq: "star = (?q \<noteq> p)" "chunk = takeWhile (\<lambda>c. c \<noteq> CHR ''*'') ?q" "rest = dropWhile (\<lambda>c. c \<noteq> CHR ''*'') ?q"
    using assms(2) by (auto simp: scanChunk_def Let_def scan_body_plain [OF q])
  show "star = (?q \<noteq> p)" "?q = chunk @ rest" "CHR ''*'' \<notin> set chunk" using eq by (auto dest: set_takeWhileD)
  show "plain_glob chunk" "plain_glob rest" using q eq by (auto simp: plain_glob_def dest: set_takeWhileD set_dropWhileD)
  show "rest = [] \<or> (\<exists>q. rest = CHR ''*'' # q)"
  proof (cases rest)
    case (Cons c q')
    then have "rest \<noteq> []" by simp
    then have "\<not> hd rest \<noteq> CHR ''*''" unfolding eq(3) by (rule hd_dropWhile)
    with Cons show ?thesis by simp
  qed simp
qed

lemma glob_spec_chunk:
  "CHR ''*'' \<notin> set chunk \<Longrightarrow> glob_spec (chunk @ rest) s \<longleftrightarrow> has_prefix chunk s \<and> glob_spec rest (drop (length chunk) s)"
  by (metis append_eq_conv_conj glob_spec_literal has_prefix_append has_prefix_drop)

lemma glob_match_plain:
  "plain_glob p \<Longrightarrow> CHR ''/'' \<notin> set s \<Longrightarrow> glob_match p s \<longleftrightarrow> glob_spec p s"
proof (induction "length p" arbitrary: p s rule: less_induct)
  case less
  show ?case
  proof (cases "p = []")
    case False
    obtain star chunk rest where sc: "scanChunk p = (star, chunk, rest)" by (cases "scanChunk p")
    note pl = scanChunk_plain [OF less(2) sc]
    have IH: "glob_match rest t \<longleftrightarrow> glob_spec rest t" if "set t \<subseteq> set s" for t
      using less(1) [OF scanChunk_shorter [OF False sc] pl(5), of t] less(3) that by blast
    have dropIH: "glob_match rest (drop k s) \<longleftrightarrow> glob_spec rest (drop k s)" for k
      by (rule IH) (rule set_drop_subset)
    let ?here = "has_prefix chunk s \<and> (drop (length chunk) s = [] \<or> rest \<noteq> [])"
    have match: "glob_match p s \<longleftrightarrow> (if star \<and> chunk = [] then True
        else if ?here then glob_match rest (drop (length chunk) s)
        else star \<and> (\<exists>t. star_skip chunk rest s = Some t \<and> glob_match rest t))"
      using False sc less(3)
      by (subst glob_match.simps) (auto simp: matchChunk_plain [OF pl(4)] split: option.splits)
    have here: "glob_spec rest (drop (length chunk) s) \<Longrightarrow> has_prefix chunk s \<Longrightarrow> ?here"
      by auto
    have skip: "(\<exists>t. star_skip chunk rest s = Some t \<and> glob_match rest t) \<longleftrightarrow>
      (\<exists>k. 0 < k \<and> k \<le> length s \<and> has_prefix chunk (drop k s) \<and> glob_spec rest (drop (length chunk + k) s))"
    proof -
      have "glob_match rest t \<longleftrightarrow> glob_spec rest t" if "star_skip chunk rest s = Some t" for t
        using star_skip_first [OF pl(4) less(3), of rest] that dropIH by auto
      then show ?thesis using star_search [OF pl(4) less(3) pl(6)] by auto
    qed
    show ?thesis
    proof (cases star)
      case False
      then have "p = chunk @ rest" using pl(1,2) by simp
      then have "glob_spec p s \<longleftrightarrow> has_prefix chunk s \<and> glob_spec rest (drop (length chunk) s)"
        using glob_spec_chunk [OF pl(3)] by simp
      then show ?thesis unfolding match using False dropIH [of "length chunk"] here by auto
    next
      case True
      then obtain q where "p = CHR ''*'' # q" using pl(1) \<open>p \<noteq> []\<close> by (cases p) (auto split: if_splits)
      then have spec: "glob_spec p s \<longleftrightarrow> (\<exists>k \<le> length s. has_prefix chunk (drop k s) \<and> glob_spec rest (drop (length chunk + k) s))"
        using glob_spec_stars [of q s] pl(2) glob_spec_chunk [OF pl(3), of rest] by (simp add: add.commute)
      show ?thesis
      proof (cases "chunk = []")
        case True
        then have "rest = []" using pl(2,6) hd_dropWhile [of "\<lambda>c. c = CHR ''*''" p] by auto
        then show ?thesis unfolding match spec using True \<open>star\<close> by auto
      next
        case chunk: False
        show ?thesis
        proof (cases ?here)
          case True
          have "glob_spec rest (drop (length chunk) s)"
            if "glob_spec rest (drop (length chunk + k) s)" for k
          proof (cases "rest = []")
            case False
            then obtain r where r: "rest = CHR ''*'' # r" using pl(6) by auto
            have "drop (length chunk + k) s = drop k (drop (length chunk) s)" by (simp add: add.commute)
            then show ?thesis using that glob_spec_star_mono unfolding r by metis
          qed (use True in simp)
          then show ?thesis unfolding match spec using True chunk dropIH [of "length chunk"]
            by (auto intro: exI [of _ 0])
        next
          case False
          then have "(\<exists>k \<le> length s. has_prefix chunk (drop k s) \<and> glob_spec rest (drop (length chunk + k) s)) \<longleftrightarrow>
              (\<exists>k. 0 < k \<and> k \<le> length s \<and> has_prefix chunk (drop k s) \<and> glob_spec rest (drop (length chunk + k) s))"
            using here by (metis add.right_neutral drop0 gr0I)
          then show ?thesis unfolding match spec using False chunk \<open>star\<close> skip by auto
        qed
      qed
    qed
  qed (simp add: glob_match.simps)
qed

section \<open>Policies\<close>

lemma find_None_iff': "find P xs = None \<longleftrightarrow> (\<forall>x \<in> set xs. \<not> P x)"
  by (auto simp: find_None_iff)

lemma protected_resources_reason:
  assumes "any_order (he_ord env)"
  shows "checkProtectedResources env p xp = [] \<and> checkProtectedNamespaces p xp = [] \<longleftrightarrow>
    \<not> hits_protected (bp_protectedResources (b_spec p)) (s_target (e_spec xp))"
proof -
  let ?prot = "bp_protectedResources (b_spec p)" and ?t = "s_target (e_spec xp)"
  have names: "find (protects_name ?t) (prs_names ?prot) = None \<longleftrightarrow>
    \<not> (\<exists>pr \<in> set (prs_names ?prot). (pr_kind pr = [] \<or> EqualFold (pr_kind pr) (t_kind ?t)) \<and>
        (pr_namespace pr = [] \<or> pr_namespace pr = t_namespace ?t) \<and> pr_name pr \<in> set (t_names ?t))"
    by (auto simp: find_None_iff' protects_name_def list_ex_iff)
  have keys: "set (he_ord env (gm_keys (prs_labels ?prot))) = dom (map_of (prs_labels ?prot))"
    using any_order_set [OF assms] by (simp add: set_gm_keys)
  have "find (\<lambda>k. map_of ml k \<noteq> None \<and> map_of ml k = map_of (prs_labels ?prot) k) (he_ord env (gm_keys (prs_labels ?prot))) = None \<longleftrightarrow>
      \<not> (\<exists>k v. map_of ml k = Some v \<and> map_of (prs_labels ?prot) k = Some v)" for ml :: "(string, string) gomap"
    unfolding find_None_iff' keys by (auto simp: dom_def)
  then have labels: "protected_label env (prs_labels ?prot) ?t = None \<longleftrightarrow>
    \<not> (\<exists>sel ml k v. t_labelSelector ?t = Some sel \<and> sel_matchLabels sel = Some ml \<and>
        map_of ml k = Some v \<and> map_of (prs_labels ?prot) k = Some v)"
    by (simp add: protected_label_def split: option.split)
  have res: "checkProtectedResources env p xp = [] \<longleftrightarrow>
      find (protects_name ?t) (prs_names ?prot) = None \<and> protected_label env (prs_labels ?prot) ?t = None"
    by (auto simp: checkProtectedResources_def Let_def split: option.split)
  have "checkProtectedNamespaces p xp = [] \<longleftrightarrow> \<not> (\<exists>ns \<in> set (prs_namespaces ?prot). matchGlob ns (t_namespace ?t))"
    by (auto simp: checkProtectedNamespaces_def Let_def list_ex_iff)
  then show ?thesis unfolding res names labels hits_protected_def by blast
qed

lemma limits_reason:
  assumes "length (t_names (s_target (e_spec xp))) < 2 ^ 31"
  shows "checkActionLimits p xp = [] \<and> checkTargetLimits p xp = [] \<longleftrightarrow> \<not> exceeds_limits (b_spec p) (e_spec xp)"
proof -
  have w: "wrap32 (int (length (t_names (s_target (e_spec xp))))) = int (length (t_names (s_target (e_spec xp))))"
    using assms by (simp add: wrap32_def)
  have act: "checkActionLimits p xp = [] \<longleftrightarrow> \<not> (\<exists>al. bp_actionLimits (b_spec p) = Some al \<and>
        (al_allowedActions al \<noteq> [] \<and> a_type (s_action (e_spec xp)) \<notin> set (al_allowedActions al) \<or>
         (\<exists>md. al_maxDuration al = Some md \<and>
            md < (case a_duration (s_action (e_spec xp)) of Some d \<Rightarrow> d | None \<Rightarrow> s_duration (e_spec xp)))))"
    by (auto simp: checkActionLimits_def Let_def list_ex_iff getExperimentDuration_def split: option.split)
  have "checkTargetLimits p xp = [] \<longleftrightarrow>
    \<not> (\<exists>mt. tl_maxTargets (bp_targetLimits (b_spec p)) = Some mt \<and> t_names (s_target (e_spec xp)) \<noteq> [] \<and>
        mt < int (length (t_names (s_target (e_spec xp))))) \<and>
    \<not> (\<exists>mp par. tl_maxPercentage (bp_targetLimits (b_spec p)) = Some mp \<and>
        ex_parallelism (s_execution (e_spec xp)) = Some par \<and> mp < par)"
    by (auto simp: checkTargetLimits_def Let_def w split: option.split)
  with act show ?thesis unfolding exceeds_limits_def by blast
qed

lemma windows_reason: "checkTimeWindows env p now = [] \<longleftrightarrow> \<not> outside_windows env (b_spec p) now"
  by (auto simp: checkTimeWindows_def outside_windows_def list_ex_iff find_None_iff' find_Some_iff
      split: option.split dest!: nth_mem)

lemma evaluatePolicyAt_objects:
  assumes "any_order (he_ord env)" and "length (t_names (s_target (e_spec xp))) < 2 ^ 31"
    and "policyMatchesExperiment env p xp"
  shows "ev_allowed (evaluatePolicyAt env p xp now) \<longleftrightarrow>
    bp_enforcement (b_spec p) \<notin> {EnforcementEnforce, EnforcementAudit} \<or> \<not> objects env now xp p"
  using protected_resources_reason [OF assms(1), of p xp] limits_reason [OF assms(2), of p]
    windows_reason [of env p now] assms(3)
  by (auto simp: evaluatePolicyAt_def eval_of_def objects_def)

lemma handle_policies_result:
  assumes "any_order (he_ord env)" and "length (t_names (s_target (e_spec xp))) < 2 ^ 31"
    and clock: "\<And>x. fst (he_now env x) = now"
  shows "fst (handle_policies env xp ps ws x) =
    (case find (\<lambda>p. objects env now xp p \<and> bp_enforcement (b_spec p) = EnforcementEnforce) ps of
       Some p \<Rightarrow> Denied (''denied by policy '' @ quoted (m_name (b_meta p)) @ '': '' @ ev_reason (evaluatePolicyAt env p xp now))
     | None \<Rightarrow>
         (let ws' = ws @ map (\<lambda>p. ''policy '' @ quoted (m_name (b_meta p)) @ '' would deny: '' @ ev_reason (evaluatePolicyAt env p xp now))
                (filter (\<lambda>p. objects env now xp p \<and> bp_enforcement (b_spec p) = EnforcementAudit) ps)
          in Allowed ''all policies passed'' (if ws' \<noteq> [] then Some ws' else None)))"
proof (induction ps arbitrary: ws x)
  case (Cons p ps)
  show ?case
  proof (cases "policyMatchesExperiment env p xp")
    case False
    then have "\<not> objects env now xp p" by (simp add: objects_def)
    then show ?thesis using Cons False by (simp split: option.split)
  next
    case True
    obtain x' where x': "he_now env x = (now, x')" using clock [of x] by (cases "he_now env x") auto
    note ev = evaluatePolicyAt_objects [OF assms(1,2) True, of now]
    show ?thesis
      using True x' ev Cons by (cases "bp_enforcement (b_spec p)") (auto simp: Let_def split: option.split)
  qed
qed simp

section \<open>Cron fields\<close>

lemma dec_nat_digits: "c \<in> set (dec_nat n) \<Longrightarrow> digit_val c \<noteq> None"
proof (induction n rule: dec_nat.induct)
  case (1 n)
  show ?case using 1 by (cases "n < 10") (auto simp: dec_nat.simps [of n] digit_val_char)
qed

lemma dec_nat_no_sep [simp]:
  "CHR ''/'' \<notin> set (dec_nat n)" "CHR ''-'' \<notin> set (dec_nat n)" "CHR '','' \<notin> set (dec_nat n)" "CHR ''*'' \<notin> set (dec_nat n)"
  using dec_nat_digits [of "CHR ''/''" n] dec_nat_digits [of "CHR ''-''" n] dec_nat_digits [of "CHR '',''" n]
    dec_nat_digits [of "CHR ''*''" n] by (auto simp: digit_val_def)

lemma Atoi_dec_nat: "n < 2 ^ 31 \<Longrightarrow> Atoi (dec_nat n) = Some (int n)"
  unfolding Atoi_def by (rule ParseInt_dec_nat) simp

lemma dec_nat_not_star: "dec_nat n \<noteq> ''*''"
  using dec_nat_no_sep(4) [of n] by (metis list.set_intros(1))

lemma go_mod_nonneg: "0 \<le> a \<Longrightarrow> 0 < b \<Longrightarrow> go_mod a b = a mod b"
  by (cases "a = 0") (simp_all add: go_mod_def go_div_def minus_mult_div_eq_mod)

lemma step_means:
  assumes "0 < step" and "v < 2 ^ 31" and "start < 2 ^ 31"
  shows "(\<not> int v < int start \<and> go_mod (wrap64 (int v - int start)) (int step) = 0) \<longleftrightarrow> (\<exists>j. v = start + j * step)"
proof -
  have "wrap64 (int v - int start) = int v - int start"
    using assms by (intro wrap64_id) (simp add: int64_def)
  moreover have "(\<exists>j. v = start + j * step) \<longleftrightarrow> start \<le> v \<and> step dvd (v - start)"
    by (auto simp: dvd_def mult.commute) (metis le_add_diff_inverse mult.commute)
  moreover have "go_mod (int v - int start) (int step) = 0 \<longleftrightarrow> step dvd (v - start)" if "start \<le> v"
  proof -
    have eq: "int v - int start = int (v - start)" using that by (rule of_nat_diff [symmetric])
    have "go_mod (int (v - start)) (int step) = int ((v - start) mod step)"
      unfolding zmod_int using assms(1) by (intro go_mod_nonneg) simp_all
    then show ?thesis unfolding eq by (simp add: dvd_eq_mod_eq_0)
  qed
  ultimately show ?thesis by (metis not_less of_nat_less_iff)
qed

lemma matchCronPart_means:
  assumes "cron_part_ok part" and "v < 2 ^ 31" and "mn < 2 ^ 31"
  shows "matchCronPart (cron_part_text part) (int v) (int mn) mx \<longleftrightarrow> cron_part_means mn part v"
proof (cases part)
  case (CronValue n)
  with assms show ?thesis by (simp add: matchCronPart_def cut_char Atoi_dec_nat)
next
  case (CronRange lo hi)
  have no: "cut ''/'' (dec_nat lo @ CHR ''-'' # dec_nat hi) = None" by (rule cut_char) simp
  from CronRange assms show ?thesis by (simp add: matchCronPart_def no cut_char_Some Atoi_dec_nat)
next
  case (CronStep start step)
  show ?thesis
  proof (cases start)
    case None
    have c: "cut ''/'' (''*/'' @ dec_nat step) = Some (''*'', dec_nat step)"
      using cut_char_Some [of "CHR ''/''" "''*''" "dec_nat step"] by simp
    show ?thesis using CronStep None assms step_means [of step v mn]
      by (auto simp: matchCronPart_def c [simplified] Atoi_dec_nat)
  next
    case (Some n)
    have c: "cut ''/'' (dec_nat n @ CHR ''/'' # dec_nat step) = Some (dec_nat n, dec_nat step)"
      by (rule cut_char_Some) simp
    show ?thesis using CronStep Some assms step_means [of step v n]
      by (auto simp: matchCronPart_def c Atoi_dec_nat dec_nat_not_star)
  qed
qed

section \<open>Minutes\<close>

lemma minute_pos: "0 < minute"
  by (simp add: minute_def second_def)

lemma truncate_minutes_ago: "truncate_minute (now - int i * minute) = (now div minute - int i) * minute"
proof -
  have "(now - int i * minute) div minute = now div minute - int i"
    using minute_pos div_mult_self1 [of minute now "- int i"] by simp
  then show ?thesis by (simp add: truncate_minute_def minus_mod_eq_div_mult)
qed

lemma minutes_between:
  "p * minute \<le> now \<and> now - p * minute < (d + 1) * minute \<longleftrightarrow> p \<le> now div minute \<and> now div minute - p \<le> d"
proof -
  have "now div minute * minute + now mod minute = now" by (rule div_mult_mod_eq)
  moreover have "0 \<le> now mod minute" "now mod minute < minute" using minute_pos by simp_all
  ultimately have bounds: "now div minute * minute \<le> now" "now < (now div minute + 1) * minute"
    unfolding distrib_right by linarith+
  have "p * minute \<le> now \<longleftrightarrow> p \<le> now div minute"
  proof
    assume "p * minute \<le> now"
    then have "p * minute < (now div minute + 1) * minute" using bounds by simp
    then show "p \<le> now div minute" using minute_pos by (simp add: mult_less_cancel_right)
  next
    assume "p \<le> now div minute"
    then have "p * minute \<le> now div minute * minute" using minute_pos by simp
    then show "p * minute \<le> now" using bounds by simp
  qed
  moreover have "now - p * minute < (d + 1) * minute \<longleftrightarrow> now div minute - p \<le> d"
  proof
    assume "now - p * minute < (d + 1) * minute"
    then have "now div minute * minute < (d + 1 + p) * minute" using bounds by (simp add: distrib_right)
    then show "now div minute - p \<le> d" using minute_pos by (simp add: mult_less_cancel_right)
  next
    assume "now div minute - p \<le> d"
    then have "(now div minute + 1) * minute \<le> (d + 1 + p) * minute" using minute_pos by simp
    then show "now - p * minute < (d + 1) * minute" using bounds by (simp add: distrib_right)
  qed
  ultimately show ?thesis by blast
qed

section \<open>Properties\<close>

text \<open>
  C25. The webhook decides as the policies say: for a decoded experiment and a readable list of
  policies, the request is denied if and only if some policy in force (mode \<open>enforce\<close>) applies to
  the experiment and objects to it, because it hits a protected name, label or namespace, exceeds a
  limit on actions, duration, targets or percentage, or falls outside the time windows; it is denied
  in the name of the first such policy in the list. Policies in \<open>audit\<close> mode never deny: when nothing
  denies, the audit annotation lists exactly those that object, in order. The clock reads the same
  throughout, and there are fewer than \<open>2^31\<close> targets (the source compares an \<open>int32\<close>).
\<close>

theorem Handle_decision:
  assumes "any_order (he_ord env)" and "length (t_names (s_target (e_spec xp))) < 2 ^ 31"
    and "\<And>x. fst (he_now env x) = now" and "lst x = (Inr policies, x')" and "policies \<noteq> []"
  shows "fst (Handle env (Inr xp) (Some lst) x) =
    (case find (\<lambda>p. objects env now xp p \<and> bp_enforcement (b_spec p) = EnforcementEnforce) policies of
       Some p \<Rightarrow> Denied (''denied by policy '' @ quoted (m_name (b_meta p)) @ '': '' @ ev_reason (evaluatePolicyAt env p xp now))
     | None \<Rightarrow>
         (let audit = filter (\<lambda>p. objects env now xp p \<and> bp_enforcement (b_spec p) = EnforcementAudit) policies
          in Allowed ''all policies passed'' (if audit \<noteq> [] then Some (map (\<lambda>p. ''policy '' @ quoted (m_name (b_meta p)) @
               '' would deny: '' @ ev_reason (evaluatePolicyAt env p xp now)) audit) else None)))"
  using handle_policies_result [OF assms(1,2,3), of policies "[]" x'] assms(4,5)
  by (simp add: Handle_def Let_def split: option.split)

theorem Handle_decision_witness:
  "\<exists>reason. fst (Handle demo_hook (Inr (demo_target ''kube-system'')) (Some (\<lambda>x. (Inr [demo_policy], x))) ()) = Denied reason"
proof -
  have glob: "matchGlob ''kube-*'' ''kube-system''" by code_simp
  have obj: "objects demo_hook 0 (demo_target ''kube-system'') demo_policy"
    using glob by (simp add: objects_def policyMatchesExperiment_def hits_protected_def demo_policy_def demo_target_def)
  have enf: "bp_enforcement (b_spec demo_policy) = EnforcementEnforce" by (simp add: demo_policy_def)
  have "any_order (he_ord demo_hook)" "length (t_names (s_target (e_spec (demo_target ''kube-system'')))) < 2 ^ 31"
    "\<And>x. fst (he_now demo_hook x) = 0" by (simp_all add: demo_hook_def any_order_def demo_target_def)
  from Handle_decision [OF this, of "\<lambda>x. (Inr [demo_policy], x)" "()" "[demo_policy]"] obj enf show ?thesis by simp
qed

text \<open>
  C26. Namespace globs mean what they say: for a pattern of literal bytes and stars, and a name
  without a path separator (namespaces have none), \<open>matchGlob\<close> succeeds exactly when the name is the
  pattern itself or the pattern with every star replaced by some run of bytes. The leftmost search of
  \<open>filepath.Match\<close> loses no match.
\<close>

theorem matchGlob_meaning:
  assumes "plain_glob p" and "CHR ''/'' \<notin> set s"
  shows "matchGlob p s \<longleftrightarrow> p = s \<or> glob_spec p s"
  using glob_match_plain [OF assms] by (simp add: matchGlob_def)

theorem matchGlob_meaning_witness:
  "plain_glob ''kube-*'' \<and> matchGlob ''kube-*'' ''kube-system'' \<and> glob_spec ''kube-*'' ''kube-system''"
proof -
  have 1: "plain_glob ''kube-*''" "CHR ''/'' \<notin> set ''kube-system''" by (simp_all add: plain_glob_def)
  have "matchGlob ''kube-*'' ''kube-system''" by code_simp
  with matchGlob_meaning [OF 1] 1 show ?thesis by simp
qed

text \<open>
  C27. A cron field matches what it denotes: for a non-empty list of values, ranges \<open>a-b\<close> and steps
  \<open>*/n\<close> or \<open>a/n\<close>, rendered with commas, \<open>fieldMatches\<close> accepts exactly the numbers that one of the
  parts denotes.
\<close>

theorem fieldMatches_meaning:
  assumes "parts \<noteq> []" and "\<forall>p \<in> set parts. cron_part_ok p" and "v < 2 ^ 31" and "mn < 2 ^ 31"
  shows "fieldMatches (cron_field_text parts) (int v) (int mn) mx \<longleftrightarrow> (\<exists>p \<in> set parts. cron_part_means mn p v)"
proof -
  have comma: "CHR '','' \<notin> set (cron_part_text p)" for p by (cases p rule: cron_part_text.cases) auto
  have star: "cron_part_text p \<noteq> ''*''" for p
    using dec_nat_not_star dec_nat_nonempty
    by (cases p rule: cron_part_text.cases) (auto simp: Cons_eq_append_conv append_eq_Cons_conv)
  have split: "split_on (CHR '','') (cron_field_text parts) = map cron_part_text parts"
    unfolding cron_field_text_def by (rule split_on_join_on) (use assms(1) comma in auto)
  have "cron_field_text parts \<noteq> ''*''"
  proof
    assume "cron_field_text parts = ''*''"
    then have "map cron_part_text parts = [''*'']" using split by simp
    then show False using star by (cases parts) auto
  qed
  then show ?thesis
    using assms(2) matchCronPart_means [OF _ assms(3,4)] by (auto simp: fieldMatches_def split list_ex_iff)
qed

theorem fieldMatches_meaning_witness:
  "fieldMatches (cron_field_text [CronRange 9 17, CronStep None 5]) (int 20) (int 0) 23 \<and>
   \<not> fieldMatches (cron_field_text [CronRange 9 17, CronStep None 5]) (int 19) (int 0) 23"
  using fieldMatches_meaning [of "[CronRange 9 17, CronStep None 5]" 20 0 23]
    fieldMatches_meaning [of "[CronRange 9 17, CronStep None 5]" 19 0 23]
  by (auto intro: exI [of _ 4]) presburger

text \<open>
  C28. A time window is the closed interval from each start: an instant is in it exactly when the
  schedule matches at one of the whole minutes up to the duration before it. So a window of \<open>d\<close>
  minutes, at least one, is still open in the minute in which \<open>d\<close> minutes have passed.
\<close>

theorem isInTimeWindow_meaning:
  assumes "he_location env (tw_timezone tw) = Some loc" and "he_parse_duration env (tw_duration tw) = Some (d * minute)"
    and "1 \<le> d"
  shows "isInTimeWindow env tw now \<longleftrightarrow>
    (\<exists>start. start mod minute = 0 \<and> start \<le> now \<and> now - start < (d + 1) * minute \<and>
       cronMatches (tw_schedule tw) (loc start))"
proof -
  have "go_div (d * minute) minute = d" using assms(3) minute_pos by (simp add: go_div_def)
  then have wm: "window_minutes (d * minute) = nat d" using assms(3) by (simp add: window_minutes_def)
  have "isInTimeWindow env tw now \<longleftrightarrow>
      (\<exists>i < Suc (nat d). cronMatches (tw_schedule tw) (loc ((now div minute - int i) * minute)))"
    using assms(1,2) by (simp add: isInTimeWindow_def wm list_ex_iff Bex_def truncate_minutes_ago del: upt_Suc)
  also have "\<dots> \<longleftrightarrow> (\<exists>p. p \<le> now div minute \<and> now div minute - p \<le> d \<and> cronMatches (tw_schedule tw) (loc (p * minute)))"
  proof
    assume "\<exists>i < Suc (nat d). cronMatches (tw_schedule tw) (loc ((now div minute - int i) * minute))"
    then obtain i where "i < Suc (nat d)" "cronMatches (tw_schedule tw) (loc ((now div minute - int i) * minute))" by blast
    then show "\<exists>p. p \<le> now div minute \<and> now div minute - p \<le> d \<and> cronMatches (tw_schedule tw) (loc (p * minute))"
      using assms(3) by (intro exI [of _ "now div minute - int i"]) auto
  next
    assume "\<exists>p. p \<le> now div minute \<and> now div minute - p \<le> d \<and> cronMatches (tw_schedule tw) (loc (p * minute))"
    then obtain p where "p \<le> now div minute" "now div minute - p \<le> d" "cronMatches (tw_schedule tw) (loc (p * minute))" by blast
    then show "\<exists>i < Suc (nat d). cronMatches (tw_schedule tw) (loc ((now div minute - int i) * minute))"
      by (intro exI [of _ "nat (now div minute - p)"]) auto
  qed
  also have "\<dots> \<longleftrightarrow> (\<exists>start. start mod minute = 0 \<and> start \<le> now \<and> now - start < (d + 1) * minute \<and>
       cronMatches (tw_schedule tw) (loc start))"
  proof
    assume "\<exists>p. p \<le> now div minute \<and> now div minute - p \<le> d \<and> cronMatches (tw_schedule tw) (loc (p * minute))"
    then obtain p where "p * minute \<le> now \<and> now - p * minute < (d + 1) * minute" "cronMatches (tw_schedule tw) (loc (p * minute))"
      using minutes_between by blast
    then show "\<exists>start. start mod minute = 0 \<and> start \<le> now \<and> now - start < (d + 1) * minute \<and> cronMatches (tw_schedule tw) (loc start)"
      by (intro exI [of _ "p * minute"]) simp
  next
    assume "\<exists>start. start mod minute = 0 \<and> start \<le> now \<and> now - start < (d + 1) * minute \<and> cronMatches (tw_schedule tw) (loc start)"
    then obtain start where st: "start mod minute = 0" "start \<le> now" "now - start < (d + 1) * minute" "cronMatches (tw_schedule tw) (loc start)"
      by (elim exE conjE)
    have "start = start div minute * minute" using st(1) by (simp add: dvd_eq_mod_eq_0 [symmetric])
    then show "\<exists>p. p \<le> now div minute \<and> now div minute - p \<le> d \<and> cronMatches (tw_schedule tw) (loc (p * minute))"
      using st minutes_between [of "start div minute" now d] by (intro exI [of _ "start div minute"]) simp
  qed
  finally show ?thesis .
qed

theorem isInTimeWindow_meaning_witness:
  "isInTimeWindow demo_hook \<lparr>tw_name = ''w'', tw_schedule = ''5 * * * *'', tw_duration = ''2m'', tw_timezone = ''UTC''\<rparr> (7 * minute) \<longleftrightarrow>
   (\<exists>start. start mod minute = 0 \<and> start \<le> 7 * minute \<and> 7 * minute - start < (2 + 1) * minute \<and>
     cronMatches ''5 * * * *'' \<lparr>cv_minute = start div minute mod 60, cv_hour = start div (60 * minute) mod 24,
       cv_day = 1, cv_month = 1, cv_weekday = 0\<rparr>)"
  using isInTimeWindow_meaning [of demo_hook "\<lparr>tw_name = ''w'', tw_schedule = ''5 * * * *'', tw_duration = ''2m'', tw_timezone = ''UTC''\<rparr>"
      "\<lambda>t. \<lparr>cv_minute = t div minute mod 60, cv_hour = t div (60 * minute) mod 24, cv_day = 1, cv_month = 1, cv_weekday = 0\<rparr>" 2 "7 * minute"]
  by (simp add: demo_hook_def)

end
