(* ===== verification/Daemon_Sys.thy ===== *)
theory Daemon_Sys
  imports Prelude
begin

text \<open>
  The host commands of the daemon (\<open>internal/daemon/syscmd.go\<close>): traffic control, iptables and
  stress-ng behind the \<open>commandRunner\<close> seam. The host is the type \<open>'w\<close>; a runner takes the program
  name and its arguments to a result and a new host.

  What iptables and tc do with the commands is stated by \<open>iptables_laws\<close> and \<open>tc_laws\<close> over a view of
  the host: the multiset of installed rules and the root queueing discipline of every device. The
  locale \<open>rule_fault\<close> is the contract of the faults made of iptables rules (partition, DNS error,
  HTTP abort, blocked interface): injecting appends a list of rules, restoring deletes the same list;
  what that gives (exact undo, what a half-failed injection leaves behind) is proved once.
\<close>

section \<open>Definitions\<close>

subsection \<open>The command runner\<close>

record 'w CommandRunner =
  cr_Run :: "string \<Rightarrow> string list \<Rightarrow> 'w \<Rightarrow> (err + string) \<times> 'w"
  cr_Start :: "string \<Rightarrow> string list \<Rightarrow> 'w \<Rightarrow> err option \<times> 'w"

text \<open>
  \<open>execRunner\<close> runs real processes: \<open>proc_run\<close> is \<open>exec.Cmd.Run\<close> under the thirty-second timeout,
  with standard output, standard error and the error, and \<open>proc_start\<close> is \<open>exec.Cmd.Start\<close>.
\<close>

definition execRunner ::
    "(string \<Rightarrow> string list \<Rightarrow> 'w \<Rightarrow> (string \<times> string \<times> err option) \<times> 'w) \<Rightarrow>
     (string \<Rightarrow> string list \<Rightarrow> 'w \<Rightarrow> err option \<times> 'w) \<Rightarrow> 'w CommandRunner" where
  "execRunner proc_run proc_start =
     \<lparr>cr_Run = (\<lambda>name args w.
        case proc_run name args w of
          ((stdout, stderr, Some e), w') \<Rightarrow>
            (Inl (name @ '' '' @ join_on (CHR 0x20) args @ '' failed: '' @ e @ '' (stderr: '' @ stderr @ '')''), w')
        | ((stdout, stderr, None), w') \<Rightarrow> (Inr (TrimSpace stdout), w')),
      cr_Start = proc_start\<rparr>"

text \<open>The callers keep only the error of a command.\<close>

definition run_err :: "'w CommandRunner \<Rightarrow> string \<Rightarrow> string list \<Rightarrow> 'w \<Rightarrow> err option \<times> 'w" where
  "run_err r name args w =
     (case cr_Run r name args w of (Inl e, w') \<Rightarrow> (Some e, w') | (Inr _, w') \<Rightarrow> (None, w'))"

subsection \<open>Traffic control\<close>

definition netem_percent :: "(string, string) gomap \<Rightarrow> string" where
  "netem_percent params =
     (let percent = gm_str params ''percent'';
          percent = (if percent = [] then ''10%'' else percent)
      in if HasSuffix percent ''%'' then percent else percent @ ''%'')"

definition netem_delay :: "(string, string) gomap \<Rightarrow> string list" where
  "netem_delay params =
     (let latency = gm_str params ''latency'';
          latency = (if latency = [] then ''100ms'' else latency);
          jitter = gm_str params ''jitter'';
          corr = gm_str params ''correlation''
      in [''delay'', latency] @ (if jitter \<noteq> [] then [jitter] else []) @ (if corr \<noteq> [] then [corr] else []))"

definition tc_args :: "string \<Rightarrow> string \<Rightarrow> (string, string) gomap \<Rightarrow> string list" where
  "tc_args iface action params =
     (let args = [''qdisc'', ''add'', ''dev'', iface, ''root'', ''netem''] in
      if action = ''delay'' then args @ netem_delay params
      else if action = ''loss'' then args @ [''loss'', netem_percent params]
      else if action = ''corrupt'' then args @ [''corrupt'', netem_percent params]
      else if action = ''duplicate'' then args @ [''duplicate'', netem_percent params]
      else if action = ''bandwidth'' then
        (let rate = gm_str params ''rate''; rate = (if rate = [] then ''1mbit'' else rate)
         in [''qdisc'', ''add'', ''dev'', iface, ''root'', ''tbf'', ''rate'', rate, ''burst'', ''32kbit'', ''latency'', ''400ms''])
      else args)"

definition tcAddNetem ::
    "'w CommandRunner \<Rightarrow> string \<Rightarrow> string \<Rightarrow> (string, string) gomap \<Rightarrow> 'w \<Rightarrow> err option \<times> 'w" where
  "tcAddNetem r iface action params w = run_err r ''tc'' (tc_args iface action params) w"

definition tcDelete :: "'w CommandRunner \<Rightarrow> string \<Rightarrow> 'w \<Rightarrow> err option \<times> 'w" where
  "tcDelete r iface w = run_err r ''tc'' [''qdisc'', ''del'', ''dev'', iface, ''root''] w"

subsection \<open>The target of a fault\<close>

text \<open>\<open>podTarget\<close> of \<open>server.go\<close>: what the DNS, HTTP and stress faults need to act on a pod.\<close>

record podTarget =
  pt_scoped :: bool
  pt_hostVeth :: string
  pt_cgroupV2Path :: string

definition no_target :: podTarget where
  "no_target = \<lparr>pt_scoped = False, pt_hostVeth = [], pt_cgroupV2Path = []\<rparr>"

subsection \<open>Rules: adding and deleting\<close>

text \<open>The loops that append rules and stop at the first error, and that delete rules and go on.\<close>

fun add_rules :: "'w CommandRunner \<Rightarrow> string list list \<Rightarrow> 'w \<Rightarrow> err option \<times> 'w" where
  "add_rules r [] w = (None, w)"
| "add_rules r (body # bodies) w =
     (case run_err r ''iptables'' (''-A'' # body) w of
        (Some e, w') \<Rightarrow> (Some e, w')
      | (None, w') \<Rightarrow> add_rules r bodies w')"

fun del_rules :: "'w CommandRunner \<Rightarrow> string list list \<Rightarrow> 'w \<Rightarrow> 'w" where
  "del_rules r [] w = w"
| "del_rules r (body # bodies) w = del_rules r bodies (snd (run_err r ''iptables'' (''-D'' # body) w))"

subsection \<open>HTTP faults\<close>

definition httpAbortRuleBody :: "string \<Rightarrow> string \<Rightarrow> bool \<Rightarrow> string list" where
  "httpAbortRuleBody iface portStr scoped =
     (if scoped then [''FORWARD'', ''-o'', iface, ''-p'', ''tcp'', ''--dport'', portStr, ''-j'', ''REJECT'']
      else [''INPUT'', ''-p'', ''tcp'', ''--dport'', portStr, ''-j'', ''REJECT''])"

definition httpAbort :: "'w CommandRunner \<Rightarrow> podTarget \<Rightarrow> int \<Rightarrow> 'w \<Rightarrow> err option \<times> 'w" where
  "httpAbort r target port w =
     run_err r ''iptables''
       (''-A'' # httpAbortRuleBody (pt_hostVeth target) (Itoa port) (pt_scoped target)) w"

definition httpDelay :: "'w CommandRunner \<Rightarrow> podTarget \<Rightarrow> string \<Rightarrow> 'w \<Rightarrow> err option \<times> 'w" where
  "httpDelay r target delayMS w =
     (let iface = (if pt_scoped target then pt_hostVeth target else ''lo'');
          delayMS = (if delayMS = [] then ''100'' else delayMS)
      in run_err r ''tc'' [''qdisc'', ''add'', ''dev'', iface, ''root'', ''netem'', ''delay'', delayMS @ ''ms''] w)"

definition httpRestore :: "'w CommandRunner \<Rightarrow> (string, string) gomap \<Rightarrow> 'w \<Rightarrow> 'w" where
  "httpRestore r params w =
     (let iface = gm_str params ''iface''; scoped = (iface \<noteq> []); action = gm_str params ''action'' in
      if action = ''abort'' then
        (let port = gm_str params ''port'' in
         if port \<noteq> [] then snd (run_err r ''iptables'' (''-D'' # httpAbortRuleBody iface port scoped) w) else w)
      else if action = ''delay'' then snd (tcDelete r (if scoped then iface else ''lo'') w)
      else w)"

subsection \<open>Blocking an interface\<close>

definition iptablesBlock :: "'w CommandRunner \<Rightarrow> string \<Rightarrow> string \<Rightarrow> 'w \<Rightarrow> err option \<times> 'w" where
  "iptablesBlock r iface direction w =
     (let chain = (if direction = ''ingress'' \<or> direction = ''both'' then ''INPUT'' else ''OUTPUT'') in
      case run_err r ''iptables'' [''-A'', chain, ''-i'', iface, ''-j'', ''DROP''] w of
        (Some e, w') \<Rightarrow> (Some e, w')
      | (None, w') \<Rightarrow>
          if direction = ''both'' then run_err r ''iptables'' [''-A'', ''OUTPUT'', ''-o'', iface, ''-j'', ''DROP''] w'
          else (None, w'))"

definition iptablesUnblock :: "'w CommandRunner \<Rightarrow> string \<Rightarrow> string \<Rightarrow> 'w \<Rightarrow> err option \<times> 'w" where
  "iptablesUnblock r iface direction w =
     (let chain = (if direction = ''ingress'' \<or> direction = ''both'' then ''INPUT'' else ''OUTPUT'') in
      case run_err r ''iptables'' [''-D'', chain, ''-i'', iface, ''-j'', ''DROP''] w of
        (err, w') \<Rightarrow>
          if direction = ''both'' then
            (case run_err r ''iptables'' [''-D'', ''OUTPUT'', ''-o'', iface, ''-j'', ''DROP''] w' of
               (err2, w'') \<Rightarrow> (if err = None then err2 else err, w''))
          else (err, w'))"

subsection \<open>Partitions\<close>

definition partitionRules :: "string \<Rightarrow> string \<Rightarrow> string \<Rightarrow> string list list" where
  "partitionRules iface direction cidr =
     (let egress = [''FORWARD'', ''-i'', iface, ''-d'', cidr, ''-j'', ''DROP''];
          ingress = [''FORWARD'', ''-o'', iface, ''-s'', cidr, ''-j'', ''DROP'']
      in if direction = ''egress'' then [egress]
         else if direction = ''ingress'' then [ingress]
         else [egress, ingress])"

definition partition_pod :: "'w CommandRunner \<Rightarrow> string \<Rightarrow> string \<Rightarrow> string \<Rightarrow> 'w \<Rightarrow> err option \<times> 'w" where
  "partition_pod r iface direction cidr w =
     (if cidr = [] then (Some ''partition requires target_cidr'', w)
      else (let direction = (if direction = [] then ''both'' else direction)
            in add_rules r (partitionRules iface direction cidr) w))"

definition partitionRestore :: "'w CommandRunner \<Rightarrow> string \<Rightarrow> string \<Rightarrow> string \<Rightarrow> 'w \<Rightarrow> 'w" where
  "partitionRestore r iface direction cidr w =
     (if cidr = [] then w
      else (let direction = (if direction = [] then ''both'' else direction)
            in del_rules r (partitionRules iface direction cidr) w))"

subsection \<open>stress-ng\<close>

definition stress_args :: "string \<Rightarrow> (string, string) gomap \<Rightarrow> int \<Rightarrow> string list" where
  "stress_args stressorType params durationSec =
     (let workers = gm_str params ''workers''; workers = (if workers = [] then ''1'' else workers);
          args =
            (if stressorType = ''cpu'' then
               (let load = gm_str params ''load''
                in [''--cpu'', workers] @ (if load \<noteq> [] then [''--cpu-load'', load] else []))
             else if stressorType \<in> {''memory'', ''vm''} then
               (let size = gm_str params ''size''; size = (if size = [] then ''256M'' else size)
                in [''--vm'', workers, ''--vm-bytes'', size])
             else if stressorType \<in> {''io'', ''hdd''} then [''--hdd'', workers]
             else [])
      in args @ (if durationSec > 0 then [''--timeout'', Itoa durationSec @ ''s''] else []))"

definition cgroupV2Mount :: string where
  "cgroupV2Mount = ''/sys/fs/cgroup''"

definition cgroupProcsFile :: "string \<Rightarrow> string" where
  "cgroupProcsFile cgroupPath = cgroupV2Mount @ ''/'' @ TrimPrefix cgroupPath ''/'' @ ''/cgroup.procs''"

definition startInCgroup :: "'w CommandRunner \<Rightarrow> string \<Rightarrow> string \<Rightarrow> string list \<Rightarrow> 'w \<Rightarrow> err option \<times> 'w" where
  "startInCgroup r cgroupPath name args w =
     (let procs = cgroupProcsFile cgroupPath;
          cmd = ''echo $$ > '' @ procs @ '' && exec '' @ join_on (CHR 0x20) (name # args)
      in cr_Start r ''sh'' [''-c'', cmd] w)"

definition stressNGStart ::
    "'w CommandRunner \<Rightarrow> string \<Rightarrow> (string, string) gomap \<Rightarrow> int \<Rightarrow> string \<Rightarrow> 'w \<Rightarrow> err option \<times> 'w" where
  "stressNGStart r stressorType params durationSec cgroupPath w =
     (let args = stress_args stressorType params durationSec in
      if cgroupPath \<noteq> [] then startInCgroup r cgroupPath ''stress-ng'' args w
      else cr_Start r ''stress-ng'' args w)"

definition stressNGStop :: "'w CommandRunner \<Rightarrow> 'w \<Rightarrow> 'w" where
  "stressNGStop r w = snd (run_err r ''pkill'' [''-f'', ''stress-ng''] w)"

subsection \<open>DNS faults\<close>

definition dnsRuleBodies :: "string \<Rightarrow> string \<Rightarrow> bool \<Rightarrow> string list list" where
  "dnsRuleBodies iface domain scoped =
     (let (chain, scopeMatch) = (if scoped then (''FORWARD'', [''-i'', iface]) else (''OUTPUT'', []))
      in map (\<lambda>proto. [chain, ''-p'', proto] @ scopeMatch @
           [''--dport'', ''53'', ''-m'', ''string'', ''--string'', domain, ''--algo'', ''bm'', ''-j'', ''DROP''])
         [''udp'', ''tcp''])"

fun dns_loop :: "'w CommandRunner \<Rightarrow> string \<Rightarrow> bool \<Rightarrow> string list \<Rightarrow> 'w \<Rightarrow> err option \<times> 'w" where
  "dns_loop r iface scoped [] w = (None, w)"
| "dns_loop r iface scoped (d # ds) w =
     (let domain = TrimSpace d in
      if domain = [] then dns_loop r iface scoped ds w
      else (case add_rules r (dnsRuleBodies iface domain scoped) w of
              (Some e, w') \<Rightarrow> (Some e, w')
            | (None, w') \<Rightarrow> dns_loop r iface scoped ds w'))"

definition dnsIntercept ::
    "'w CommandRunner \<Rightarrow> string \<Rightarrow> podTarget \<Rightarrow> (string, string) gomap \<Rightarrow> 'w \<Rightarrow> err option \<times> 'w" where
  "dnsIntercept r action target params w =
     (let domains = gm_str params ''domains'' in
      if domains = [] then (Some ''domains parameter required for dns chaos'', w)
      else if action \<noteq> ''error'' then (Some (''unsupported dns chaos action: '' @ action), w)
      else dns_loop r (pt_hostVeth target) (pt_scoped target) (split_on (CHR '','') domains) w)"

fun dns_unloop :: "'w CommandRunner \<Rightarrow> string \<Rightarrow> bool \<Rightarrow> string list \<Rightarrow> 'w \<Rightarrow> 'w" where
  "dns_unloop r iface scoped [] w = w"
| "dns_unloop r iface scoped (d # ds) w =
     (let domain = TrimSpace d in
      if domain = [] then dns_unloop r iface scoped ds w
      else dns_unloop r iface scoped ds (del_rules r (dnsRuleBodies iface domain scoped) w))"

definition dnsRestore :: "'w CommandRunner \<Rightarrow> (string, string) gomap \<Rightarrow> 'w \<Rightarrow> 'w" where
  "dnsRestore r params w =
     (let iface = gm_str params ''iface''
      in dns_unloop r iface (iface \<noteq> []) (split_on (CHR '','') (gm_str params ''domains'')) w)"

section \<open>What iptables and tc do\<close>

text \<open>
  \<open>rules\<close> is the multiset of installed rules, a rule being the arguments after the verb. Appending
  installs one rule or fails and changes nothing; deleting removes one copy if there is one. No other
  command touches the rules.
\<close>

definition iptables_laws :: "'w CommandRunner \<Rightarrow> ('w \<Rightarrow> string list multiset) \<Rightarrow> bool" where
  "iptables_laws r rules \<longleftrightarrow>
     (\<forall>body w. rules (snd (run_err r ''iptables'' (''-A'' # body) w)) =
        (if fst (run_err r ''iptables'' (''-A'' # body) w) = None then add_mset body (rules w) else rules w)) \<and>
     (\<forall>body w. rules (snd (run_err r ''iptables'' (''-D'' # body) w)) = rules w - {#body#}) \<and>
     (\<forall>name args w. name \<noteq> ''iptables'' \<longrightarrow> rules (snd (run_err r name args w)) = rules w) \<and>
     (\<forall>name args w. rules (snd (cr_Start r name args w)) = rules w)"

text \<open>
  \<open>qdisc\<close> gives the root queueing discipline of a device. Adding one succeeds only on a device that
  has none, and deleting leaves the device with none. No other command touches it.
\<close>

definition tc_laws :: "'w CommandRunner \<Rightarrow> ('w \<Rightarrow> string \<rightharpoonup> string list) \<Rightarrow> bool" where
  "tc_laws r qdisc \<longleftrightarrow>
     (\<forall>dev spec w.
        (let (e, w') = run_err r ''tc'' ([''qdisc'', ''add'', ''dev'', dev, ''root''] @ spec) w in
         if e = None then qdisc w dev = None \<and> qdisc w' = (qdisc w)(dev \<mapsto> spec) else qdisc w' = qdisc w)) \<and>
     (\<forall>dev w. qdisc (snd (run_err r ''tc'' [''qdisc'', ''del'', ''dev'', dev, ''root''] w)) = (qdisc w)(dev := None)) \<and>
     (\<forall>name args w. name \<noteq> ''tc'' \<longrightarrow> qdisc (snd (run_err r name args w)) = qdisc w) \<and>
     (\<forall>name args w. qdisc (snd (cr_Start r name args w)) = qdisc w)"

text \<open>A host that keeps its rules, disciplines and started processes in memory obeys both.\<close>

record MemHost =
  mh_rules :: "string list list"
  mh_qdiscs :: "(string, string list) gomap"
  mh_started :: "(string \<times> string list) list"

definition mem_host :: MemHost where
  "mem_host = \<lparr>mh_rules = [], mh_qdiscs = [], mh_started = []\<rparr>"

fun mem_run :: "string \<Rightarrow> string list \<Rightarrow> MemHost \<Rightarrow> (err + string) \<times> MemHost" where
  "mem_run name args h =
     (if name = ''iptables'' then
        (case args of
           verb # body \<Rightarrow>
             if verb = ''-A'' then (Inr [], h\<lparr>mh_rules := mh_rules h @ [body]\<rparr>)
             else if verb = ''-D'' \<and> body \<in> set (mh_rules h) then (Inr [], h\<lparr>mh_rules := remove1 body (mh_rules h)\<rparr>)
             else (Inl ''iptables: bad rule'', h)
         | [] \<Rightarrow> (Inl ''iptables: no command'', h))
      else if name = ''tc'' then
        (if take 3 args = [''qdisc'', ''add'', ''dev''] \<and> 5 \<le> length args \<and> args ! 4 = ''root'' then
           (if map_of (mh_qdiscs h) (args ! 3) = None
            then (Inr [], h\<lparr>mh_qdiscs := gm_put (args ! 3) (drop 5 args) (mh_qdiscs h)\<rparr>)
            else (Inl ''Error: Exclusivity flag on, cannot modify.'', h))
         else if take 3 args = [''qdisc'', ''del'', ''dev''] \<and> 5 \<le> length args then
           (if map_of (mh_qdiscs h) (args ! 3) = None then (Inl ''Error: Cannot delete qdisc with handle of zero.'', h)
            else (Inr [], h\<lparr>mh_qdiscs := gm_del (args ! 3) (mh_qdiscs h)\<rparr>))
         else (Inl ''tc: usage'', h))
      else if name = ''pkill'' then (Inr [], h\<lparr>mh_started := []\<rparr>)
      else (Inl (name @ '': not found''), h))"

definition mem_runner :: "MemHost CommandRunner" where
  "mem_runner = \<lparr>cr_Run = mem_run, cr_Start = (\<lambda>name args h. (None, h\<lparr>mh_started := mh_started h @ [(name, args)]\<rparr>))\<rparr>"

definition mem_rules :: "MemHost \<Rightarrow> string list multiset" where
  "mem_rules h = mset (mh_rules h)"

definition mem_qdisc :: "MemHost \<Rightarrow> string \<rightharpoonup> string list" where
  "mem_qdisc h = map_of (mh_qdiscs h)"

subsection \<open>The rules and disciplines of each fault\<close>

definition veth_target :: "string \<Rightarrow> string \<Rightarrow> podTarget" where
  "veth_target veth cgroup = \<lparr>pt_scoped = (veth \<noteq> []), pt_hostVeth = veth, pt_cgroupV2Path = cgroup\<rparr>"

definition partition_bodies :: "string \<times> string \<times> string \<Rightarrow> string list list" where
  "partition_bodies a = (case a of (iface, direction, cidr) \<Rightarrow>
     partitionRules iface (if direction = [] then ''both'' else direction) cidr)"

definition dns_bodies :: "string \<Rightarrow> bool \<Rightarrow> string \<Rightarrow> string list list" where
  "dns_bodies iface scoped domains =
     concat (map (\<lambda>d. dnsRuleBodies iface d scoped)
       (filter (\<lambda>d. d \<noteq> []) (map TrimSpace (split_on (CHR '','') domains))))"

definition block_bodies :: "string \<Rightarrow> string list list" where
  "block_bodies iface = [[''INPUT'', ''-i'', iface, ''-j'', ''DROP''], [''OUTPUT'', ''-o'', iface, ''-j'', ''DROP'']]"

definition tc_spec :: "string \<Rightarrow> (string, string) gomap \<Rightarrow> string list" where
  "tc_spec action params = drop 5 (tc_args [] action params)"

section \<open>Lemmas\<close>

subsection \<open>Rules and disciplines after a command\<close>

named_theorems host_simps "how the rules and disciplines of the host change"

lemma rules_append_cases:
  assumes "iptables_laws r rules"
  shows "rules (snd (run_err r ''iptables'' (''-A'' # body) w)) =
    (if fst (run_err r ''iptables'' (''-A'' # body) w) = None then add_mset body (rules w) else rules w)"
  using conjunct1 [OF assms [unfolded iptables_laws_def], THEN spec, THEN spec, of body w] .

lemma rules_append:
  "iptables_laws r rules \<Longrightarrow> run_err r ''iptables'' (''-A'' # body) w = (None, w') \<Longrightarrow> rules w' = add_mset body (rules w)"
  using rules_append_cases [of r rules body w] by simp

lemma rules_append_failed:
  "iptables_laws r rules \<Longrightarrow> run_err r ''iptables'' (''-A'' # body) w = (Some e, w') \<Longrightarrow> rules w' = rules w"
  using rules_append_cases [of r rules body w] by simp

lemma rules_delete [host_simps]:
  "iptables_laws r rules \<Longrightarrow> rules (snd (run_err r ''iptables'' (''-D'' # body) w)) = rules w - {#body#}"
  by (simp add: iptables_laws_def)

lemma rules_other [host_simps]:
  "iptables_laws r rules \<Longrightarrow> name \<noteq> ''iptables'' \<Longrightarrow> rules (snd (run_err r name args w)) = rules w"
  by (simp add: iptables_laws_def)

lemma rules_Start [host_simps]: "iptables_laws r rules \<Longrightarrow> rules (snd (cr_Start r name args w)) = rules w"
  by (simp add: iptables_laws_def)

lemma qdisc_add:
  assumes "tc_laws r qdisc" and "run_err r ''tc'' ([''qdisc'', ''add'', ''dev'', dev, ''root''] @ spec) w = (None, w')"
  shows "qdisc w dev = None \<and> qdisc w' = (qdisc w)(dev \<mapsto> spec)"
proof -
  have "let (e, w') = run_err r ''tc'' ([''qdisc'', ''add'', ''dev'', dev, ''root''] @ spec) w in
      if e = None then qdisc w dev = None \<and> qdisc w' = (qdisc w)(dev \<mapsto> spec) else qdisc w' = qdisc w"
    using conjunct1 [OF assms(1) [unfolded tc_laws_def], THEN spec, THEN spec, THEN spec, of dev spec w] .
  with assms(2) show ?thesis by simp
qed

lemma qdisc_delete [host_simps]:
  "tc_laws r qdisc \<Longrightarrow> qdisc (snd (run_err r ''tc'' [''qdisc'', ''del'', ''dev'', dev, ''root''] w)) = (qdisc w)(dev := None)"
  by (simp add: tc_laws_def)

lemma qdisc_other [host_simps]:
  "tc_laws r qdisc \<Longrightarrow> name \<noteq> ''tc'' \<Longrightarrow> qdisc (snd (run_err r name args w)) = qdisc w"
  by (simp add: tc_laws_def)

lemma qdisc_Start [host_simps]: "tc_laws r qdisc \<Longrightarrow> qdisc (snd (cr_Start r name args w)) = qdisc w"
  by (simp add: tc_laws_def)

lemma rules_add_rules:
  "iptables_laws r rules \<Longrightarrow> add_rules r bodies w = (None, w') \<Longrightarrow> rules w' = rules w + mset bodies"
proof (induction r bodies w rule: add_rules.induct)
  case (2 r body bodies w)
  then show ?case by (auto split: prod.splits option.splits dest: rules_append)
qed simp

lemma rules_add_rules_failed:
  "iptables_laws r rules \<Longrightarrow> add_rules r bodies w = (Some e, w') \<Longrightarrow>
     \<exists>k < length bodies. rules w' = rules w + mset (take k bodies)"
proof (induction r bodies w rule: add_rules.induct)
  case (2 r body bodies w)
  obtain e1 w1 where run: "run_err r ''iptables'' (''-A'' # body) w = (e1, w1)" by (cases "run_err r ''iptables'' (''-A'' # body) w")
  show ?case
  proof (cases e1)
    case None
    with 2 run obtain k where "k < length bodies" "rules w' = rules w1 + mset (take k bodies)" by auto
    moreover have "rules w1 = add_mset body (rules w)" using "2.prems"(1) run None by (auto dest: rules_append)
    ultimately show ?thesis by (intro exI [of _ "Suc k"]) simp
  next
    case (Some _)
    with "2.prems" run have "rules w' = rules w" by (auto dest: rules_append_failed)
    then show ?thesis by (intro exI [of _ 0]) simp
  qed
qed simp

lemma rules_del_rules [host_simps]:
  "iptables_laws r rules \<Longrightarrow> rules (del_rules r bodies w) = rules w - mset bodies"
  by (induction r bodies w rule: del_rules.induct) (simp_all add: rules_delete)

lemma qdisc_add_rules: "tc_laws r qdisc \<Longrightarrow> qdisc (snd (add_rules r bodies w)) = qdisc w"
proof (induction r bodies w rule: add_rules.induct)
  case (2 r body bodies w)
  obtain e1 w1 where run: "run_err r ''iptables'' (''-A'' # body) w = (e1, w1)" by (cases "run_err r ''iptables'' (''-A'' # body) w")
  have "qdisc w1 = qdisc w" using qdisc_other [OF "2.prems", of "''iptables''" "''-A'' # body" w] run by simp
  with 2 run show ?case by (cases e1) auto
qed simp

lemma qdisc_del_rules [host_simps]: "tc_laws r qdisc \<Longrightarrow> qdisc (del_rules r bodies w) = qdisc w"
  by (induction r bodies w rule: del_rules.induct) (simp_all add: qdisc_other)

lemma add_rules_append:
  "add_rules r (xs @ ys) w = (case add_rules r xs w of (Some e, w') \<Rightarrow> (Some e, w') | (None, w') \<Rightarrow> add_rules r ys w')"
  by (induction r xs w rule: add_rules.induct) (auto split: prod.splits option.splits)

lemma del_rules_append: "del_rules r (xs @ ys) w = del_rules r ys (del_rules r xs w)"
  by (induction r xs w rule: del_rules.induct) auto

subsection \<open>Faults made of rules\<close>

locale rule_fault =
  fixes inject :: "'w CommandRunner \<Rightarrow> 'a \<Rightarrow> 'w \<Rightarrow> err option \<times> 'w"
    and restore :: "'w CommandRunner \<Rightarrow> 'a \<Rightarrow> 'w \<Rightarrow> 'w"
    and bodies :: "'a \<Rightarrow> string list list"
    and accepts :: "'a \<Rightarrow> bool"
  assumes inject_adds: "accepts a \<Longrightarrow> inject r a w = add_rules r (bodies a) w"
    and inject_rejects: "\<not> accepts a \<Longrightarrow> \<exists>e. inject r a w = (Some e, w)"
    and restore_deletes: "accepts a \<Longrightarrow> restore r a w = del_rules r (bodies a) w"
begin

lemma injected_accepted: "inject r a w = (None, w') \<Longrightarrow> accepts a"
  using inject_rejects by (metis option.distinct(1) prod.inject)

lemma injected_rules:
  assumes "iptables_laws r rules" and "inject r a w = (None, w')"
  shows "rules w' = rules w + mset (bodies a)"
  using assms injected_accepted [OF assms(2)] by (simp add: inject_adds rules_add_rules)

lemma restored_rules:
  assumes "iptables_laws r rules" and "accepts a"
  shows "rules (restore r a w) = rules w - mset (bodies a)"
  using assms by (simp add: restore_deletes rules_del_rules)

lemma inject_restore:
  assumes "iptables_laws r rules" and "inject r a w = (None, w')" and "rules v = rules w'"
  shows "rules (restore r a v) = rules w"
  using assms injected_rules [OF assms(1,2)] restored_rules [OF assms(1) injected_accepted [OF assms(2)]] by simp

lemma failed_rules:
  assumes "iptables_laws r rules" and "inject r a w = (Some e, w')"
  shows "rules w' = rules w \<or> (\<exists>k < length (bodies a). rules w' = rules w + mset (take k (bodies a)))"
proof (cases "accepts a")
  case True
  with assms show ?thesis by (auto simp: inject_adds dest: rules_add_rules_failed)
next
  case False
  with inject_rejects [of a r w] assms(2) show ?thesis by auto
qed

lemma inject_qdisc: "tc_laws r qdisc \<Longrightarrow> qdisc (snd (inject r a w)) = qdisc w"
  using inject_rejects [of a r w] by (cases "accepts a") (auto simp: inject_adds qdisc_add_rules)

lemma restore_qdisc: "tc_laws r qdisc \<Longrightarrow> accepts a \<Longrightarrow> qdisc (restore r a w) = qdisc w"
  by (simp add: restore_deletes qdisc_del_rules)

end

subsection \<open>The rule faults of the daemon\<close>

lemma dns_loop_add_rules:
  "dns_loop r iface scoped ds w =
     add_rules r (concat (map (\<lambda>d. dnsRuleBodies iface d scoped) (filter (\<lambda>d. d \<noteq> []) (map TrimSpace ds)))) w"
  by (induction r iface scoped ds w rule: dns_loop.induct)
    (auto simp: Let_def add_rules_append split: prod.splits option.splits)

lemma dns_unloop_del_rules:
  "dns_unloop r iface scoped ds w =
     del_rules r (concat (map (\<lambda>d. dnsRuleBodies iface d scoped) (filter (\<lambda>d. d \<noteq> []) (map TrimSpace ds)))) w"
  by (induction r iface scoped ds w rule: dns_unloop.induct) (auto simp: Let_def del_rules_append)

lemma add_one_rule: "run_err r ''iptables'' (''-A'' # body) w = add_rules r [body] w"
  by (auto split: prod.splits option.splits)

lemma Itoa_nonempty: "Itoa i \<noteq> []"
  by (simp add: Itoa_def dec_nat_nonempty)

interpretation partition_fault: rule_fault
  "\<lambda>r (iface, direction, cidr). partition_pod r iface direction cidr"
  "\<lambda>r (iface, direction, cidr). partitionRestore r iface direction cidr"
  partition_bodies "\<lambda>(iface, direction, cidr). cidr \<noteq> []"
  by unfold_locales (auto simp: partition_pod_def partitionRestore_def partition_bodies_def)

interpretation dns_fault: rule_fault
  "\<lambda>r (action, veth, cgroup, params). dnsIntercept r action (veth_target veth cgroup) params"
  "\<lambda>r (action, veth, cgroup, params). dnsRestore r (gm_put ''iface'' veth params)"
  "\<lambda>(action, veth, cgroup, params). dns_bodies veth (veth \<noteq> []) (gm_str params ''domains'')"
  "\<lambda>(action, veth, cgroup, params). gm_str params ''domains'' \<noteq> [] \<and> action = ''error''"
  by unfold_locales
    (auto simp: dnsIntercept_def dnsRestore_def dns_bodies_def veth_target_def dns_loop_add_rules dns_unloop_del_rules Let_def split: if_splits)

interpretation abort_fault: rule_fault
  "\<lambda>r (veth, cgroup, port, params). httpAbort r (veth_target veth cgroup) port"
  "\<lambda>r (veth, cgroup, port, params). httpRestore r
     (gm_put ''action'' ''abort'' (gm_put ''port'' (Itoa port) (gm_put ''iface'' veth params)))"
  "\<lambda>(veth, cgroup, port, params). [httpAbortRuleBody veth (Itoa port) (veth \<noteq> [])]"
  "\<lambda>_. True"
  by unfold_locales
    (auto simp: httpAbort_def httpRestore_def veth_target_def add_one_rule Itoa_nonempty Let_def simp del: add_rules.simps)

interpretation block_fault: rule_fault
  "\<lambda>r iface. iptablesBlock r iface ''both''"
  "\<lambda>r iface w. snd (iptablesUnblock r iface ''both'' w)"
  block_bodies "\<lambda>_. True"
  by unfold_locales (auto simp: iptablesBlock_def iptablesUnblock_def block_bodies_def split: prod.splits option.splits)

subsection \<open>Disciplines set by the daemon\<close>

lemma tc_args_spec: "tc_args iface action params = [''qdisc'', ''add'', ''dev'', iface, ''root''] @ tc_spec action params"
  by (simp add: tc_args_def tc_spec_def Let_def)

lemma netem_added:
  assumes "tc_laws r qdisc" and "tcAddNetem r iface action params w = (None, w')"
  shows "qdisc w iface = None \<and> qdisc w' = (qdisc w)(iface \<mapsto> tc_spec action params)"
  using qdisc_add [OF assms(1)] assms(2) unfolding tcAddNetem_def tc_args_spec by blast

lemma http_delay_added:
  assumes "tc_laws r qdisc" and "httpDelay r (veth_target veth cgroup) ms w = (None, w')"
  shows "qdisc w (if veth \<noteq> [] then veth else ''lo'') = None \<and>
    (\<exists>spec. qdisc w' = (qdisc w)((if veth \<noteq> [] then veth else ''lo'') \<mapsto> spec))"
  using qdisc_add [OF assms(1), of "if veth \<noteq> [] then veth else ''lo''"] assms(2)
  unfolding httpDelay_def veth_target_def Let_def by auto

lemma tcDelete_qdisc [host_simps]: "tc_laws r qdisc \<Longrightarrow> qdisc (snd (tcDelete r iface w)) = (qdisc w)(iface := None)"
  unfolding tcDelete_def by (rule qdisc_delete)

lemma tcDelete_rules [host_simps]: "iptables_laws r rules \<Longrightarrow> rules (snd (tcDelete r iface w)) = rules w"
  by (simp add: tcDelete_def rules_other)

lemma stressNGStop_frame [host_simps]:
  "iptables_laws r rules \<Longrightarrow> rules (stressNGStop r w) = rules w"
  "tc_laws r qdisc \<Longrightarrow> qdisc (stressNGStop r w) = qdisc w"
  by (simp_all add: stressNGStop_def rules_other qdisc_other)

lemma stressNGStart_frame [host_simps]:
  "iptables_laws r rules \<Longrightarrow> rules (snd (stressNGStart r ty params d cg w)) = rules w"
  "tc_laws r qdisc \<Longrightarrow> qdisc (snd (stressNGStart r ty params d cg w)) = qdisc w"
  by (simp_all add: stressNGStart_def startInCgroup_def Let_def rules_Start qdisc_Start)

subsection \<open>The host in memory obeys the laws\<close>

lemma run_err_mem:
  "run_err mem_runner name args h =
     (case mem_run name args h of (Inl e, h') \<Rightarrow> (Some e, h') | (Inr _, h') \<Rightarrow> (None, h'))"
  by (simp add: run_err_def mem_runner_def)

lemma mem_Start: "mem_rules (snd (cr_Start mem_runner name args h)) = mem_rules h"
  "mem_qdisc (snd (cr_Start mem_runner name args h)) = mem_qdisc h"
  by (simp_all add: mem_runner_def mem_rules_def mem_qdisc_def)

lemma mem_iptables_laws: "iptables_laws mem_runner mem_rules"
  unfolding iptables_laws_def run_err_mem mem_Start
  by (auto simp: mem_rules_def split: list.splits)

lemma mem_tc_laws: "tc_laws mem_runner mem_qdisc"
  unfolding tc_laws_def run_err_mem mem_Start
  by (auto simp: mem_qdisc_def numeral_eq_Suc split: list.splits)

end
