(* ===== verification/Daemon_Netns.thy ===== *)
theory Daemon_Netns
  imports Prelude
begin

text \<open>
  The pod resolver of the daemon (\<open>internal/daemon/netns\<close>): from a pod to the host-side veth peer of
  its \<open>eth0\<close> and to its cgroup, by the container runtime, \<open>/proc\<close>, sysfs and netlink. The resolver
  only reads; the reads of one call are taken of one host \<open>'w\<close>. The runtime's status call, the JSON
  decoder, file reads and the netlink lookup are the fields of \<open>NetHost\<close>.
\<close>

section \<open>Definitions\<close>

record PodRef =
  pr_Namespace :: string
  pr_Name :: string
  pr_ContainerID :: string
  pr_NodeName :: string

record Resolution =
  rs_ContainerPID :: int
  rs_NetnsPath :: string
  rs_HostVethIfindex :: int
  rs_HostVethName :: string
  rs_PodEth0Ifindex :: int
  rs_CgroupV2Path :: string

record 'w Resolver =
  rv_Resolve :: "PodRef \<Rightarrow> 'w \<Rightarrow> err + Resolution"
  rv_ResolveCgroupV2 :: "PodRef \<Rightarrow> 'w \<Rightarrow> err + string"

record containerInfo =
  ci_pid :: int
  ci_cgroupV2Path :: string

record link =
  lk_index :: int
  lk_name :: string
  lk_peerIdx :: int

record 'w netlinkOps =
  nl_podEth0 :: "string \<Rightarrow> 'w \<Rightarrow> err + link"
  nl_hostLinkByIndex :: "int \<Rightarrow> 'w \<Rightarrow> err + link"

text \<open>
  \<open>nh_ContainerStatus\<close> is the verbose status call of the runtime with its info map, \<open>nh_json_pid\<close>
  decodes a JSON object and gives its field \<open>pid\<close> (zero when absent), \<open>nh_LinkByIndex\<close> gives index,
  name and parent index of a link of the host.
\<close>

record 'w NetHost =
  nh_ContainerStatus :: "string \<Rightarrow> 'w \<Rightarrow> err + (string, string) gomap"
  nh_json_pid :: "string \<Rightarrow> err + int"
  nh_ReadFile :: "string \<Rightarrow> 'w \<Rightarrow> err + string"
  nh_LinkByIndex :: "int \<Rightarrow> 'w \<Rightarrow> err + link"
  nh_atoi_err :: "string \<Rightarrow> err"

subsection \<open>Matching the veth pair\<close>

definition matchHostVeth :: "'w netlinkOps \<Rightarrow> string \<Rightarrow> 'w \<Rightarrow> err + (link \<times> int)" where
  "matchHostVeth nl podProcRoot w =
     (case nl_podEth0 nl podProcRoot w of
        Inl e \<Rightarrow> Inl (''read pod eth0 via '' @ podProcRoot @ '': '' @ e)
      | Inr eth0 \<Rightarrow>
          if lk_peerIdx eth0 = 0 then
            Inl (''pod eth0 (ifindex '' @ Itoa (lk_index eth0) @ '') reports no veth peer; not a veth-backed pod'')
          else
            (case nl_hostLinkByIndex nl (lk_peerIdx eth0) w of
               Inl e \<Rightarrow> Inl (''host veth peer ifindex '' @ Itoa (lk_peerIdx eth0) @ '' not found in host netns: '' @ e)
             | Inr host \<Rightarrow>
                 if lk_peerIdx host \<noteq> lk_index eth0 then
                   Inl (''veth pairing mismatch: host link '' @ Itoa (lk_index host) @ '' peers ifindex '' @
                        Itoa (lk_peerIdx host) @ '', expected pod eth0 '' @ Itoa (lk_index eth0))
                 else Inr (host, lk_index eth0)))"

subsection \<open>Files under /proc\<close>

text \<open>\<open>strings.SplitN(line, ":", 3)\<close> has three parts exactly when there are two colons.\<close>

definition cgroup_fields :: "string \<Rightarrow> (string \<times> string \<times> string) option" where
  "cgroup_fields line =
     (case cut '':'' line of
        None \<Rightarrow> None
      | Some (a, rest) \<Rightarrow> (case cut '':'' rest of None \<Rightarrow> None | Some (b, c) \<Rightarrow> Some (a, b, c)))"

fun cgroup_lines :: "string list \<Rightarrow> err + string" where
  "cgroup_lines [] = Inl ''no cgroup v2 (unified) entry found; cgroup v2 is required''"
| "cgroup_lines (line # ls) =
     (case cgroup_fields line of
        None \<Rightarrow> cgroup_lines ls
      | Some (a, b, c) \<Rightarrow> if a = ''0'' \<and> b = [] then Inr c else cgroup_lines ls)"

definition parseCgroupV2Path :: "string \<Rightarrow> err + string" where
  "parseCgroupV2Path procCgroupContents =
     cgroup_lines (split_on (CHR 0x0A) (TrimSpace procCgroupContents))"

definition netnsPathForPID :: "int \<Rightarrow> string" where
  "netnsPathForPID pid = ''/proc/'' @ Itoa pid @ ''/ns/net''"

definition procCgroupPathForPID :: "int \<Rightarrow> string" where
  "procCgroupPathForPID pid = ''/proc/'' @ Itoa pid @ ''/cgroup''"

definition podSysClassNet :: "int \<Rightarrow> string" where
  "podSysClassNet pid = ''/proc/'' @ Itoa pid @ ''/root/sys/class/net''"

definition parseIfindexFile :: "'w NetHost \<Rightarrow> string \<Rightarrow> err + int" where
  "parseIfindexFile nh contents =
     (case Atoi (TrimSpace contents) of None \<Rightarrow> Inl (nh_atoi_err nh (TrimSpace contents)) | Some i \<Rightarrow> Inr i)"

subsection \<open>The container runtime\<close>

definition parsePIDFromInfo :: "'w NetHost \<Rightarrow> (string, string) gomap \<Rightarrow> err + int" where
  "parsePIDFromInfo nh info =
     (case map_of info ''info'' of
        None \<Rightarrow>
          (let p = gm_str info ''pid'' in
           if p \<noteq> [] then (case Atoi p of None \<Rightarrow> Inl (nh_atoi_err nh p) | Some i \<Rightarrow> Inr i)
           else Inl (''CRI verbose info missing '' @ quoted ''info'' @ '' key''))
      | Some raw \<Rightarrow>
          (case nh_json_pid nh raw of
             Inl e \<Rightarrow> Inl (''parse CRI info JSON: '' @ e)
           | Inr pid \<Rightarrow>
               if pid \<le> 0 then Inl (''CRI info reported non-positive pid '' @ Itoa pid) else Inr pid))"

definition cri_containerInfo :: "'w NetHost \<Rightarrow> string \<Rightarrow> 'w \<Rightarrow> err + containerInfo" where
  "cri_containerInfo nh containerID w =
     (case nh_ContainerStatus nh containerID w of
        Inl e \<Rightarrow> Inl (''CRI ContainerStatus '' @ containerID @ '': '' @ e)
      | Inr info \<Rightarrow>
          (case parsePIDFromInfo nh info of
             Inl e \<Rightarrow> Inl (''container '' @ containerID @ '': '' @ e)
           | Inr pid \<Rightarrow> Inr \<lparr>ci_pid = pid, ci_cgroupV2Path = []\<rparr>))"

subsection \<open>sysfs and netlink\<close>

definition path_join :: "string \<Rightarrow> string \<Rightarrow> string" where
  "path_join a b = a @ ''/'' @ b"

definition impl_podEth0 :: "'w NetHost \<Rightarrow> string \<Rightarrow> 'w \<Rightarrow> err + link" where
  "impl_podEth0 nh podProcRoot w =
     (let eth0Dir = path_join podProcRoot ''eth0'' in
      case nh_ReadFile nh (path_join eth0Dir ''ifindex'') w of
        Inl e \<Rightarrow> Inl (''read pod eth0 ifindex: '' @ e)
      | Inr idxRaw \<Rightarrow>
          (case parseIfindexFile nh idxRaw of
             Inl e \<Rightarrow> Inl (''parse pod eth0 ifindex: '' @ e)
           | Inr index \<Rightarrow>
               (case nh_ReadFile nh (path_join eth0Dir ''iflink'') w of
                  Inl e \<Rightarrow> Inl (''read pod eth0 iflink: '' @ e)
                | Inr peerRaw \<Rightarrow>
                    (case parseIfindexFile nh peerRaw of
                       Inl e \<Rightarrow> Inl (''parse pod eth0 iflink: '' @ e)
                     | Inr peerIdx \<Rightarrow> Inr \<lparr>lk_index = index, lk_name = ''eth0'', lk_peerIdx = peerIdx\<rparr>))))"

definition impl_hostLinkByIndex :: "'w NetHost \<Rightarrow> int \<Rightarrow> 'w \<Rightarrow> err + link" where
  "impl_hostLinkByIndex nh index w =
     (case nh_LinkByIndex nh index w of
        Inl e \<Rightarrow> Inl (''lookup host link ifindex '' @ Itoa index @ '': '' @ e)
      | Inr attrs \<Rightarrow> Inr attrs)"

definition netlinkImpl :: "'w NetHost \<Rightarrow> 'w netlinkOps" where
  "netlinkImpl nh = \<lparr>nl_podEth0 = impl_podEth0 nh, nl_hostLinkByIndex = impl_hostLinkByIndex nh\<rparr>"

subsection \<open>Resolving a pod\<close>

definition readCgroupV2Path :: "'w NetHost \<Rightarrow> int \<Rightarrow> 'w \<Rightarrow> err + string" where
  "readCgroupV2Path nh pid w =
     (case nh_ReadFile nh (procCgroupPathForPID pid) w of
        Inl e \<Rightarrow> Inl (''read cgroup for pid '' @ Itoa pid @ '': '' @ e)
      | Inr contents \<Rightarrow> parseCgroupV2Path contents)"

definition resolver_Resolve :: "'w NetHost \<Rightarrow> PodRef \<Rightarrow> 'w \<Rightarrow> err + Resolution" where
  "resolver_Resolve nh ref w =
     (if pr_ContainerID ref = [] then
        Inl (''netns resolve: container ID is required for pod '' @ pr_Namespace ref @ ''/'' @ pr_Name ref)
      else
        (case cri_containerInfo nh (pr_ContainerID ref) w of
           Inl e \<Rightarrow> Inl e
         | Inr info \<Rightarrow>
             (case matchHostVeth (netlinkImpl nh) (podSysClassNet (ci_pid info)) w of
                Inl e \<Rightarrow> Inl e
              | Inr (hostVeth, podEth0Ifindex) \<Rightarrow>
                  (case readCgroupV2Path nh (ci_pid info) w of
                     Inl e \<Rightarrow> Inl e
                   | Inr cgroupPath \<Rightarrow>
                       Inr \<lparr>rs_ContainerPID = ci_pid info, rs_NetnsPath = netnsPathForPID (ci_pid info),
                            rs_HostVethIfindex = lk_index hostVeth, rs_HostVethName = lk_name hostVeth,
                            rs_PodEth0Ifindex = podEth0Ifindex, rs_CgroupV2Path = cgroupPath\<rparr>))))"

definition resolver_ResolveCgroupV2 :: "'w NetHost \<Rightarrow> PodRef \<Rightarrow> 'w \<Rightarrow> err + string" where
  "resolver_ResolveCgroupV2 nh ref w =
     (if pr_ContainerID ref = [] then
        Inl (''netns resolve cgroup: container ID is required for pod '' @ pr_Namespace ref @ ''/'' @ pr_Name ref)
      else
        (case cri_containerInfo nh (pr_ContainerID ref) w of
           Inl e \<Rightarrow> Inl e
         | Inr info \<Rightarrow> readCgroupV2Path nh (ci_pid info) w))"

definition new_resolver :: "'w NetHost \<Rightarrow> 'w Resolver" where
  "new_resolver nh = \<lparr>rv_Resolve = resolver_Resolve nh, rv_ResolveCgroupV2 = resolver_ResolveCgroupV2 nh\<rparr>"

section \<open>Specification\<close>

text \<open>A cgroup file: one line \<open>hierarchy:controllers:path\<close> per hierarchy, each ended by a newline.\<close>

type_synonym cgroup_entry = "string \<times> string \<times> string"

fun cgroup_line :: "cgroup_entry \<Rightarrow> string" where
  "cgroup_line (h, c, p) = h @ '':'' @ c @ '':'' @ p"

definition cgroup_file :: "cgroup_entry list \<Rightarrow> string" where
  "cgroup_file es = concat (map (\<lambda>e. cgroup_line e @ [CHR 0x0A]) es)"

fun cgroup_entry_ok :: "cgroup_entry \<Rightarrow> bool" where
  "cgroup_entry_ok (h, c, p) \<longleftrightarrow>
     CHR '':'' \<notin> set h \<and> CHR '':'' \<notin> set c \<and> (\<forall>x \<in> set (h @ c @ p). \<not> is_space x)"

text \<open>Two links are the two ends of one veth pair: each names the other as its peer.\<close>

definition veth_pair :: "link \<Rightarrow> link \<Rightarrow> bool" where
  "veth_pair pod host \<longleftrightarrow> lk_peerIdx pod = lk_index host \<and> lk_peerIdx host = lk_index pod"

text \<open>A host with one container whose \<open>eth0\<close> (index 3) is paired with the host link 7.\<close>

definition demo_net :: "link \<Rightarrow> unit NetHost" where
  "demo_net host =
     \<lparr>nh_ContainerStatus = (\<lambda>c w. if c = ''c1'' then Inr [(''pid'', ''42'')] else Inl ''not found''),
      nh_json_pid = (\<lambda>raw. Inl ''no JSON''),
      nh_ReadFile = (\<lambda>p w.
        if p = ''/proc/42/root/sys/class/net/eth0/ifindex'' then Inr [CHR ''3'', CHR 0x0A]
        else if p = ''/proc/42/root/sys/class/net/eth0/iflink'' then Inr [CHR ''7'', CHR 0x0A]
        else if p = ''/proc/42/cgroup'' then Inr (cgroup_file [(''0'', [], ''/kubepods/pod1'')])
        else Inl ''no such file''),
      nh_LinkByIndex = (\<lambda>i w. if i = 7 then Inr (host\<lparr>lk_index := 7\<rparr>) else Inl ''Link not found''),
      nh_atoi_err = (\<lambda>s. ''invalid syntax'')\<rparr>"

definition demo_ref :: PodRef where
  "demo_ref = \<lparr>pr_Namespace = ''default'', pr_Name = ''web'', pr_ContainerID = ''c1'', pr_NodeName = ''n1''\<rparr>"

section \<open>Lemmas\<close>

lemma cgroup_fields_line: "cgroup_entry_ok (h, c, p) \<Longrightarrow> cgroup_fields (cgroup_line (h, c, p)) = Some (h, c, p)"
  by (simp add: cgroup_fields_def cut_char_Some)

lemma cgroup_lines_entries:
  "\<forall>e \<in> set es. cgroup_entry_ok e \<Longrightarrow>
     cgroup_lines (map cgroup_line es) =
       (case find (\<lambda>(h, c, p). h = ''0'' \<and> c = []) es of
          Some (_, _, p) \<Rightarrow> Inr p
        | None \<Rightarrow> Inl ''no cgroup v2 (unified) entry found; cgroup v2 is required'')"
proof (induction es)
  case (Cons e es)
  obtain h c p where e: "e = (h, c, p)" by (cases e)
  then show ?case using Cons cgroup_fields_line [of h c p] by (simp del: cgroup_line.simps)
qed simp

lemma TrimSpace_trailing:
  assumes "s \<noteq> []" and "\<not> is_space (hd s)" and "\<not> is_space (last s)" and "\<forall>c \<in> set t. is_space c"
  shows "TrimSpace (s @ t) = s"
proof -
  have "dropWhile is_space (s @ t) = s @ t" using assms(1,2) by (cases s) auto
  moreover have "dropWhile is_space (rev t @ rev s) = rev s"
    using assms(1,3,4) by (cases s rule: rev_cases) (auto simp: dropWhile_append)
  ultimately show ?thesis by (simp add: TrimSpace_def)
qed

lemma cgroup_file_join: "es \<noteq> [] \<Longrightarrow> cgroup_file es = join_on (CHR 0x0A) (map cgroup_line es) @ [CHR 0x0A]"
  by (induction es rule: induct_list012) (auto simp: cgroup_file_def)

lemma cgroup_line_chars: "cgroup_entry_ok e \<Longrightarrow> x \<in> set (cgroup_line e) \<Longrightarrow> \<not> is_space x"
  by (cases e) (auto simp: is_space_def)

lemma cgroup_line_nonempty: "cgroup_line e \<noteq> []"
  by (cases e) auto

lemma join_on_ends:
  "ws \<noteq> [] \<Longrightarrow> \<forall>w \<in> set ws. w \<noteq> [] \<Longrightarrow>
     join_on sep ws \<noteq> [] \<and> hd (join_on sep ws) = hd (hd ws) \<and> last (join_on sep ws) = last (last ws)"
  by (induction sep ws rule: join_on.induct) auto

lemma parse_cgroup_file:
  assumes "\<forall>e \<in> set es. cgroup_entry_ok e"
  shows "parseCgroupV2Path (cgroup_file es) = cgroup_lines (map cgroup_line es)"
proof (cases "es = []")
  case True
  then show ?thesis by (simp add: parseCgroupV2Path_def cgroup_file_def TrimSpace_def cgroup_fields_def)
next
  case False
  let ?j = "join_on (CHR 0x0A) (map cgroup_line es)"
  have ends: "?j \<noteq> []" "hd ?j = hd (cgroup_line (hd es))" "last ?j = last (cgroup_line (last es))"
    using join_on_ends [of "map cgroup_line es" "CHR 0x0A"] False cgroup_line_nonempty
    by (auto simp: hd_map last_map)
  have "\<not> is_space (hd ?j)" "\<not> is_space (last ?j)"
    using ends False assms cgroup_line_nonempty
    by (metis cgroup_line_chars hd_in_set, metis cgroup_line_chars last_in_set)
  then have "TrimSpace (cgroup_file es) = ?j"
    using ends(1) by (simp add: cgroup_file_join [OF False] TrimSpace_trailing is_space_def)
  moreover have "\<forall>w \<in> set (map cgroup_line es). CHR 0x0A \<notin> set w"
    using assms cgroup_line_chars by (fastforce simp: is_space_def)
  ultimately show ?thesis using False by (simp add: parseCgroupV2Path_def split_on_join_on)
qed

lemma matchHostVeth_iff:
  "matchHostVeth nl root w = Inr (host, idx) \<longleftrightarrow>
     (\<exists>eth0. nl_podEth0 nl root w = Inr eth0 \<and> lk_peerIdx eth0 \<noteq> 0 \<and>
        nl_hostLinkByIndex nl (lk_peerIdx eth0) w = Inr host \<and> lk_peerIdx host = lk_index eth0 \<and> idx = lk_index eth0)"
  by (auto simp: matchHostVeth_def split: sum.splits if_splits)

lemma Resolve_iff:
  "resolver_Resolve nh ref w = Inr res \<longleftrightarrow>
     pr_ContainerID ref \<noteq> [] \<and>
     (\<exists>info eth0 host.
        cri_containerInfo nh (pr_ContainerID ref) w = Inr info \<and>
        impl_podEth0 nh (podSysClassNet (ci_pid info)) w = Inr eth0 \<and> lk_peerIdx eth0 \<noteq> 0 \<and>
        impl_hostLinkByIndex nh (lk_peerIdx eth0) w = Inr host \<and> lk_peerIdx host = lk_index eth0 \<and>
        readCgroupV2Path nh (ci_pid info) w = Inr (rs_CgroupV2Path res) \<and>
        res = \<lparr>rs_ContainerPID = ci_pid info, rs_NetnsPath = netnsPathForPID (ci_pid info),
               rs_HostVethIfindex = lk_index host, rs_HostVethName = lk_name host,
               rs_PodEth0Ifindex = lk_index eth0, rs_CgroupV2Path = rs_CgroupV2Path res\<rparr>)"
  (is "?l \<longleftrightarrow> ?r")
proof
  assume ?l
  then obtain info host idx path where 1: "pr_ContainerID ref \<noteq> []"
    "cri_containerInfo nh (pr_ContainerID ref) w = Inr info"
    "matchHostVeth (netlinkImpl nh) (podSysClassNet (ci_pid info)) w = Inr (host, idx)"
    "readCgroupV2Path nh (ci_pid info) w = Inr path"
    "res = \<lparr>rs_ContainerPID = ci_pid info, rs_NetnsPath = netnsPathForPID (ci_pid info),
            rs_HostVethIfindex = lk_index host, rs_HostVethName = lk_name host,
            rs_PodEth0Ifindex = idx, rs_CgroupV2Path = path\<rparr>"
    by (auto simp: resolver_Resolve_def split: if_splits sum.splits)
  from 1(3) obtain eth0 where "impl_podEth0 nh (podSysClassNet (ci_pid info)) w = Inr eth0" "lk_peerIdx eth0 \<noteq> 0"
    "impl_hostLinkByIndex nh (lk_peerIdx eth0) w = Inr host" "lk_peerIdx host = lk_index eth0" "idx = lk_index eth0"
    by (auto simp: matchHostVeth_iff netlinkImpl_def)
  with 1 show ?r by auto
next
  assume ?r
  then obtain info eth0 host where r: "pr_ContainerID ref \<noteq> []"
    "cri_containerInfo nh (pr_ContainerID ref) w = Inr info"
    "impl_podEth0 nh (podSysClassNet (ci_pid info)) w = Inr eth0" "lk_peerIdx eth0 \<noteq> 0"
    "impl_hostLinkByIndex nh (lk_peerIdx eth0) w = Inr host" "lk_peerIdx host = lk_index eth0"
    "readCgroupV2Path nh (ci_pid info) w = Inr (rs_CgroupV2Path res)"
    "\<lparr>rs_ContainerPID = ci_pid info, rs_NetnsPath = netnsPathForPID (ci_pid info),
      rs_HostVethIfindex = lk_index host, rs_HostVethName = lk_name host,
      rs_PodEth0Ifindex = lk_index eth0, rs_CgroupV2Path = rs_CgroupV2Path res\<rparr> = res"
    by (elim conjE exE) simp
  have "matchHostVeth (netlinkImpl nh) (podSysClassNet (ci_pid info)) w = Inr (host, lk_index eth0)"
    using r by (auto simp: matchHostVeth_iff netlinkImpl_def)
  with r show ?l by (simp add: resolver_Resolve_def)
qed

section \<open>Properties\<close>

text \<open>
  C34. The resolver never points a fault at a foreign interface. On a host whose netlink answers with
  the link of the index it was asked for, a pod resolves to an interface exactly when the request
  names a container, the runtime knows its process, and the link that \<open>eth0\<close> of that process names as
  its peer is the other end of the same veth pair; the index, name and cgroup in the result are those
  of that link and that process. In every other case the result is an error.
\<close>

theorem Resolve_veth_pair:
  assumes "\<And>i l. nh_LinkByIndex nh i w = Inr l \<Longrightarrow> lk_index l = i"
  shows "resolver_Resolve nh ref w = Inr res \<longleftrightarrow>
     pr_ContainerID ref \<noteq> [] \<and>
     (\<exists>info eth0 host.
        cri_containerInfo nh (pr_ContainerID ref) w = Inr info \<and>
        impl_podEth0 nh (podSysClassNet (ci_pid info)) w = Inr eth0 \<and> lk_peerIdx eth0 \<noteq> 0 \<and>
        nh_LinkByIndex nh (lk_peerIdx eth0) w = Inr host \<and> veth_pair eth0 host \<and>
        readCgroupV2Path nh (ci_pid info) w = Inr (rs_CgroupV2Path res) \<and>
        res = \<lparr>rs_ContainerPID = ci_pid info, rs_NetnsPath = netnsPathForPID (ci_pid info),
               rs_HostVethIfindex = lk_peerIdx eth0, rs_HostVethName = lk_name host,
               rs_PodEth0Ifindex = lk_index eth0, rs_CgroupV2Path = rs_CgroupV2Path res\<rparr>)"
proof -
  have host: "impl_hostLinkByIndex nh i w = Inr l \<longleftrightarrow> nh_LinkByIndex nh i w = Inr l" for i l
    by (simp add: impl_hostLinkByIndex_def split: sum.splits)
  show ?thesis
    unfolding Resolve_iff
    by (intro conj_cong refl ex_cong1) (auto simp: host veth_pair_def dest: assms)
qed

theorem Resolve_veth_pair_witness:
  "(\<exists>res. resolver_Resolve (demo_net \<lparr>lk_index = 7, lk_name = ''veth7'', lk_peerIdx = 3\<rparr>) demo_ref () = Inr res \<and>
     rs_HostVethName res = ''veth7'') \<and>
   (\<forall>res. resolver_Resolve (demo_net \<lparr>lk_index = 7, lk_name = ''veth7'', lk_peerIdx = 9\<rparr>) demo_ref () \<noteq> Inr res)"
proof -
  let ?good = "demo_net \<lparr>lk_index = 7, lk_name = ''veth7'', lk_peerIdx = 3\<rparr>"
  let ?bad = "demo_net \<lparr>lk_index = 7, lk_name = ''veth7'', lk_peerIdx = 9\<rparr>"
  have idx: "nh_LinkByIndex (demo_net l) i () = Inr k \<Longrightarrow> lk_index k = i" for l i k
    by (simp add: demo_net_def split: if_splits) auto
  have "resolver_Resolve ?good demo_ref () = Inr \<lparr>rs_ContainerPID = 42, rs_NetnsPath = ''/proc/42/ns/net'',
      rs_HostVethIfindex = 7, rs_HostVethName = ''veth7'', rs_PodEth0Ifindex = 3, rs_CgroupV2Path = ''/kubepods/pod1''\<rparr>"
    by code_simp
  moreover have "cri_containerInfo ?bad (pr_ContainerID demo_ref) () = Inr \<lparr>ci_pid = 42, ci_cgroupV2Path = []\<rparr>"
    and "impl_podEth0 ?bad (podSysClassNet 42) () = Inr \<lparr>lk_index = 3, lk_name = ''eth0'', lk_peerIdx = 7\<rparr>"
    and "nh_LinkByIndex ?bad 7 () = Inr \<lparr>lk_index = 7, lk_name = ''veth7'', lk_peerIdx = 9\<rparr>"
    by code_simp+
  then have "resolver_Resolve ?bad demo_ref () \<noteq> Inr res" for res
    using Resolve_veth_pair [of ?bad "()" demo_ref res, OF idx] by (auto simp: veth_pair_def)
  ultimately show ?thesis by auto
qed

text \<open>
  Reading back a cgroup file: for the contents the kernel writes, one line per hierarchy,
  \<open>parseCgroupV2Path\<close> returns the path of the unified hierarchy (number 0 with no controllers), in
  whatever position it stands, and an error exactly when there is none.
\<close>

lemma parseCgroupV2Path_roundtrip:
  assumes "\<forall>e \<in> set es. cgroup_entry_ok e"
  shows "parseCgroupV2Path (cgroup_file es) =
    (case find (\<lambda>(h, c, p). h = ''0'' \<and> c = []) es of
       Some (_, _, p) \<Rightarrow> Inr p
     | None \<Rightarrow> Inl ''no cgroup v2 (unified) entry found; cgroup v2 is required'')"
  using assms by (simp add: parse_cgroup_file cgroup_lines_entries)

end
