(* ===== verification/Daemon_Ebpf.thy ===== *)
theory Daemon_Ebpf
  imports Executor_Registry "HOL-Library.Word"
begin

text \<open>
  The eBPF packet-loss datapath of the daemon (\<open>internal/daemon/ebpf\<close>): the classifier that
  \<open>programs.go\<close> assembles and the table of loaded programs of \<open>manager.go\<close>. Loading a program,
  attaching it and closing handles are kernel calls, fields of \<open>BpfKernel\<close>; program and link handles
  are the types \<open>'p\<close> and \<open>'l\<close>. Every method of the manager holds its mutex, so concurrent calls are
  sequences of the operations below.

  \<open>bpf_run\<close> is the meaning of the instructions the classifier uses: 64-bit registers, immediates
  sign-extended from 32 bits, unsigned comparison.
\<close>

section \<open>Definitions\<close>

subsection \<open>The classifier\<close>

datatype reg = R0

text \<open>An instruction with the label it carries, if any (\<open>WithSymbol\<close>).\<close>

datatype insn =
    CallGetPrandomU32
  | ModImm reg "32 word"
  | JLTImm reg "32 word" string
  | MovImm reg "32 word"
  | Return

type_synonym program = "(string option \<times> insn) list"

definition tcActOK :: "32 word" where
  "tcActOK = 0"

definition tcActShot :: "32 word" where
  "tcActShot = 2"

text \<open>The conversion \<open>int32(dropPercent)\<close> keeps the bits of the \<open>uint32\<close>.\<close>

definition dropBPFInstructions :: "32 word \<Rightarrow> program" where
  "dropBPFInstructions dropPercent =
     [(None, CallGetPrandomU32),
      (None, ModImm R0 100),
      (None, JLTImm R0 dropPercent ''drop''),
      (None, MovImm R0 tcActOK),
      (None, Return),
      (Some ''drop'', MovImm R0 tcActShot),
      (None, Return)]"

subsection \<open>The manager\<close>

record ProgramSpec =
  ps_Name :: string
  ps_Instructions :: program

record ('p, 'l) loadedProgram =
  lp_prog :: 'p
  lp_link :: 'l
  lp_spec :: ProgramSpec

record ('p, 'l) Manager =
  mg_programs :: "(string, ('p, 'l) loadedProgram) gomap"

record ('w, 'p, 'l) BpfKernel =
  bk_NewProgram :: "ProgramSpec \<Rightarrow> 'w \<Rightarrow> (err + 'p) \<times> 'w"
  bk_AttachTCX :: "int \<Rightarrow> 'p \<Rightarrow> 'w \<Rightarrow> (err + 'l) \<times> 'w"
  bk_CloseProgram :: "'p \<Rightarrow> 'w \<Rightarrow> 'w"
  bk_CloseLink :: "'l \<Rightarrow> 'w \<Rightarrow> 'w"

definition NewManager :: "('p, 'l) Manager" where
  "NewManager = \<lparr>mg_programs = []\<rparr>"

text \<open>The slice \<open>executionID[:8]\<close> panics on a shorter string: the result is then \<open>None\<close>.\<close>

definition LoadTCDrop ::
    "('w, 'p, 'l) BpfKernel \<Rightarrow> string \<Rightarrow> int \<Rightarrow> 32 word \<Rightarrow> ('p, 'l) Manager \<times> 'w \<Rightarrow>
     err option option \<times> ('p, 'l) Manager \<times> 'w" where
  "LoadTCDrop k executionID ifIndex dropPercent mw =
     (case mw of (m, w) \<Rightarrow>
      if length executionID < 8 then (None, m, w)
      else
        (let spec = \<lparr>ps_Name = ''tc_drop_'' @ take 8 executionID, ps_Instructions = dropBPFInstructions dropPercent\<rparr> in
         case bk_NewProgram k spec w of
           (Inl e, w1) \<Rightarrow> (Some (Some (''load tc drop program: '' @ e)), m, w1)
         | (Inr prog, w1) \<Rightarrow>
             (case bk_AttachTCX k ifIndex prog w1 of
                (Inl e, w2) \<Rightarrow> (Some (Some (''attach tc drop program: '' @ e)), m, bk_CloseProgram k prog w2)
              | (Inr l, w2) \<Rightarrow>
                  (Some None,
                   m\<lparr>mg_programs := gm_put executionID \<lparr>lp_prog = prog, lp_link = l, lp_spec = spec\<rparr> (mg_programs m)\<rparr>, w2))))"

definition close_loaded :: "('w, 'p, 'l) BpfKernel \<Rightarrow> ('p, 'l) loadedProgram \<Rightarrow> 'w \<Rightarrow> 'w" where
  "close_loaded k loaded w = bk_CloseProgram k (lp_prog loaded) (bk_CloseLink k (lp_link loaded) w)"

definition Unload :: "('w, 'p, 'l) BpfKernel \<Rightarrow> string \<Rightarrow> ('p, 'l) Manager \<times> 'w \<Rightarrow> err option \<times> ('p, 'l) Manager \<times> 'w" where
  "Unload k executionID mw =
     (case mw of (m, w) \<Rightarrow>
      (case map_of (mg_programs m) executionID of
         None \<Rightarrow> (None, m, w)
       | Some loaded \<Rightarrow> (None, m\<lparr>mg_programs := gm_del executionID (mg_programs m)\<rparr>, close_loaded k loaded w)))"

text \<open>\<open>UnloadAll\<close> ranges over the map, deleting each entry it visits; \<open>ord\<close> is the order of the range.\<close>

fun unload_each :: "('w, 'p, 'l) BpfKernel \<Rightarrow> string list \<Rightarrow> ('p, 'l) Manager \<times> 'w \<Rightarrow> ('p, 'l) Manager \<times> 'w" where
  "unload_each k [] mw = mw"
| "unload_each k (i # ids) (m, w) =
     (case map_of (mg_programs m) i of
        None \<Rightarrow> unload_each k ids (m, w)
      | Some loaded \<Rightarrow>
          unload_each k ids (m\<lparr>mg_programs := gm_del i (mg_programs m)\<rparr>, close_loaded k loaded w))"

definition UnloadAll ::
    "('w, 'p, 'l) BpfKernel \<Rightarrow> (string list \<Rightarrow> string list) \<Rightarrow> ('p, 'l) Manager \<times> 'w \<Rightarrow> ('p, 'l) Manager \<times> 'w" where
  "UnloadAll k ord mw = unload_each k (ord (gm_keys (mg_programs (fst mw)))) mw"

definition ActiveCount :: "('p, 'l) Manager \<Rightarrow> int" where
  "ActiveCount m = int (length (mg_programs m))"

section \<open>The meaning of the instructions\<close>

definition sext :: "32 word \<Rightarrow> 64 word" where
  "sext i = word_of_int (sint i)"

text \<open>
  \<open>bpf_run rnd p fuel pc r0\<close> executes from position \<open>pc\<close>; jumps in this instruction set go to the
  instruction that carries the label. The verdict is the lower half of \<open>r0\<close>. \<open>None\<close> stands for leaving
  the program or running out of steps; the classifier has no loop, so its length is enough.
\<close>

fun bpf_run :: "32 word \<Rightarrow> program \<Rightarrow> nat \<Rightarrow> nat \<Rightarrow> 64 word \<Rightarrow> 32 word option" where
  "bpf_run rnd p 0 pc r0 = None"
| "bpf_run rnd p (Suc fuel) pc r0 =
     (if pc < length p then
        (case snd (p ! pc) of
           CallGetPrandomU32 \<Rightarrow> bpf_run rnd p fuel (Suc pc) (ucast rnd)
         | ModImm _ i \<Rightarrow> bpf_run rnd p fuel (Suc pc) (r0 mod sext i)
         | JLTImm _ i lbl \<Rightarrow>
             bpf_run rnd p fuel
               (if r0 < sext i then length (takeWhile (\<lambda>(l, _). l \<noteq> Some lbl) p) else Suc pc) r0
         | MovImm _ i \<Rightarrow> bpf_run rnd p fuel (Suc pc) (sext i)
         | Return \<Rightarrow> Some (ucast r0))
      else None)"

definition verdict :: "program \<Rightarrow> 32 word \<Rightarrow> 32 word option" where
  "verdict p rnd = bpf_run rnd p (length p) 0 0"

subsection \<open>The table of programs as a table\<close>

definition manager_ok :: "('p, 'l) Manager \<Rightarrow> bool" where
  "manager_ok m \<longleftrightarrow> gm_ok (mg_programs m)"

definition manager_lookup :: "('p, 'l) Manager \<Rightarrow> string \<Rightarrow> ('p, 'l) loadedProgram option" where
  "manager_lookup m i = map_of (mg_programs m) i"

definition manager_put :: "string \<Rightarrow> ('p, 'l) loadedProgram \<Rightarrow> ('p, 'l) Manager \<Rightarrow> ('p, 'l) Manager" where
  "manager_put i lp m = m\<lparr>mg_programs := gm_put i lp (mg_programs m)\<rparr>"

definition manager_del :: "string \<Rightarrow> ('p, 'l) Manager \<Rightarrow> ('p, 'l) Manager" where
  "manager_del i m = m\<lparr>mg_programs := gm_del i (mg_programs m)\<rparr>"

section \<open>Lemmas\<close>

subsection \<open>The classifier\<close>

lemma sext_small [simp]: "sext 100 = 100" "sext 0 = 0" "sext 2 = 2"
  by (simp_all add: sext_def)

lemma verdict_drop:
  "verdict (dropBPFInstructions pct) rnd = Some (if (ucast rnd :: 64 word) mod 100 < sext pct then tcActShot else tcActOK)"
  by (simp add: verdict_def dropBPFInstructions_def tcActOK_def tcActShot_def numeral_eq_Suc)

lemma unat_ucast_up: "unat (ucast rnd :: 64 word) = unat (rnd :: 32 word)"
proof -
  have "unat rnd < 2 ^ 32" using unsigned_less [of rnd] by simp
  then show ?thesis by (simp add: unsigned_ucast_eq take_bit_nat_eq_self)
qed

lemma unat_mod_100: "unat ((ucast rnd :: 64 word) mod 100) = unat (rnd :: 32 word) mod 100"
  by (simp add: unat_mod_distrib unat_ucast_up)

lemma uint_32: "0 \<le> uint (p :: 32 word)" "uint (p :: 32 word) < 2 ^ 32"
  using uint_lt2p [of p] by simp_all

lemma mod_once: "(n::int) \<le> x \<Longrightarrow> x < 2 * n \<Longrightarrow> x mod n = x - n"
  using mod_pos_pos_trivial [of "x - n" n] by simp

lemma sint_low: "uint (p :: 32 word) < 2 ^ 31 \<Longrightarrow> sint p = uint p"
  using signed_take_bit_int_eq_self [of 31 "uint p"] uint_32 [of p] by (simp add: sint_uint)

lemma sint_high: "2 ^ 31 \<le> uint (p :: 32 word) \<Longrightarrow> sint p = uint p - 2 ^ 32"
  using uint_32 [of p] mod_once [of "2 ^ 32" "uint p + 2 ^ 31"]
  by (simp add: sint_uint signed_take_bit_eq_take_bit_shift take_bit_int_def)

lemma uint_sext: "uint (sext p) = sint p mod 2 ^ 64"
  by (simp only: sext_def unsigned_of_int take_bit_int_def) simp

text \<open>The comparison of the classifier, on numbers: a percentage from \<open>2^31\<close> up compares as a huge one.\<close>

lemma drop_test:
  "(ucast (rnd :: 32 word) :: 64 word) mod 100 < sext pct \<longleftrightarrow> 2 ^ 31 \<le> unat pct \<or> unat rnd mod 100 < unat pct"
proof (cases "uint pct < 2 ^ 31")
  case True
  then have "uint (sext pct) = uint pct"
    using uint_32 [of pct] mod_pos_pos_trivial [of "uint pct" "2 ^ 64"] by (simp add: uint_sext sint_low)
  then have "unat (sext pct) = unat pct" by (simp add: nat_eq_iff2 flip: nat_uint_eq)
  moreover have "unat pct < 2 ^ 31" using True by (simp flip: nat_uint_eq)
  ultimately show ?thesis by (simp add: word_less_nat_alt unat_mod_100)
next
  case False
  have "(uint pct - 2 ^ 32) mod 2 ^ 64 = uint pct - 2 ^ 32 + 2 ^ 64"
    using uint_32 [of pct] mod_pos_pos_trivial [of "uint pct - 2 ^ 32 + 2 ^ 64" "2 ^ 64"]
      mod_add_self2 [of "uint pct - 2 ^ 32" "2 ^ 64"] by simp
  then have "uint (sext pct) = uint pct - 2 ^ 32 + 2 ^ 64" using False by (simp add: uint_sext sint_high)
  then have "200 < unat (sext pct)" "2 ^ 31 \<le> unat pct" using False uint_32 [of pct] by (simp_all flip: nat_uint_eq)
  moreover have "unat rnd mod 100 < 100" by simp
  ultimately show ?thesis by (simp add: word_less_nat_alt unat_mod_100)
qed

lemma residues_step:
  "{n. n < 100 * Suc q + s \<and> n mod 100 < p} = {n. n < p} \<union> (\<lambda>n. n + 100) ` {n. n < 100 * q + s \<and> n mod 100 < (p::nat)}"
  if "p \<le> 100" for p q s :: nat
proof -
  have "n \<in> (\<lambda>n. n + 100) ` {n. n < 100 * q + s \<and> n mod 100 < p}" if "n < 100 * Suc q + s" "n mod 100 < p" "\<not> n < p" for n
  proof -
    have "100 \<le> n" using that \<open>p \<le> 100\<close> by (cases "n < 100") auto
    with that show ?thesis by (intro image_eqI [of _ _ "n - 100"]) (auto simp: le_mod_geq)
  qed
  with \<open>p \<le> 100\<close> show ?thesis by auto
qed

lemma card_residues: "p \<le> 100 \<Longrightarrow> s \<le> 100 \<Longrightarrow> card {n. n < 100 * q + s \<and> n mod 100 < p} = p * q + min p (s::nat)"
proof (induction q)
  case 0
  then have "{n. n < s \<and> n mod 100 < p} = {..<min p s}" by (auto simp: less_le_trans)
  then show ?case by simp
next
  case (Suc q)
  have "{n. n < p} \<inter> (\<lambda>n. n + 100) ` {n. n < 100 * q + s \<and> n mod 100 < p} = {}" using Suc.prems by auto
  moreover have "card ((\<lambda>n. n + 100) ` {n. n < 100 * q + s \<and> n mod 100 < p}) = card {n. n < 100 * q + s \<and> n mod 100 < p}"
    by (intro card_image) (simp add: inj_on_def)
  ultimately have "card ({n. n < p} \<union> (\<lambda>n. n + 100) ` {n. n < 100 * q + s \<and> n mod 100 < p}) = p + (p * q + min p s)"
    using Suc by (subst card_Un_disjoint) simp_all
  then show ?case using Suc.prems by (simp only: residues_step) simp
qed

lemma card_word_nat: "card {w :: 32 word. P (unat w)} = card {n. n < 2 ^ 32 \<and> P n}"
proof (rule bij_betw_same_card [of unat])
  have "n \<in> unat ` {w :: 32 word. P (unat w)}" if "n < 2 ^ 32" "P n" for n
    using that by (intro image_eqI [of _ _ "word_of_nat n"]) (simp_all add: unsigned_of_nat take_bit_nat_eq_self)
  moreover have "unat (w :: 32 word) < 2 ^ 32" for w using unsigned_less [of w] by simp
  ultimately show "bij_betw unat {w :: 32 word. P (unat w)} {n. n < 2 ^ 32 \<and> P n}"
    by (auto simp: bij_betw_def intro!: inj_onI intro: unsigned_word_eqI)
qed

subsection \<open>The table of programs\<close>

interpretation programs: removable_table manager_ok manager_lookup manager_put manager_del
  by unfold_locales (auto simp: manager_ok_def manager_lookup_def manager_put_def manager_del_def)

lemma manager_ok_New: "manager_ok NewManager"
  by (simp add: manager_ok_def NewManager_def)

lemma LoadTCDrop_cases:
  obtains (panic) "length i < 8" "LoadTCDrop k i ifx pct (m, w) = (None, m, w)"
  | (failed) e w' where "LoadTCDrop k i ifx pct (m, w) = (Some (Some e), m, w')"
  | (loaded) lp w' where "LoadTCDrop k i ifx pct (m, w) = (Some None, manager_put i lp m, w')"
      "ps_Instructions (lp_spec lp) = dropBPFInstructions pct"
proof (cases "length i < 8")
  case True
  then show thesis by (intro panic) (simp_all add: LoadTCDrop_def)
next
  case False
  define spec where "spec = \<lparr>ps_Name = ''tc_drop_'' @ take 8 i, ps_Instructions = dropBPFInstructions pct\<rparr>"
  note run = LoadTCDrop_def [of k i ifx pct "(m, w)", folded spec_def] False
  obtain rp w1 where np: "bk_NewProgram k spec w = (rp, w1)" by (cases "bk_NewProgram k spec w")
  show thesis
  proof (cases rp)
    case (Inl e)
    with np run show thesis by (intro failed) (simp add: Let_def spec_def)
  next
    case (Inr prog)
    obtain rl w2 where at: "bk_AttachTCX k ifx prog w1 = (rl, w2)" by (cases "bk_AttachTCX k ifx prog w1")
    show thesis
    proof (cases rl)
      case (Inl e)
      with Inr np at run show thesis by (intro failed) (simp add: Let_def spec_def)
    next
      case (Inr l)
      with \<open>rp = Inr prog\<close> np at run show thesis
        by (intro loaded [of "\<lparr>lp_prog = prog, lp_link = l, lp_spec = spec\<rparr>"]) (simp_all add: Let_def spec_def manager_put_def)
    qed
  qed
qed

lemma Unload_result:
  "Unload k i (m, w) =
     (None, manager_del i m, (case manager_lookup m i of None \<Rightarrow> w | Some lp \<Rightarrow> close_loaded k lp w))"
proof (cases "manager_lookup m i")
  case None
  then have "gm_del i (mg_programs m) = mg_programs m"
    by (simp add: gm_del_def manager_lookup_def map_of_eq_None_iff delete_id)
  with None show ?thesis by (simp add: Unload_def manager_lookup_def manager_del_def)
qed (simp add: Unload_def manager_lookup_def manager_del_def)

lemma unload_each_lookup:
  "manager_ok m \<Longrightarrow> manager_ok (fst (unload_each k ids (m, w))) \<and>
     manager_lookup (fst (unload_each k ids (m, w))) = manager_lookup m |` (- set ids)"
proof (induction k ids "(m, w)" arbitrary: m w rule: unload_each.induct)
  case (2 k i ids m w)
  show ?case
  proof (cases "manager_lookup m i")
    case None
    with 2 show ?thesis by (auto simp: manager_lookup_def fun_eq_iff restrict_map_def)
  next
    case (Some lp)
    have "manager_ok (manager_del i m)" using 2 by (simp add: programs.invar_remove)
    with 2 Some show ?thesis
      by (auto simp: manager_lookup_def programs.lookup_remove fun_eq_iff restrict_map_def simp flip: manager_del_def)
  qed
qed (simp add: restrict_map_def fun_eq_iff)

section \<open>Properties\<close>

text \<open>
  C35. How many packets the classifier drops. Run on a random number, the program assembled for a
  percentage returns "shot" exactly when the number modulo 100 is below the percentage, and "ok"
  otherwise; of the \<open>2^32\<close> random numbers it drops \<open>42949672\<close> per percent and at most 96 more (the
  remainder of \<open>2^32\<close> modulo 100 favours small residues). A percentage from \<open>2^31\<close> up, which is what a
  negative number becomes, drops every packet.
\<close>

theorem drop_rate:
  "verdict (dropBPFInstructions pct) rnd =
     Some (if 2 ^ 31 \<le> unat pct \<or> unat rnd mod 100 < unat pct then tcActShot else tcActOK) \<and>
   (unat pct \<le> 100 \<longrightarrow>
     card {rnd. verdict (dropBPFInstructions pct) rnd = Some tcActShot} = unat pct * 42949672 + min (unat pct) 96)"
proof -
  have v: "verdict (dropBPFInstructions pct) r =
      Some (if 2 ^ 31 \<le> unat pct \<or> unat r mod 100 < unat pct then tcActShot else tcActOK)" for r
    unfolding verdict_drop drop_test ..
  moreover have "tcActShot \<noteq> tcActOK" by (simp add: tcActShot_def tcActOK_def)
  ultimately have "unat pct \<le> 100 \<Longrightarrow>
      {rnd. verdict (dropBPFInstructions pct) rnd = Some tcActShot} = {rnd. unat rnd mod 100 < unat pct}"
    by auto
  then show ?thesis
    using v card_word_nat [of "\<lambda>n. n mod 100 < unat pct"] card_residues [of "unat pct" 96 42949672] by simp
qed

theorem drop_rate_witness:
  "card {rnd. verdict (dropBPFInstructions 10) rnd = Some tcActShot} = 429496730 \<and>
   verdict (dropBPFInstructions (- 5)) 99 = Some tcActShot"
  using drop_rate [of 10 0, THEN conjunct2] drop_rate [of "- 5" 99, THEN conjunct1] by simp

end
