(* ===== verification/Daemon_Server.thy ===== *)
theory Daemon_Server
  imports Daemon_Sys Daemon_Netns Daemon_Ebpf
begin

text \<open>
  The gRPC server of the daemon (\<open>internal/daemon/server.go\<close>) and its table of executions
  (\<open>internal/daemon/execution.go\<close>). A handler takes the server and the host \<open>'w\<close> to a response, a server
  and a host; the pod resolver, the command runner, the eBPF kernel, the clock and the generator of
  execution ids are fields of \<open>Server\<close> and \<open>Host\<close>. Log output is left out. A handler that panics gives
  no response (\<open>None\<close>; only \<open>ExecNetworkChaos\<close> can, on an execution id of less than eight bytes).

  The five response messages of \<open>proto/daemon/v1/daemon.proto\<close> have the same fields and share the
  record \<open>ChaosResponse\<close>. \<open>ChaosRequest\<close> and \<open>Exec\<close> put the five handlers side by side, as the service
  does, for the properties that hold of all of them.
\<close>

section \<open>Definitions\<close>

subsection \<open>The execution store\<close>

record ExecutionInfo =
  xi_ID :: string
  xi_ExperimentID :: string
  xi_Type :: string
  xi_Status :: string
  xi_StartTime :: time
  xi_Parameters :: "(string, string) gomap"

record ExecutionStore =
  es_executions :: "(string, ExecutionInfo) gomap"

definition NewExecutionStore :: ExecutionStore where
  "NewExecutionStore = \<lparr>es_executions = []\<rparr>"

definition store_Add :: "string \<Rightarrow> ExecutionInfo \<Rightarrow> ExecutionStore \<Rightarrow> ExecutionStore" where
  "store_Add i info s = s\<lparr>es_executions := gm_put i info (es_executions s)\<rparr>"

definition store_Remove :: "string \<Rightarrow> ExecutionStore \<Rightarrow> ExecutionStore" where
  "store_Remove i s = s\<lparr>es_executions := gm_del i (es_executions s)\<rparr>"

definition store_Get :: "ExecutionStore \<Rightarrow> string \<Rightarrow> ExecutionInfo option" where
  "store_Get s i = map_of (es_executions s) i"

definition store_List :: "ExecutionStore \<Rightarrow> ExecutionInfo list" where
  "store_List s = map snd (es_executions s)"

subsection \<open>The server\<close>

record ('w, 'p, 'l) Server =
  sv_store :: ExecutionStore
  sv_ebpfMgr :: "('p, 'l) Manager"
  sv_sys :: "'w CommandRunner"
  sv_resolver :: "'w Resolver option"

record ('w, 'p, 'l) Host =
  ho_kernel :: "('w, 'p, 'l) BpfKernel"
  ho_uuid :: "'w \<Rightarrow> string \<times> 'w"
  ho_now :: "'w \<Rightarrow> time \<times> 'w"

text \<open>\<open>NewServer\<close> with the real runner, \<open>newServerWithRunner\<close> with another; no resolver at first.\<close>

definition newServerWithRunner :: "'w CommandRunner \<Rightarrow> ('w, 'p, 'l) Server" where
  "newServerWithRunner r =
     \<lparr>sv_store = NewExecutionStore, sv_ebpfMgr = NewManager, sv_sys = r, sv_resolver = None\<rparr>"

definition SetResolver :: "'w Resolver \<Rightarrow> ('w, 'p, 'l) Server \<Rightarrow> ('w, 'p, 'l) Server" where
  "SetResolver rv s = s\<lparr>sv_resolver := Some rv\<rparr>"

text \<open>
  \<open>configureResolver\<close> of \<open>cmd/daemon/main.go\<close>: without an endpoint, or when the resolver cannot be made, the
  server stays without one.
\<close>

definition configureResolver :: "string \<Rightarrow> (string \<Rightarrow> err + 'w Resolver) \<Rightarrow> ('w, 'p, 'l) Server \<Rightarrow> ('w, 'p, 'l) Server" where
  "configureResolver criEndpoint newResolver srv =
     (if criEndpoint = [] then srv
      else case newResolver criEndpoint of Inl _ \<Rightarrow> srv | Inr resolver \<Rightarrow> SetResolver resolver srv)"

subsection \<open>Messages\<close>

record NetworkChaosRequest =
  nr_experimentId :: string
  nr_action :: string
  nr_targetIface :: string
  nr_parameters :: "(string, string) gomap"
  nr_namespace :: string
  nr_podName :: string
  nr_containerId :: string
  nr_nodeName :: string

record StressChaosRequest =
  sr_experimentId :: string
  sr_stressorType :: string
  sr_parameters :: "(string, string) gomap"

record DNSChaosRequest =
  dr_experimentId :: string
  dr_action :: string
  dr_parameters :: "(string, string) gomap"

record HTTPChaosRequest =
  hq_experimentId :: string
  hq_action :: string
  hq_port :: int
  hq_parameters :: "(string, string) gomap"

record NodeChaosRequest =
  or_experimentId :: string
  or_action :: string
  or_parameters :: "(string, string) gomap"

record ChaosResponse =
  rp_Success :: bool
  rp_Message :: string
  rp_ExecutionId :: string
  rp_Applied :: bool

record CancelResponse =
  cp_Success :: bool
  cp_Message :: string

record ExecutionStatus =
  xs_ExecutionId :: string
  xs_ExperimentId :: string
  xs_Type :: string
  xs_Status :: string
  xs_StartTime :: string

definition refused :: "string \<Rightarrow> ChaosResponse" where
  "refused msg = \<lparr>rp_Success = False, rp_Message = msg, rp_ExecutionId = [], rp_Applied = False\<rparr>"

definition applied :: "string \<Rightarrow> string \<Rightarrow> ChaosResponse" where
  "applied msg execID = \<lparr>rp_Success = True, rp_Message = msg, rp_ExecutionId = execID, rp_Applied = True\<rparr>"

text \<open>Recording the execution and answering, the common end of the handlers.\<close>

definition record_execution ::
    "('w, 'p, 'l) Host \<Rightarrow> string \<Rightarrow> string \<Rightarrow> string \<Rightarrow> (string, string) gomap \<Rightarrow> string \<Rightarrow>
     ('w, 'p, 'l) Server \<times> 'w \<Rightarrow> ChaosResponse \<times> ('w, 'p, 'l) Server \<times> 'w" where
  "record_execution h execID experimentID typ params msg sw =
     (case sw of (s, w) \<Rightarrow>
      (case ho_now h w of (t, w') \<Rightarrow>
         (applied msg execID,
          s\<lparr>sv_store := store_Add execID
              \<lparr>xi_ID = execID, xi_ExperimentID = experimentID, xi_Type = typ, xi_Status = ''running'',
               xi_StartTime = t, xi_Parameters = params\<rparr> (sv_store s)\<rparr>, w')))"

subsection \<open>Network faults\<close>

text \<open>\<open>strconv.Atoi\<close> with its error ignored: zero for no number, the nearest bound out of range.\<close>

definition atoi_value :: "string \<Rightarrow> int" where
  "atoi_value s = (case ParseInt (4 * length s + 4) s of None \<Rightarrow> 0 | Some i \<Rightarrow> sat64 i)"

definition resolveTarget :: "('w, 'p, 'l) Server \<Rightarrow> NetworkChaosRequest \<Rightarrow> 'w \<Rightarrow> ChaosResponse + (string \<times> int)" where
  "resolveTarget s req w =
     (if nr_podName req = [] \<and> nr_containerId req = [] then
        (let iface = (if nr_targetIface req = [] then ''eth0'' else nr_targetIface req)
         in Inr (iface, atoi_value (gm_str (nr_parameters req) ''ifIndex'')))
      else
        (case sv_resolver s of
           None \<Rightarrow> Inl (refused (''cannot resolve host-side veth for pod '' @ nr_namespace req @ ''/'' @ nr_podName req @
                     '': no CRI resolver configured on this daemon''))
         | Some rv \<Rightarrow>
             (case rv_Resolve rv \<lparr>pr_Namespace = nr_namespace req, pr_Name = nr_podName req,
                     pr_ContainerID = nr_containerId req, pr_NodeName = nr_nodeName req\<rparr> w of
                Inl e \<Rightarrow> Inl (refused (''resolve host-side veth for pod '' @ nr_namespace req @ ''/'' @ nr_podName req @ '': '' @ e))
              | Inr res \<Rightarrow> Inr (rs_HostVethName res, rs_HostVethIfindex res))))"

definition loss_percent :: "(string, string) gomap \<Rightarrow> 32 word" where
  "loss_percent params =
     (let v = gm_str params ''percent'' in
      if v \<noteq> [] then (case Atoi (TrimSuffix v ''%'') of Some p \<Rightarrow> word_of_int p | None \<Rightarrow> 10) else 10)"

text \<open>The three branches of \<open>ExecNetworkChaos\<close> once the target interface is known.\<close>

definition network_partition ::
    "('w, 'p, 'l) Host \<Rightarrow> NetworkChaosRequest \<Rightarrow> string \<Rightarrow> string \<Rightarrow> ('w, 'p, 'l) Server \<times> 'w \<Rightarrow>
     ChaosResponse \<times> ('w, 'p, 'l) Server \<times> 'w" where
  "network_partition h req execID iface sw =
     (case sw of (s, w) \<Rightarrow>
      (let params = nr_parameters req in
       case partition_pod (sv_sys s) iface (gm_str params ''direction'') (gm_str params ''target_cidr'') w of
         (Some err, w') \<Rightarrow> (refused (''network partition failed on iface '' @ iface @ '': '' @ err), s, w')
       | (None, w') \<Rightarrow>
           record_execution h execID (nr_experimentId req) ''network''
             (gm_put ''datapath'' ''iptables'' (gm_put ''iface'' iface params))
             ''network chaos applied: partition'' (s, w')))"

definition network_applied ::
    "('w, 'p, 'l) Host \<Rightarrow> NetworkChaosRequest \<Rightarrow> string \<Rightarrow> string \<Rightarrow> string \<Rightarrow> ('w, 'p, 'l) Server \<times> 'w \<Rightarrow>
     ChaosResponse \<times> ('w, 'p, 'l) Server \<times> 'w" where
  "network_applied h req execID iface datapath sw =
     record_execution h execID (nr_experimentId req) ''network''
       (gm_put ''iface'' iface (gm_put ''datapath'' datapath (nr_parameters req)))
       (''network chaos applied: '' @ nr_action req) sw"

definition network_ebpf_loss ::
    "('w, 'p, 'l) Host \<Rightarrow> NetworkChaosRequest \<Rightarrow> string \<Rightarrow> string \<Rightarrow> int \<Rightarrow> ('w, 'p, 'l) Server \<times> 'w \<Rightarrow>
     ChaosResponse option \<times> ('w, 'p, 'l) Server \<times> 'w" where
  "network_ebpf_loss h req execID iface ifIndex sw =
     (case sw of (s, w) \<Rightarrow>
      (case LoadTCDrop (ho_kernel h) execID ifIndex (loss_percent (nr_parameters req)) (sv_ebpfMgr s, w) of
         (None, m, w1) \<Rightarrow> (None, s\<lparr>sv_ebpfMgr := m\<rparr>, w1)
       | (Some (Some err), m, w1) \<Rightarrow>
           (case tcAddNetem (sv_sys s) iface ''loss'' (nr_parameters req) w1 of
              (Some ferr, w2) \<Rightarrow>
                (Some (refused (''ebpf loss attach failed ('' @ err @ '') and netem fallback failed ('' @ ferr @ '') on iface '' @ iface)),
                 s\<lparr>sv_ebpfMgr := m\<rparr>, w2)
            | (None, w2) \<Rightarrow> map_prod Some id (network_applied h req execID iface ''netem-fallback'' (s\<lparr>sv_ebpfMgr := m\<rparr>, w2)))
       | (Some None, m, w1) \<Rightarrow> map_prod Some id (network_applied h req execID iface ''ebpf'' (s\<lparr>sv_ebpfMgr := m\<rparr>, w1))))"

definition network_netem ::
    "('w, 'p, 'l) Host \<Rightarrow> NetworkChaosRequest \<Rightarrow> string \<Rightarrow> string \<Rightarrow> ('w, 'p, 'l) Server \<times> 'w \<Rightarrow>
     ChaosResponse \<times> ('w, 'p, 'l) Server \<times> 'w" where
  "network_netem h req execID iface sw =
     (case sw of (s, w) \<Rightarrow>
      (case tcAddNetem (sv_sys s) iface (nr_action req) (nr_parameters req) w of
         (Some err, w') \<Rightarrow> (refused (''network chaos '' @ quoted (nr_action req) @ '' failed on iface '' @ iface @ '': '' @ err), s, w')
       | (None, w') \<Rightarrow> network_applied h req execID iface ''netem'' (s, w')))"

definition ExecNetworkChaos ::
    "('w, 'p, 'l) Host \<Rightarrow> NetworkChaosRequest \<Rightarrow> ('w, 'p, 'l) Server \<times> 'w \<Rightarrow>
     ChaosResponse option \<times> ('w, 'p, 'l) Server \<times> 'w" where
  "ExecNetworkChaos h req sw =
     (case sw of (s, w) \<Rightarrow>
      (case ho_uuid h w of (execID, w) \<Rightarrow>
       (case resolveTarget s req w of
          Inl errResp \<Rightarrow> (Some errResp, s, w)
        | Inr (iface, ifIndex) \<Rightarrow>
            if nr_action req = ''partition'' then map_prod Some id (network_partition h req execID iface (s, w))
            else if gm_str (nr_parameters req) ''mode'' = ''ebpf'' \<and> nr_action req = ''loss''
            then network_ebpf_loss h req execID iface ifIndex (s, w)
            else map_prod Some id (network_netem h req execID iface (s, w)))))"

subsection \<open>Pod targets of the other faults\<close>

definition resolvePodTarget :: "('w, 'p, 'l) Server \<Rightarrow> (string, string) gomap \<Rightarrow> 'w \<Rightarrow> err + podTarget" where
  "resolvePodTarget s params w =
     (let podName = gm_str params ''podName''; containerID = gm_str params ''containerId'' in
      if podName = [] \<and> containerID = [] then Inr no_target
      else
        (case sv_resolver s of
           None \<Rightarrow> Inl (''cannot resolve pod '' @ gm_str params ''podNamespace'' @ ''/'' @ podName @
                     '': no CRI resolver configured on this daemon'')
         | Some rv \<Rightarrow>
             (case rv_Resolve rv \<lparr>pr_Namespace = gm_str params ''podNamespace'', pr_Name = podName,
                     pr_ContainerID = containerID, pr_NodeName = gm_str params ''nodeName''\<rparr> w of
                Inl e \<Rightarrow> Inl (''resolve pod '' @ gm_str params ''podNamespace'' @ ''/'' @ podName @ '': '' @ e)
              | Inr res \<Rightarrow> Inr \<lparr>pt_scoped = True, pt_hostVeth = rs_HostVethName res, pt_cgroupV2Path = rs_CgroupV2Path res\<rparr>)))"

subsection \<open>Stress\<close>

definition stress_duration :: "(string, string) gomap \<Rightarrow> int" where
  "stress_duration params =
     (let v = gm_str params ''duration'' in
      if v \<noteq> [] then (case Atoi v of Some d \<Rightarrow> d | None \<Rightarrow> 60) else 60)"

definition ExecStressChaos ::
    "('w, 'p, 'l) Host \<Rightarrow> StressChaosRequest \<Rightarrow> ('w, 'p, 'l) Server \<times> 'w \<Rightarrow>
     ChaosResponse \<times> ('w, 'p, 'l) Server \<times> 'w" where
  "ExecStressChaos h req sw =
     (case sw of (s, w) \<Rightarrow>
      (case ho_uuid h w of (execID, w) \<Rightarrow>
       (let params = sr_parameters req; stressorType = sr_stressorType req in
        case resolvePodTarget s params w of
          Inl err \<Rightarrow> (refused err, s, w)
        | Inr target \<Rightarrow>
            if pt_scoped target \<and> pt_cgroupV2Path target = [] then
              (refused (''stress chaos '' @ quoted stressorType @
                 '': pod resolved but cgroup v2 path is empty; refusing to stress the whole node''), s, w)
            else
              (case stressNGStart (sv_sys s) stressorType params (stress_duration params) (pt_cgroupV2Path target) w of
                 (Some err, w') \<Rightarrow> (refused (''stress chaos '' @ quoted stressorType @ '' failed: '' @ err), s, w')
               | (None, w') \<Rightarrow>
                   record_execution h execID (sr_experimentId req) ''stress'' params
                     (''stress chaos applied: '' @ stressorType) (s, w')))))"

subsection \<open>DNS\<close>

definition ExecDNSChaos ::
    "('w, 'p, 'l) Host \<Rightarrow> DNSChaosRequest \<Rightarrow> ('w, 'p, 'l) Server \<times> 'w \<Rightarrow>
     ChaosResponse \<times> ('w, 'p, 'l) Server \<times> 'w" where
  "ExecDNSChaos h req sw =
     (case sw of (s, w) \<Rightarrow>
      (case ho_uuid h w of (execID, w) \<Rightarrow>
       (let action = dr_action req in
        case resolvePodTarget s (dr_parameters req) w of
          Inl err \<Rightarrow> (refused err, s, w)
        | Inr target \<Rightarrow>
            (let params = gm_put ''iface'' (pt_hostVeth target) (dr_parameters req) in
             case dnsIntercept (sv_sys s) action target params w of
               (Some err, w') \<Rightarrow> (refused (''dns chaos '' @ quoted action @ '' failed: '' @ err), s, w')
             | (None, w') \<Rightarrow>
                 record_execution h execID (dr_experimentId req) ''dns'' params
                   (''dns chaos applied: '' @ action) (s, w')))))"

subsection \<open>HTTP\<close>

definition ExecHTTPChaos ::
    "('w, 'p, 'l) Host \<Rightarrow> HTTPChaosRequest \<Rightarrow> ('w, 'p, 'l) Server \<times> 'w \<Rightarrow>
     ChaosResponse \<times> ('w, 'p, 'l) Server \<times> 'w" where
  "ExecHTTPChaos h req sw =
     (case sw of (s, w) \<Rightarrow>
      (case ho_uuid h w of (execID, w) \<Rightarrow>
       (let action = hq_action req; port = hq_port req in
        if port \<le> 0 then (refused ''http chaos requires a positive port'', s, w)
        else
          (case resolvePodTarget s (hq_parameters req) w of
             Inl err \<Rightarrow> (refused err, s, w)
           | Inr target \<Rightarrow>
               (let params = gm_put ''port'' (Itoa port) (gm_put ''iface'' (pt_hostVeth target) (hq_parameters req)) in
                if action \<noteq> ''abort'' \<and> action \<noteq> ''delay'' then
                  (refused (''unsupported http chaos action: '' @ action), s, w)
                else
                  (case (if action = ''abort'' then httpAbort (sv_sys s) target port w
                         else httpDelay (sv_sys s) target (gm_str params ''delay'') w) of
                     (Some err, w') \<Rightarrow>
                       (refused (''http chaos '' @ quoted action @ '' failed on port '' @ Itoa port @ '': '' @ err), s, w')
                   | (None, w') \<Rightarrow>
                       record_execution h execID (hq_experimentId req) ''http'' (gm_put ''action'' action params)
                         (''http chaos applied: '' @ action) (s, w')))))))"

subsection \<open>Nodes\<close>

definition ExecNodeChaos ::
    "('w, 'p, 'l) Host \<Rightarrow> NodeChaosRequest \<Rightarrow> ('w, 'p, 'l) Server \<times> 'w \<Rightarrow>
     ChaosResponse \<times> ('w, 'p, 'l) Server \<times> 'w" where
  "ExecNodeChaos h req sw =
     (case sw of (s, w) \<Rightarrow>
      (case ho_uuid h w of (execID, w) \<Rightarrow>
       (let params = or_parameters req; action = or_action req in
        if action \<noteq> ''cpu-stress'' \<and> action \<noteq> ''partition'' then
          (refused (''unsupported node chaos action: '' @ action), s, w)
        else
          (case (if action = ''cpu-stress'' then stressNGStart (sv_sys s) ''cpu'' params 60 [] w
                 else (let iface = gm_str params ''iface''; iface = (if iface = [] then ''eth0'' else iface)
                       in iptablesBlock (sv_sys s) iface ''both'' w)) of
             (Some err, w') \<Rightarrow> (refused (''node chaos '' @ quoted action @ '' failed: '' @ err), s, w')
           | (None, w') \<Rightarrow>
               record_execution h execID (or_experimentId req) ''node'' params
                 (''node chaos applied: '' @ action) (s, w')))))"

subsection \<open>Cancelling and status\<close>

definition cancel_network ::
    "('w, 'p, 'l) Host \<Rightarrow> string \<Rightarrow> (string, string) gomap \<Rightarrow> ('w, 'p, 'l) Server \<times> 'w \<Rightarrow> ('w, 'p, 'l) Server \<times> 'w" where
  "cancel_network h execID params sw =
     (case sw of (s, w) \<Rightarrow>
      (let iface = gm_str params ''iface''; iface = (if iface = [] then ''eth0'' else iface);
           datapath = gm_str params ''datapath'' in
       if datapath = ''ebpf'' then
         (case Unload (ho_kernel h) execID (sv_ebpfMgr s, w) of (_, m, w') \<Rightarrow> (s\<lparr>sv_ebpfMgr := m\<rparr>, w'))
       else if datapath = ''iptables'' then
         (s, partitionRestore (sv_sys s) iface (gm_str params ''direction'') (gm_str params ''target_cidr'') w)
       else (s, snd (tcDelete (sv_sys s) iface w))))"

definition cancel_node :: "'w CommandRunner \<Rightarrow> (string, string) gomap \<Rightarrow> 'w \<Rightarrow> 'w" where
  "cancel_node r params w =
     (let iface = gm_str params ''iface'';
          w' = (if iface \<noteq> [] then snd (iptablesUnblock r iface ''both'' w) else w)
      in stressNGStop r w')"

definition cancel_fault ::
    "('w, 'p, 'l) Host \<Rightarrow> string \<Rightarrow> ExecutionInfo \<Rightarrow> ('w, 'p, 'l) Server \<times> 'w \<Rightarrow> ('w, 'p, 'l) Server \<times> 'w" where
  "cancel_fault h execID info sw =
     (case sw of (s, w) \<Rightarrow>
      (if xi_Type info = ''network'' then cancel_network h execID (xi_Parameters info) (s, w)
       else if xi_Type info = ''stress'' then (s, stressNGStop (sv_sys s) w)
       else if xi_Type info = ''dns'' then (s, dnsRestore (sv_sys s) (xi_Parameters info) w)
       else if xi_Type info = ''http'' then (s, httpRestore (sv_sys s) (xi_Parameters info) w)
       else if xi_Type info = ''node'' then (s, cancel_node (sv_sys s) (xi_Parameters info) w)
       else (s, w)))"

definition CancelChaos ::
    "('w, 'p, 'l) Host \<Rightarrow> string \<Rightarrow> ('w, 'p, 'l) Server \<times> 'w \<Rightarrow> CancelResponse \<times> ('w, 'p, 'l) Server \<times> 'w" where
  "CancelChaos h execID sw =
     (case sw of (s, w) \<Rightarrow>
      (case store_Get (sv_store s) execID of
         None \<Rightarrow> (\<lparr>cp_Success = False, cp_Message = ''execution '' @ execID @ '' not found''\<rparr>, s, w)
       | Some info \<Rightarrow>
           (case cancel_fault h execID info (s, w) of (s', w') \<Rightarrow>
              (\<lparr>cp_Success = True, cp_Message = ''execution '' @ execID @ '' cancelled''\<rparr>,
               s'\<lparr>sv_store := store_Remove execID (sv_store s')\<rparr>, w'))))"

text \<open>\<open>rfc3339\<close> is \<open>Time.Format(time.RFC3339)\<close>.\<close>

definition GetChaosStatus :: "(time \<Rightarrow> string) \<Rightarrow> ('w, 'p, 'l) Server \<Rightarrow> ExecutionStatus list" where
  "GetChaosStatus rfc3339 s =
     map (\<lambda>e. \<lparr>xs_ExecutionId = xi_ID e, xs_ExperimentId = xi_ExperimentID e, xs_Type = xi_Type e,
               xs_Status = xi_Status e, xs_StartTime = rfc3339 (xi_StartTime e)\<rparr>) (store_List (sv_store s))"

subsection \<open>The service\<close>

datatype ChaosRequest =
    Network NetworkChaosRequest
  | Stress StressChaosRequest
  | DNS DNSChaosRequest
  | HTTP HTTPChaosRequest
  | Node NodeChaosRequest

fun Exec ::
    "('w, 'p, 'l) Host \<Rightarrow> ChaosRequest \<Rightarrow> ('w, 'p, 'l) Server \<times> 'w \<Rightarrow>
     ChaosResponse option \<times> ('w, 'p, 'l) Server \<times> 'w" where
  "Exec h (Network req) sw = ExecNetworkChaos h req sw"
| "Exec h (Stress req) sw = map_prod Some id (ExecStressChaos h req sw)"
| "Exec h (DNS req) sw = map_prod Some id (ExecDNSChaos h req sw)"
| "Exec h (HTTP req) sw = map_prod Some id (ExecHTTPChaos h req sw)"
| "Exec h (Node req) sw = map_prod Some id (ExecNodeChaos h req sw)"

section \<open>Specification\<close>

text \<open>The view of the host: its rules and disciplines, which only the commands of the runner change.\<close>

definition host_view ::
    "('w, 'p, 'l) Host \<Rightarrow> 'w CommandRunner \<Rightarrow> ('w \<Rightarrow> string list multiset) \<Rightarrow> ('w \<Rightarrow> string \<rightharpoonup> string list) \<Rightarrow> bool" where
  "host_view h r rules qdisc \<longleftrightarrow>
     iptables_laws r rules \<and> tc_laws r qdisc \<and>
     (\<forall>w. rules (snd (ho_uuid h w)) = rules w \<and> qdisc (snd (ho_uuid h w)) = qdisc w) \<and>
     (\<forall>w. rules (snd (ho_now h w)) = rules w \<and> qdisc (snd (ho_now h w)) = qdisc w) \<and>
     (\<forall>spec w. rules (snd (bk_NewProgram (ho_kernel h) spec w)) = rules w \<and>
        qdisc (snd (bk_NewProgram (ho_kernel h) spec w)) = qdisc w) \<and>
     (\<forall>i p w. rules (snd (bk_AttachTCX (ho_kernel h) i p w)) = rules w \<and>
        qdisc (snd (bk_AttachTCX (ho_kernel h) i p w)) = qdisc w) \<and>
     (\<forall>p w. rules (bk_CloseProgram (ho_kernel h) p w) = rules w \<and> qdisc (bk_CloseProgram (ho_kernel h) p w) = qdisc w) \<and>
     (\<forall>l w. rules (bk_CloseLink (ho_kernel h) l w) = rules w \<and> qdisc (bk_CloseLink (ho_kernel h) l w) = qdisc w)"

text \<open>Interfaces have names.\<close>

definition names_veths :: "'w Resolver option \<Rightarrow> bool" where
  "names_veths rvo \<longleftrightarrow> (\<forall>rv ref w res. rvo = Some rv \<longrightarrow> rv_Resolve rv ref w = Inr res \<longrightarrow> rs_HostVethName res \<noteq> [])"

text \<open>A node request whose parameters name an interface exactly when it blocks one.\<close>

definition node_names_iface :: "ChaosRequest \<Rightarrow> bool" where
  "node_names_iface req = (case req of
     Node nq \<Rightarrow> (or_action nq = ''partition'' \<longleftrightarrow> gm_str (or_parameters nq) ''iface'' \<noteq> [])
   | _ \<Rightarrow> True)"

fun req_experiment :: "ChaosRequest \<Rightarrow> string" where
  "req_experiment (Network q) = nr_experimentId q"
| "req_experiment (Stress q) = sr_experimentId q"
| "req_experiment (DNS q) = dr_experimentId q"
| "req_experiment (HTTP q) = hq_experimentId q"
| "req_experiment (Node q) = or_experimentId q"

definition store_ok :: "ExecutionStore \<Rightarrow> bool" where
  "store_ok st \<longleftrightarrow> gm_ok (es_executions st)"

section \<open>Lemmas\<close>

interpretation store: removable_table store_ok store_Get store_Add store_Remove
  by unfold_locales (auto simp: store_ok_def store_Get_def store_Add_def store_Remove_def)

lemma record_execution_result:
  "record_execution h i eid ty params msg (s, w) =
     (applied msg i,
      s\<lparr>sv_store := store_Add i \<lparr>xi_ID = i, xi_ExperimentID = eid, xi_Type = ty, xi_Status = ''running'',
          xi_StartTime = fst (ho_now h w), xi_Parameters = params\<rparr> (sv_store s)\<rparr>,
      snd (ho_now h w))"
  by (simp add: record_execution_def split: prod.split)

lemma map_prod_Some_iff [simp]: "map_prod Some id x = (Some a, b) \<longleftrightarrow> x = (a, b)"
  by (cases x) auto

lemma refused_simps [simp]: "\<not> rp_Success (refused m)" "\<not> rp_Applied (refused m)" "rp_ExecutionId (refused m) = []"
  by (simp_all add: refused_def)

lemma applied_simps [simp]: "rp_Success (applied m i)" "rp_Applied (applied m i)" "rp_ExecutionId (applied m i) = i"
  by (simp_all add: applied_def)

subsection \<open>What is recorded\<close>

text \<open>
  \<open>answers h eid i s resp s'\<close>: the handler answered about execution \<open>i\<close> of experiment \<open>eid\<close>, and the store
  grew by that execution exactly on success, with its eBPF program loaded if that is its datapath.
\<close>

definition ebpf_entry :: "ExecutionInfo \<Rightarrow> bool" where
  "ebpf_entry info \<longleftrightarrow> xi_Type info = ''network'' \<and> gm_str (xi_Parameters info) ''datapath'' = ''ebpf''"

definition answers :: "string \<Rightarrow> string \<Rightarrow> ('w, 'p, 'l) Server \<Rightarrow> ChaosResponse \<Rightarrow> ('w, 'p, 'l) Server \<Rightarrow> bool" where
  "answers eid i s resp s' \<longleftrightarrow>
     rp_Applied resp = rp_Success resp \<and>
     (if rp_Success resp
      then rp_ExecutionId resp = i \<and>
           (\<exists>info. sv_store s' = store_Add i info (sv_store s) \<and> xi_ID info = i \<and> xi_ExperimentID info = eid \<and>
              xi_Status info = ''running'' \<and>
              (if ebpf_entry info then \<exists>lp. sv_ebpfMgr s' = manager_put i lp (sv_ebpfMgr s) else sv_ebpfMgr s' = sv_ebpfMgr s))
      else rp_ExecutionId resp = [] \<and> sv_store s' = sv_store s \<and> sv_ebpfMgr s' = sv_ebpfMgr s)"

lemma answers_refused: "sv_store s' = sv_store s \<Longrightarrow> sv_ebpfMgr s' = sv_ebpfMgr s \<Longrightarrow> answers eid i s (refused m) s'"
  by (simp add: answers_def)

lemma answers_recorded:
  assumes "record_execution h i eid ty params msg (s1, w1) = (resp, s', w')" and "sv_store s1 = sv_store s"
    and "if ty = ''network'' \<and> gm_str params ''datapath'' = ''ebpf''
      then \<exists>lp. sv_ebpfMgr s1 = manager_put i lp (sv_ebpfMgr s) else sv_ebpfMgr s1 = sv_ebpfMgr s"
  shows "answers eid i s resp s'"
proof -
  define info where "info = \<lparr>xi_ID = i, xi_ExperimentID = eid, xi_Type = ty, xi_Status = ''running'',
      xi_StartTime = fst (ho_now h w1), xi_Parameters = params\<rparr>"
  have "sv_store s' = store_Add i info (sv_store s) \<and> xi_ID info = i \<and> xi_ExperimentID info = eid \<and> xi_Status info = ''running'' \<and>
      (if ebpf_entry info then \<exists>lp. sv_ebpfMgr s' = manager_put i lp (sv_ebpfMgr s) else sv_ebpfMgr s' = sv_ebpfMgr s)"
    using assms by (auto simp: record_execution_result info_def ebpf_entry_def split: if_splits)
  moreover have "resp = applied msg i" using assms(1) by (simp add: record_execution_result)
  ultimately show ?thesis unfolding answers_def by auto
qed

lemma network_partition_answers:
  "network_partition h req i iface (s, w) = (resp, s', w') \<Longrightarrow> answers (nr_experimentId req) i s resp s'"
  by (auto simp: network_partition_def Let_def split: prod.splits option.splits intro: answers_refused answers_recorded)

lemma network_applied_answers:
  assumes "network_applied h req i iface dp (s1, w) = (resp, s', w')" and "sv_store s1 = sv_store s"
    and "if dp = ''ebpf'' then \<exists>lp. sv_ebpfMgr s1 = manager_put i lp (sv_ebpfMgr s) else sv_ebpfMgr s1 = sv_ebpfMgr s"
  shows "answers (nr_experimentId req) i s resp s'"
  using assms unfolding network_applied_def by (elim answers_recorded) simp_all

lemma network_netem_answers:
  "network_netem h req i iface (s, w) = (resp, s', w') \<Longrightarrow> answers (nr_experimentId req) i s resp s'"
  by (auto simp: network_netem_def split: prod.splits option.splits intro: answers_refused network_applied_answers)

lemma network_ebpf_loss_answers:
  assumes "network_ebpf_loss h req i iface ifx (s, w) = (Some resp, s', w')"
  shows "answers (nr_experimentId req) i s resp s'"
proof (rule LoadTCDrop_cases [of i "ho_kernel h" ifx "loss_percent (nr_parameters req)" "sv_ebpfMgr s" w])
  fix e w1 assume "LoadTCDrop (ho_kernel h) i ifx (loss_percent (nr_parameters req)) (sv_ebpfMgr s, w) = (Some (Some e), sv_ebpfMgr s, w1)"
  with assms show ?thesis
    by (auto simp: network_ebpf_loss_def split: prod.splits option.splits intro: answers_refused network_applied_answers)
next
  fix lp w1 assume "LoadTCDrop (ho_kernel h) i ifx (loss_percent (nr_parameters req)) (sv_ebpfMgr s, w) = (Some None, manager_put i lp (sv_ebpfMgr s), w1)"
  with assms have "network_applied h req i iface ''ebpf'' (s\<lparr>sv_ebpfMgr := manager_put i lp (sv_ebpfMgr s)\<rparr>, w1) = (resp, s', w')"
    by (simp add: network_ebpf_loss_def)
  then show ?thesis by (rule network_applied_answers) auto
qed (use assms in \<open>simp add: network_ebpf_loss_def\<close>)

lemma ExecNetworkChaos_answers:
  assumes "ExecNetworkChaos h req (s, w) = (Some resp, s', w')"
  shows "answers (nr_experimentId req) (fst (ho_uuid h w)) s resp s'"
proof -
  have ref: "resolveTarget s req v = Inl e \<Longrightarrow> \<exists>m. e = refused m" for v e
    by (auto simp: resolveTarget_def split: if_splits option.splits sum.splits)
  obtain i w1 where uuid: "ho_uuid h w = (i, w1)" by (cases "ho_uuid h w")
  show ?thesis
  proof (cases "resolveTarget s req w1")
    case (Inl e)
    then show ?thesis using ref [of w1 e] assms uuid by (auto simp: ExecNetworkChaos_def intro: answers_refused)
  next
    case (Inr t)
    obtain iface ifx where t: "t = (iface, ifx)" by (cases t)
    then show ?thesis using assms uuid Inr
      by (auto simp: ExecNetworkChaos_def split: if_splits
          intro: network_partition_answers network_netem_answers network_ebpf_loss_answers)
  qed
qed

lemma ExecStressChaos_answers:
  "ExecStressChaos h req (s, w) = (resp, s', w') \<Longrightarrow> answers (sr_experimentId req) (fst (ho_uuid h w)) s resp s'"
  by (auto simp: ExecStressChaos_def Let_def
      split: prod.splits sum.splits option.splits if_splits intro: answers_refused answers_recorded)

lemma ExecDNSChaos_answers:
  "ExecDNSChaos h req (s, w) = (resp, s', w') \<Longrightarrow> answers (dr_experimentId req) (fst (ho_uuid h w)) s resp s'"
  by (auto simp: ExecDNSChaos_def Let_def split: prod.splits sum.splits option.splits intro: answers_refused answers_recorded)

lemma ExecHTTPChaos_answers:
  "ExecHTTPChaos h req (s, w) = (resp, s', w') \<Longrightarrow> answers (hq_experimentId req) (fst (ho_uuid h w)) s resp s'"
  by (auto simp: ExecHTTPChaos_def Let_def
      split: prod.splits sum.splits option.splits if_splits intro: answers_refused answers_recorded)

lemma ExecNodeChaos_answers:
  "ExecNodeChaos h req (s, w) = (resp, s', w') \<Longrightarrow> answers (or_experimentId req) (fst (ho_uuid h w)) s resp s'"
  by (auto simp: ExecNodeChaos_def Let_def split: prod.splits option.splits if_splits intro: answers_refused answers_recorded)

lemma Exec_answers:
  "Exec h req (s, w) = (Some resp, s', w') \<Longrightarrow> answers (req_experiment req) (fst (ho_uuid h w)) s resp s'"
  by (cases req) (auto intro: ExecNetworkChaos_answers ExecStressChaos_answers
      ExecDNSChaos_answers ExecHTTPChaos_answers ExecNodeChaos_answers)

end
