(* ===== verification/Executor_Daemon.thy ===== *)
theory Executor_Daemon
  imports Executor_Registry Daemon_Server
begin

text \<open>
  The executors that act through the node daemons: packages \<open>pod\<close>, \<open>network\<close>, \<open>stress\<close> and the CPU
  executor of \<open>node\<close> under \<open>internal/executor\<close>. An executor resolves its targets with the API server,
  sends one request per target to the daemon of the target's node, keeps the execution ids it got per
  experiment, and cancels them on rollback.

  The API server, the gRPC transport and the daemons behind it are fields of \<open>ExecEnv\<close>; they act on
  the opaque part \<open>cl_ext\<close> of a \<open>Cluster\<close>, which also holds the list \<open>cl_rpcs\<close> of the calls made on
  daemons, in order, with their results. The state of an executor is its map \<open>executionIDs\<close>. Its
  mutex only guards that map. The packages repeat the same loops; here they are the definitions
  \<open>run_jobs\<close> (a target and its request are a \<open>Job\<close>), \<open>cancel_until_error\<close> and \<open>cancel_all\<close>.
  Log output is left out.
\<close>

section \<open>Definitions\<close>

subsection \<open>The cluster\<close>

record Pod =
  pod_Name :: string
  pod_Namespace :: string
  pod_NodeName :: string
  pod_ContainerIDs :: "string list"

record NodeCondition =
  nc_Type :: string
  nc_Status :: string

record Taint =
  ta_Key :: string
  ta_Value :: string
  ta_Effect :: string

record NodeObject =
  no_Name :: string
  no_Unschedulable :: bool
  no_Taints :: "Taint list"
  no_Conditions :: "NodeCondition list"

datatype Rpc =
    RpcExec string ChaosRequest "err + ChaosResponse"
  | RpcCancel string string "err + CancelResponse"

record 'x Cluster =
  cl_ext :: 'x
  cl_rpcs :: "Rpc list"

text \<open>
  \<open>ee_jsonErr\<close> is the text of \<open>json.Unmarshal\<close>'s error, \<open>ee_selectorErr\<close> the error of
  \<open>LabelSelectorAsSelector\<close>, \<open>ee_labels\<close> prints a label set, and \<open>ee_Dial\<close> is the error of the daemon
  client factory for an endpoint.
\<close>

record 'x ExecEnv =
  ee_jsonErr :: "json \<Rightarrow> err"
  ee_selectorErr :: "LabelSelector \<Rightarrow> err option"
  ee_labels :: "(string, string) gomap option \<Rightarrow> string"
  ee_GetPod :: "string \<Rightarrow> string \<Rightarrow> 'x \<Rightarrow> (err + Pod) \<times> 'x"
  ee_ListPods :: "string \<Rightarrow> LabelSelector \<Rightarrow> 'x \<Rightarrow> (err + Pod list) \<times> 'x"
  ee_GetNode :: "string \<Rightarrow> 'x \<Rightarrow> (err + NodeObject) \<times> 'x"
  ee_ListNodes :: "LabelSelector \<Rightarrow> 'x \<Rightarrow> (err + NodeObject list) \<times> 'x"
  ee_Dial :: "string \<Rightarrow> 'x \<Rightarrow> err option"
  ee_Exec :: "string \<Rightarrow> ChaosRequest \<Rightarrow> 'x \<Rightarrow> (err + ChaosResponse) \<times> 'x"
  ee_Cancel :: "string \<Rightarrow> string \<Rightarrow> 'x \<Rightarrow> (err + CancelResponse) \<times> 'x"

text \<open>A call on the API server, and the two calls of a daemon client that the executors use.\<close>

definition kube :: "('x \<Rightarrow> 'a \<times> 'x) \<Rightarrow> 'x Cluster \<Rightarrow> 'a \<times> 'x Cluster" where
  "kube f c = (case f (cl_ext c) of (a, x) \<Rightarrow> (a, c\<lparr>cl_ext := x\<rparr>))"

definition client_Exec :: "'x ExecEnv \<Rightarrow> string \<Rightarrow> ChaosRequest \<Rightarrow> 'x Cluster \<Rightarrow> (err + ChaosResponse) \<times> 'x Cluster" where
  "client_Exec e endpoint req c =
     (case ee_Exec e endpoint req (cl_ext c) of (r, x) \<Rightarrow>
        (r, c\<lparr>cl_ext := x, cl_rpcs := cl_rpcs c @ [RpcExec endpoint req r]\<rparr>))"

definition client_Cancel :: "'x ExecEnv \<Rightarrow> string \<Rightarrow> string \<Rightarrow> 'x Cluster \<Rightarrow> (err + CancelResponse) \<times> 'x Cluster" where
  "client_Cancel e endpoint execID c =
     (case ee_Cancel e endpoint execID (cl_ext c) of (r, x) \<Rightarrow>
        (r, c\<lparr>cl_ext := x, cl_rpcs := cl_rpcs c @ [RpcCancel endpoint execID r]\<rparr>))"

subsection \<open>Targets\<close>

definition ResolveDaemonEndpoint :: "string \<Rightarrow> string" where
  "ResolveDaemonEndpoint nodeName = nodeName @ '':50051''"

fun get_pods :: "'x ExecEnv \<Rightarrow> string \<Rightarrow> string list \<Rightarrow> Pod list \<Rightarrow> 'x Cluster \<Rightarrow> (err + Pod list) \<times> 'x Cluster" where
  "get_pods e ns [] pods c = (Inr pods, c)"
| "get_pods e ns (name # names) pods c =
     (case kube (ee_GetPod e ns name) c of
        (Inl err, c') \<Rightarrow> (Inl (''failed to get pod '' @ ns @ ''/'' @ name @ '': '' @ err), c')
      | (Inr p, c') \<Rightarrow> get_pods e ns names (pods @ [p]) c')"

definition ResolveTargetPods :: "'x ExecEnv \<Rightarrow> TargetSpec \<Rightarrow> 'x Cluster \<Rightarrow> (err + Pod list) \<times> 'x Cluster" where
  "ResolveTargetPods e target c =
     (if t_names target \<noteq> [] then get_pods e (t_namespace target) (t_names target) [] c
      else
        (case t_labelSelector target of
           Some ls \<Rightarrow>
             (case ee_selectorErr e ls of
                Some err \<Rightarrow> (Inl (''invalid label selector: '' @ err), c)
              | None \<Rightarrow>
                  (case kube (ee_ListPods e (t_namespace target) ls) c of
                     (Inl err, c') \<Rightarrow> (Inl (''failed to list pods: '' @ err), c')
                   | (Inr items, c') \<Rightarrow>
                       if items = [] then
                         (Inl (''no pods matched selector '' @ ee_labels e (sel_matchLabels ls) @ '' in namespace '' @ t_namespace target), c')
                       else (Inr items, c')))
         | None \<Rightarrow> (Inl ''target must specify either names or labelSelector'', c)))"

fun get_nodes :: "'x ExecEnv \<Rightarrow> string list \<Rightarrow> NodeObject list \<Rightarrow> 'x Cluster \<Rightarrow> (err + NodeObject list) \<times> 'x Cluster" where
  "get_nodes e [] nodes c = (Inr nodes, c)"
| "get_nodes e (name # names) nodes c =
     (case kube (ee_GetNode e name) c of
        (Inl err, c') \<Rightarrow> (Inl (''failed to get node '' @ name @ '': '' @ err), c')
      | (Inr n, c') \<Rightarrow> get_nodes e names (nodes @ [n]) c')"

definition ResolveTargetNodes :: "'x ExecEnv \<Rightarrow> TargetSpec \<Rightarrow> 'x Cluster \<Rightarrow> (err + NodeObject list) \<times> 'x Cluster" where
  "ResolveTargetNodes e target c =
     (if t_names target \<noteq> [] then get_nodes e (t_names target) [] c
      else
        (case t_labelSelector target of
           Some ls \<Rightarrow>
             (case ee_selectorErr e ls of
                Some err \<Rightarrow> (Inl (''invalid label selector: '' @ err), c)
              | None \<Rightarrow>
                  (case kube (ee_ListNodes e ls) c of
                     (Inl err, c') \<Rightarrow> (Inl (''failed to list nodes: '' @ err), c')
                   | (Inr items, c') \<Rightarrow>
                       if items = [] then (Inl (''no nodes matched selector '' @ ee_labels e (sel_matchLabels ls)), c')
                       else (Inr items, c')))
         | None \<Rightarrow> (Inl ''target must specify either names or labelSelector'', c)))"

text \<open>The first container id that is not empty, without the scheme before \<open>://\<close>.\<close>

fun ContainerID_loop :: "string list \<Rightarrow> string" where
  "ContainerID_loop [] = []"
| "ContainerID_loop (cid # cs) =
     (if cid = [] then ContainerID_loop cs
      else (case cut ''://'' cid of Some (_, rest) \<Rightarrow> rest | None \<Rightarrow> cid))"

definition ContainerID :: "Pod \<Rightarrow> string" where
  "ContainerID p = ContainerID_loop (pod_ContainerIDs p)"

text \<open>The checks of \<open>Validate\<close> on the target, for pods and for nodes.\<close>

definition no_selection :: "TargetSpec \<Rightarrow> bool" where
  "no_selection target \<longleftrightarrow> t_labelSelector target = None \<and> t_names target = []"

definition validateTarget :: "ChaosExperiment \<Rightarrow> string \<Rightarrow> err option" where
  "validateTarget xp prefix =
     (if t_namespace (s_target (e_spec xp)) = [] then Some (prefix @ '': target namespace is required'')
      else if no_selection (s_target (e_spec xp)) then Some (prefix @ '': target must specify names or labelSelector'')
      else None)"

definition validateNodes :: "ChaosExperiment \<Rightarrow> string \<Rightarrow> err option" where
  "validateNodes xp prefix =
     (if no_selection (s_target (e_spec xp)) then Some (prefix @ '': target must specify names or labelSelector'') else None)"

text \<open>The checks of \<open>Validate\<close> on the parameters: those named must be present and not empty.\<close>

fun missing_param :: "string \<Rightarrow> (string, string) gomap \<Rightarrow> string list \<Rightarrow> err option" where
  "missing_param prefix params [] = None"
| "missing_param prefix params (k # ks) =
     (if gm_str params k = [] then Some (prefix @ '': '' @ k @ '' parameter is required'')
      else missing_param prefix params ks)"

definition require_params :: "'x ExecEnv \<Rightarrow> string \<Rightarrow> ChaosExperiment \<Rightarrow> string list \<Rightarrow> err option" where
  "require_params e prefix xp ks =
     (case ParseParameters (ee_jsonErr e) xp of
        Inl err \<Rightarrow> Some (prefix @ '': '' @ err)
      | Inr params \<Rightarrow> missing_param prefix params ks)"

text \<open>The text of \<open>strconv.ParseInt\<close>'s error: no number, or a number out of range.\<close>

definition ParseInt_error :: "string \<Rightarrow> err" where
  "ParseInt_error s = ''strconv.ParseInt: parsing '' @ quoted s @ '': '' @
     (if ParseInt (4 * length s + 4) s = None then ''invalid syntax'' else ''value out of range'')"

subsection \<open>The loop of Execute\<close>

record nodeExecution =
  ne_nodeName :: string
  ne_executionID :: string

record executionRecord =
  xr_endpoint :: string
  xr_executionID :: string

text \<open>A target: its node, the request for the daemon, and the two error texts.\<close>

record Job =
  jb_node :: string
  jb_request :: ChaosRequest
  jb_onError :: string
  jb_onFailure :: string

type_synonym 'r ids = "(string, 'r list) gomap"

definition append_id :: "string \<Rightarrow> 'r \<Rightarrow> 'r ids \<Rightarrow> 'r ids" where
  "append_id k r ids = gm_put k (gm_list ids k @ [r]) ids"

fun run_jobs ::
    "'x ExecEnv \<Rightarrow> (string \<Rightarrow> string \<Rightarrow> 'r) \<Rightarrow> string \<Rightarrow> string \<Rightarrow> Job list \<Rightarrow> 'r ids \<times> 'x Cluster \<Rightarrow>
     err option \<times> 'r ids \<times> 'x Cluster" where
  "run_jobs e mk prefix expKey [] ic = (None, ic)"
| "run_jobs e mk prefix expKey (j # js) (ids, c) =
     (let endpoint = ResolveDaemonEndpoint (jb_node j) in
      case ee_Dial e endpoint (cl_ext c) of
        Some err \<Rightarrow> (Some (prefix @ '': daemon client for node '' @ jb_node j @ '': '' @ err), ids, c)
      | None \<Rightarrow>
          (case client_Exec e endpoint (jb_request j) c of
             (Inl err, c') \<Rightarrow> (Some (prefix @ '': '' @ jb_onError j @ '': '' @ err), ids, c')
           | (Inr resp, c') \<Rightarrow>
               if \<not> rp_Success resp then (Some (prefix @ '': '' @ jb_onFailure j @ '': '' @ rp_Message resp), ids, c')
               else run_jobs e mk prefix expKey js (append_id expKey (mk (jb_node j) (rp_ExecutionId resp)) ids, c')))"

definition pod_job :: "(Pod \<Rightarrow> ChaosRequest) \<Rightarrow> string \<Rightarrow> Pod \<Rightarrow> Job" where
  "pod_job req failure p =
     (let nsname = pod_Namespace p @ ''/'' @ pod_Name p in
      \<lparr>jb_node = pod_NodeName p, jb_request = req p, jb_onError = ''exec on pod '' @ nsname, jb_onFailure = failure @ nsname\<rparr>)"

definition node_job :: "ChaosRequest \<Rightarrow> NodeObject \<Rightarrow> Job" where
  "node_job req n =
     \<lparr>jb_node = no_Name n, jb_request = req, jb_onError = ''exec on node '' @ no_Name n,
      jb_onFailure = ''daemon failure for node '' @ no_Name n\<rparr>"

text \<open>Targets, then parameters, then the loop: the body of \<open>Execute\<close> in packages \<open>pod\<close>, \<open>stress\<close> and \<open>node\<close>.\<close>

definition on_pods ::
    "'x ExecEnv \<Rightarrow> string \<Rightarrow> ((string, string) gomap \<Rightarrow> err + (Pod \<Rightarrow> ChaosRequest)) \<Rightarrow> string \<Rightarrow> ChaosExperiment \<Rightarrow>
     nodeExecution ids \<times> 'x Cluster \<Rightarrow> err option \<times> nodeExecution ids \<times> 'x Cluster" where
  "on_pods e prefix request failure xp ic =
     (case ic of (ids, c) \<Rightarrow>
      (case ResolveTargetPods e (s_target (e_spec xp)) c of
         (Inl err, c') \<Rightarrow> (Some (prefix @ '': resolve targets: '' @ err), ids, c')
       | (Inr pods, c') \<Rightarrow>
           (case ParseParameters (ee_jsonErr e) xp of
              Inl err \<Rightarrow> (Some (prefix @ '': '' @ err), ids, c')
            | Inr params \<Rightarrow>
                (case request params of
                   Inl err \<Rightarrow> (Some (prefix @ '': '' @ err), ids, c')
                 | Inr req \<Rightarrow> run_jobs e nodeExecution.make prefix (m_uid (e_meta xp)) (map (pod_job req failure) pods) (ids, c')))))"

definition on_nodes ::
    "'x ExecEnv \<Rightarrow> string \<Rightarrow> ((string, string) gomap \<Rightarrow> ChaosRequest) \<Rightarrow> ChaosExperiment \<Rightarrow>
     nodeExecution ids \<times> 'x Cluster \<Rightarrow> err option \<times> nodeExecution ids \<times> 'x Cluster" where
  "on_nodes e prefix request xp ic =
     (case ic of (ids, c) \<Rightarrow>
      (case ResolveTargetNodes e (s_target (e_spec xp)) c of
         (Inl err, c') \<Rightarrow> (Some (prefix @ '': resolve targets: '' @ err), ids, c')
       | (Inr nodes, c') \<Rightarrow>
           (case ParseParameters (ee_jsonErr e) xp of
              Inl err \<Rightarrow> (Some (prefix @ '': '' @ err), ids, c')
            | Inr params \<Rightarrow>
                run_jobs e nodeExecution.make prefix (m_uid (e_meta xp)) (map (node_job (request params)) nodes) (ids, c'))))"

subsection \<open>The loops of Rollback\<close>

fun cancel_until_error :: "'x ExecEnv \<Rightarrow> string \<Rightarrow> nodeExecution list \<Rightarrow> 'x Cluster \<Rightarrow> err option \<times> 'x Cluster" where
  "cancel_until_error e prefix [] c = (None, c)"
| "cancel_until_error e prefix (ne # execs) c =
     (let endpoint = ResolveDaemonEndpoint (ne_nodeName ne) in
      case ee_Dial e endpoint (cl_ext c) of
        Some err \<Rightarrow> (Some (prefix @ '': rollback daemon client for node '' @ ne_nodeName ne @ '': '' @ err), c)
      | None \<Rightarrow>
          (case client_Cancel e endpoint (ne_executionID ne) c of
             (Inl err, c') \<Rightarrow> (Some (prefix @ '': cancel execution '' @ ne_executionID ne @ '': '' @ err), c')
           | (Inr _, c') \<Rightarrow> cancel_until_error e prefix execs c'))"

text \<open>\<open>Rollback\<close> in packages \<open>pod\<close>, \<open>stress\<close> and \<open>node\<close>: the ids are deleted first.\<close>

definition rollback_stored ::
    "'x ExecEnv \<Rightarrow> string \<Rightarrow> ChaosExperiment \<Rightarrow> nodeExecution ids \<times> 'x Cluster \<Rightarrow> err option \<times> nodeExecution ids \<times> 'x Cluster" where
  "rollback_stored e prefix xp ic =
     (case ic of (ids, c) \<Rightarrow>
      (let expKey = m_uid (e_meta xp) in
       case cancel_until_error e prefix (gm_list ids expKey) c of (r, c') \<Rightarrow> (r, gm_del expKey ids, c')))"

fun cancel_all :: "'x ExecEnv \<Rightarrow> executionRecord list \<Rightarrow> err list \<Rightarrow> 'x Cluster \<Rightarrow> err list \<times> 'x Cluster" where
  "cancel_all e [] errs c = (errs, c)"
| "cancel_all e (rec # recs) errs c =
     (case ee_Dial e (xr_endpoint rec) (cl_ext c) of
        Some err \<Rightarrow> cancel_all e recs (errs @ [''daemon client for '' @ xr_endpoint rec @ '': '' @ err]) c
      | None \<Rightarrow>
          (case client_Cancel e (xr_endpoint rec) (xr_executionID rec) c of
             (Inl err, c') \<Rightarrow> cancel_all e recs (errs @ [''cancel '' @ xr_executionID rec @ '': '' @ err]) c'
           | (Inr resp, c') \<Rightarrow>
               if \<not> cp_Success resp then cancel_all e recs (errs @ [''cancel '' @ xr_executionID rec @ '': '' @ cp_Message resp]) c'
               else cancel_all e recs errs c'))"

section \<open>Package pod\<close>

definition pod_param_list :: "Pod \<Rightarrow> (string \<times> string) list" where
  "pod_param_list p =
     [(''podName'', pod_Name p), (''podNamespace'', pod_Namespace p), (''containerId'', ContainerID p), (''nodeName'', pod_NodeName p)]"

definition ContainerKill_request :: "string \<Rightarrow> (string, string) gomap \<Rightarrow> Pod \<Rightarrow> ChaosRequest" where
  "ContainerKill_request expKey params p =
     Stress \<lparr>sr_experimentId = expKey, sr_stressorType = ''container-kill'',
       sr_parameters = [(''containerName'', gm_str params ''containerName''), (''podName'', pod_Name p), (''podNamespace'', pod_Namespace p)]\<rparr>"

text \<open>Container kill keeps no ids: those of the loop are dropped.\<close>

definition ContainerKill_Execute :: "'x ExecEnv \<Rightarrow> ChaosExperiment \<Rightarrow> 'x Cluster \<Rightarrow> err option \<times> 'x Cluster" where
  "ContainerKill_Execute e xp c =
     (case on_pods e ''container-kill'' (\<lambda>params. Inr (ContainerKill_request (m_uid (e_meta xp)) params))
        ''daemon returned failure for '' xp ([], c) of (r, _, c') \<Rightarrow> (r, c'))"

definition ContainerKill_Rollback :: "ChaosExperiment \<Rightarrow> 'x Cluster \<Rightarrow> err option \<times> 'x Cluster" where
  "ContainerKill_Rollback xp c = (None, c)"

definition ContainerKill_Validate :: "'x ExecEnv \<Rightarrow> ChaosExperiment \<Rightarrow> err option" where
  "ContainerKill_Validate e xp =
     (case validateTarget xp ''container-kill'' of
        Some err \<Rightarrow> Some err | None \<Rightarrow> require_params e ''container-kill'' xp [''containerName''])"

definition stress_request :: "string \<Rightarrow> string \<Rightarrow> (string \<times> string) list \<Rightarrow> ChaosRequest" where
  "stress_request expKey typ params =
     Stress \<lparr>sr_experimentId = expKey, sr_stressorType = typ, sr_parameters = params\<rparr>"

text \<open>The entries of a composite literal that copy a parameter under its own name.\<close>

definition copied :: "(string, string) gomap \<Rightarrow> string list \<Rightarrow> (string \<times> string) list" where
  "copied params ks = map (\<lambda>k. (k, gm_str params k)) ks"

definition CPUStress_Execute ::
    "'x ExecEnv \<Rightarrow> ChaosExperiment \<Rightarrow> nodeExecution ids \<times> 'x Cluster \<Rightarrow> err option \<times> nodeExecution ids \<times> 'x Cluster" where
  "CPUStress_Execute e xp =
     on_pods e ''pod-cpu-stress''
       (\<lambda>params. Inr (\<lambda>p. stress_request (m_uid (e_meta xp)) ''cpu''
          (copied params [''workers'', ''load'', ''duration''] @ pod_param_list p)))
       ''daemon failure for '' xp"

definition CPUStress_Rollback ::
    "'x ExecEnv \<Rightarrow> ChaosExperiment \<Rightarrow> nodeExecution ids \<times> 'x Cluster \<Rightarrow> err option \<times> nodeExecution ids \<times> 'x Cluster" where
  "CPUStress_Rollback e xp = rollback_stored e ''pod-cpu-stress'' xp"

definition CPUStress_Validate :: "ChaosExperiment \<Rightarrow> err option" where
  "CPUStress_Validate xp = validateTarget xp ''pod-cpu-stress''"

definition MemoryStress_Execute ::
    "'x ExecEnv \<Rightarrow> ChaosExperiment \<Rightarrow> nodeExecution ids \<times> 'x Cluster \<Rightarrow> err option \<times> nodeExecution ids \<times> 'x Cluster" where
  "MemoryStress_Execute e xp =
     on_pods e ''pod-memory-stress''
       (\<lambda>params. Inr (\<lambda>p. stress_request (m_uid (e_meta xp)) ''memory''
          (copied params [''workers'', ''size'', ''duration''] @ pod_param_list p)))
       ''daemon failure for '' xp"

definition MemoryStress_Rollback ::
    "'x ExecEnv \<Rightarrow> ChaosExperiment \<Rightarrow> nodeExecution ids \<times> 'x Cluster \<Rightarrow> err option \<times> nodeExecution ids \<times> 'x Cluster" where
  "MemoryStress_Rollback e xp = rollback_stored e ''pod-memory-stress'' xp"

definition MemoryStress_Validate :: "ChaosExperiment \<Rightarrow> err option" where
  "MemoryStress_Validate xp = validateTarget xp ''pod-memory-stress''"

text \<open>The io executor sends neither a container id nor a node name.\<close>

definition IOStress_Execute ::
    "'x ExecEnv \<Rightarrow> ChaosExperiment \<Rightarrow> nodeExecution ids \<times> 'x Cluster \<Rightarrow> err option \<times> nodeExecution ids \<times> 'x Cluster" where
  "IOStress_Execute e xp =
     on_pods e ''pod-io-stress''
       (\<lambda>params. Inr (\<lambda>p. stress_request (m_uid (e_meta xp)) ''io''
          (copied params [''workers'', ''size'', ''duration''] @ [(''podName'', pod_Name p), (''podNamespace'', pod_Namespace p)])))
       ''daemon failure for '' xp"

definition IOStress_Rollback ::
    "'x ExecEnv \<Rightarrow> ChaosExperiment \<Rightarrow> nodeExecution ids \<times> 'x Cluster \<Rightarrow> err option \<times> nodeExecution ids \<times> 'x Cluster" where
  "IOStress_Rollback e xp = rollback_stored e ''pod-io-stress'' xp"

definition IOStress_Validate :: "ChaosExperiment \<Rightarrow> err option" where
  "IOStress_Validate xp = validateTarget xp ''pod-io-stress''"

definition DNSError_Execute ::
    "'x ExecEnv \<Rightarrow> ChaosExperiment \<Rightarrow> nodeExecution ids \<times> 'x Cluster \<Rightarrow> err option \<times> nodeExecution ids \<times> 'x Cluster" where
  "DNSError_Execute e xp =
     on_pods e ''pod-dns-error''
       (\<lambda>params. Inr (\<lambda>p. DNS \<lparr>dr_experimentId = m_uid (e_meta xp), dr_action = ''error'',
          dr_parameters = copied params [''domains'', ''errorType''] @ pod_param_list p\<rparr>))
       ''daemon failure for '' xp"

definition DNSError_Rollback ::
    "'x ExecEnv \<Rightarrow> ChaosExperiment \<Rightarrow> nodeExecution ids \<times> 'x Cluster \<Rightarrow> err option \<times> nodeExecution ids \<times> 'x Cluster" where
  "DNSError_Rollback e xp = rollback_stored e ''pod-dns-error'' xp"

definition DNSError_Validate :: "ChaosExperiment \<Rightarrow> err option" where
  "DNSError_Validate xp = validateTarget xp ''pod-dns-error''"

text \<open>The port: zero when the parameter is absent, an error when it is no 32-bit number.\<close>

definition http_port :: "(string, string) gomap \<Rightarrow> err + int" where
  "http_port params =
     (case map_of params ''port'' of
        None \<Rightarrow> Inr 0
      | Some v \<Rightarrow> (case ParseInt 32 v of
                     None \<Rightarrow> Inl (''invalid port '' @ quoted v @ '': '' @ ParseInt_error v)
                   | Some p \<Rightarrow> Inr p))"

definition http_request :: "ChaosExperiment \<Rightarrow> string \<Rightarrow> string \<Rightarrow> (string, string) gomap \<Rightarrow> err + (Pod \<Rightarrow> ChaosRequest)" where
  "http_request xp action key params =
     (case http_port params of
        Inl err \<Rightarrow> Inl err
      | Inr port \<Rightarrow> Inr (\<lambda>p. HTTP \<lparr>hq_experimentId = m_uid (e_meta xp), hq_action = action, hq_port = port,
          hq_parameters = copied params [key] @ pod_param_list p\<rparr>))"

definition HTTPAbort_Execute ::
    "'x ExecEnv \<Rightarrow> ChaosExperiment \<Rightarrow> nodeExecution ids \<times> 'x Cluster \<Rightarrow> err option \<times> nodeExecution ids \<times> 'x Cluster" where
  "HTTPAbort_Execute e xp =
     on_pods e ''pod-http-abort'' (http_request xp ''abort'' ''statusCode'') ''daemon failure for '' xp"

definition HTTPAbort_Rollback ::
    "'x ExecEnv \<Rightarrow> ChaosExperiment \<Rightarrow> nodeExecution ids \<times> 'x Cluster \<Rightarrow> err option \<times> nodeExecution ids \<times> 'x Cluster" where
  "HTTPAbort_Rollback e xp = rollback_stored e ''pod-http-abort'' xp"

definition HTTPAbort_Validate :: "'x ExecEnv \<Rightarrow> ChaosExperiment \<Rightarrow> err option" where
  "HTTPAbort_Validate e xp =
     (case validateTarget xp ''pod-http-abort'' of
        Some err \<Rightarrow> Some err | None \<Rightarrow> require_params e ''pod-http-abort'' xp [''port''])"

definition HTTPDelay_Execute ::
    "'x ExecEnv \<Rightarrow> ChaosExperiment \<Rightarrow> nodeExecution ids \<times> 'x Cluster \<Rightarrow> err option \<times> nodeExecution ids \<times> 'x Cluster" where
  "HTTPDelay_Execute e xp =
     on_pods e ''pod-http-delay'' (http_request xp ''delay'' ''delay'') ''daemon failure for '' xp"

definition HTTPDelay_Rollback ::
    "'x ExecEnv \<Rightarrow> ChaosExperiment \<Rightarrow> nodeExecution ids \<times> 'x Cluster \<Rightarrow> err option \<times> nodeExecution ids \<times> 'x Cluster" where
  "HTTPDelay_Rollback e xp = rollback_stored e ''pod-http-delay'' xp"

definition HTTPDelay_Validate :: "'x ExecEnv \<Rightarrow> ChaosExperiment \<Rightarrow> err option" where
  "HTTPDelay_Validate e xp =
     (case validateTarget xp ''pod-http-delay'' of
        Some err \<Rightarrow> Some err | None \<Rightarrow> require_params e ''pod-http-delay'' xp [''port'', ''delay''])"

section \<open>Package network\<close>

definition storeExecution :: "string \<Rightarrow> string \<Rightarrow> string \<Rightarrow> executionRecord ids \<Rightarrow> executionRecord ids" where
  "storeExecution expUID endpoint execID ids = append_id expUID \<lparr>xr_endpoint = endpoint, xr_executionID = execID\<rparr> ids"

definition rollbackExecutions ::
    "'x ExecEnv \<Rightarrow> string \<Rightarrow> executionRecord ids \<times> 'x Cluster \<Rightarrow> err option \<times> executionRecord ids \<times> 'x Cluster" where
  "rollbackExecutions e expUID ic =
     (case ic of (ids, c) \<Rightarrow>
      (case cancel_all e (gm_list ids expUID) [] c of (errs, c') \<Rightarrow>
         (if errs \<noteq> [] then Some (''rollback errors: '' @ fmt_list errs) else None, gm_del expUID ids, c')))"

text \<open>A record holds the endpoint; \<open>append_id\<close> with it is \<open>storeExecution\<close>.\<close>

definition at_endpoint :: "string \<Rightarrow> string \<Rightarrow> executionRecord" where
  "at_endpoint nodeName execID = \<lparr>xr_endpoint = ResolveDaemonEndpoint nodeName, xr_executionID = execID\<rparr>"

definition network_request :: "ChaosExperiment \<Rightarrow> string \<Rightarrow> (string, string) gomap \<Rightarrow> Pod \<Rightarrow> ChaosRequest" where
  "network_request xp action params p =
     Network \<lparr>nr_experimentId = m_uid (e_meta xp), nr_action = action, nr_targetIface = [], nr_parameters = params,
       nr_namespace = pod_Namespace p, nr_podName = pod_Name p, nr_containerId = ContainerID p, nr_nodeName = pod_NodeName p\<rparr>"

definition execNetworkChaos ::
    "'x ExecEnv \<Rightarrow> ChaosExperiment \<Rightarrow> string \<Rightarrow> (string, string) gomap \<Rightarrow> string \<Rightarrow>
     executionRecord ids \<times> 'x Cluster \<Rightarrow> err option \<times> executionRecord ids \<times> 'x Cluster" where
  "execNetworkChaos e xp action params prefix ic =
     (case ic of (ids, c) \<Rightarrow>
      (case ResolveTargetPods e (s_target (e_spec xp)) c of
         (Inl err, c') \<Rightarrow> (Some (prefix @ '': resolve targets: '' @ err), ids, c')
       | (Inr pods, c') \<Rightarrow>
           run_jobs e at_endpoint prefix (m_uid (e_meta xp))
             (map (pod_job (network_request xp action params) ''daemon failure for '') pods) (ids, c')))"

text \<open>Parameters, then the chaos: the body of \<open>Execute\<close>.\<close>

definition network_Execute ::
    "'x ExecEnv \<Rightarrow> string \<Rightarrow> string \<Rightarrow> ChaosExperiment \<Rightarrow>
     executionRecord ids \<times> 'x Cluster \<Rightarrow> err option \<times> executionRecord ids \<times> 'x Cluster" where
  "network_Execute e prefix action xp ic =
     (case ParseParameters (ee_jsonErr e) xp of
        Inl err \<Rightarrow> (Some (prefix @ '': '' @ err), ic)
      | Inr params \<Rightarrow> execNetworkChaos e xp action params prefix ic)"

text \<open>
  The eBPF executors add \<open>mode\<close> to the parsed map. Unmarshalling the JSON value null sets the map to
  nil, and assigning to a nil map panics: the result \<open>None\<close>.
\<close>

definition ebpf_Execute ::
    "'x ExecEnv \<Rightarrow> string \<Rightarrow> string \<Rightarrow> ChaosExperiment \<Rightarrow>
     executionRecord ids \<times> 'x Cluster \<Rightarrow> err option option \<times> executionRecord ids \<times> 'x Cluster" where
  "ebpf_Execute e prefix action xp ic =
     (case ParseParameters (ee_jsonErr e) xp of
        Inl err \<Rightarrow> (Some (Some (prefix @ '': '' @ err)), ic)
      | Inr params \<Rightarrow>
          if a_parameters (s_action (e_spec xp)) = Some JNull then (None, ic)
          else map_prod Some id (execNetworkChaos e xp action (gm_put ''mode'' ''ebpf'' params) prefix ic))"

definition network_Validate :: "'x ExecEnv \<Rightarrow> string \<Rightarrow> ChaosExperiment \<Rightarrow> string list \<Rightarrow> err option" where
  "network_Validate e prefix xp ks =
     (case validateTarget xp prefix of Some err \<Rightarrow> Some err | None \<Rightarrow> require_params e prefix xp ks)"

definition Delay_Execute ::
    "'x ExecEnv \<Rightarrow> ChaosExperiment \<Rightarrow> executionRecord ids \<times> 'x Cluster \<Rightarrow> err option \<times> executionRecord ids \<times> 'x Cluster" where
  "Delay_Execute e xp = network_Execute e ''network-delay'' ''delay'' xp"

definition Delay_Rollback ::
    "'x ExecEnv \<Rightarrow> ChaosExperiment \<Rightarrow> executionRecord ids \<times> 'x Cluster \<Rightarrow> err option \<times> executionRecord ids \<times> 'x Cluster" where
  "Delay_Rollback e xp = rollbackExecutions e (m_uid (e_meta xp))"

definition Delay_Validate :: "'x ExecEnv \<Rightarrow> ChaosExperiment \<Rightarrow> err option" where
  "Delay_Validate e xp = network_Validate e ''network-delay'' xp [''latency'']"

definition Loss_Execute ::
    "'x ExecEnv \<Rightarrow> ChaosExperiment \<Rightarrow> executionRecord ids \<times> 'x Cluster \<Rightarrow> err option \<times> executionRecord ids \<times> 'x Cluster" where
  "Loss_Execute e xp = network_Execute e ''network-loss'' ''loss'' xp"

definition Loss_Rollback ::
    "'x ExecEnv \<Rightarrow> ChaosExperiment \<Rightarrow> executionRecord ids \<times> 'x Cluster \<Rightarrow> err option \<times> executionRecord ids \<times> 'x Cluster" where
  "Loss_Rollback e xp = rollbackExecutions e (m_uid (e_meta xp))"

definition Loss_Validate :: "'x ExecEnv \<Rightarrow> ChaosExperiment \<Rightarrow> err option" where
  "Loss_Validate e xp = network_Validate e ''network-loss'' xp [''percent'']"

definition Corrupt_Execute ::
    "'x ExecEnv \<Rightarrow> ChaosExperiment \<Rightarrow> executionRecord ids \<times> 'x Cluster \<Rightarrow> err option \<times> executionRecord ids \<times> 'x Cluster" where
  "Corrupt_Execute e xp = network_Execute e ''network-corrupt'' ''corrupt'' xp"

definition Corrupt_Rollback ::
    "'x ExecEnv \<Rightarrow> ChaosExperiment \<Rightarrow> executionRecord ids \<times> 'x Cluster \<Rightarrow> err option \<times> executionRecord ids \<times> 'x Cluster" where
  "Corrupt_Rollback e xp = rollbackExecutions e (m_uid (e_meta xp))"

definition Corrupt_Validate :: "'x ExecEnv \<Rightarrow> ChaosExperiment \<Rightarrow> err option" where
  "Corrupt_Validate e xp = network_Validate e ''network-corrupt'' xp [''percent'']"

definition Duplicate_Execute ::
    "'x ExecEnv \<Rightarrow> ChaosExperiment \<Rightarrow> executionRecord ids \<times> 'x Cluster \<Rightarrow> err option \<times> executionRecord ids \<times> 'x Cluster" where
  "Duplicate_Execute e xp = network_Execute e ''network-duplicate'' ''duplicate'' xp"

definition Duplicate_Rollback ::
    "'x ExecEnv \<Rightarrow> ChaosExperiment \<Rightarrow> executionRecord ids \<times> 'x Cluster \<Rightarrow> err option \<times> executionRecord ids \<times> 'x Cluster" where
  "Duplicate_Rollback e xp = rollbackExecutions e (m_uid (e_meta xp))"

definition Duplicate_Validate :: "'x ExecEnv \<Rightarrow> ChaosExperiment \<Rightarrow> err option" where
  "Duplicate_Validate e xp = network_Validate e ''network-duplicate'' xp [''percent'']"

definition Bandwidth_Execute ::
    "'x ExecEnv \<Rightarrow> ChaosExperiment \<Rightarrow> executionRecord ids \<times> 'x Cluster \<Rightarrow> err option \<times> executionRecord ids \<times> 'x Cluster" where
  "Bandwidth_Execute e xp = network_Execute e ''network-bandwidth'' ''bandwidth'' xp"

definition Bandwidth_Rollback ::
    "'x ExecEnv \<Rightarrow> ChaosExperiment \<Rightarrow> executionRecord ids \<times> 'x Cluster \<Rightarrow> err option \<times> executionRecord ids \<times> 'x Cluster" where
  "Bandwidth_Rollback e xp = rollbackExecutions e (m_uid (e_meta xp))"

definition Bandwidth_Validate :: "'x ExecEnv \<Rightarrow> ChaosExperiment \<Rightarrow> err option" where
  "Bandwidth_Validate e xp = network_Validate e ''network-bandwidth'' xp [''rate'', ''burst'', ''latency'']"

definition Partition_Execute ::
    "'x ExecEnv \<Rightarrow> ChaosExperiment \<Rightarrow> executionRecord ids \<times> 'x Cluster \<Rightarrow> err option \<times> executionRecord ids \<times> 'x Cluster" where
  "Partition_Execute e xp = network_Execute e ''network-partition'' ''partition'' xp"

definition Partition_Rollback ::
    "'x ExecEnv \<Rightarrow> ChaosExperiment \<Rightarrow> executionRecord ids \<times> 'x Cluster \<Rightarrow> err option \<times> executionRecord ids \<times> 'x Cluster" where
  "Partition_Rollback e xp = rollbackExecutions e (m_uid (e_meta xp))"

definition Partition_Validate :: "'x ExecEnv \<Rightarrow> ChaosExperiment \<Rightarrow> err option" where
  "Partition_Validate e xp =
     (case validateTarget xp ''network-partition'' of
        Some err \<Rightarrow> Some err
      | None \<Rightarrow>
          (case ParseParameters (ee_jsonErr e) xp of
             Inl err \<Rightarrow> Some (''network-partition: '' @ err)
           | Inr params \<Rightarrow>
               (case missing_param ''network-partition'' params [''target_cidr'', ''direction''] of
                  Some err \<Rightarrow> Some err
                | None \<Rightarrow>
                    if gm_str params ''direction'' \<notin> {''ingress'', ''egress'', ''both''}
                    then Some ''network-partition: direction must be ingress, egress, or both''
                    else None)))"

definition EBPFDelay_Execute ::
    "'x ExecEnv \<Rightarrow> ChaosExperiment \<Rightarrow> executionRecord ids \<times> 'x Cluster \<Rightarrow> err option option \<times> executionRecord ids \<times> 'x Cluster" where
  "EBPFDelay_Execute e xp = ebpf_Execute e ''ebpf-network-delay'' ''delay'' xp"

definition EBPFDelay_Rollback ::
    "'x ExecEnv \<Rightarrow> ChaosExperiment \<Rightarrow> executionRecord ids \<times> 'x Cluster \<Rightarrow> err option \<times> executionRecord ids \<times> 'x Cluster" where
  "EBPFDelay_Rollback e xp = rollbackExecutions e (m_uid (e_meta xp))"

definition EBPFDelay_Validate :: "'x ExecEnv \<Rightarrow> ChaosExperiment \<Rightarrow> err option" where
  "EBPFDelay_Validate e xp = network_Validate e ''ebpf-network-delay'' xp [''latency'']"

definition EBPFLoss_Execute ::
    "'x ExecEnv \<Rightarrow> ChaosExperiment \<Rightarrow> executionRecord ids \<times> 'x Cluster \<Rightarrow> err option option \<times> executionRecord ids \<times> 'x Cluster" where
  "EBPFLoss_Execute e xp = ebpf_Execute e ''ebpf-network-loss'' ''loss'' xp"

definition EBPFLoss_Rollback ::
    "'x ExecEnv \<Rightarrow> ChaosExperiment \<Rightarrow> executionRecord ids \<times> 'x Cluster \<Rightarrow> err option \<times> executionRecord ids \<times> 'x Cluster" where
  "EBPFLoss_Rollback e xp = rollbackExecutions e (m_uid (e_meta xp))"

definition EBPFLoss_Validate :: "'x ExecEnv \<Rightarrow> ChaosExperiment \<Rightarrow> err option" where
  "EBPFLoss_Validate e xp = network_Validate e ''ebpf-network-loss'' xp [''percent'']"

definition EBPFDNS_Execute ::
    "'x ExecEnv \<Rightarrow> ChaosExperiment \<Rightarrow> executionRecord ids \<times> 'x Cluster \<Rightarrow> err option option \<times> executionRecord ids \<times> 'x Cluster" where
  "EBPFDNS_Execute e xp = ebpf_Execute e ''ebpf-dns-chaos'' ''dns-error'' xp"

definition EBPFDNS_Rollback ::
    "'x ExecEnv \<Rightarrow> ChaosExperiment \<Rightarrow> executionRecord ids \<times> 'x Cluster \<Rightarrow> err option \<times> executionRecord ids \<times> 'x Cluster" where
  "EBPFDNS_Rollback e xp = rollbackExecutions e (m_uid (e_meta xp))"

definition EBPFDNS_Validate :: "'x ExecEnv \<Rightarrow> ChaosExperiment \<Rightarrow> err option" where
  "EBPFDNS_Validate e xp = network_Validate e ''ebpf-dns-chaos'' xp [''domains'']"

section \<open>Packages stress and node\<close>

definition StressCPU_Execute ::
    "'x ExecEnv \<Rightarrow> ChaosExperiment \<Rightarrow> nodeExecution ids \<times> 'x Cluster \<Rightarrow> err option \<times> nodeExecution ids \<times> 'x Cluster" where
  "StressCPU_Execute e xp =
     on_nodes e ''stress-cpu'' (\<lambda>params. stress_request (m_uid (e_meta xp)) ''cpu'' (copied params [''workers'', ''load'', ''duration''])) xp"

definition StressCPU_Rollback ::
    "'x ExecEnv \<Rightarrow> ChaosExperiment \<Rightarrow> nodeExecution ids \<times> 'x Cluster \<Rightarrow> err option \<times> nodeExecution ids \<times> 'x Cluster" where
  "StressCPU_Rollback e xp = rollback_stored e ''stress-cpu'' xp"

definition StressCPU_Validate :: "ChaosExperiment \<Rightarrow> err option" where
  "StressCPU_Validate xp = validateNodes xp ''stress-cpu''"

definition StressMemory_Execute ::
    "'x ExecEnv \<Rightarrow> ChaosExperiment \<Rightarrow> nodeExecution ids \<times> 'x Cluster \<Rightarrow> err option \<times> nodeExecution ids \<times> 'x Cluster" where
  "StressMemory_Execute e xp =
     on_nodes e ''stress-memory'' (\<lambda>params. stress_request (m_uid (e_meta xp)) ''memory'' (copied params [''workers'', ''size'', ''duration''])) xp"

definition StressMemory_Rollback ::
    "'x ExecEnv \<Rightarrow> ChaosExperiment \<Rightarrow> nodeExecution ids \<times> 'x Cluster \<Rightarrow> err option \<times> nodeExecution ids \<times> 'x Cluster" where
  "StressMemory_Rollback e xp = rollback_stored e ''stress-memory'' xp"

definition StressMemory_Validate :: "ChaosExperiment \<Rightarrow> err option" where
  "StressMemory_Validate xp = validateNodes xp ''stress-memory''"

definition NodeCPUStress_Execute ::
    "'x ExecEnv \<Rightarrow> ChaosExperiment \<Rightarrow> nodeExecution ids \<times> 'x Cluster \<Rightarrow> err option \<times> nodeExecution ids \<times> 'x Cluster" where
  "NodeCPUStress_Execute e xp =
     on_nodes e ''node-cpu-stress'' (\<lambda>params. stress_request (m_uid (e_meta xp)) ''cpu'' (copied params [''workers'', ''load'', ''duration''])) xp"

definition NodeCPUStress_Rollback ::
    "'x ExecEnv \<Rightarrow> ChaosExperiment \<Rightarrow> nodeExecution ids \<times> 'x Cluster \<Rightarrow> err option \<times> nodeExecution ids \<times> 'x Cluster" where
  "NodeCPUStress_Rollback e xp = rollback_stored e ''node-cpu-stress'' xp"

definition NodeCPUStress_Validate :: "ChaosExperiment \<Rightarrow> err option" where
  "NodeCPUStress_Validate xp = validateNodes xp ''node-cpu-stress''"

text \<open>Restarting sends an action the daemon does not know; only \<open>Execute\<close> and \<open>Validate\<close> are here.\<close>

definition Restart_Execute ::
    "'x ExecEnv \<Rightarrow> ChaosExperiment \<Rightarrow> nodeExecution ids \<times> 'x Cluster \<Rightarrow> err option \<times> nodeExecution ids \<times> 'x Cluster" where
  "Restart_Execute e xp =
     on_nodes e ''node-restart''
       (\<lambda>params. Node \<lparr>or_experimentId = m_uid (e_meta xp), or_action = ''restart'', or_parameters = copied params [''grace_period'']\<rparr>) xp"

definition Restart_Validate :: "ChaosExperiment \<Rightarrow> err option" where
  "Restart_Validate xp = validateNodes xp ''node-restart''"

end
