(* ===== verification/Executor_Contracts.thy ===== *)
theory Executor_Contracts
  imports Executor_Daemon "HOL-Library.Sublist"
begin

text \<open>
  What the experiment controller relies on when it calls \<open>Execute\<close> and \<open>Rollback\<close> of an executor that
  acts through the daemons. The locale \<open>daemon_executor\<close> is that contract: \<open>Execute\<close> keeps exactly the
  executions that daemons reported as started, also when it fails half-way, and a \<open>Rollback\<close> that
  reports success has asked the daemons to cancel each of them once. Every such executor of the
  packages \<open>pod\<close>, \<open>network\<close>, \<open>stress\<close> and \<open>node\<close> interprets it.
\<close>

section \<open>Definitions\<close>

text \<open>The executions that the calls started, and those they asked to cancel, as endpoint and id.\<close>

fun started :: "Rpc list \<Rightarrow> (string \<times> string) list" where
  "started [] = []"
| "started (RpcExec ep req (Inr resp) # rs) =
     (if rp_Success resp then (ep, rp_ExecutionId resp) # started rs else started rs)"
| "started (_ # rs) = started rs"

fun cancels :: "Rpc list \<Rightarrow> (string \<times> string) list" where
  "cancels [] = []"
| "cancels (RpcCancel ep i _ # rs) = (ep, i) # cancels rs"
| "cancels (_ # rs) = cancels rs"

fun cancel_ok :: "Rpc \<Rightarrow> bool" where
  "cancel_ok (RpcCancel _ _ (Inr resp)) = cp_Success resp"
| "cancel_ok _ = False"

definition node_place :: "nodeExecution \<Rightarrow> string \<times> string" where
  "node_place ne = (ResolveDaemonEndpoint (ne_nodeName ne), ne_executionID ne)"

definition record_place :: "executionRecord \<Rightarrow> string \<times> string" where
  "record_place r = (xr_endpoint r, xr_executionID r)"

abbreviation uid_of :: "ChaosExperiment \<Rightarrow> string" where
  "uid_of xp \<equiv> m_uid (e_meta xp)"

text \<open>The executors: \<open>Execute\<close> and \<open>Rollback\<close> of each.\<close>

type_synonym ('x, 'r, 'a) handler = "ChaosExperiment \<Rightarrow> 'r ids \<times> 'x Cluster \<Rightarrow> 'a \<times> 'r ids \<times> 'x Cluster"

definition stored_executors :: "'x ExecEnv \<Rightarrow> (('x, nodeExecution, err option) handler \<times> ('x, nodeExecution, err option) handler) list" where
  "stored_executors e =
     [(CPUStress_Execute e, CPUStress_Rollback e), (MemoryStress_Execute e, MemoryStress_Rollback e),
      (IOStress_Execute e, IOStress_Rollback e), (DNSError_Execute e, DNSError_Rollback e),
      (HTTPAbort_Execute e, HTTPAbort_Rollback e), (HTTPDelay_Execute e, HTTPDelay_Rollback e),
      (StressCPU_Execute e, StressCPU_Rollback e), (StressMemory_Execute e, StressMemory_Rollback e),
      (NodeCPUStress_Execute e, NodeCPUStress_Rollback e)]"

definition network_executors :: "'x ExecEnv \<Rightarrow> (('x, executionRecord, err option option) handler \<times> ('x, executionRecord, err option) handler) list" where
  "network_executors e =
     [(\<lambda>xp ic. map_prod Some id (Delay_Execute e xp ic), Delay_Rollback e), (\<lambda>xp ic. map_prod Some id (Loss_Execute e xp ic), Loss_Rollback e),
      (\<lambda>xp ic. map_prod Some id (Corrupt_Execute e xp ic), Corrupt_Rollback e), (\<lambda>xp ic. map_prod Some id (Duplicate_Execute e xp ic), Duplicate_Rollback e),
      (\<lambda>xp ic. map_prod Some id (Bandwidth_Execute e xp ic), Bandwidth_Rollback e), (\<lambda>xp ic. map_prod Some id (Partition_Execute e xp ic), Partition_Rollback e),
      (EBPFDelay_Execute e, EBPFDelay_Rollback e), (EBPFLoss_Execute e, EBPFLoss_Rollback e), (EBPFDNS_Execute e, EBPFDNS_Rollback e)]"

section \<open>The contract\<close>

definition tracks :: "('r \<Rightarrow> string \<times> string) \<Rightarrow> string \<Rightarrow> 'r ids \<times> 'x Cluster \<Rightarrow> 'r ids \<times> 'x Cluster \<Rightarrow> bool" where
  "tracks place k ic ic' \<longleftrightarrow>
     (\<exists>new. cl_rpcs (snd ic') = cl_rpcs (snd ic) @ new \<and> cancels new = [] \<and>
        map place (gm_list (fst ic') k) = map place (gm_list (fst ic) k) @ started new \<and>
        (\<forall>k'. k' \<noteq> k \<longrightarrow> gm_list (fst ic') k' = gm_list (fst ic) k'))"

locale daemon_executor =
  fixes execute :: "('x, 'r, 'a) handler"
    and rollback :: "('x, 'r, err option) handler"
    and place :: "'r \<Rightarrow> string \<times> string"
  assumes execute_tracks: "execute xp ic = (res, ic') \<Longrightarrow> tracks place (uid_of xp) ic ic'"
    and rollback_forgets: "rollback xp (ids, c) = (r, ids', c') \<Longrightarrow> ids' = gm_del (uid_of xp) ids"
    and rollback_cancels: "rollback xp (ids, c) = (r, ids', c') \<Longrightarrow>
      \<exists>new. cl_rpcs c' = cl_rpcs c @ new \<and> started new = [] \<and> subseq (cancels new) (map place (gm_list ids (uid_of xp))) \<and>
        (r = None \<longrightarrow> cancels new = map place (gm_list ids (uid_of xp)))"
begin

text \<open>A rollback that succeeds cancels what an execution started, whatever happened to the cluster in between.\<close>

lemma rollback_after_execute:
  assumes "execute xp (ids, c) = (r, ids', c')" and "gm_list ids (uid_of xp) = []"
    and "rollback xp (ids', d) = (None, ids'', d')"
  shows "\<exists>new undo. cl_rpcs c' = cl_rpcs c @ new \<and> cl_rpcs d' = cl_rpcs d @ undo \<and>
    cancels undo = started new \<and> gm_list ids'' (uid_of xp) = []"
proof -
  obtain new where "cl_rpcs c' = cl_rpcs c @ new" "map place (gm_list ids' (uid_of xp)) = started new"
    using execute_tracks [OF assms(1)] assms(2) by (auto simp: tracks_def)
  moreover obtain undo where "cl_rpcs d' = cl_rpcs d @ undo" "cancels undo = map place (gm_list ids' (uid_of xp))"
    using rollback_cancels [OF assms(3)] by auto
  moreover have "gm_list ids'' (uid_of xp) = []" using rollback_forgets [OF assms(3)] by simp
  ultimately show ?thesis by auto
qed

text \<open>The experiments of other controllers are left alone.\<close>

lemma execute_frame:
  "execute xp (ids, c) = (r, ids', c') \<Longrightarrow> k \<noteq> uid_of xp \<Longrightarrow> gm_list ids' k = gm_list ids k"
  using execute_tracks [of xp "(ids, c)"] by (auto simp: tracks_def)

end

section \<open>Lemmas\<close>

lemma started_append [simp]: "started (a @ b) = started a @ started b"
  by (induction a rule: started.induct) auto

lemma cancels_append [simp]: "cancels (a @ b) = cancels a @ cancels b"
  by (induction a rule: cancels.induct) auto

lemma kube_rpcs [simp]: "kube f c = (r, c') \<Longrightarrow> cl_rpcs c' = cl_rpcs c"
  by (auto simp: kube_def split: prod.splits)

lemma get_pods_rpcs: "get_pods e ns names ps c = (r, c') \<Longrightarrow> cl_rpcs c' = cl_rpcs c"
  by (induction e ns names ps c rule: get_pods.induct) (auto split: prod.splits sum.splits)

lemma get_nodes_rpcs: "get_nodes e names ns c = (r, c') \<Longrightarrow> cl_rpcs c' = cl_rpcs c"
  by (induction e names ns c rule: get_nodes.induct) (auto split: prod.splits sum.splits)

lemma ResolveTargetPods_rpcs [dest]: "ResolveTargetPods e t c = (r, c') \<Longrightarrow> cl_rpcs c' = cl_rpcs c"
  by (auto simp: ResolveTargetPods_def split: if_splits option.splits prod.splits sum.splits dest: get_pods_rpcs)

lemma ResolveTargetNodes_rpcs [dest]: "ResolveTargetNodes e t c = (r, c') \<Longrightarrow> cl_rpcs c' = cl_rpcs c"
  by (auto simp: ResolveTargetNodes_def split: if_splits option.splits prod.splits sum.splits dest: get_nodes_rpcs)

lemma client_Exec_rpcs: "client_Exec e ep q c = (r, c') \<Longrightarrow> cl_rpcs c' = cl_rpcs c @ [RpcExec ep q r]"
  by (auto simp: client_Exec_def split: prod.splits)

lemma client_Cancel_rpcs: "client_Cancel e ep i c = (r, c') \<Longrightarrow> cl_rpcs c' = cl_rpcs c @ [RpcCancel ep i r]"
  by (auto simp: client_Cancel_def split: prod.splits)

lemma gm_list_append_id: "gm_list (append_id k r ids) k' = (if k' = k then gm_list ids k @ [r] else gm_list ids k')"
  by (simp add: append_id_def)

lemma tracks_same: "cl_rpcs c' = cl_rpcs c \<Longrightarrow> tracks place k (ids, c) (ids, c')"
  by (simp add: tracks_def)

lemma tracks_trans:
  assumes "tracks place k a b" "tracks place k b c"
  shows "tracks place k a c"
proof -
  obtain n1 where "cl_rpcs (snd b) = cl_rpcs (snd a) @ n1" "cancels n1 = []"
    "map place (gm_list (fst b) k) = map place (gm_list (fst a) k) @ started n1"
    "\<forall>k'. k' \<noteq> k \<longrightarrow> gm_list (fst b) k' = gm_list (fst a) k'"
    using assms(1) by (auto simp: tracks_def)
  moreover obtain n2 where "cl_rpcs (snd c) = cl_rpcs (snd b) @ n2" "cancels n2 = []"
    "map place (gm_list (fst c) k) = map place (gm_list (fst b) k) @ started n2"
    "\<forall>k'. k' \<noteq> k \<longrightarrow> gm_list (fst c) k' = gm_list (fst b) k'"
    using assms(2) by (auto simp: tracks_def)
  ultimately show ?thesis by (auto simp: tracks_def intro: exI [of _ "n1 @ n2"])
qed

lemma run_jobs_tracks:
  assumes "run_jobs e mk pre k js ic = (r, ic')" and "\<And>n i. place (mk n i) = (ResolveDaemonEndpoint n, i)"
  shows "tracks place k ic ic'"
  using assms
proof (induction e mk pre k js ic arbitrary: ic' rule: run_jobs.induct)
  case (2 e mk pre k j js ids c)
  let ?ep = "ResolveDaemonEndpoint (jb_node j)"
  show ?case
  proof (cases "ee_Dial e ?ep (cl_ext c)")
    case (Some err)
    with 2 show ?thesis by (auto intro: tracks_same)
  next
    case None
    obtain a c1 where call: "client_Exec e ?ep (jb_request j) c = (a, c1)" by (cases "client_Exec e ?ep (jb_request j) c")
    note rpcs = client_Exec_rpcs [OF call]
    show ?thesis
    proof (cases "\<exists>resp. a = Inr resp \<and> rp_Success resp")
      case True
      then obtain resp where a: "a = Inr resp" "rp_Success resp" by blast
      let ?ids = "append_id k (mk (jb_node j) (rp_ExecutionId resp)) ids"
      have "tracks place k (ids, c) (?ids, c1)"
        using rpcs a by (auto simp: tracks_def gm_list_append_id 2(3))
      moreover have "tracks place k (?ids, c1) ic'"
        using 2 None call a by simp
      ultimately show ?thesis by (rule tracks_trans)
    next
      case False
      then have "started [RpcExec ?ep (jb_request j) a] = []" by (cases a) auto
      moreover have "ic' = (ids, c1)" using 2(2) None call False by (auto split: sum.splits)
      ultimately show ?thesis using rpcs by (auto simp: tracks_def)
    qed
  qed
qed (simp add: tracks_def)

lemma node_place_make: "node_place (nodeExecution.make n i) = (ResolveDaemonEndpoint n, i)"
  by (simp add: node_place_def nodeExecution.make_def)

lemma record_place_at: "record_place (at_endpoint n i) = (ResolveDaemonEndpoint n, i)"
  by (simp add: record_place_def at_endpoint_def)

lemma resolved_tracks:
  assumes "cl_rpcs c' = cl_rpcs c" and "run_jobs e mk pre k js (ids, c') = (r, ic')"
    and "\<And>n i. place (mk n i) = (ResolveDaemonEndpoint n, i)"
  shows "tracks place k (ids, c) ic'"
  using tracks_trans [OF tracks_same [OF assms(1)] run_jobs_tracks [OF assms(2,3)]] .

lemma append_id_storeExecution: "append_id k (at_endpoint n i) ids = storeExecution k (ResolveDaemonEndpoint n) i ids"
  by (simp add: storeExecution_def at_endpoint_def)

lemmas node_resolved = resolved_tracks [where mk = nodeExecution.make and place = node_place, OF _ _ node_place_make]

lemmas record_resolved = resolved_tracks [where mk = at_endpoint and place = record_place, OF _ _ record_place_at]

lemma on_pods_tracks:
  assumes "on_pods e pre req fl xp ic = (r, ic')"
  shows "tracks node_place (uid_of xp) ic ic'"
proof -
  obtain ids c where ic: "ic = (ids, c)" by (cases ic)
  obtain t c1 where t: "ResolveTargetPods e (s_target (e_spec xp)) c = (t, c1)"
    by (cases "ResolveTargetPods e (s_target (e_spec xp)) c")
  then have same: "cl_rpcs c1 = cl_rpcs c" by blast
  from assms show ?thesis
    by (auto simp: ic t on_pods_def split: sum.splits
        intro: tracks_same same node_resolved [OF same])
qed

lemma on_nodes_tracks:
  assumes "on_nodes e pre req xp ic = (r, ic')"
  shows "tracks node_place (uid_of xp) ic ic'"
proof -
  obtain ids c where ic: "ic = (ids, c)" by (cases ic)
  obtain t c1 where t: "ResolveTargetNodes e (s_target (e_spec xp)) c = (t, c1)"
    by (cases "ResolveTargetNodes e (s_target (e_spec xp)) c")
  then have same: "cl_rpcs c1 = cl_rpcs c" by blast
  from assms show ?thesis
    by (auto simp: ic t on_nodes_def split: sum.splits
        intro: tracks_same same node_resolved [OF same])
qed

lemma execNetworkChaos_tracks:
  assumes "execNetworkChaos e xp act params pre ic = (r, ic')"
  shows "tracks record_place (uid_of xp) ic ic'"
proof -
  obtain ids c where ic: "ic = (ids, c)" by (cases ic)
  obtain t c1 where t: "ResolveTargetPods e (s_target (e_spec xp)) c = (t, c1)"
    by (cases "ResolveTargetPods e (s_target (e_spec xp)) c")
  then have same: "cl_rpcs c1 = cl_rpcs c" by blast
  from assms show ?thesis
    by (auto simp: ic t execNetworkChaos_def split: sum.splits
        intro: tracks_same same record_resolved [OF same])
qed

lemma network_Execute_tracks:
  "map_prod Some id (network_Execute e pre act xp ic) = (r, ic') \<Longrightarrow> tracks record_place (uid_of xp) ic ic'"
  by (cases ic) (auto simp: network_Execute_def map_prod_def split: sum.splits prod.splits
      intro: tracks_same execNetworkChaos_tracks)

lemma ebpf_Execute_tracks: "ebpf_Execute e pre act xp ic = (r, ic') \<Longrightarrow> tracks record_place (uid_of xp) ic ic'"
  by (cases ic) (auto simp: ebpf_Execute_def map_prod_def split: sum.splits prod.splits if_splits
      intro: tracks_same execNetworkChaos_tracks)

subsection \<open>Cancelling\<close>

lemma cancel_until_error_calls:
  "cancel_until_error e pre nes c = (r, c') \<Longrightarrow>
     \<exists>new. cl_rpcs c' = cl_rpcs c @ new \<and> started new = [] \<and> prefix (cancels new) (map node_place nes) \<and>
       (r = None \<longrightarrow> cancels new = map node_place nes)"
proof (induction nes arbitrary: c)
  case (Cons ne nes)
  let ?ep = "ResolveDaemonEndpoint (ne_nodeName ne)"
  show ?case
  proof (cases "ee_Dial e ?ep (cl_ext c)")
    case None
    obtain a c1 where call: "client_Cancel e ?ep (ne_executionID ne) c = (a, c1)" by (cases "client_Cancel e ?ep (ne_executionID ne) c")
    note rpcs = client_Cancel_rpcs [OF call]
    show ?thesis
    proof (cases a)
      case (Inl err)
      with Cons.prems None call rpcs show ?thesis by (auto simp: node_place_def)
    next
      case (Inr resp)
      with Cons.prems None call have "cancel_until_error e pre nes c1 = (r, c')" by simp
      from Cons.IH [OF this] obtain new where "cl_rpcs c' = cl_rpcs c1 @ new" "started new = []"
        "prefix (cancels new) (map node_place nes)" "r = None \<longrightarrow> cancels new = map node_place nes" by blast
      with rpcs show ?thesis
        by (intro exI [of _ "RpcCancel ?ep (ne_executionID ne) a # new"]) (auto simp: node_place_def [of ne])
    qed
  qed (use Cons.prems in auto)
qed simp

lemma rollback_stored_calls:
  assumes "rollback_stored e pre xp (ids, c) = (r, ids', c')"
  shows "ids' = gm_del (uid_of xp) ids"
    and "\<exists>new. cl_rpcs c' = cl_rpcs c @ new \<and> started new = [] \<and> subseq (cancels new) (map node_place (gm_list ids (uid_of xp))) \<and>
      (r = None \<longrightarrow> cancels new = map node_place (gm_list ids (uid_of xp)))"
proof -
  have run: "cancel_until_error e pre (gm_list ids (uid_of xp)) c = (r, c')" and ids: "ids' = gm_del (uid_of xp) ids"
    using assms by (auto simp: rollback_stored_def Let_def split: prod.splits)
  show "ids' = gm_del (uid_of xp) ids" by (rule ids)
  show "\<exists>new. cl_rpcs c' = cl_rpcs c @ new \<and> started new = [] \<and> subseq (cancels new) (map node_place (gm_list ids (uid_of xp))) \<and>
      (r = None \<longrightarrow> cancels new = map node_place (gm_list ids (uid_of xp)))"
    using cancel_until_error_calls [OF run] prefix_imp_subseq by blast
qed

text \<open>The loop of \<open>rollbackExecutions\<close>: it goes on after an error.\<close>

lemma cancel_all_calls:
  "cancel_all e recs errs c = (errs', c') \<Longrightarrow>
     \<exists>new more. cl_rpcs c' = cl_rpcs c @ new \<and> started new = [] \<and> errs' = errs @ more \<and>
       subseq (cancels new) (map record_place recs) \<and>
       (more = [] \<longleftrightarrow> cancels new = map record_place recs \<and> list_all cancel_ok new)"
proof (induction recs arbitrary: errs c)
  case (Cons rec recs)
  let ?ep = "xr_endpoint rec" and ?id = "xr_executionID rec"
  have sub: "subseq (cancels new) (map record_place recs) \<Longrightarrow> cancels new \<noteq> map record_place (rec # recs)" for new
    using list_emb_length by fastforce
  show ?case
  proof (cases "ee_Dial e ?ep (cl_ext c)")
    case (Some err)
    define er where "er = ''daemon client for '' @ ?ep @ '': '' @ err"
    have "cancel_all e recs (errs @ [er]) c = (errs', c')" using Cons.prems Some by (simp add: er_def)
    from Cons.IH [OF this] obtain new more where "cl_rpcs c' = cl_rpcs c @ new" "started new = []"
      "errs' = errs @ er # more" "subseq (cancels new) (map record_place recs)" by auto
    with sub show ?thesis
      by (intro exI [of _ new] exI [of _ "er # more"]) auto
  next
    case None
    obtain a c1 where call: "client_Cancel e ?ep ?id c = (a, c1)" by (cases "client_Cancel e ?ep ?id c")
    define er where "er = (case a of Inl err \<Rightarrow> [''cancel '' @ ?id @ '': '' @ err]
      | Inr resp \<Rightarrow> if cp_Success resp then [] else [''cancel '' @ ?id @ '': '' @ cp_Message resp])"
    have er: "er = [] \<longleftrightarrow> cancel_ok (RpcCancel ?ep ?id a)" by (auto simp: er_def split: sum.splits)
    have run: "cancel_all e recs (errs @ er) c1 = (errs', c')"
      using Cons.prems None call by (auto simp: er_def split: sum.splits if_splits)
    obtain new more where new: "cl_rpcs c' = cl_rpcs c1 @ new" "started new = []" "errs' = (errs @ er) @ more"
      "subseq (cancels new) (map record_place recs)"
      "more = [] \<longleftrightarrow> cancels new = map record_place recs \<and> list_all cancel_ok new"
      using Cons.IH [OF run] by blast
    then show ?thesis using client_Cancel_rpcs [OF call] er
      by (intro exI [of _ "RpcCancel ?ep ?id a # new"] exI [of _ "er @ more"]) (auto simp: record_place_def [of rec])
  qed
qed simp

lemma rollbackExecutions_calls:
  assumes "rollbackExecutions e (uid_of xp) (ids, c) = (r, ids', c')"
  shows "ids' = gm_del (uid_of xp) ids"
    and "\<exists>new. cl_rpcs c' = cl_rpcs c @ new \<and> started new = [] \<and> subseq (cancels new) (map record_place (gm_list ids (uid_of xp))) \<and>
      (r = None \<longleftrightarrow> cancels new = map record_place (gm_list ids (uid_of xp)) \<and> list_all cancel_ok new)"
proof -
  obtain errs where run: "cancel_all e (gm_list ids (uid_of xp)) [] c = (errs, c')" and ids: "ids' = gm_del (uid_of xp) ids"
    and r: "r = None \<longleftrightarrow> errs = []"
    using assms by (auto simp: rollbackExecutions_def split: prod.splits if_splits)
  show "ids' = gm_del (uid_of xp) ids" by (rule ids)
  show "\<exists>new. cl_rpcs c' = cl_rpcs c @ new \<and> started new = [] \<and> subseq (cancels new) (map record_place (gm_list ids (uid_of xp))) \<and>
      (r = None \<longleftrightarrow> cancels new = map record_place (gm_list ids (uid_of xp)) \<and> list_all cancel_ok new)"
    using cancel_all_calls [OF run] r by auto
qed

text \<open>When the factory's answer depends on the endpoint only, every reachable daemon is called.\<close>

lemma cancel_all_reaches:
  assumes "\<And>ep x. ee_Dial e ep x = dial ep"
  shows "cancel_all e recs errs c = (errs', c') \<Longrightarrow>
    \<exists>new. cl_rpcs c' = cl_rpcs c @ new \<and> length (cancels new) = length new \<and>
      cancels new = filter (\<lambda>(ep, i). dial ep = None) (map record_place recs)"
proof (induction recs arbitrary: errs c)
  case (Cons rec recs)
  show ?case
  proof (cases "dial (xr_endpoint rec)")
    case (Some err)
    with Cons show ?thesis by (auto simp: assms record_place_def [of rec])
  next
    case None
    obtain a c1 where call: "client_Cancel e (xr_endpoint rec) (xr_executionID rec) c = (a, c1)"
      by (cases "client_Cancel e (xr_endpoint rec) (xr_executionID rec) c")
    obtain errs1 where "cancel_all e recs errs1 c1 = (errs', c')"
      using Cons.prems None call by (auto simp: assms split: sum.splits if_splits)
    from Cons.IH [OF this] client_Cancel_rpcs [OF call] None show ?thesis
      by (elim exE) (intro exI [of _ "RpcCancel (xr_endpoint rec) (xr_executionID rec) a # _"], auto simp: record_place_def [of rec])
  qed
qed simp

section \<open>The executors\<close>

lemmas stored_defs = CPUStress_Execute_def CPUStress_Rollback_def MemoryStress_Execute_def MemoryStress_Rollback_def
  IOStress_Execute_def IOStress_Rollback_def DNSError_Execute_def DNSError_Rollback_def HTTPAbort_Execute_def
  HTTPAbort_Rollback_def HTTPDelay_Execute_def HTTPDelay_Rollback_def StressCPU_Execute_def StressCPU_Rollback_def
  StressMemory_Execute_def StressMemory_Rollback_def NodeCPUStress_Execute_def NodeCPUStress_Rollback_def

lemmas network_defs = Delay_Execute_def Delay_Rollback_def Loss_Execute_def Loss_Rollback_def Corrupt_Execute_def
  Corrupt_Rollback_def Duplicate_Execute_def Duplicate_Rollback_def Bandwidth_Execute_def Bandwidth_Rollback_def
  Partition_Execute_def Partition_Rollback_def EBPFDelay_Execute_def EBPFDelay_Rollback_def EBPFLoss_Execute_def
  EBPFLoss_Rollback_def EBPFDNS_Execute_def EBPFDNS_Rollback_def

lemma pod_executor: "daemon_executor (\<lambda>xp. on_pods e pre (req xp) fl xp) (rollback_stored e pre') node_place"
  by unfold_locales (auto intro: on_pods_tracks dest: rollback_stored_calls)

lemma node_executor: "daemon_executor (\<lambda>xp. on_nodes e pre (req xp) xp) (rollback_stored e pre') node_place"
  by unfold_locales (auto intro: on_nodes_tracks dest: rollback_stored_calls)

lemma network_executor:
  "daemon_executor (\<lambda>xp ic. map_prod Some id (network_Execute e pre act xp ic)) (\<lambda>xp. rollbackExecutions e (uid_of xp)) record_place"
proof
  fix xp ids c r ids' c' assume "rollbackExecutions e (uid_of xp) (ids, c) = (r, ids', c')"
  from rollbackExecutions_calls [OF this]
  show "ids' = gm_del (uid_of xp) ids"
    "\<exists>new. cl_rpcs c' = cl_rpcs c @ new \<and> started new = [] \<and> subseq (cancels new) (map record_place (gm_list ids (uid_of xp))) \<and>
      (r = None \<longrightarrow> cancels new = map record_place (gm_list ids (uid_of xp)))" by blast+
qed (rule network_Execute_tracks)

lemma ebpf_executor:
  "daemon_executor (ebpf_Execute e pre act) (\<lambda>xp. rollbackExecutions e (uid_of xp)) record_place"
  using network_executor [of e pre act] by (auto simp: daemon_executor_def intro: ebpf_Execute_tracks)

interpretation cpu_stress: daemon_executor "CPUStress_Execute e" "CPUStress_Rollback e" node_place for e
  unfolding stored_defs [abs_def] by (rule pod_executor)

interpretation memory_stress: daemon_executor "MemoryStress_Execute e" "MemoryStress_Rollback e" node_place for e
  unfolding stored_defs [abs_def] by (rule pod_executor)

interpretation io_stress: daemon_executor "IOStress_Execute e" "IOStress_Rollback e" node_place for e
  unfolding stored_defs [abs_def] by (rule pod_executor)

interpretation dns_error: daemon_executor "DNSError_Execute e" "DNSError_Rollback e" node_place for e
  unfolding stored_defs [abs_def] by (rule pod_executor)

interpretation http_abort: daemon_executor "HTTPAbort_Execute e" "HTTPAbort_Rollback e" node_place for e
  unfolding stored_defs [abs_def] by (rule pod_executor)

interpretation http_delay: daemon_executor "HTTPDelay_Execute e" "HTTPDelay_Rollback e" node_place for e
  unfolding stored_defs [abs_def] by (rule pod_executor)

interpretation stress_cpu: daemon_executor "StressCPU_Execute e" "StressCPU_Rollback e" node_place for e
  unfolding stored_defs [abs_def] by (rule node_executor)

interpretation stress_memory: daemon_executor "StressMemory_Execute e" "StressMemory_Rollback e" node_place for e
  unfolding stored_defs [abs_def] by (rule node_executor)

interpretation node_cpu_stress: daemon_executor "NodeCPUStress_Execute e" "NodeCPUStress_Rollback e" node_place for e
  unfolding stored_defs [abs_def] by (rule node_executor)

interpretation net_delay: daemon_executor "\<lambda>xp ic. map_prod Some id (Delay_Execute e xp ic)" "Delay_Rollback e" record_place for e
  unfolding network_defs [abs_def] by (rule network_executor)

interpretation net_loss: daemon_executor "\<lambda>xp ic. map_prod Some id (Loss_Execute e xp ic)" "Loss_Rollback e" record_place for e
  unfolding network_defs [abs_def] by (rule network_executor)

interpretation net_corrupt: daemon_executor "\<lambda>xp ic. map_prod Some id (Corrupt_Execute e xp ic)" "Corrupt_Rollback e" record_place for e
  unfolding network_defs [abs_def] by (rule network_executor)

interpretation net_duplicate: daemon_executor "\<lambda>xp ic. map_prod Some id (Duplicate_Execute e xp ic)" "Duplicate_Rollback e" record_place for e
  unfolding network_defs [abs_def] by (rule network_executor)

interpretation net_bandwidth: daemon_executor "\<lambda>xp ic. map_prod Some id (Bandwidth_Execute e xp ic)" "Bandwidth_Rollback e" record_place for e
  unfolding network_defs [abs_def] by (rule network_executor)

interpretation net_partition: daemon_executor "\<lambda>xp ic. map_prod Some id (Partition_Execute e xp ic)" "Partition_Rollback e" record_place for e
  unfolding network_defs [abs_def] by (rule network_executor)

interpretation ebpfdelay: daemon_executor "EBPFDelay_Execute e" "EBPFDelay_Rollback e" record_place for e
  unfolding network_defs [abs_def] by (rule ebpf_executor)

interpretation ebpfloss: daemon_executor "EBPFLoss_Execute e" "EBPFLoss_Rollback e" record_place for e
  unfolding network_defs [abs_def] by (rule ebpf_executor)

interpretation ebpfdns: daemon_executor "EBPFDNS_Execute e" "EBPFDNS_Rollback e" record_place for e
  unfolding network_defs [abs_def] by (rule ebpf_executor)

subsection \<open>What they have in common\<close>

text \<open>From a state without ids of the experiment, a successful rollback cancels what the execution started.\<close>

definition undone_by :: "('x, 'r, 'a) handler \<Rightarrow> ('x, 'r, err option) handler \<Rightarrow> ChaosExperiment \<Rightarrow> 'r ids \<Rightarrow> 'x Cluster \<Rightarrow> 'x Cluster \<Rightarrow> bool" where
  "undone_by ex rb xp ids c d \<longleftrightarrow>
     (\<forall>r ids' c' ids'' d'. ex xp (ids, c) = (r, ids', c') \<longrightarrow> rb xp (ids', d) = (None, ids'', d') \<longrightarrow>
        (\<exists>new undo. cl_rpcs c' = cl_rpcs c @ new \<and> cl_rpcs d' = cl_rpcs d @ undo \<and>
           cancels undo = started new \<and> gm_list ids'' (uid_of xp) = []))"

lemma undone_byI: "daemon_executor ex rb place \<Longrightarrow> gm_list ids (uid_of xp) = [] \<Longrightarrow> undone_by ex rb xp ids c d"
  unfolding undone_by_def by (blast intro: daemon_executor.rollback_after_execute)

lemma stored_executor: "(ex, rb) \<in> set (stored_executors e) \<Longrightarrow> daemon_executor ex rb node_place"
  unfolding stored_executors_def
  using cpu_stress.daemon_executor_axioms memory_stress.daemon_executor_axioms io_stress.daemon_executor_axioms
    dns_error.daemon_executor_axioms http_abort.daemon_executor_axioms http_delay.daemon_executor_axioms
    stress_cpu.daemon_executor_axioms stress_memory.daemon_executor_axioms node_cpu_stress.daemon_executor_axioms
  by (elim set_ConsD [elim_format] disjE) auto

lemma network_executor_in: "(ex, rb) \<in> set (network_executors e) \<Longrightarrow> daemon_executor ex rb record_place"
  unfolding network_executors_def
  using net_delay.daemon_executor_axioms net_loss.daemon_executor_axioms net_corrupt.daemon_executor_axioms
    net_duplicate.daemon_executor_axioms net_bandwidth.daemon_executor_axioms net_partition.daemon_executor_axioms
    ebpfdelay.daemon_executor_axioms ebpfloss.daemon_executor_axioms ebpfdns.daemon_executor_axioms
  by (elim set_ConsD [elim_format] disjE) auto

lemma stored_rollback_is: "(ex, rb) \<in> set (stored_executors e) \<Longrightarrow> \<exists>pre. rb = rollback_stored e pre"
  by (auto simp: stored_executors_def stored_defs [abs_def])

lemma network_rollback_is: "(ex, rb) \<in> set (network_executors e) \<Longrightarrow> rb = (\<lambda>xp. rollbackExecutions e (uid_of xp))"
  by (auto simp: network_executors_def network_defs [abs_def])

section \<open>A cluster for examples\<close>

text \<open>
  Pods named after their node, daemons that accept every request under a running number, and, when \<open>bad\<close>
  is an endpoint, a daemon there whose cancellations do not come through.
\<close>

definition demo_env :: "string \<Rightarrow> nat ExecEnv" where
  "demo_env bad =
     \<lparr>ee_jsonErr = (\<lambda>_. ''bad json''), ee_selectorErr = (\<lambda>_. None), ee_labels = (\<lambda>_. []),
      ee_GetPod = (\<lambda>ns name x. (Inr \<lparr>pod_Name = name, pod_Namespace = ns, pod_NodeName = name, pod_ContainerIDs = [''containerd://c'' @ name]\<rparr>, x)),
      ee_ListPods = (\<lambda>ns ls x. (Inr [], x)),
      ee_GetNode = (\<lambda>name x. (Inr \<lparr>no_Name = name, no_Unschedulable = False, no_Taints = [], no_Conditions = []\<rparr>, x)),
      ee_ListNodes = (\<lambda>ls x. (Inr [], x)), ee_Dial = (\<lambda>ep x. None),
      ee_Exec = (\<lambda>ep req x. (Inr (applied ''ok'' (dec_nat x)), Suc x)),
      ee_Cancel = (\<lambda>ep i x. if ep = bad then (Inl ''unavailable'', x) else (Inr \<lparr>cp_Success = True, cp_Message = ''ok''\<rparr>, x))\<rparr>"

definition demo_cluster :: "nat Cluster" where
  "demo_cluster = \<lparr>cl_ext = 1, cl_rpcs = []\<rparr>"

definition demo_chaos :: "string \<Rightarrow> ChaosExperiment" where
  "demo_chaos action =
     \<lparr>e_meta = \<lparr>m_name = ''x'', m_namespace = ''prod'', m_uid = ''u1'', m_generation = 1, m_deletionTimestamp = None,
        m_finalizers = [], m_labels = [], m_annotations = [], m_ownerUIDs = []\<rparr>,
      e_spec = \<lparr>s_target = \<lparr>t_kind = ''Pod'', t_namespace = ''prod'', t_labelSelector = None, t_names = [''n1'', ''n2'']\<rparr>,
        s_action = \<lparr>a_type = action, a_parameters = Some (JObj [(''target_cidr'', JStr ''10.0.0.0/8''), (''direction'', JStr ''both'')]), a_duration = None\<rparr>,
        s_duration = 60, s_rollback = None, s_execution = \<lparr>ex_parallelism = None\<rparr>, s_steadyState = None, s_abortConditions = []\<rparr>,
      e_status = \<lparr>st_phase = PhaseRunning, st_startTime = None, st_endTime = None, st_recoveryStartTime = None,
        st_conditions = [], st_observedGeneration = 0, st_affectedResources = [], st_message = []\<rparr>\<rparr>"

section \<open>Properties\<close>

text \<open>
  C6. Rollback cancels what Execute started. For each of the eighteen executors that act through the
  daemons: after an \<open>Execute\<close> of an experiment with no ids kept, successful or failed half-way, a
  \<open>Rollback\<close> that reports success has asked the daemons to cancel exactly the executions that the
  daemons reported as started, once each and in that order, and no id of the experiment is kept.
\<close>

theorem rollback_cancels_executions:
  assumes "gm_list sids (uid_of xp) = []" and "gm_list nids (uid_of xp) = []"
  shows "(\<forall>(ex, rb) \<in> set (stored_executors e). undone_by ex rb xp sids c d) \<and>
    (\<forall>(ex, rb) \<in> set (network_executors e). undone_by ex rb xp nids c d)"
proof (intro conjI ballI)
  fix p assume p: "p \<in> set (stored_executors e)"
  obtain ex rb where eq: "p = (ex, rb)" by (cases p)
  show "case p of (ex, rb) \<Rightarrow> undone_by ex rb xp sids c d"
    using undone_byI [OF stored_executor [OF p [unfolded eq]] assms(1)] by (simp add: eq)
next
  fix p assume p: "p \<in> set (network_executors e)"
  obtain ex rb where eq: "p = (ex, rb)" by (cases p)
  show "case p of (ex, rb) \<Rightarrow> undone_by ex rb xp nids c d"
    using undone_byI [OF network_executor_in [OF p [unfolded eq]] assms(2)] by (simp add: eq)
qed

theorem rollback_cancels_executions_witness:
  "\<exists>ids' c' ids'' d'. Partition_Execute (demo_env []) (demo_chaos ''network-partition'') ([], demo_cluster) = (None, ids', c') \<and>
     Partition_Rollback (demo_env []) (demo_chaos ''network-partition'') (ids', c'\<lparr>cl_rpcs := []\<rparr>) = (None, ids'', d') \<and>
     started (cl_rpcs c') = [(''n1:50051'', ''1''), (''n2:50051'', ''2'')] \<and>
     cancels (cl_rpcs d') = [(''n1:50051'', ''1''), (''n2:50051'', ''2'')]"
proof -
  let ?e = "demo_env []" and ?xp = "demo_chaos ''network-partition''"
  obtain ids' c' where run: "Partition_Execute ?e ?xp ([], demo_cluster) = (None, ids', c')"
    and st: "started (cl_rpcs c') = [(''n1:50051'', ''1''), (''n2:50051'', ''2'')]"
  proof -
    have "(case Partition_Execute ?e ?xp ([], demo_cluster) of (r, ids', c') \<Rightarrow>
        r = None \<and> started (cl_rpcs c') = [(''n1:50051'', ''1''), (''n2:50051'', ''2'')])" by code_simp
    then show thesis by (auto intro: that split: prod.splits)
  qed
  obtain ids'' d' where undo: "Partition_Rollback ?e ?xp (ids', c'\<lparr>cl_rpcs := []\<rparr>) = (None, ids'', d')"
  proof -
    have "(case Partition_Execute ?e ?xp ([], demo_cluster) of (r, ids', c') \<Rightarrow>
        fst (Partition_Rollback ?e ?xp (ids', c'\<lparr>cl_rpcs := []\<rparr>)) = None)" by code_simp
    with run have "fst (Partition_Rollback ?e ?xp (ids', c'\<lparr>cl_rpcs := []\<rparr>)) = None" by simp
    then show thesis by (cases "Partition_Rollback ?e ?xp (ids', c'\<lparr>cl_rpcs := []\<rparr>)") (auto intro: that)
  qed
  have "undone_by (\<lambda>xp ic. map_prod Some id (Partition_Execute ?e xp ic)) (Partition_Rollback ?e) ?xp [] demo_cluster (c'\<lparr>cl_rpcs := []\<rparr>)"
    using rollback_cancels_executions [of "[]" ?xp "[]" ?e demo_cluster "c'\<lparr>cl_rpcs := []\<rparr>"]
    by (simp add: network_executors_def gm_list_def)
  then have "cancels (cl_rpcs d') = started (cl_rpcs c')"
    unfolding undone_by_def using run undo by (force simp: demo_cluster_def)
  with run undo st show ?thesis by metis
qed

text \<open>
  C29. The network executors leave no reachable daemon out. Whatever fails on the way, \<open>Rollback\<close> makes
  one cancellation for every recorded execution whose daemon the factory can reach, in the order of the
  executions, forgets them all, and reports success exactly when every daemon was reachable and confirmed.
\<close>

theorem network_rollback_complete:
  assumes "(ex, rb) \<in> set (network_executors e)" and "\<And>ep x. ee_Dial e ep x = dial ep"
    and "rb xp (ids, c) = (r, ids', c')"
  shows "\<exists>new. cl_rpcs c' = cl_rpcs c @ new \<and> length (cancels new) = length new \<and>
    cancels new = filter (\<lambda>(ep, i). dial ep = None) (map record_place (gm_list ids (uid_of xp))) \<and>
    ids' = gm_del (uid_of xp) ids \<and>
    (r = None \<longleftrightarrow> (\<forall>rec \<in> set (gm_list ids (uid_of xp)). dial (xr_endpoint rec) = None) \<and> list_all cancel_ok new)"
proof -
  let ?recs = "gm_list ids (uid_of xp)"
  have rb: "rollbackExecutions e (uid_of xp) (ids, c) = (r, ids', c')" using assms(3) network_rollback_is [OF assms(1)] by simp
  then obtain errs where "cancel_all e ?recs [] c = (errs, c')"
    by (auto simp: rollbackExecutions_def split: prod.splits)
  from cancel_all_reaches [OF assms(2) this] obtain new where new: "cl_rpcs c' = cl_rpcs c @ new" "length (cancels new) = length new"
    "cancels new = filter (\<lambda>(ep, i). dial ep = None) (map record_place ?recs)" by blast
  moreover have "cancels new = map record_place ?recs \<longleftrightarrow> (\<forall>rec \<in> set ?recs. dial (xr_endpoint rec) = None)"
    unfolding new(3) filter_id_conv by (auto simp: record_place_def)
  moreover have "r = None \<longleftrightarrow> cancels new = map record_place ?recs \<and> list_all cancel_ok new"
    using rollbackExecutions_calls(2) [OF rb] new(1) by auto
  ultimately show ?thesis using rollbackExecutions_calls(1) [OF rb] by blast
qed

theorem network_rollback_complete_witness:
  "\<exists>r ids' c'. Delay_Rollback (demo_env ''n1:50051'') (demo_chaos ''network-delay'')
       ([(''u1'', [\<lparr>xr_endpoint = ''n1:50051'', xr_executionID = ''1''\<rparr>, \<lparr>xr_endpoint = ''n2:50051'', xr_executionID = ''2''\<rparr>])], demo_cluster)
       = (Some r, ids', c') \<and>
     cancels (cl_rpcs c') = [(''n1:50051'', ''1''), (''n2:50051'', ''2'')] \<and> gm_list ids' ''u1'' = []"
proof -
  let ?e = "demo_env ''n1:50051''" and ?xp = "demo_chaos ''network-delay''"
  let ?ids = "[(''u1'', [\<lparr>xr_endpoint = ''n1:50051'', xr_executionID = ''1''\<rparr>, \<lparr>xr_endpoint = ''n2:50051'', xr_executionID = ''2''\<rparr>])]"
  obtain r ids' c' where run: "Delay_Rollback ?e ?xp (?ids, demo_cluster) = (r, ids', c')"
    by (cases "Delay_Rollback ?e ?xp (?ids, demo_cluster)")
  have "fst (Delay_Rollback ?e ?xp (?ids, demo_cluster)) \<noteq> None" by code_simp
  then have bad: "r \<noteq> None" using run by simp
  have uid: "uid_of ?xp = ''u1''" by (simp add: demo_chaos_def)
  have "(\<lambda>xp ic. map_prod Some id (Delay_Execute ?e xp ic), Delay_Rollback ?e) \<in> set (network_executors ?e)"
    by (simp add: network_executors_def)
  from network_rollback_complete [OF this, of "\<lambda>_. None", OF _ run] obtain new where
    "cl_rpcs c' = cl_rpcs demo_cluster @ new" "ids' = gm_del ''u1'' ?ids"
    "cancels new = map record_place (gm_list ?ids ''u1'')"
    unfolding uid by (auto simp: demo_env_def)
  with run bad show ?thesis by (auto simp: demo_cluster_def gm_list_def record_place_def)
qed

text \<open>
  C30. The pod, stress and node executors give up at the first error. When the first of the recorded
  executions cannot be cancelled, \<open>Rollback\<close> fails with no other daemon called, yet has already
  forgotten the remaining executions: whatever the cluster does in between, a retry makes no call at
  all and reports success, so those faults stay active.
\<close>

theorem stored_rollback_gives_up:
  assumes "(ex, rb) \<in> set (stored_executors e)" and "gm_list ids (uid_of xp) = ne # rest"
    and "ee_Dial e (ResolveDaemonEndpoint (ne_nodeName ne)) (cl_ext c) = None"
    and "ee_Cancel e (ResolveDaemonEndpoint (ne_nodeName ne)) (ne_executionID ne) (cl_ext c) = (Inl err, x)"
  shows "\<exists>msg c'. rb xp (ids, c) = (Some msg, gm_del (uid_of xp) ids, c') \<and>
    cl_rpcs c' = cl_rpcs c @ [RpcCancel (ResolveDaemonEndpoint (ne_nodeName ne)) (ne_executionID ne) (Inl err)] \<and>
    (\<forall>d. rb xp (gm_del (uid_of xp) ids, d) = (None, gm_del (uid_of xp) ids, d))"
proof -
  obtain pre where rb: "rb = rollback_stored e pre" using stored_rollback_is [OF assms(1)] ..
  have "gm_del k (gm_del k ids) = gm_del k ids" for k by (simp add: gm_del_def delete_idem)
  then show ?thesis using assms(2-4) by (simp add: rb rollback_stored_def client_Cancel_def)
qed

theorem stored_rollback_gives_up_witness:
  "\<exists>ids' c' msg d. CPUStress_Execute (demo_env ''n1:50051'') (demo_chaos ''pod-cpu-stress'') ([], demo_cluster) = (None, ids', c') \<and>
     started (cl_rpcs c') = [(''n1:50051'', ''1''), (''n2:50051'', ''2'')] \<and>
     CPUStress_Rollback (demo_env ''n1:50051'') (demo_chaos ''pod-cpu-stress'') (ids', c') = (Some msg, gm_del ''u1'' ids', d) \<and>
     cancels (cl_rpcs d) = [(''n1:50051'', ''1'')] \<and>
     CPUStress_Rollback (demo_env ''n1:50051'') (demo_chaos ''pod-cpu-stress'') (gm_del ''u1'' ids', d) = (None, gm_del ''u1'' ids', d)"
proof -
  let ?e = "demo_env ''n1:50051''" and ?xp = "demo_chaos ''pod-cpu-stress''"
  let ?run = "CPUStress_Execute ?e ?xp ([], demo_cluster)"
  let ?ne = "\<lparr>ne_nodeName = ''n1'', ne_executionID = ''1''\<rparr>" and ?rest = "[\<lparr>ne_nodeName = ''n2'', ne_executionID = ''2''\<rparr>]"
  obtain ids' c' where run: "?run = (None, ids', c')" and ids: "gm_list ids' ''u1'' = ?ne # ?rest"
    and st: "started (cl_rpcs c') = [(''n1:50051'', ''1''), (''n2:50051'', ''2'')]" and "cancels (cl_rpcs c') = []"
  proof -
    have "(case ?run of (r, ids', c') \<Rightarrow> r = None \<and> gm_list ids' ''u1'' = ?ne # ?rest \<and>
        started (cl_rpcs c') = [(''n1:50051'', ''1''), (''n2:50051'', ''2'')] \<and> cancels (cl_rpcs c') = [])" by code_simp
    then show thesis by (auto intro: that split: prod.splits)
  qed
  have uid: "uid_of ?xp = ''u1''" by (simp add: demo_chaos_def)
  have mem: "(CPUStress_Execute ?e, CPUStress_Rollback ?e) \<in> set (stored_executors ?e)" by (simp add: stored_executors_def)
  have "\<exists>msg d. CPUStress_Rollback ?e ?xp (ids', c') = (Some msg, gm_del ''u1'' ids', d) \<and>
      cl_rpcs d = cl_rpcs c' @ [RpcCancel ''n1:50051'' ''1'' (Inl ''unavailable'')] \<and>
      (\<forall>d. CPUStress_Rollback ?e ?xp (gm_del ''u1'' ids', d) = (None, gm_del ''u1'' ids', d))"
    using stored_rollback_gives_up [OF mem, of ids' ?xp ?ne ?rest c' "''unavailable''" "cl_ext c'"] ids
    by (simp add: uid demo_env_def ResolveDaemonEndpoint_def)
  then obtain msg d where "CPUStress_Rollback ?e ?xp (ids', c') = (Some msg, gm_del ''u1'' ids', d)"
    "cl_rpcs d = cl_rpcs c' @ [RpcCancel ''n1:50051'' ''1'' (Inl ''unavailable'')]"
    "\<forall>d. CPUStress_Rollback ?e ?xp (gm_del ''u1'' ids', d) = (None, gm_del ''u1'' ids', d)" by (elim exE conjE)
  with run st \<open>cancels (cl_rpcs c') = []\<close> show ?thesis
    by (intro exI [of _ ids'] exI [of _ c'] exI [of _ msg] exI [of _ d]) simp
qed

end
