(* ===== verification/Daemon_Faults.thy ===== *)
theory Daemon_Faults
  imports Daemon_Server
begin

text \<open>
  What the daemon guarantees about the faults it injects: cancelling an execution undoes it exactly,
  a fault on a pod stays on that pod, the table of executions and the table of eBPF programs agree in
  every run, and what a half-failed partition leaves behind.
\<close>

section \<open>Definitions\<close>

definition restored ::
    "('w, 'p, 'l) Host \<Rightarrow> ('w \<Rightarrow> string list multiset) \<Rightarrow> ('w \<Rightarrow> string \<rightharpoonup> string list) \<Rightarrow> string \<Rightarrow>
     ('w, 'p, 'l) Server \<times> 'w \<Rightarrow> ('w, 'p, 'l) Server \<times> 'w \<Rightarrow> bool" where
  "restored h rules qdisc i sw sw' \<longleftrightarrow>
     (case CancelChaos h i sw' of (resp, s'', w'') \<Rightarrow>
        cp_Success resp \<and> rules w'' = rules (snd sw) \<and> qdisc w'' = qdisc (snd sw) \<and>
        store_Get (sv_store s'') = store_Get (sv_store (fst sw)) \<and>
        manager_lookup (sv_ebpfMgr s'') = manager_lookup (sv_ebpfMgr (fst sw)))"

text \<open>What cancelling must do to the fault recorded with a type and parameters.\<close>

definition undoes ::
    "('w, 'p, 'l) Host \<Rightarrow> ('w \<Rightarrow> string list multiset) \<Rightarrow> ('w \<Rightarrow> string \<rightharpoonup> string list) \<Rightarrow> string \<Rightarrow> ExecutionInfo \<Rightarrow>
     ('w, 'p, 'l) Server \<times> 'w \<Rightarrow> ('w, 'p, 'l) Server \<times> 'w \<Rightarrow> bool" where
  "undoes h rules qdisc i info sw sw1 \<longleftrightarrow>
     (\<forall>s2 v. sv_sys s2 = sv_sys (fst sw1) \<longrightarrow> sv_ebpfMgr s2 = sv_ebpfMgr (fst sw1) \<longrightarrow>
        rules v = rules (snd sw1) \<longrightarrow> qdisc v = qdisc (snd sw1) \<longrightarrow>
        (case cancel_fault h i info (s2, v) of (s3, v3) \<Rightarrow>
           rules v3 = rules (snd sw) \<and> qdisc v3 = qdisc (snd sw) \<and> sv_store s3 = sv_store s2 \<and>
           manager_lookup (sv_ebpfMgr s3) = manager_lookup (sv_ebpfMgr (fst sw))))"

subsection \<open>Commands that stay on a pod\<close>

type_synonym cmd = "string \<times> string list"

text \<open>\<open>cmds\<close> is the list of the commands a runner was asked to run or start; nothing else adds to it.\<close>

definition log_laws :: "('w, 'p, 'l) Host \<Rightarrow> 'w CommandRunner \<Rightarrow> ('w \<Rightarrow> cmd list) \<Rightarrow> bool" where
  "log_laws h r cmds \<longleftrightarrow>
     (\<forall>name args w. cmds (snd (cr_Run r name args w)) = cmds w @ [(name, args)] \<and>
        cmds (snd (cr_Start r name args w)) = cmds w @ [(name, args)]) \<and>
     (\<forall>w. cmds (snd (ho_uuid h w)) = cmds w \<and> cmds (snd (ho_now h w)) = cmds w) \<and>
     (\<forall>spec w. cmds (snd (bk_NewProgram (ho_kernel h) spec w)) = cmds w) \<and>
     (\<forall>i p w. cmds (snd (bk_AttachTCX (ho_kernel h) i p w)) = cmds w) \<and>
     (\<forall>p w. cmds (bk_CloseProgram (ho_kernel h) p w) = cmds w)"

text \<open>
  A command that can only touch the resolved pod: a rule of the FORWARD chain bound to its veth, a
  discipline of its veth, or a process started inside its cgroup.
\<close>

definition scoped_cmd :: "Resolution \<Rightarrow> cmd \<Rightarrow> bool" where
  "scoped_cmd res c \<longleftrightarrow>
     (fst c = ''iptables'' \<and> take 2 (snd c) = [''-A'', ''FORWARD''] \<and>
        list_ex (\<lambda>(a, b). (a = ''-i'' \<or> a = ''-o'') \<and> b = rs_HostVethName res) (zip (snd c) (tl (snd c)))) \<or>
     (fst c = ''tc'' \<and> take 5 (snd c) = [''qdisc'', ''add'', ''dev'', rs_HostVethName res, ''root'']) \<or>
     (fst c = ''sh'' \<and> rs_CgroupV2Path res \<noteq> [] \<and>
        list_all (has_prefix (''echo $$ > '' @ cgroupProcsFile (rs_CgroupV2Path res) @ '' && exec '')) (tl (snd c)) \<and>
        length (snd c) = 2 \<and> hd (snd c) = ''-c'')"

fun req_params :: "ChaosRequest \<Rightarrow> (string, string) gomap" where
  "req_params (Network q) = nr_parameters q"
| "req_params (Stress q) = sr_parameters q"
| "req_params (DNS q) = dr_parameters q"
| "req_params (HTTP q) = hq_parameters q"
| "req_params (Node q) = or_parameters q"

fun req_pod :: "ChaosRequest \<Rightarrow> PodRef" where
  "req_pod (Network q) = \<lparr>pr_Namespace = nr_namespace q, pr_Name = nr_podName q, pr_ContainerID = nr_containerId q, pr_NodeName = nr_nodeName q\<rparr>"
| "req_pod req = \<lparr>pr_Namespace = gm_str (req_params req) ''podNamespace'', pr_Name = gm_str (req_params req) ''podName'',
     pr_ContainerID = gm_str (req_params req) ''containerId'', pr_NodeName = gm_str (req_params req) ''nodeName''\<rparr>"

text \<open>Node requests act on the node whatever their parameters say; every other request may name a pod.\<close>

definition names_pod :: "ChaosRequest \<Rightarrow> bool" where
  "names_pod req \<longleftrightarrow> (case req of Node _ \<Rightarrow> False | _ \<Rightarrow> pr_Name (req_pod req) \<noteq> [] \<or> pr_ContainerID (req_pod req) \<noteq> [])"

definition pod_resolution :: "('w, 'p, 'l) Server \<Rightarrow> PodRef \<Rightarrow> 'w \<Rightarrow> Resolution option" where
  "pod_resolution s ref w =
     (case sv_resolver s of None \<Rightarrow> None
      | Some rv \<Rightarrow> (case rv_Resolve rv ref w of Inl _ \<Rightarrow> None | Inr res \<Rightarrow> Some res))"

definition issued :: "('w \<Rightarrow> cmd list) \<Rightarrow> (cmd \<Rightarrow> bool) \<Rightarrow> 'w \<Rightarrow> 'w \<Rightarrow> bool" where
  "issued cmds P w w' \<longleftrightarrow> (\<exists>new. cmds w' = cmds w @ new \<and> (\<forall>c \<in> set new. P c))"

text \<open>No command at all and a refusal when the pod was not resolved, only scoped commands when it was.\<close>

definition stays_on_pod ::
    "('w \<Rightarrow> cmd list) \<Rightarrow> Resolution option \<Rightarrow> 'w \<Rightarrow> ChaosResponse option \<Rightarrow> 'w \<Rightarrow> bool" where
  "stays_on_pod cmds po w r w' \<longleftrightarrow>
     (case po of
        None \<Rightarrow> cmds w' = cmds w \<and> (\<exists>m. r = Some (refused m))
      | Some res \<Rightarrow> issued cmds (scoped_cmd res) w w')"

subsection \<open>Runs of the daemon\<close>

text \<open>
  A run: requests and cancellations one after the other, each with a fresh execution id (they are random
  UUIDs), the resolver set at any time, and the host changing in between in any way.
\<close>

inductive daemon_run :: "('w, 'p, 'l) Host \<Rightarrow> 'w CommandRunner \<Rightarrow> ('w, 'p, 'l) Server \<times> 'w \<Rightarrow> bool"
  for h :: "('w, 'p, 'l) Host" and r :: "'w CommandRunner" where
  start: "daemon_run h r (newServerWithRunner r, w)"
| wired: "daemon_run h r (s, w) \<Longrightarrow> daemon_run h r (SetResolver rv s, w)"
| exec: "daemon_run h r (s, w) \<Longrightarrow> store_Get (sv_store s) (fst (ho_uuid h w)) = None \<Longrightarrow>
    Exec h req (s, w) = (resp, s', w') \<Longrightarrow> daemon_run h r (s', w')"
| cancel: "daemon_run h r (s, w) \<Longrightarrow> CancelChaos h i (s, w) = (cresp, s', w') \<Longrightarrow> daemon_run h r (s', w')"
| elsewhere: "daemon_run h r (s, w) \<Longrightarrow> daemon_run h r (s, w')"

definition server_inv :: "('w, 'p, 'l) Server \<Rightarrow> bool" where
  "server_inv s \<longleftrightarrow> store_ok (sv_store s) \<and> manager_ok (sv_ebpfMgr s) \<and>
     (\<forall>i info. store_Get (sv_store s) i = Some info \<longrightarrow> xi_ID info = i \<and> xi_Status info = ''running'') \<and>
     (\<forall>i. manager_lookup (sv_ebpfMgr s) i \<noteq> None \<longleftrightarrow>
        (\<exists>info. store_Get (sv_store s) i = Some info \<and> ebpf_entry info))"

subsection \<open>A host for examples\<close>

definition logging :: "'w CommandRunner \<Rightarrow> ('w \<times> cmd list) CommandRunner" where
  "logging r =
     \<lparr>cr_Run = (\<lambda>name args wl. case cr_Run r name args (fst wl) of (x, w) \<Rightarrow> (x, (w, snd wl @ [(name, args)]))),
      cr_Start = (\<lambda>name args wl. case cr_Start r name args (fst wl) of (x, w) \<Rightarrow> (x, (w, snd wl @ [(name, args)])))\<rparr>"

text \<open>A runner on which every command that matches an outgoing interface fails.\<close>

definition no_out_runner :: "MemHost CommandRunner" where
  "no_out_runner = mem_runner\<lparr>cr_Run := (\<lambda>name args h. if ''-o'' \<in> set args \<and> hd args = ''-A''
     then (Inl ''no match'', h) else mem_run name args h)\<rparr>"

definition demo_kernel :: "('w, nat, nat) BpfKernel" where
  "demo_kernel = \<lparr>bk_NewProgram = (\<lambda>spec w. (Inr 0, w)), bk_AttachTCX = (\<lambda>i p w. (Inr 0, w)),
     bk_CloseProgram = (\<lambda>p w. w), bk_CloseLink = (\<lambda>l w. w)\<rparr>"

definition demo_host :: "('w, nat, nat) Host" where
  "demo_host = \<lparr>ho_kernel = demo_kernel, ho_uuid = (\<lambda>w. (''01234567-89ab'', w)), ho_now = (\<lambda>w. (0, w))\<rparr>"

definition demo_resolver :: "'w Resolver" where
  "demo_resolver = \<lparr>rv_Resolve = (\<lambda>ref w. if pr_ContainerID ref = ''c1''
       then Inr \<lparr>rs_ContainerPID = 42, rs_NetnsPath = ''/proc/42/ns/net'', rs_HostVethIfindex = 7, rs_HostVethName = ''veth7'',
                 rs_PodEth0Ifindex = 3, rs_CgroupV2Path = ''/kubepods/pod1''\<rparr>
       else Inl ''no such container''),
     rv_ResolveCgroupV2 = (\<lambda>ref w. Inl ''not used'')\<rparr>"

definition demo_server :: "'w CommandRunner \<Rightarrow> ('w, nat, nat) Server" where
  "demo_server r = SetResolver demo_resolver (newServerWithRunner r)"

definition demo_network :: "string \<Rightarrow> string \<Rightarrow> (string, string) gomap \<Rightarrow> NetworkChaosRequest" where
  "demo_network action container params =
     \<lparr>nr_experimentId = ''default/x1'', nr_action = action, nr_targetIface = [], nr_parameters = params,
      nr_namespace = ''default'', nr_podName = ''web'', nr_containerId = container, nr_nodeName = ''n1''\<rparr>"

definition demo_node :: NodeChaosRequest where
  "demo_node = \<lparr>or_experimentId = ''default/x2'', or_action = ''partition'', or_parameters = []\<rparr>"

section \<open>Lemmas\<close>

subsection \<open>Cancelling undoes\<close>

lemma host_viewD:
  assumes "host_view h r rules qdisc"
  shows "iptables_laws r rules" "tc_laws r qdisc"
    "rules (snd (ho_uuid h w)) = rules w" "qdisc (snd (ho_uuid h w)) = qdisc w"
    "rules (snd (ho_now h w)) = rules w" "qdisc (snd (ho_now h w)) = qdisc w"
    "rules (snd (bk_NewProgram (ho_kernel h) spec w)) = rules w" "qdisc (snd (bk_NewProgram (ho_kernel h) spec w)) = qdisc w"
    "rules (snd (bk_AttachTCX (ho_kernel h) i p w)) = rules w" "qdisc (snd (bk_AttachTCX (ho_kernel h) i p w)) = qdisc w"
    "rules (bk_CloseProgram (ho_kernel h) p w) = rules w" "qdisc (bk_CloseProgram (ho_kernel h) p w) = qdisc w"
    "rules (bk_CloseLink (ho_kernel h) l w) = rules w" "qdisc (bk_CloseLink (ho_kernel h) l w) = qdisc w"
  using assms by (simp_all add: host_view_def)

lemma LoadTCDrop_view:
  assumes "host_view h r rules qdisc" and "LoadTCDrop (ho_kernel h) i ifx pct (m, w) = (res, m', w')"
  shows "rules w' = rules w \<and> qdisc w' = qdisc w"
  using assms(2) host_viewD(7-14) [OF assms(1)]
  by (auto simp: LoadTCDrop_def Let_def split: if_splits prod.splits sum.splits) (metis snd_conv)+

lemma close_loaded_view:
  assumes "host_view h r rules qdisc"
  shows "rules (close_loaded (ho_kernel h) lp w) = rules w" "qdisc (close_loaded (ho_kernel h) lp w) = qdisc w"
  by (simp_all add: close_loaded_def host_viewD(11-14) [OF assms])

lemma restored_intro:
  assumes view: "host_view h r rules qdisc" and ok: "store_ok (sv_store s)" and same: "sv_store s1 = sv_store s"
    and fresh: "store_Get (sv_store s) i = None"
    and run: "record_execution h i eid ty params msg (s1, w1) = (resp, s', w')"
    and undo: "\<And>info. xi_Type info = ty \<Longrightarrow> xi_Parameters info = params \<Longrightarrow> undoes h rules qdisc i info (s, w) (s1, w1)"
  shows "restored h rules qdisc i (s, w) (s', w')"
proof -
  define info where "info = \<lparr>xi_ID = i, xi_ExperimentID = eid, xi_Type = ty, xi_Status = ''running'',
      xi_StartTime = fst (ho_now h w1), xi_Parameters = params\<rparr>"
  then have info: "xi_Type info = ty" "xi_Parameters info = params" by simp_all
  have s': "s' = s1\<lparr>sv_store := store_Add i info (sv_store s)\<rparr>" and w': "w' = snd (ho_now h w1)"
    using run by (simp_all add: record_execution_result same info_def)
  obtain s3 v3 where c: "cancel_fault h i info (s', w') = (s3, v3)" by (cases "cancel_fault h i info (s', w')")
  have "rules w' = rules w1" "qdisc w' = qdisc w1" using host_viewD(5,6) [OF view] w' by simp_all
  then have 3: "rules v3 = rules w" "qdisc v3 = qdisc w" "sv_store s3 = sv_store s'"
    "manager_lookup (sv_ebpfMgr s3) = manager_lookup (sv_ebpfMgr s)"
    using undo [OF info, unfolded undoes_def, rule_format, of s' w'] c by (simp_all add: s')
  have "store_Get (sv_store s') i = Some info" using s' ok by (simp add: store.insert_hit)
  then have "CancelChaos h i (s', w') =
      (\<lparr>cp_Success = True, cp_Message = ''execution '' @ i @ '' cancelled''\<rparr>, s3\<lparr>sv_store := store_Remove i (sv_store s3)\<rparr>, v3)"
    by (simp add: CancelChaos_def c)
  then show ?thesis
    using 3 s' ok fresh by (simp add: restored_def store.remove_insert)
qed

lemma undoes_partition:
  assumes view: "host_view h (sv_sys s) rules qdisc" and iface: "iface \<noteq> []"
    and run: "partition_pod (sv_sys s) iface (gm_str params ''direction'') (gm_str params ''target_cidr'') w = (None, w1)"
    and info: "xi_Type info = ''network''" "xi_Parameters info = gm_put ''datapath'' ''iptables'' (gm_put ''iface'' iface params)"
  shows "undoes h rules qdisc i info (s, w) (s, w1)"
proof -
  let ?a = "(iface, gm_str params ''direction'', gm_str params ''target_cidr'')"
  have run': "(case ?a of (f, d, c) \<Rightarrow> partition_pod (sv_sys s) f d c) w = (None, w1)" using run by simp
  have "qdisc w1 = qdisc w"
    using partition_fault.inject_qdisc [OF host_viewD(2) [OF view], of ?a w] run by simp
  then show ?thesis
    using iface info partition_fault.inject_restore [OF host_viewD(1) [OF view] run']
      partition_fault.restore_qdisc [OF host_viewD(2) [OF view] partition_fault.injected_accepted [OF run']]
    by (simp add: undoes_def cancel_fault_def cancel_network_def Let_def)
qed

lemma undoes_netem:
  assumes view: "host_view h (sv_sys s) rules qdisc" and iface: "iface \<noteq> []" and dp: "dp \<noteq> ''ebpf''" "dp \<noteq> ''iptables''"
    and run: "tcAddNetem (sv_sys s) iface action params w = (None, w1)"
    and info: "xi_Type info = ''network''" "xi_Parameters info = gm_put ''iface'' iface (gm_put ''datapath'' dp params)"
  shows "undoes h rules qdisc i info (s, w) (s, w1)"
proof -
  have "rules w1 = rules w"
    using rules_other [OF host_viewD(1) [OF view], of "''tc''" "tc_args iface action params" w] run by (simp add: tcAddNetem_def)
  then show ?thesis
    using iface dp info netem_added [OF host_viewD(2) [OF view] run] tcDelete_qdisc [OF host_viewD(2) [OF view]]
      tcDelete_rules [OF host_viewD(1) [OF view]]
    by (auto simp: undoes_def cancel_fault_def cancel_network_def Let_def)
qed

lemma undoes_ebpf:
  assumes view: "host_view h (sv_sys s) rules qdisc" and ok: "manager_ok (sv_ebpfMgr s)"
    and fresh: "manager_lookup (sv_ebpfMgr s) i = None" and same: "rules w1 = rules w" "qdisc w1 = qdisc w"
    and info: "xi_Type info = ''network''" "gm_str (xi_Parameters info) ''datapath'' = ''ebpf''"
  shows "undoes h rules qdisc i info (s, w) (s\<lparr>sv_ebpfMgr := manager_put i lp (sv_ebpfMgr s)\<rparr>, w1)"
  using info same ok fresh close_loaded_view [OF view]
  by (auto simp: undoes_def cancel_fault_def cancel_network_def Let_def Unload_result programs.remove_insert programs.insert_hit)

lemma undoes_dns:
  assumes view: "host_view h (sv_sys s) rules qdisc"
    and run: "dnsIntercept (sv_sys s) action (veth_target veth cg) (gm_put ''iface'' veth params) w = (None, w1)"
    and info: "xi_Type info = ''dns''" "xi_Parameters info = gm_put ''iface'' veth params"
  shows "undoes h rules qdisc i info (s, w) (s, w1)"
proof -
  let ?a = "(action, veth, cg, gm_put ''iface'' veth params)"
  have run': "(case ?a of (ac, ve, c, ps) \<Rightarrow> dnsIntercept (sv_sys s) ac (veth_target ve c) ps) w = (None, w1)" using run by simp
  have "qdisc w1 = qdisc w" using dns_fault.inject_qdisc [OF host_viewD(2) [OF view], of ?a w] run by simp
  moreover have "dnsRestore r (gm_put ''iface'' veth (gm_put ''iface'' veth params)) = dnsRestore r (gm_put ''iface'' veth params)" for r :: "'a CommandRunner"
    by (simp add: fun_eq_iff dnsRestore_def)
  ultimately show ?thesis
    using info dns_fault.inject_restore [OF host_viewD(1) [OF view] run']
      dns_fault.restore_qdisc [OF host_viewD(2) [OF view] dns_fault.injected_accepted [OF run']]
    by (simp add: undoes_def cancel_fault_def)
qed

lemma undoes_abort:
  assumes view: "host_view h (sv_sys s) rules qdisc"
    and run: "httpAbort (sv_sys s) (veth_target veth cg) port w = (None, w1)"
    and info: "xi_Type info = ''http''"
      "xi_Parameters info = gm_put ''action'' ''abort'' (gm_put ''port'' (Itoa port) (gm_put ''iface'' veth params))"
  shows "undoes h rules qdisc i info (s, w) (s, w1)"
proof -
  let ?a = "(veth, cg, port, params)"
  have run': "(case ?a of (ve, c, po, ps) \<Rightarrow> httpAbort (sv_sys s) (veth_target ve c) po) w = (None, w1)" using run by simp
  have "qdisc w1 = qdisc w" using abort_fault.inject_qdisc [OF host_viewD(2) [OF view], of ?a w] run by simp
  then show ?thesis
    using info abort_fault.inject_restore [OF host_viewD(1) [OF view] run']
      abort_fault.restore_qdisc [OF host_viewD(2) [OF view], of ?a]
    by (simp add: undoes_def cancel_fault_def)
qed

lemma undoes_http_delay:
  assumes view: "host_view h (sv_sys s) rules qdisc"
    and run: "httpDelay (sv_sys s) (veth_target veth cg) ms w = (None, w1)"
    and info: "xi_Type info = ''http''"
      "xi_Parameters info = gm_put ''action'' ''delay'' (gm_put ''port'' port (gm_put ''iface'' veth params))"
  shows "undoes h rules qdisc i info (s, w) (s, w1)"
proof -
  obtain args where "httpDelay (sv_sys s) (veth_target veth cg) ms w = run_err (sv_sys s) ''tc'' args w"
    unfolding httpDelay_def Let_def by blast
  then have "run_err (sv_sys s) ''tc'' args w = (None, w1)" using run by simp
  then have "rules w1 = rules w" using rules_other [OF host_viewD(1) [OF view], of "''tc''" args w] by simp
  then show ?thesis
    using info http_delay_added [OF host_viewD(2) [OF view] run] tcDelete_qdisc [OF host_viewD(2) [OF view]]
      tcDelete_rules [OF host_viewD(1) [OF view]]
    by (auto simp: undoes_def cancel_fault_def httpRestore_def Let_def)
qed

lemma undoes_block:
  assumes view: "host_view h (sv_sys s) rules qdisc" and run: "iptablesBlock (sv_sys s) (gm_str params ''iface'') ''both'' w = (None, w1)"
    and info: "xi_Type info = ''node''" "xi_Parameters info = params" "gm_str params ''iface'' \<noteq> []"
  shows "undoes h rules qdisc i info (s, w) (s, w1)"
proof -
  have "qdisc w1 = qdisc w" using block_fault.inject_qdisc [OF host_viewD(2) [OF view], of "gm_str params ''iface''" w] run by simp
  then show ?thesis
    using info block_fault.inject_restore [OF host_viewD(1) [OF view] run] block_fault.restore_qdisc [OF host_viewD(2) [OF view]]
      stressNGStop_frame(1) [OF host_viewD(1) [OF view]] stressNGStop_frame(2) [OF host_viewD(2) [OF view]]
    by (simp add: undoes_def cancel_fault_def cancel_node_def Let_def)
qed

lemma undoes_stress:
  assumes view: "host_view h (sv_sys s) rules qdisc" and run: "stressNGStart (sv_sys s) ty ps d cg w = (None, w1)"
    and info: "xi_Type info = ''stress'' \<or> xi_Type info = ''node'' \<and> gm_str (xi_Parameters info) ''iface'' = []"
  shows "undoes h rules qdisc i info (s, w) (s, w1)"
proof -
  have "rules w1 = rules w" "qdisc w1 = qdisc w"
    using stressNGStart_frame(1) [OF host_viewD(1) [OF view], of ty ps d cg w]
      stressNGStart_frame(2) [OF host_viewD(2) [OF view], of ty ps d cg w] run by simp_all
  then show ?thesis
    using info stressNGStop_frame(1) [OF host_viewD(1) [OF view]] stressNGStop_frame(2) [OF host_viewD(2) [OF view]]
    by (auto simp: undoes_def cancel_fault_def cancel_node_def Let_def)
qed

lemma resolvePodTarget_veth:
  "names_veths (sv_resolver s) \<Longrightarrow> resolvePodTarget s params w = Inr t \<Longrightarrow> t = veth_target (pt_hostVeth t) (pt_cgroupV2Path t)"
  by (auto simp: resolvePodTarget_def names_veths_def veth_target_def no_target_def Let_def
      split: if_splits option.splits sum.splits)

lemma resolveTarget_iface:
  "names_veths (sv_resolver s) \<Longrightarrow> resolveTarget s req w = Inr (iface, ifx) \<Longrightarrow> iface \<noteq> []"
  by (auto simp: resolveTarget_def names_veths_def Let_def split: if_splits option.splits sum.splits)

lemma restored_uuid:
  "host_view h r rules qdisc \<Longrightarrow> restored h rules qdisc i (s, snd (ho_uuid h w)) sw' \<Longrightarrow> restored h rules qdisc i (s, w) sw'"
  by (simp add: restored_def host_viewD(3,4))

lemma DNS_restored:
  assumes view: "host_view h (sv_sys s) rules qdisc" and ok: "store_ok (sv_store s)" and names: "names_veths (sv_resolver s)"
    and fresh: "store_Get (sv_store s) i = None" and i: "i = fst (ho_uuid h w)"
    and run: "ExecDNSChaos h req (s, w) = (resp, s', w')" "rp_Success resp"
  shows "restored h rules qdisc i (s, w) (s', w')"
proof -
  obtain t w1 where t: "resolvePodTarget s (dr_parameters req) (snd (ho_uuid h w)) = Inr t"
    and dns: "dnsIntercept (sv_sys s) (dr_action req) t (gm_put ''iface'' (pt_hostVeth t) (dr_parameters req)) (snd (ho_uuid h w)) = (None, w1)"
    and rec: "record_execution h i (dr_experimentId req) ''dns'' (gm_put ''iface'' (pt_hostVeth t) (dr_parameters req))
        (''dns chaos applied: '' @ dr_action req) (s, w1) = (resp, s', w')"
    using run i by (auto simp: ExecDNSChaos_def Let_def split: prod.splits sum.splits option.splits)
  have "undoes h rules qdisc i info (s, snd (ho_uuid h w)) (s, w1)"
    if "xi_Type info = ''dns''" "xi_Parameters info = gm_put ''iface'' (pt_hostVeth t) (dr_parameters req)" for info
    using undoes_dns [OF view _ that] dns resolvePodTarget_veth [OF names t] by metis
  then show ?thesis
    by (rule restored_uuid [OF view, OF restored_intro [OF view ok refl fresh rec]])
qed

lemma HTTP_restored:
  assumes view: "host_view h (sv_sys s) rules qdisc" and ok: "store_ok (sv_store s)" and names: "names_veths (sv_resolver s)"
    and fresh: "store_Get (sv_store s) i = None" and i: "i = fst (ho_uuid h w)"
    and run: "ExecHTTPChaos h req (s, w) = (resp, s', w')" "rp_Success resp"
  shows "restored h rules qdisc i (s, w) (s', w')"
proof -
  obtain t w1 where t: "resolvePodTarget s (hq_parameters req) (snd (ho_uuid h w)) = Inr t"
    and http: "(hq_action req = ''abort'' \<and> httpAbort (sv_sys s) t (hq_port req) (snd (ho_uuid h w)) = (None, w1)) \<or>
      (hq_action req = ''delay'' \<and> (\<exists>ms. httpDelay (sv_sys s) t ms (snd (ho_uuid h w)) = (None, w1)))"
    and rec: "record_execution h i (hq_experimentId req) ''http''
        (gm_put ''action'' (hq_action req) (gm_put ''port'' (Itoa (hq_port req)) (gm_put ''iface'' (pt_hostVeth t) (hq_parameters req))))
        (''http chaos applied: '' @ hq_action req) (s, w1) = (resp, s', w')"
    using run i by (auto simp: ExecHTTPChaos_def Let_def split: prod.splits sum.splits option.splits if_splits)
  have "undoes h rules qdisc i info (s, snd (ho_uuid h w)) (s, w1)"
    if "xi_Type info = ''http''" "xi_Parameters info = gm_put ''action'' (hq_action req)
      (gm_put ''port'' (Itoa (hq_port req)) (gm_put ''iface'' (pt_hostVeth t) (hq_parameters req)))" for info
    using http that undoes_abort [OF view] undoes_http_delay [OF view] resolvePodTarget_veth [OF names t] by metis
  then show ?thesis
    by (rule restored_uuid [OF view, OF restored_intro [OF view ok refl fresh rec]])
qed

lemma Stress_restored:
  assumes view: "host_view h (sv_sys s) rules qdisc" and ok: "store_ok (sv_store s)"
    and fresh: "store_Get (sv_store s) i = None" and i: "i = fst (ho_uuid h w)"
    and run: "ExecStressChaos h req (s, w) = (resp, s', w')" "rp_Success resp"
  shows "restored h rules qdisc i (s, w) (s', w')"
proof -
  obtain d cg w1 where st: "stressNGStart (sv_sys s) (sr_stressorType req) (sr_parameters req) d cg (snd (ho_uuid h w)) = (None, w1)"
    and rec: "record_execution h i (sr_experimentId req) ''stress'' (sr_parameters req)
        (''stress chaos applied: '' @ sr_stressorType req) (s, w1) = (resp, s', w')"
    using run i by (auto simp: ExecStressChaos_def Let_def split: prod.splits sum.splits option.splits if_splits)
  show ?thesis
    by (rule restored_uuid [OF view, OF restored_intro [OF view ok refl fresh rec undoes_stress [OF view st]]]) simp
qed

lemma Node_restored:
  assumes view: "host_view h (sv_sys s) rules qdisc" and ok: "store_ok (sv_store s)"
    and fresh: "store_Get (sv_store s) i = None" and i: "i = fst (ho_uuid h w)"
    and sym: "or_action req = ''partition'' \<longleftrightarrow> gm_str (or_parameters req) ''iface'' \<noteq> []"
    and run: "ExecNodeChaos h req (s, w) = (resp, s', w')" "rp_Success resp"
  shows "restored h rules qdisc i (s, w) (s', w')"
proof -
  let ?ps = "or_parameters req"
  obtain w1 where act: "(or_action req = ''cpu-stress'' \<and> stressNGStart (sv_sys s) ''cpu'' ?ps 60 [] (snd (ho_uuid h w)) = (None, w1)) \<or>
      (or_action req = ''partition'' \<and> iptablesBlock (sv_sys s) (gm_str ?ps ''iface'') ''both'' (snd (ho_uuid h w)) = (None, w1))"
    and rec: "record_execution h i (or_experimentId req) ''node'' ?ps (''node chaos applied: '' @ or_action req) (s, w1) = (resp, s', w')"
    using run i sym by (auto simp: ExecNodeChaos_def Let_def split: prod.splits option.splits if_splits)
  have "undoes h rules qdisc i info (s, snd (ho_uuid h w)) (s, w1)" if "xi_Type info = ''node''" "xi_Parameters info = ?ps" for info
    using act
  proof
    assume "or_action req = ''cpu-stress'' \<and> stressNGStart (sv_sys s) ''cpu'' ?ps 60 [] (snd (ho_uuid h w)) = (None, w1)"
    then show ?thesis using sym that by (intro undoes_stress [OF view]) auto
  next
    assume "or_action req = ''partition'' \<and> iptablesBlock (sv_sys s) (gm_str ?ps ''iface'') ''both'' (snd (ho_uuid h w)) = (None, w1)"
    then show ?thesis using sym that by (intro undoes_block [OF view, of ?ps]) auto
  qed
  then show ?thesis
    by (rule restored_uuid [OF view, OF restored_intro [OF view ok refl fresh rec]])
qed

lemma partition_restored:
  assumes view: "host_view h (sv_sys s) rules qdisc" and ok: "store_ok (sv_store s)" and fresh: "store_Get (sv_store s) i = None"
    and iface: "iface \<noteq> []" and run: "network_partition h req i iface (s, w) = (resp, s', w')" "rp_Success resp"
  shows "restored h rules qdisc i (s, w) (s', w')"
proof -
  obtain w1 where part: "partition_pod (sv_sys s) iface (gm_str (nr_parameters req) ''direction'')
      (gm_str (nr_parameters req) ''target_cidr'') w = (None, w1)"
    and rec: "record_execution h i (nr_experimentId req) ''network''
      (gm_put ''datapath'' ''iptables'' (gm_put ''iface'' iface (nr_parameters req))) ''network chaos applied: partition'' (s, w1) = (resp, s', w')"
    using run by (auto simp: network_partition_def Let_def split: prod.splits option.splits)
  show ?thesis by (rule restored_intro [OF view ok refl fresh rec undoes_partition [OF view iface part]])
qed

lemma netem_restored:
  assumes view: "host_view h (sv_sys s) rules qdisc" and ok: "store_ok (sv_store s)" and fresh: "store_Get (sv_store s) i = None"
    and iface: "iface \<noteq> []" and dp: "dp \<noteq> ''ebpf''" "dp \<noteq> ''iptables''"
    and add: "tcAddNetem (sv_sys s) iface action (nr_parameters req) w = (None, w1)"
    and run: "network_applied h req i iface dp (s, w1) = (resp, s', w')"
  shows "restored h rules qdisc i (s, w) (s', w')"
  using run unfolding network_applied_def
  by (rule restored_intro [OF view ok refl fresh _ undoes_netem [OF view iface dp add]])

lemma ebpf_loss_restored:
  assumes view: "host_view h (sv_sys s) rules qdisc" and ok: "store_ok (sv_store s)" "manager_ok (sv_ebpfMgr s)"
    and fresh: "store_Get (sv_store s) i = None" "manager_lookup (sv_ebpfMgr s) i = None"
    and iface: "iface \<noteq> []"
    and run: "network_ebpf_loss h req i iface ifx (s, w) = (Some resp, s', w')" "rp_Success resp"
  shows "restored h rules qdisc i (s, w) (s', w')"
proof (rule LoadTCDrop_cases [of i "ho_kernel h" ifx "loss_percent (nr_parameters req)" "sv_ebpfMgr s" w])
  fix e w1 assume ld: "LoadTCDrop (ho_kernel h) i ifx (loss_percent (nr_parameters req)) (sv_ebpfMgr s, w) = (Some (Some e), sv_ebpfMgr s, w1)"
  then obtain w2 where add: "tcAddNetem (sv_sys s) iface ''loss'' (nr_parameters req) w1 = (None, w2)"
    and na: "network_applied h req i iface ''netem-fallback'' (s, w2) = (resp, s', w')"
    using run by (auto simp: network_ebpf_loss_def split: prod.splits option.splits)
  have "restored h rules qdisc i (s, w1) (s', w')"
    by (rule netem_restored [OF view ok(1) fresh(1) iface _ _ add na]) simp_all
  then show ?thesis using LoadTCDrop_view [OF view ld] by (simp add: restored_def)
next
  fix lp w1 assume ld: "LoadTCDrop (ho_kernel h) i ifx (loss_percent (nr_parameters req)) (sv_ebpfMgr s, w) = (Some None, manager_put i lp (sv_ebpfMgr s), w1)"
  then have rec: "record_execution h i (nr_experimentId req) ''network'' (gm_put ''iface'' iface (gm_put ''datapath'' ''ebpf'' (nr_parameters req)))
      (''network chaos applied: '' @ nr_action req) (s\<lparr>sv_ebpfMgr := manager_put i lp (sv_ebpfMgr s)\<rparr>, w1) = (resp, s', w')"
    using run by (simp add: network_ebpf_loss_def network_applied_def)
  have same: "rules w1 = rules w" "qdisc w1 = qdisc w" using LoadTCDrop_view [OF view ld] by simp_all
  show ?thesis
    by (rule restored_intro [OF view ok(1) _ fresh(1) rec undoes_ebpf [OF view ok(2) fresh(2) same]]) simp_all
qed (use run in \<open>simp add: network_ebpf_loss_def\<close>)

lemma Network_restored:
  assumes view: "host_view h (sv_sys s) rules qdisc" and ok: "store_ok (sv_store s)" "manager_ok (sv_ebpfMgr s)"
    and names: "names_veths (sv_resolver s)" and i: "i = fst (ho_uuid h w)"
    and fresh: "store_Get (sv_store s) i = None" "manager_lookup (sv_ebpfMgr s) i = None"
    and run: "ExecNetworkChaos h req (s, w) = (Some resp, s', w')" "rp_Success resp"
  shows "restored h rules qdisc i (s, w) (s', w')"
proof (rule restored_uuid [OF view])
  let ?w = "snd (ho_uuid h w)"
  have "\<not> rp_Success e" if "resolveTarget s req ?w = Inl e" for e
    using that by (auto simp: resolveTarget_def split: if_splits option.splits sum.splits)
  with run obtain iface ifx where t: "resolveTarget s req ?w = Inr (iface, ifx)"
    by (cases "resolveTarget s req ?w") (auto simp: ExecNetworkChaos_def split: prod.splits)
  note iface = resolveTarget_iface [OF names t]
  consider (part) "network_partition h req i iface (s, ?w) = (resp, s', w')"
    | (ebpf) "network_ebpf_loss h req i iface ifx (s, ?w) = (Some resp, s', w')"
    | (netem) "network_netem h req i iface (s, ?w) = (resp, s', w')"
    using run t i by (auto simp: ExecNetworkChaos_def split: prod.splits if_splits)
  then show "restored h rules qdisc i (s, ?w) (s', w')"
  proof cases
    case part
    then show ?thesis using partition_restored [OF view ok(1) fresh(1) iface] run(2) by blast
  next
    case ebpf
    then show ?thesis using ebpf_loss_restored [OF view ok fresh iface] run(2) by blast
  next
    case netem
    then obtain w1 where add: "tcAddNetem (sv_sys s) iface (nr_action req) (nr_parameters req) ?w = (None, w1)"
      and na: "network_applied h req i iface ''netem'' (s, w1) = (resp, s', w')"
      using run(2) by (auto simp: network_netem_def split: prod.splits option.splits)
    show ?thesis by (rule netem_restored [OF view ok(1) fresh(1) iface _ _ add na]) simp_all
  qed
qed

lemma Exec_restored:
  assumes "host_view h (sv_sys s) rules qdisc" and "store_ok (sv_store s)" "manager_ok (sv_ebpfMgr s)"
    and "names_veths (sv_resolver s)" and "node_names_iface req"
    and "store_Get (sv_store s) (fst (ho_uuid h w)) = None" "manager_lookup (sv_ebpfMgr s) (fst (ho_uuid h w)) = None"
    and "Exec h req (s, w) = (Some resp, s', w')" "rp_Success resp"
  shows "restored h rules qdisc (fst (ho_uuid h w)) (s, w) (s', w')"
proof (cases req)
  case (Network q)
  then show ?thesis using assms by (intro Network_restored [where req = q and resp = resp]) auto
next
  case (Stress q)
  then show ?thesis using assms by (intro Stress_restored [where req = q and resp = resp]) auto
next
  case (DNS q)
  then show ?thesis using assms by (intro DNS_restored [where req = q and resp = resp]) auto
next
  case (HTTP q)
  then show ?thesis using assms by (intro HTTP_restored [where req = q and resp = resp]) auto
next
  case (Node q)
  then show ?thesis using assms by (intro Node_restored [where req = q and resp = resp]) (auto simp: node_names_iface_def)
qed

subsection \<open>The run invariant\<close>

lemma server_inv_same: "sv_store s' = sv_store s \<Longrightarrow> sv_ebpfMgr s' = sv_ebpfMgr s \<Longrightarrow> server_inv s \<Longrightarrow> server_inv s'"
  by (simp add: server_inv_def)

lemma inv_programs:
  "server_inv s \<Longrightarrow> manager_lookup (sv_ebpfMgr s) i = None \<longleftrightarrow>
     (\<forall>info. store_Get (sv_store s) i = Some info \<longrightarrow> \<not> ebpf_entry info)"
  unfolding server_inv_def by metis

lemma map_prod_Some_None [simp]: "map_prod Some id x \<noteq> (None, y)"
  by (cases x) simp

lemma server_inv_add:
  assumes inv: "server_inv s" and fresh: "store_Get (sv_store s) i = None"
    and st: "sv_store s' = store_Add i info (sv_store s)" and info: "xi_ID info = i" "xi_Status info = ''running''"
    and mg: "if ebpf_entry info then \<exists>lp. sv_ebpfMgr s' = manager_put i lp (sv_ebpfMgr s) else sv_ebpfMgr s' = sv_ebpfMgr s"
  shows "server_inv s'"
proof -
  have ok: "store_ok (sv_store s)" "manager_ok (sv_ebpfMgr s)" using inv by (simp_all add: server_inv_def)
  have "manager_lookup (sv_ebpfMgr s) i = None" using fresh by (simp add: inv_programs [OF inv])
  moreover have "manager_ok (sv_ebpfMgr s')" using mg ok by (auto simp: programs.invar_insert split: if_splits)
  ultimately show ?thesis
    using inv ok st info mg
    by (auto simp: server_inv_def store.lookup_insert store.invar_insert programs.lookup_insert split: if_splits)
qed

lemma Exec_panic_same:
  assumes "Exec h req (s, w) = (None, s', w')"
  shows "sv_store s' = sv_store s \<and> sv_ebpfMgr s' = sv_ebpfMgr s"
proof -
  obtain q where q: "req = Network q" using assms by (cases req) auto
  obtain iface ifx i v where "network_ebpf_loss h q i iface ifx (s, v) = (None, s', w')"
    using assms by (auto simp: q ExecNetworkChaos_def split: prod.splits sum.splits if_splits)
  then show ?thesis
    by (cases rule: LoadTCDrop_cases [of i "ho_kernel h" ifx "loss_percent (nr_parameters q)" "sv_ebpfMgr s" v])
      (auto simp: network_ebpf_loss_def split: prod.splits option.splits)
qed

lemma server_inv_Exec:
  assumes inv: "server_inv s" and fresh: "store_Get (sv_store s) (fst (ho_uuid h w)) = None"
    and run: "Exec h req (s, w) = (r, s', w')"
  shows "server_inv s'"
proof (cases r)
  case None
  then show ?thesis using Exec_panic_same [of h req s w s' w'] run by (intro server_inv_same [OF _ _ inv]) simp_all
next
  case (Some resp)
  then have ans: "answers (req_experiment req) (fst (ho_uuid h w)) s resp s'" using run Exec_answers [of h req s w resp s' w'] by simp
  show ?thesis
  proof (cases "rp_Success resp")
    case True
    with ans show ?thesis by (auto simp: answers_def intro: server_inv_add [OF inv fresh])
  next
    case False
    with ans show ?thesis by (auto simp: answers_def intro: server_inv_same [OF _ _ inv])
  qed
qed

lemma cancel_fault_tables:
  assumes "cancel_fault h i info (s, w) = (s', w')"
  shows "sv_store s' = sv_store s \<and> sv_ebpfMgr s' = (if ebpf_entry info then manager_del i (sv_ebpfMgr s) else sv_ebpfMgr s)"
  using assms
  by (auto simp: cancel_fault_def cancel_network_def ebpf_entry_def Let_def Unload_result split: if_splits)

lemma server_inv_Cancel:
  assumes inv: "server_inv s" and run: "CancelChaos h i (s, w) = (resp, s', w')"
  shows "server_inv s'"
proof (cases "store_Get (sv_store s) i")
  case None
  with inv run show ?thesis by (simp add: CancelChaos_def)
next
  case (Some info)
  obtain s1 w1 where c: "cancel_fault h i info (s, w) = (s1, w1)" by (cases "cancel_fault h i info (s, w)")
  have s': "s' = s1\<lparr>sv_store := store_Remove i (sv_store s1)\<rparr>" using run Some c by (simp add: CancelChaos_def)
  have t: "sv_store s1 = sv_store s" "sv_ebpfMgr s1 = (if ebpf_entry info then manager_del i (sv_ebpfMgr s) else sv_ebpfMgr s)"
    using cancel_fault_tables [OF c] by simp_all
  have ok: "store_ok (sv_store s)" "manager_ok (sv_ebpfMgr s)" using inv by (simp_all add: server_inv_def)
  have "manager_ok (sv_ebpfMgr s1)" using ok by (simp add: t programs.invar_remove)
  moreover have "ebpf_entry info \<or> manager_lookup (sv_ebpfMgr s) i = None" using Some by (simp add: inv_programs [OF inv])
  ultimately show ?thesis
    using inv ok Some unfolding server_inv_def s'
    by (auto simp: t store.lookup_remove store.invar_remove programs.lookup_remove split: if_splits)
qed

lemma daemon_run_inv: "daemon_run h r sw \<Longrightarrow> server_inv (fst sw)"
proof (induction rule: daemon_run.induct)
  case (start w)
  show ?case
    by (simp add: server_inv_def newServerWithRunner_def store_ok_def NewExecutionStore_def manager_ok_def store_Get_def
        manager_lookup_def NewManager_def)
next
  case (wired s w rv)
  then show ?case using server_inv_same [of "SetResolver rv s" s] by (simp add: SetResolver_def)
next
  case (exec s w req resp s' w')
  then show ?case using server_inv_Exec [of s h w req resp s' w'] by simp
next
  case (cancel s w i cresp s' w')
  then show ?case using server_inv_Cancel [of s h i w cresp s' w'] by simp
qed simp

subsection \<open>Faults stay on their pod\<close>

lemma log_lawsD:
  assumes "log_laws h r cmds"
  shows "cmds (snd (run_err r name args w)) = cmds w @ [(name, args)]"
    "cmds (snd (cr_Start r name args w)) = cmds w @ [(name, args)]"
    "cmds (snd (ho_uuid h w)) = cmds w" "cmds (snd (ho_now h w)) = cmds w"
    "cmds (snd (bk_NewProgram (ho_kernel h) spec w)) = cmds w"
    "cmds (snd (bk_AttachTCX (ho_kernel h) i p w)) = cmds w"
    "cmds (bk_CloseProgram (ho_kernel h) p w) = cmds w"
proof -
  have "cmds (snd (cr_Run r name args w)) = cmds w @ [(name, args)]" using assms by (simp add: log_laws_def)
  then show "cmds (snd (run_err r name args w)) = cmds w @ [(name, args)]"
    by (cases "cr_Run r name args w") (auto simp: run_err_def split: sum.splits)
qed (use assms in \<open>simp_all add: log_laws_def\<close>)

lemma issued_same: "cmds w' = cmds w \<Longrightarrow> issued cmds P w w'"
  by (simp add: issued_def)

lemma issued_run: "log_laws h r cmds \<Longrightarrow> P (name, args) \<Longrightarrow> issued cmds P w (snd (run_err r name args w))"
  by (simp add: issued_def log_lawsD)

lemma issued_start: "log_laws h r cmds \<Longrightarrow> P (name, args) \<Longrightarrow> issued cmds P w (snd (cr_Start r name args w))"
  by (simp add: issued_def log_lawsD)

lemma issued_trans: "issued cmds P w v \<Longrightarrow> issued cmds P v u \<Longrightarrow> issued cmds P w u"
  by (auto simp: issued_def)

lemma issued_add_rules:
  "log_laws h r cmds \<Longrightarrow> \<forall>b \<in> set bodies. P (''iptables'', ''-A'' # b) \<Longrightarrow> issued cmds P w (snd (add_rules r bodies w))"
proof (induction r bodies w rule: add_rules.induct)
  case (2 r body bodies w)
  obtain e w1 where run: "run_err r ''iptables'' (''-A'' # body) w = (e, w1)" by (cases "run_err r ''iptables'' (''-A'' # body) w")
  have "issued cmds P w w1" using issued_run [OF "2.prems"(1), of P "''iptables''" "''-A'' # body" w] "2.prems"(2) run by simp
  moreover have "e = None \<Longrightarrow> issued cmds P w1 (snd (add_rules r bodies w1))" using "2.IH" "2.prems" run by auto
  ultimately show ?case using run issued_trans by (cases e) auto
qed (simp add: issued_same)

lemma issued_rec:
  assumes "log_laws h r cmds" and "issued cmds P w w1" and "record_execution h i eid ty params msg (s, w1) = (resp, s', w')"
  shows "issued cmds P w w'"
  using assms(2,3) log_lawsD(4) [OF assms(1), of w1] by (auto simp: record_execution_result issued_def)

lemma issued_LoadTCDrop:
  assumes "log_laws h r cmds" and "LoadTCDrop (ho_kernel h) i ifx pct (m, w) = (res, m', w')"
  shows "cmds w' = cmds w"
  using assms(2) log_lawsD(5-7) [OF assms(1)]
  by (auto simp: LoadTCDrop_def Let_def split: if_splits prod.splits sum.splits) (metis snd_conv)+

lemma issued_dns:
  assumes "log_laws h r cmds" and "pt_scoped t" and "pt_hostVeth t = rs_HostVethName res"
  shows "issued cmds (scoped_cmd res) w (snd (dnsIntercept r action t params w))"
proof (cases "gm_str params ''domains'' = [] \<or> action \<noteq> ''error''")
  case True
  then show ?thesis by (auto simp: dnsIntercept_def Let_def intro: issued_same)
next
  case False
  then have "dnsIntercept r action t params w = add_rules r (dns_bodies (rs_HostVethName res) True (gm_str params ''domains'')) w"
    using assms by (simp add: dnsIntercept_def dns_loop_add_rules dns_bodies_def)
  moreover have "\<forall>b \<in> set (dns_bodies (rs_HostVethName res) True ds). scoped_cmd res (''iptables'', ''-A'' # b)" for ds
    by (auto simp: dns_bodies_def dnsRuleBodies_def scoped_cmd_def)
  ultimately show ?thesis using issued_add_rules [OF assms(1)] by simp
qed

lemma issued_http:
  assumes "log_laws h r cmds" and "pt_scoped t" and "pt_hostVeth t = rs_HostVethName res"
  shows "issued cmds (scoped_cmd res) w (snd (httpAbort r t port w))"
    and "issued cmds (scoped_cmd res) w (snd (httpDelay r t ms w))"
  unfolding httpAbort_def httpDelay_def Let_def
  by (rule issued_run [OF assms(1)], simp add: scoped_cmd_def httpAbortRuleBody_def assms)+

lemma issued_stress:
  assumes "log_laws h r cmds" and "rs_CgroupV2Path res \<noteq> []"
  shows "issued cmds (scoped_cmd res) w (snd (stressNGStart r ty params d (rs_CgroupV2Path res) w))"
proof -
  have "stressNGStart r ty params d (rs_CgroupV2Path res) w = cr_Start r ''sh'' [''-c'',
      (''echo $$ > '' @ cgroupProcsFile (rs_CgroupV2Path res) @ '' && exec '') @ join_on (CHR 0x20) (''stress-ng'' # stress_args ty params d)] w"
    using assms(2) by (simp add: stressNGStart_def startInCgroup_def Let_def)
  then show ?thesis
    using assms(2) by (simp only:) (intro issued_start [OF assms(1)], simp only: scoped_cmd_def fst_conv snd_conv list.sel list.pred_inject has_prefix_append, simp)
qed

lemma issued_partition:
  assumes "log_laws h r cmds"
  shows "issued cmds (scoped_cmd res) w (snd (partition_pod r (rs_HostVethName res) d c w))"
proof (cases "c = []")
  case True
  then show ?thesis by (simp add: partition_pod_def issued_same)
next
  case False
  have "\<forall>b \<in> set (partitionRules (rs_HostVethName res) dir c). scoped_cmd res (''iptables'', ''-A'' # b)" for dir
    by (auto simp: partitionRules_def scoped_cmd_def Let_def split: if_splits)
  with False show ?thesis using issued_add_rules [OF assms] by (simp add: partition_pod_def Let_def)
qed

lemma issued_netem:
  "log_laws h r cmds \<Longrightarrow> issued cmds (scoped_cmd res) w (snd (tcAddNetem r (rs_HostVethName res) action params w))"
  unfolding tcAddNetem_def tc_args_spec by (erule issued_run) (simp add: scoped_cmd_def)

lemma resolvePodTarget_pod:
  assumes "gm_str params ''podName'' \<noteq> [] \<or> gm_str params ''containerId'' \<noteq> []"
    and "po = pod_resolution s \<lparr>pr_Namespace = gm_str params ''podNamespace'', pr_Name = gm_str params ''podName'',
      pr_ContainerID = gm_str params ''containerId'', pr_NodeName = gm_str params ''nodeName''\<rparr> w"
  shows "po = None \<Longrightarrow> \<exists>e. resolvePodTarget s params w = Inl e"
    and "po = Some res \<Longrightarrow> resolvePodTarget s params w =
      Inr \<lparr>pt_scoped = True, pt_hostVeth = rs_HostVethName res, pt_cgroupV2Path = rs_CgroupV2Path res\<rparr>"
  using assms by (auto simp: resolvePodTarget_def pod_resolution_def Let_def split: option.splits sum.splits)

lemma resolveTarget_pod:
  assumes "nr_podName q \<noteq> [] \<or> nr_containerId q \<noteq> []" and "po = pod_resolution s (req_pod (Network q)) w"
  shows "po = None \<Longrightarrow> \<exists>m. resolveTarget s q w = Inl (refused m)"
    and "po = Some res \<Longrightarrow> resolveTarget s q w = Inr (rs_HostVethName res, rs_HostVethIfindex res)"
  using assms by (auto simp: resolveTarget_def pod_resolution_def split: option.splits sum.splits)

lemma issued_network:
  assumes laws: "log_laws h (sv_sys s) cmds"
  shows "network_partition h q i (rs_HostVethName res) (s, w) = (resp, s', w') \<Longrightarrow> issued cmds (scoped_cmd res) w w'"
    and "network_netem h q i (rs_HostVethName res) (s, w) = (resp, s', w') \<Longrightarrow> issued cmds (scoped_cmd res) w w'"
    and "network_ebpf_loss h q i (rs_HostVethName res) ifx (s, w) = (r, s', w') \<Longrightarrow> issued cmds (scoped_cmd res) w w'"
proof -
  let ?ps = "nr_parameters q"
  show "issued cmds (scoped_cmd res) w w'" if run: "network_partition h q i (rs_HostVethName res) (s, w) = (resp, s', w')"
  proof -
    obtain e w1 where p: "partition_pod (sv_sys s) (rs_HostVethName res) (gm_str ?ps ''direction'') (gm_str ?ps ''target_cidr'') w = (e, w1)"
      by (cases "partition_pod (sv_sys s) (rs_HostVethName res) (gm_str ?ps ''direction'') (gm_str ?ps ''target_cidr'') w")
    have "issued cmds (scoped_cmd res) w w1" using issued_partition [OF laws, of res w] p by (metis snd_conv)
    with run p show ?thesis by (cases e) (auto simp: network_partition_def Let_def intro: issued_rec [OF laws])
  qed
  have na: "issued cmds (scoped_cmd res) w w'" if "network_applied h q i (rs_HostVethName res) dp (s1, w1) = (resp, s', w')"
    "issued cmds (scoped_cmd res) w w1" for dp s1 w1 resp s'
    by (rule issued_rec [OF laws that(2) that(1) [unfolded network_applied_def]])
  show "issued cmds (scoped_cmd res) w w'" if run: "network_netem h q i (rs_HostVethName res) (s, w) = (resp, s', w')"
  proof -
    obtain e w1 where p: "tcAddNetem (sv_sys s) (rs_HostVethName res) (nr_action q) ?ps w = (e, w1)"
      by (cases "tcAddNetem (sv_sys s) (rs_HostVethName res) (nr_action q) ?ps w")
    have "issued cmds (scoped_cmd res) w w1" using issued_netem [OF laws, of res w] p by (metis snd_conv)
    with run p na show ?thesis by (cases e) (auto simp: network_netem_def)
  qed
  show "issued cmds (scoped_cmd res) w w'" if run: "network_ebpf_loss h q i (rs_HostVethName res) ifx (s, w) = (r, s', w')"
  proof -
    obtain l m w1 where ld: "LoadTCDrop (ho_kernel h) i ifx (loss_percent ?ps) (sv_ebpfMgr s, w) = (l, m, w1)"
      by (cases "LoadTCDrop (ho_kernel h) i ifx (loss_percent ?ps) (sv_ebpfMgr s, w)")
    have 1: "issued cmds (scoped_cmd res) w w1" using issued_LoadTCDrop [OF laws ld] by (rule issued_same)
    obtain e w2 where p: "tcAddNetem (sv_sys s) (rs_HostVethName res) ''loss'' ?ps w1 = (e, w2)"
      by (cases "tcAddNetem (sv_sys s) (rs_HostVethName res) ''loss'' ?ps w1")
    have 2: "issued cmds (scoped_cmd res) w w2" using issued_trans [OF 1] issued_netem [OF laws, of res w1] p by (metis snd_conv)
    show ?thesis
    proof (cases r)
      case (Some resp)
      with run ld p 1 2 na show ?thesis
        by (auto simp: network_ebpf_loss_def split: option.splits)
    next
      case None
      with run ld p 1 show ?thesis by (auto simp: network_ebpf_loss_def split: option.splits)
    qed
  qed
qed

lemma stays_Network:
  assumes laws: "log_laws h (sv_sys s) cmds" and pod: "names_pod (Network q)"
    and run: "ExecNetworkChaos h q (s, w) = (r, s', w')"
  shows "stays_on_pod cmds (pod_resolution s (req_pod (Network q)) (snd (ho_uuid h w))) w r w'"
proof -
  obtain i v where u: "ho_uuid h w = (i, v)" by (cases "ho_uuid h w")
  have v: "cmds v = cmds w" using log_lawsD(3) [OF laws, of w] u by simp
  have q: "nr_podName q \<noteq> [] \<or> nr_containerId q \<noteq> []" using pod by (simp add: names_pod_def)
  show ?thesis
  proof (cases "pod_resolution s (req_pod (Network q)) v")
    case None
    then obtain m where "resolveTarget s q v = Inl (refused m)" using resolveTarget_pod(1) [OF q refl None] by (elim exE)
    then have "r = Some (refused m)" "w' = v" using run u by (simp_all add: ExecNetworkChaos_def)
    then show ?thesis using v None unfolding stays_on_pod_def u snd_conv by auto
  next
    case (Some res)
    then have "resolveTarget s q v = Inr (rs_HostVethName res, rs_HostVethIfindex res)" by (rule resolveTarget_pod(2) [OF q refl])
    then have "issued cmds (scoped_cmd res) v w'"
      using run u issued_network(1) [OF laws, of q i res v] issued_network(2) [OF laws, of q i res v] issued_network(3) [OF laws, of q i res _ v]
      by (auto simp: ExecNetworkChaos_def map_prod_def split: prod.splits if_splits)
    then show ?thesis using Some v unfolding stays_on_pod_def u snd_conv by (simp add: issued_def)
  qed
qed

lemma stays_pod_target:
  assumes laws: "log_laws h (sv_sys s) cmds" and u: "ho_uuid h w = (i, v)"
    and pod: "gm_str ps ''podName'' \<noteq> [] \<or> gm_str ps ''containerId'' \<noteq> []"
    and ref: "ref = \<lparr>pr_Namespace = gm_str ps ''podNamespace'', pr_Name = gm_str ps ''podName'',
      pr_ContainerID = gm_str ps ''containerId'', pr_NodeName = gm_str ps ''nodeName''\<rparr>"
    and refuse: "\<And>e. resolvePodTarget s ps v = Inl e \<Longrightarrow> w' = v \<and> (\<exists>m. r = Some (refused m))"
    and act: "\<And>res. resolvePodTarget s ps v = Inr \<lparr>pt_scoped = True, pt_hostVeth = rs_HostVethName res, pt_cgroupV2Path = rs_CgroupV2Path res\<rparr> \<Longrightarrow>
      issued cmds (scoped_cmd res) v w'"
  shows "stays_on_pod cmds (pod_resolution s ref v) w r w'"
proof -
  have v: "cmds v = cmds w" using log_lawsD(3) [OF laws, of w] u by simp
  show ?thesis
  proof (cases "pod_resolution s ref v")
    case None
    then show ?thesis using resolvePodTarget_pod(1) [OF pod, of "pod_resolution s ref v" s v] refuse v by (auto simp: ref stays_on_pod_def)
  next
    case (Some res)
    then have "issued cmds (scoped_cmd res) v w'" using resolvePodTarget_pod(2) [OF pod, of "pod_resolution s ref v" s v res] act by (simp add: ref)
    then show ?thesis using Some v by (simp add: stays_on_pod_def issued_def)
  qed
qed

lemma stays_DNS:
  assumes laws: "log_laws h (sv_sys s) cmds" and pod: "names_pod (DNS q)" and run: "ExecDNSChaos h q (s, w) = (resp, s', w')"
  shows "stays_on_pod cmds (pod_resolution s (req_pod (DNS q)) (snd (ho_uuid h w))) w (Some resp) w'"
proof -
  obtain i v where u: "ho_uuid h w = (i, v)" by (cases "ho_uuid h w")
  have "stays_on_pod cmds (pod_resolution s (req_pod (DNS q)) v) w (Some resp) w'"
  proof (rule stays_pod_target [OF laws u])
    fix res :: Resolution assume t: "resolvePodTarget s (dr_parameters q) v =
        Inr \<lparr>pt_scoped = True, pt_hostVeth = rs_HostVethName res, pt_cgroupV2Path = rs_CgroupV2Path res\<rparr>" (is "_ = Inr ?t")
    obtain e w1 where d: "dnsIntercept (sv_sys s) (dr_action q) ?t (gm_put ''iface'' (rs_HostVethName res) (dr_parameters q)) v = (e, w1)"
      by (cases "dnsIntercept (sv_sys s) (dr_action q) ?t (gm_put ''iface'' (rs_HostVethName res) (dr_parameters q)) v")
    have "issued cmds (scoped_cmd res) v w1" using issued_dns [OF laws, of ?t res v] d by (simp, metis snd_conv)
    then show "issued cmds (scoped_cmd res) v w'"
      using run u t d issued_rec [OF laws, of "scoped_cmd res" v w1] by (cases e) (auto simp: ExecDNSChaos_def Let_def)
  qed (use pod run u in \<open>auto simp: names_pod_def ExecDNSChaos_def\<close>)
  then show ?thesis by (simp add: u)
qed

lemma stays_Stress:
  assumes laws: "log_laws h (sv_sys s) cmds" and pod: "names_pod (Stress q)" and run: "ExecStressChaos h q (s, w) = (resp, s', w')"
  shows "stays_on_pod cmds (pod_resolution s (req_pod (Stress q)) (snd (ho_uuid h w))) w (Some resp) w'"
proof -
  obtain i v where u: "ho_uuid h w = (i, v)" by (cases "ho_uuid h w")
  have "stays_on_pod cmds (pod_resolution s (req_pod (Stress q)) v) w (Some resp) w'"
  proof (rule stays_pod_target [OF laws u])
    fix res :: Resolution assume t: "resolvePodTarget s (sr_parameters q) v =
        Inr \<lparr>pt_scoped = True, pt_hostVeth = rs_HostVethName res, pt_cgroupV2Path = rs_CgroupV2Path res\<rparr>"
    let ?start = "stressNGStart (sv_sys s) (sr_stressorType q) (sr_parameters q) (stress_duration (sr_parameters q)) (rs_CgroupV2Path res) v"
    obtain e w1 where d: "?start = (e, w1)" by (cases ?start)
    show "issued cmds (scoped_cmd res) v w'"
    proof (cases "rs_CgroupV2Path res = []")
      case True
      with run u t show ?thesis by (auto simp: ExecStressChaos_def intro: issued_same)
    next
      case False
      then have "issued cmds (scoped_cmd res) v w1" using issued_stress [OF laws False, of v] d by (metis snd_conv)
      then show ?thesis
        using run u t d False issued_rec [OF laws, of "scoped_cmd res" v w1] by (cases e) (auto simp: ExecStressChaos_def Let_def)
    qed
  qed (use pod run u in \<open>auto simp: names_pod_def ExecStressChaos_def\<close>)
  then show ?thesis by (simp add: u)
qed

lemma stays_HTTP:
  assumes laws: "log_laws h (sv_sys s) cmds" and pod: "names_pod (HTTP q)" and run: "ExecHTTPChaos h q (s, w) = (resp, s', w')"
    and port: "0 < hq_port q"
  shows "stays_on_pod cmds (pod_resolution s (req_pod (HTTP q)) (snd (ho_uuid h w))) w (Some resp) w'"
proof -
  obtain i v where u: "ho_uuid h w = (i, v)" by (cases "ho_uuid h w")
  have "stays_on_pod cmds (pod_resolution s (req_pod (HTTP q)) v) w (Some resp) w'"
  proof (rule stays_pod_target [OF laws u])
    fix res :: Resolution assume t: "resolvePodTarget s (hq_parameters q) v =
        Inr \<lparr>pt_scoped = True, pt_hostVeth = rs_HostVethName res, pt_cgroupV2Path = rs_CgroupV2Path res\<rparr>" (is "_ = Inr ?t")
    let ?run = "if hq_action q = ''abort'' then httpAbort (sv_sys s) ?t (hq_port q) v
      else httpDelay (sv_sys s) ?t (gm_str (hq_parameters q) ''delay'') v"
    obtain e w1 where d: "?run = (e, w1)" by (cases ?run)
    have "issued cmds (scoped_cmd res) v w1"
      using issued_http [OF laws, of ?t res v] d by (simp split: if_splits) (metis snd_conv)+
    then show "issued cmds (scoped_cmd res) v w'"
      using run u t d port issued_rec [OF laws, of "scoped_cmd res" v w1]
      by (cases e) (auto simp: ExecHTTPChaos_def Let_def intro: issued_same split: if_splits)
  qed (use pod run u port in \<open>auto simp: names_pod_def ExecHTTPChaos_def\<close>)
  then show ?thesis by (simp add: u)
qed

lemma stays_Exec:
  assumes laws: "log_laws h (sv_sys s) cmds" and pod: "names_pod req" and run: "Exec h req (s, w) = (r, s', w')"
  shows "stays_on_pod cmds (pod_resolution s (req_pod req) (snd (ho_uuid h w))) w r w' \<or>
    (cmds w' = cmds w \<and> (\<exists>m. r = Some (refused m)))"
proof (cases req)
  case (Network q)
  then show ?thesis using stays_Network [OF laws] pod run by auto
next
  case (Stress q)
  then show ?thesis using stays_Stress [OF laws] pod run by (cases "ExecStressChaos h q (s, w)") auto
next
  case (DNS q)
  then show ?thesis using stays_DNS [OF laws] pod run by (cases "ExecDNSChaos h q (s, w)") auto
next
  case (HTTP q)
  show ?thesis
  proof (cases "0 < hq_port q")
    case True
    then show ?thesis using HTTP stays_HTTP [OF laws] pod run by (cases "ExecHTTPChaos h q (s, w)") auto
  next
    case False
    then show ?thesis using HTTP run log_lawsD(3) [OF laws, of w] by (auto simp: ExecHTTPChaos_def split: prod.splits)
  qed
qed (use pod in \<open>simp add: names_pod_def\<close>)

subsection \<open>The example host obeys the laws\<close>

lemma demo_view: "host_view demo_host mem_runner mem_rules mem_qdisc"
  by (simp add: host_view_def mem_iptables_laws mem_tc_laws demo_host_def demo_kernel_def)

lemma demo_log: "log_laws demo_host (logging r) snd"
  by (simp add: log_laws_def logging_def demo_host_def demo_kernel_def split: prod.splits)

lemma demo_server_simps [simp]:
  "sv_sys (demo_server r) = r" "sv_resolver (demo_server r) = Some demo_resolver"
  "sv_store (demo_server r) = NewExecutionStore" "sv_ebpfMgr (demo_server r) = NewManager"
  by (simp_all add: demo_server_def SetResolver_def newServerWithRunner_def)

lemma demo_fresh [simp]:
  "store_ok NewExecutionStore" "manager_ok NewManager" "store_Get NewExecutionStore i = None" "manager_lookup NewManager i = None"
  by (simp_all add: store_ok_def manager_ok_def store_Get_def manager_lookup_def NewExecutionStore_def NewManager_def)

lemma single_entry: "ebpf_entry info \<Longrightarrow> {i. \<exists>x. [k \<mapsto> info] i = Some x \<and> ebpf_entry x} = {k}"
  by (auto split: if_splits)

lemma mem_rules_start: "mem_rules mem_host = {#}"
  by (simp add: mem_rules_def mem_host_def)

lemma demo_names: "names_veths (Some demo_resolver)"
  by (auto simp: names_veths_def demo_resolver_def split: if_splits)

section \<open>Properties\<close>



text \<open>
  The daemon reports honestly. A response says "applied" exactly when it says "success"; a success
  carries the execution id under which the fault is now recorded as running for the experiment, and
  a refusal carries no id and leaves the table of executions and the table of programs unchanged.
\<close>

lemma response_honest:
  assumes "Exec h req (s, w) = (Some resp, s', w')"
  shows "rp_Applied resp = rp_Success resp \<and>
    (if rp_Success resp
     then rp_ExecutionId resp = fst (ho_uuid h w) \<and>
       (\<exists>info. sv_store s' = store_Add (fst (ho_uuid h w)) info (sv_store s) \<and> xi_ID info = fst (ho_uuid h w) \<and>
          xi_ExperimentID info = req_experiment req \<and> xi_Status info = ''running'')
     else rp_ExecutionId resp = [] \<and> sv_store s' = sv_store s \<and> sv_ebpfMgr s' = sv_ebpfMgr s)"
  using Exec_answers [OF assms] unfolding answers_def by (auto split: if_splits)

text \<open>
  A daemon that starts without a usable container runtime answers: it refuses every request that names a pod and
  issues no command for it, instead of falling back to the host.
\<close>

lemma no_runtime_refuses_pods:
  assumes "criEndpoint = [] \<or> (\<exists>e. newResolver criEndpoint = Inl e)"
    and "log_laws h r cmds" and "names_pod req"
    and "Exec h req (configureResolver criEndpoint newResolver (newServerWithRunner r), w) = (resp, s', w')"
  shows "cmds w' = cmds w \<and> (\<exists>m. resp = Some (refused m))"
proof -
  have s: "configureResolver criEndpoint newResolver (newServerWithRunner r) = newServerWithRunner r"
    using assms(1) by (auto simp: configureResolver_def)
  have "log_laws h (sv_sys (newServerWithRunner r)) cmds" using assms(2) by (simp add: newServerWithRunner_def)
  from stays_Exec [OF this assms(3) assms(4) [unfolded s]] show ?thesis
    by (auto simp: stays_on_pod_def issued_def pod_resolution_def newServerWithRunner_def split: option.splits)
qed



text \<open>
  C33. The tables agree in every run. However requests and cancellations follow each other, with fresh
  execution ids, the status call lists every recorded execution exactly once under its own id and as
  running, and the eBPF programs that are loaded are exactly those of the recorded executions whose
  datapath is eBPF: no program outlives its execution and none is lost.
\<close>

theorem daemon_tracks_faults:
  assumes "daemon_run h r (s, w)"
  shows "distinct (map xs_ExecutionId (GetChaosStatus fmt s)) \<and>
    set (map xs_ExecutionId (GetChaosStatus fmt s)) = dom (store_Get (sv_store s)) \<and>
    (\<forall>x \<in> set (GetChaosStatus fmt s). xs_Status x = ''running'') \<and>
    dom (manager_lookup (sv_ebpfMgr s)) = {i. \<exists>info. store_Get (sv_store s) i = Some info \<and> ebpf_entry info}"
proof -
  have inv: "server_inv s" using daemon_run_inv [OF assms] by simp
  let ?es = "es_executions (sv_store s)"
  have d: "distinct (map fst ?es)" using inv by (simp add: server_inv_def store_ok_def gm_ok_def)
  have e: "xi_ID (snd x) = fst x" "xi_Status (snd x) = ''running''" if "x \<in> set ?es" for x
    using inv that map_of_is_SomeI [OF d] by (cases x; force simp: server_inv_def store_Get_def)+
  have ids: "map xs_ExecutionId (GetChaosStatus fmt s) = map fst ?es"
    by (simp add: GetChaosStatus_def store_List_def e)
  have "set (map fst ?es) = dom (store_Get (sv_store s))"
    by (auto simp: store_Get_def dom_map_of_conv_image_fst [symmetric])
  moreover have "dom (manager_lookup (sv_ebpfMgr s)) = {i. \<exists>info. store_Get (sv_store s) i = Some info \<and> ebpf_entry info}"
    by (simp add: dom_def inv_programs [OF inv])
  ultimately show ?thesis
    unfolding ids using d e by (auto simp: GetChaosStatus_def store_List_def)
qed

theorem daemon_tracks_faults_witness:
  "\<exists>s w. daemon_run demo_host mem_runner (s, w) \<and> dom (manager_lookup (sv_ebpfMgr s)) = {''01234567-89ab''} \<and>
     map xs_ExecutionId (GetChaosStatus (\<lambda>t. []) s) = [''01234567-89ab'']"
proof -
  let ?req = "Network (demo_network ''loss'' ''c1'' [(''mode'', ''ebpf'')])"
  obtain r s w where run: "Exec demo_host ?req (demo_server mem_runner, mem_host) = (r, s, w)" by (metis prod.collapse)
  have "daemon_run demo_host mem_runner (demo_server mem_runner, mem_host)"
    unfolding demo_server_def by (intro daemon_run.wired daemon_run.start)
  from daemon_run.exec [OF this _ run] have dr: "daemon_run demo_host mem_runner (s, w)" by simp
  have "map fst (es_executions (sv_store (fst (snd (Exec demo_host ?req (demo_server mem_runner, mem_host)))))) = [''01234567-89ab'']"
    and "map (ebpf_entry \<circ> snd) (es_executions (sv_store (fst (snd (Exec demo_host ?req (demo_server mem_runner, mem_host)))))) = [True]"
    by code_simp+
  then obtain info where st: "es_executions (sv_store s) = [(''01234567-89ab'', info)]" "ebpf_entry info"
    using run by (auto simp: map_eq_Cons_conv)
  have get: "store_Get (sv_store s) = [''01234567-89ab'' \<mapsto> info]" by (simp add: store_Get_def fun_eq_iff st(1))
  have ids: "map xs_ExecutionId (GetChaosStatus (\<lambda>t. []) s) = [xi_ID info]" by (simp add: GetChaosStatus_def store_List_def st(1))
  have "{i. \<exists>x. store_Get (sv_store s) i = Some x \<and> ebpf_entry x} = {''01234567-89ab''}"
    unfolding get by (rule single_entry [OF st(2)])
  then have "dom (manager_lookup (sv_ebpfMgr s)) = {''01234567-89ab''}" using daemon_tracks_faults [OF dr, of "\<lambda>t. []"] by simp
  moreover have "set [xi_ID info] = dom [''01234567-89ab'' \<mapsto> info]" using daemon_tracks_faults [OF dr, of "\<lambda>t. []"] unfolding ids get by (elim conjE)
  then have "xi_ID info = ''01234567-89ab''" by simp
  then have "map xs_ExecutionId (GetChaosStatus (\<lambda>t. []) s) = [''01234567-89ab'']" using ids by simp
  ultimately show ?thesis using dr by (intro exI [of _ s] exI [of _ w] conjI)
qed

text \<open>
  C36. A node partition on the default interface is never undone. A node request that blocks traffic
  without naming an interface blocks \<open>eth0\<close>, but the execution is recorded without that interface;
  cancelling reports success and forgets the execution, and both DROP rules stay installed.
\<close>

theorem default_node_partition_leaks:
  assumes "host_view h (sv_sys s) rules qdisc" and "store_ok (sv_store s)"
    and "or_action q = ''partition''" and "gm_str (or_parameters q) ''iface'' = []"
    and "Exec h (Node q) (s, w) = (Some resp, s', w')" and "rp_Success resp"
  shows "case CancelChaos h (rp_ExecutionId resp) (s', w') of (cresp, s'', w'') \<Rightarrow>
    cp_Success cresp \<and> store_Get (sv_store s'') (rp_ExecutionId resp) = None \<and>
    rules w'' = rules w + {#[''INPUT'', ''-i'', ''eth0'', ''-j'', ''DROP''], [''OUTPUT'', ''-o'', ''eth0'', ''-j'', ''DROP'']#}"
proof -
  obtain w1 where blk: "iptablesBlock (sv_sys s) ''eth0'' ''both'' (snd (ho_uuid h w)) = (None, w1)"
    and rec: "record_execution h (fst (ho_uuid h w)) (or_experimentId q) ''node'' (or_parameters q) ''node chaos applied: partition'' (s, w1) = (resp, s', w')"
    using assms(3-6) by (auto simp: ExecNodeChaos_def Let_def split: prod.splits option.splits)
  define info where "info = \<lparr>xi_ID = fst (ho_uuid h w), xi_ExperimentID = or_experimentId q, xi_Type = ''node'', xi_Status = ''running'',
      xi_StartTime = fst (ho_now h w1), xi_Parameters = or_parameters q\<rparr>"
  have r: "rp_ExecutionId resp = fst (ho_uuid h w)" "w' = snd (ho_now h w1)"
    "s' = s\<lparr>sv_store := store_Add (fst (ho_uuid h w)) info (sv_store s)\<rparr>"
    using rec by (auto simp: record_execution_result info_def)
  have "rules w1 = rules w + mset (block_bodies ''eth0'')"
    using block_fault.injected_rules [OF host_viewD(1) [OF assms(1)] blk] host_viewD(3) [OF assms(1)] by simp
  then have "rules (stressNGStop (sv_sys s) w') = rules w + mset (block_bodies ''eth0'')"
    using r(2) stressNGStop_frame(1) [OF host_viewD(1) [OF assms(1)]] host_viewD(5) [OF assms(1)] by simp
  then show ?thesis
    using r(1,3) assms(2,4)
    by (simp add: CancelChaos_def store.insert_hit cancel_fault_def info_def cancel_node_def block_bodies_def
        store.remove_miss store.invar_insert)
qed

theorem default_node_partition_leaks_witness:
  "\<exists>resp s' w'. Exec demo_host (Node demo_node) (demo_server mem_runner, mem_host) = (Some resp, s', w') \<and>
     (case CancelChaos demo_host (rp_ExecutionId resp) (s', w') of (cresp, s'', w'') \<Rightarrow>
        cp_Success cresp \<and> size (mem_rules w'') = 2)"
proof -
  let ?run = "Exec demo_host (Node demo_node) (demo_server mem_runner, mem_host)"
  have "(case ?run of (Some resp, s', w') \<Rightarrow> rp_Success resp | _ \<Rightarrow> False)" by code_simp
  then obtain resp s' w' where run: "?run = (Some resp, s', w')" and ok: "rp_Success resp"
    by (auto split: prod.splits option.splits)
  have "case CancelChaos demo_host (rp_ExecutionId resp) (s', w') of (cresp, s'', w'') \<Rightarrow>
      cp_Success cresp \<and> store_Get (sv_store s'') (rp_ExecutionId resp) = None \<and>
      mem_rules w'' = mem_rules mem_host + {#[''INPUT'', ''-i'', ''eth0'', ''-j'', ''DROP''], [''OUTPUT'', ''-o'', ''eth0'', ''-j'', ''DROP'']#}"
    by (rule default_node_partition_leaks [where qdisc = mem_qdisc, OF _ _ _ _ run ok]) (simp_all add: demo_view demo_node_def gm_str_def)
  then have "case CancelChaos demo_host (rp_ExecutionId resp) (s', w') of (cresp, s'', w'') \<Rightarrow> cp_Success cresp \<and> size (mem_rules w'') = 2"
    by (cases "CancelChaos demo_host (rp_ExecutionId resp) (s', w')") (simp add: mem_rules_start)
  with run show ?thesis by (intro exI [of _ resp] exI [of _ s'] exI [of _ w'] conjI)
qed

text \<open>
  A partition that fails half-way leaves its first rule. When a two-way partition installs its
  egress rule and the ingress rule is rejected, the response is a refusal and no execution is
  recorded, but the egress rule stays installed, and no later cancellation will delete it.
\<close>

lemma half_partition_leaks:
  assumes "iptables_laws (sv_sys s) rules" and "resolveTarget s q (snd (ho_uuid h w)) = Inr (iface, ifx)"
    and "rules (snd (ho_uuid h w)) = rules w" and "nr_action q = ''partition''"
    and "gm_str (nr_parameters q) ''direction'' = []" and "gm_str (nr_parameters q) ''target_cidr'' = cidr" and "cidr \<noteq> []"
    and "run_err (sv_sys s) ''iptables'' (''-A'' # [''FORWARD'', ''-i'', iface, ''-d'', cidr, ''-j'', ''DROP'']) (snd (ho_uuid h w)) = (None, w1)"
    and "run_err (sv_sys s) ''iptables'' (''-A'' # [''FORWARD'', ''-o'', iface, ''-s'', cidr, ''-j'', ''DROP'']) w1 = (Some e, w2)"
  shows "\<exists>m. ExecNetworkChaos h q (s, w) = (Some (refused m), s, w2) \<and>
    rules w2 = rules w + {#[''FORWARD'', ''-i'', iface, ''-d'', cidr, ''-j'', ''DROP'']#}"
proof -
  have "partition_pod (sv_sys s) iface (gm_str (nr_parameters q) ''direction'') (gm_str (nr_parameters q) ''target_cidr'') (snd (ho_uuid h w)) = (Some e, w2)"
    using assms(5-9) by (simp add: partition_pod_def partitionRules_def)
  then have "ExecNetworkChaos h q (s, w) =
      (Some (refused (''network partition failed on iface '' @ iface @ '': '' @ e)), s, w2)"
    using assms(2,4) by (cases "ho_uuid h w") (simp add: ExecNetworkChaos_def network_partition_def)
  moreover have "rules w2 = rules w + {#[''FORWARD'', ''-i'', iface, ''-d'', cidr, ''-j'', ''DROP'']#}"
    using rules_append [OF assms(1,8)] rules_append_failed [OF assms(1,9)] assms(3) by simp
  ultimately show ?thesis by blast
qed

lemma no_out_laws: "iptables_laws no_out_runner mem_rules"
proof -
  have run: "run_err no_out_runner name args x =
      (if ''-o'' \<in> set args \<and> hd args = ''-A'' then (Some ''no match'', x) else run_err mem_runner name args x)" for name args x
    by (simp add: run_err_def no_out_runner_def mem_runner_def)
  have start: "cr_Start no_out_runner = cr_Start mem_runner" by (simp add: no_out_runner_def)
  show ?thesis
    using mem_iptables_laws unfolding iptables_laws_def run start by auto
qed

end
