(* ===== verification/Fleet_Faults.thy ===== *)
theory Fleet_Faults
  imports Executor_Contracts Daemon_Faults
begin

text \<open>
  The executors of the operator and the daemons of the nodes together. A fleet gives every endpoint its
  daemon (\<open>Daemon_Server\<close>) and its host; \<open>fleet_env\<close> is the environment of the executors in which a call
  on a daemon client runs the handler of that daemon. A handler that panics takes its daemon down, which
  the client sees as a transport error.
\<close>

section \<open>Definitions\<close>

type_synonym ('w, 'p, 'l) Fleet = "string \<Rightarrow> ('w, 'p, 'l) Server \<times> 'w"

definition fleet_Exec :: "('w, 'p, 'l) Host \<Rightarrow> string \<Rightarrow> ChaosRequest \<Rightarrow> ('w, 'p, 'l) Fleet \<Rightarrow> (err + ChaosResponse) \<times> ('w, 'p, 'l) Fleet" where
  "fleet_Exec h ep req f =
     (case Exec h req (f ep) of
        (None, sw) \<Rightarrow> (Inl ''connection closed'', f(ep := sw))
      | (Some resp, sw) \<Rightarrow> (Inr resp, f(ep := sw)))"

definition fleet_Cancel :: "('w, 'p, 'l) Host \<Rightarrow> string \<Rightarrow> string \<Rightarrow> ('w, 'p, 'l) Fleet \<Rightarrow> (err + CancelResponse) \<times> ('w, 'p, 'l) Fleet" where
  "fleet_Cancel h ep i f = (case CancelChaos h i (f ep) of (resp, sw) \<Rightarrow> (Inr resp, f(ep := sw)))"

definition fleet_env :: "('w, 'p, 'l) Host \<Rightarrow> ('w, 'p, 'l) Fleet ExecEnv \<Rightarrow> ('w, 'p, 'l) Fleet ExecEnv" where
  "fleet_env h e = e\<lparr>ee_Dial := \<lambda>_ _. None, ee_Exec := fleet_Exec h, ee_Cancel := fleet_Cancel h\<rparr>"

text \<open>Reading from the API server does not touch the daemons.\<close>

definition reads_only :: "'x ExecEnv \<Rightarrow> bool" where
  "reads_only e \<longleftrightarrow> (\<forall>ns name x. snd (ee_GetPod e ns name x) = x) \<and> (\<forall>ns ls x. snd (ee_ListPods e ns ls x) = x) \<and>
     (\<forall>name x. snd (ee_GetNode e name x) = x) \<and> (\<forall>ls x. snd (ee_ListNodes e ls x) = x)"

fun rpc_endpoint :: "Rpc \<Rightarrow> string" where
  "rpc_endpoint (RpcExec ep _ _) = ep"
| "rpc_endpoint (RpcCancel ep _ _) = ep"

text \<open>A list of calls with the results that the daemons of \<open>f\<close> give, which leave the fleet as \<open>g\<close>.\<close>

fun history :: "('w, 'p, 'l) Host \<Rightarrow> Rpc list \<Rightarrow> ('w, 'p, 'l) Fleet \<Rightarrow> ('w, 'p, 'l) Fleet \<Rightarrow> bool" where
  "history h [] f g \<longleftrightarrow> g = f"
| "history h (RpcExec ep req res # rs) f g \<longleftrightarrow> (\<exists>f'. fleet_Exec h ep req f = (res, f') \<and> history h rs f' g)"
| "history h (RpcCancel ep i res # rs) f g \<longleftrightarrow> (\<exists>f'. fleet_Cancel h ep i f = (res, f') \<and> history h rs f' g)"

text \<open>The effect of one call on the daemon it went to.\<close>

fun rpc_at :: "('w, 'p, 'l) Host \<Rightarrow> Rpc \<Rightarrow> ('w, 'p, 'l) Server \<times> 'w \<Rightarrow> ('w, 'p, 'l) Server \<times> 'w \<Rightarrow> bool" where
  "rpc_at h (RpcExec ep req res) sw sw' \<longleftrightarrow>
     (case Exec h req sw of (None, t) \<Rightarrow> res = Inl ''connection closed'' \<and> sw' = t | (Some resp, t) \<Rightarrow> res = Inr resp \<and> sw' = t)"
| "rpc_at h (RpcCancel ep i res) sw sw' \<longleftrightarrow> (case CancelChaos h i sw of (resp, t) \<Rightarrow> res = Inr resp \<and> sw' = t)"

text \<open>What the daemon and the host of a node show: rules, disciplines, executions and programs.\<close>

definition node_view ::
    "('w \<Rightarrow> string list multiset) \<Rightarrow> ('w \<Rightarrow> string \<rightharpoonup> string list) \<Rightarrow> ('w, 'p, 'l) Server \<times> 'w \<Rightarrow>
     string list multiset \<times> (string \<rightharpoonup> string list) \<times> (string \<rightharpoonup> ExecutionInfo) \<times> (string \<rightharpoonup> ('p, 'l) loadedProgram)" where
  "node_view rules qdisc sw =
     (rules (snd sw), qdisc (snd sw), store_Get (sv_store (fst sw)), manager_lookup (sv_ebpfMgr (fst sw)))"

text \<open>A daemon whose tables are in order, whose resolver names interfaces and whose next id is fresh.\<close>

definition ready ::
    "('w, 'p, 'l) Host \<Rightarrow> ('w \<Rightarrow> string list multiset) \<Rightarrow> ('w \<Rightarrow> string \<rightharpoonup> string list) \<Rightarrow> ('w, 'p, 'l) Server \<times> 'w \<Rightarrow> bool" where
  "ready h rules qdisc sw \<longleftrightarrow>
     host_view h (sv_sys (fst sw)) rules qdisc \<and> server_inv (fst sw) \<and> names_veths (sv_resolver (fst sw)) \<and>
     store_Get (sv_store (fst sw)) (fst (ho_uuid h (snd sw))) = None"

section \<open>Lemmas\<close>

lemma fleet_env_simps [simp]:
  "ee_Dial (fleet_env h e) ep x = None" "ee_Exec (fleet_env h e) = fleet_Exec h" "ee_Cancel (fleet_env h e) = fleet_Cancel h"
  "reads_only (fleet_env h e) = reads_only e"
  by (simp_all add: fleet_env_def reads_only_def)

lemma history_append: "history h (a @ b) f g \<longleftrightarrow> (\<exists>f'. history h a f f' \<and> history h b f' g)"
  by (induction h a f g rule: history.induct) auto

lemma fleet_Exec_at: "fleet_Exec h ep req f = (res, f') \<Longrightarrow> rpc_at h (RpcExec ep req res) (f ep) (f' ep) \<and> (\<forall>ep'. ep' \<noteq> ep \<longrightarrow> f' ep' = f ep')"
  by (auto simp: fleet_Exec_def split: prod.splits option.splits)

lemma fleet_Cancel_at: "fleet_Cancel h ep i f = (res, f') \<Longrightarrow> rpc_at h (RpcCancel ep i res) (f ep) (f' ep) \<and> (\<forall>ep'. ep' \<noteq> ep \<longrightarrow> f' ep' = f ep')"
  by (auto simp: fleet_Cancel_def split: prod.splits)

lemma history_frame: "history h rs f g \<Longrightarrow> ep \<notin> rpc_endpoint ` set rs \<Longrightarrow> g ep = f ep"
  by (induction h rs f g rule: history.induct) (auto dest: fleet_Exec_at fleet_Cancel_at)

text \<open>With at most one call per daemon, each daemon sees its own call only.\<close>

lemma history_local:
  "history h rs f g \<Longrightarrow> distinct (map rpc_endpoint rs) \<Longrightarrow> r \<in> set rs \<Longrightarrow> rpc_at h r (f (rpc_endpoint r)) (g (rpc_endpoint r))"
proof (induction h rs f g rule: history.induct)
  case (2 h ep req res rs f g)
  then obtain f' where f': "fleet_Exec h ep req f = (res, f')" "history h rs f' g" by auto
  show ?case
  proof (cases "r = RpcExec ep req res")
    case True
    have "g ep = f' ep" using history_frame [OF f'(2)] 2(3) by auto
    with True fleet_Exec_at [OF f'(1)] show ?thesis by auto
  next
    case False
    with 2(3,4) have "r \<in> set rs" "rpc_endpoint r \<noteq> ep" by auto
    with 2(1) [OF f'(2)] 2(3) fleet_Exec_at [OF f'(1)] show ?thesis by auto
  qed
next
  case (3 h ep i res rs f g)
  then obtain f' where f': "fleet_Cancel h ep i f = (res, f')" "history h rs f' g" by auto
  show ?case
  proof (cases "r = RpcCancel ep i res")
    case True
    have "g ep = f' ep" using history_frame [OF f'(2)] 3(3) by auto
    with True fleet_Cancel_at [OF f'(1)] show ?thesis by auto
  next
    case False
    with 3(3,4) have "r \<in> set rs" "rpc_endpoint r \<noteq> ep" by auto
    with 3(1) [OF f'(2)] 3(3) fleet_Cancel_at [OF f'(1)] show ?thesis by auto
  qed
qed simp

subsection \<open>The loops on a fleet\<close>

text \<open>A call that started an execution for a request that can be undone.\<close>

definition good_exec :: "Rpc \<Rightarrow> bool" where
  "good_exec r \<longleftrightarrow> (\<exists>ep req resp. r = RpcExec ep req (Inr resp) \<and> rp_Success resp \<and> node_names_iface req)"

lemma good_exec_endpoints: "list_all good_exec rs \<Longrightarrow> map fst (started rs) = map rpc_endpoint rs"
  by (induction rs rule: started.induct) (auto simp: good_exec_def)

lemma good_exec_started:
  "list_all good_exec rs \<Longrightarrow> (ep, i) \<in> set (started rs) \<Longrightarrow>
     \<exists>req resp. RpcExec ep req (Inr resp) \<in> set rs \<and> rp_Success resp \<and> node_names_iface req \<and> rp_ExecutionId resp = i"
  by (induction rs rule: started.induct) (auto simp: good_exec_def split: if_splits)

lemma cancels_only:
  "length (cancels rs) = length rs \<Longrightarrow>
     map rpc_endpoint rs = map fst (cancels rs) \<and> (\<forall>r \<in> set rs. \<exists>ep i res. r = RpcCancel ep i res \<and> (ep, i) \<in> set (cancels rs))"
proof (induction rs rule: cancels.induct)
  case (3 ep req res rs)
  have "length (cancels rs) \<le> length rs" by (induction rs rule: cancels.induct) auto
  with 3 show ?case by simp
qed auto

lemma client_Exec_history: "client_Exec (fleet_env h e) ep req c = (r, c') \<Longrightarrow> history h [RpcExec ep req r] (cl_ext c) (cl_ext c')"
  by (auto simp: client_Exec_def split: prod.splits)

lemma client_Cancel_history: "client_Cancel (fleet_env h e) ep i c = (r, c') \<Longrightarrow> history h [RpcCancel ep i r] (cl_ext c) (cl_ext c')"
  by (auto simp: client_Cancel_def split: prod.splits)

lemma fleet_Cancel_Inr: "client_Cancel (fleet_env h e) ep i c = (r, c') \<Longrightarrow> \<exists>resp. r = Inr resp"
  by (auto simp: client_Cancel_def fleet_Cancel_def split: prod.splits)

text \<open>What a successful \<open>Execute\<close> did to the fleet, and what a \<open>Rollback\<close> does.\<close>

definition executed :: "('w, 'p, 'l) Host \<Rightarrow> ('w, 'p, 'l) Fleet Cluster \<Rightarrow> ('w, 'p, 'l) Fleet Cluster \<Rightarrow> bool" where
  "executed h c c' \<longleftrightarrow> (\<exists>new. cl_rpcs c' = cl_rpcs c @ new \<and> history h new (cl_ext c) (cl_ext c') \<and> list_all good_exec new)"

definition cancelled :: "('w, 'p, 'l) Host \<Rightarrow> (string \<times> string) list \<Rightarrow> err option \<Rightarrow> ('w, 'p, 'l) Fleet Cluster \<Rightarrow> ('w, 'p, 'l) Fleet Cluster \<Rightarrow> bool" where
  "cancelled h places r c c' \<longleftrightarrow>
     (\<exists>new. cl_rpcs c' = cl_rpcs c @ new \<and> history h new (cl_ext c) (cl_ext c') \<and>
        length (cancels new) = length new \<and> cancels new = places \<and> (list_all cancel_ok new \<longrightarrow> r = None))"

lemma run_jobs_executed:
  "run_jobs (fleet_env h e) mk pre k js (ids, c) = (None, ids', c') \<Longrightarrow> \<forall>j \<in> set js. node_names_iface (jb_request j) \<Longrightarrow> executed h c c'"
proof (induction js arbitrary: ids c)
  case (Cons j js)
  let ?ep = "ResolveDaemonEndpoint (jb_node j)"
  obtain a c1 where call: "client_Exec (fleet_env h e) ?ep (jb_request j) c = (a, c1)"
    by (cases "client_Exec (fleet_env h e) ?ep (jb_request j) c")
  then obtain resp ids1 where a: "a = Inr resp" "rp_Success resp" and rest: "run_jobs (fleet_env h e) mk pre k js (ids1, c1) = (None, ids', c')"
    using Cons.prems(1) by (auto simp: Let_def split: sum.splits if_splits)
  from Cons.IH [OF rest] Cons.prems(2) obtain new where "cl_rpcs c' = cl_rpcs c1 @ new" "history h new (cl_ext c1) (cl_ext c')" "list_all good_exec new"
    by (auto simp: executed_def)
  with a client_Exec_rpcs [OF call] client_Exec_history [OF call] Cons.prems(2) show ?case
    unfolding executed_def by (intro exI [of _ "RpcExec ?ep (jb_request j) a # new"]) (auto simp: good_exec_def)
qed (simp add: executed_def)

lemma cancel_until_error_cancelled:
  "cancel_until_error (fleet_env h e) pre nes c = (r, c') \<Longrightarrow> r = None \<and> cancelled h (map node_place nes) r c c'"
proof (induction nes arbitrary: c)
  case (Cons ne nes)
  let ?ep = "ResolveDaemonEndpoint (ne_nodeName ne)"
  obtain a c1 where call: "client_Cancel (fleet_env h e) ?ep (ne_executionID ne) c = (a, c1)"
    by (cases "client_Cancel (fleet_env h e) ?ep (ne_executionID ne) c")
  then obtain resp where "a = Inr resp" using fleet_Cancel_Inr by blast
  with Cons.prems call have "cancel_until_error (fleet_env h e) pre nes c1 = (r, c')" by simp
  from Cons.IH [OF this] client_Cancel_rpcs [OF call] client_Cancel_history [OF call] show ?case
    unfolding cancelled_def
    by (elim conjE exE) (intro conjI exI [of _ "RpcCancel ?ep (ne_executionID ne) a # _"], auto simp: node_place_def [of ne])
qed (simp add: cancelled_def)

lemma cancel_all_history:
  "cancel_all (fleet_env h e) recs errs c = (errs', c') \<Longrightarrow>
     \<exists>new. cl_rpcs c' = cl_rpcs c @ new \<and> history h new (cl_ext c) (cl_ext c')"
proof (induction recs arbitrary: errs c)
  case (Cons rec recs)
  let ?ep = "xr_endpoint rec" and ?id = "xr_executionID rec"
  obtain a c1 where call: "client_Cancel (fleet_env h e) ?ep ?id c = (a, c1)" by (cases "client_Cancel (fleet_env h e) ?ep ?id c")
  obtain errs1 where "cancel_all (fleet_env h e) recs errs1 c1 = (errs', c')"
    using Cons.prems call by (auto split: sum.splits if_splits)
  from Cons.IH [OF this] client_Cancel_rpcs [OF call] client_Cancel_history [OF call] show ?case
    by (elim exE) (intro exI [of _ "RpcCancel ?ep ?id a # _"], auto)
qed simp

lemma rollbackExecutions_cancelled:
  assumes "rollbackExecutions (fleet_env h e) (uid_of xp) (ids, c) = (r, ids', c')"
  shows "cancelled h (map record_place (gm_list ids (uid_of xp))) r c c'"
proof -
  obtain errs where run: "cancel_all (fleet_env h e) (gm_list ids (uid_of xp)) [] c = (errs, c')"
    using assms by (auto simp: rollbackExecutions_def split: prod.splits)
  obtain new where "cl_rpcs c' = cl_rpcs c @ new" "history h new (cl_ext c) (cl_ext c')"
    using cancel_all_history [OF run] by blast
  moreover have "length (cancels new) = length new \<and> cancels new = map record_place (gm_list ids (uid_of xp))"
    using cancel_all_reaches [where e = "fleet_env h e" and dial = "\<lambda>_. None", OF _ run] calculation(1) by auto
  moreover have "list_all cancel_ok new \<longrightarrow> r = None"
    using rollbackExecutions_calls(2) [OF assms] calculation by auto
  ultimately show ?thesis by (auto simp: cancelled_def)
qed

subsection \<open>Cancelling restores every node\<close>

lemma started_restored:
  assumes "ready h rules qdisc sw" and "Exec h req sw = (Some resp, sw')" and "rp_Success resp" and "node_names_iface req"
  shows "restored h rules qdisc (rp_ExecutionId resp) sw sw'"
proof -
  obtain s w s' w' where sw: "sw = (s, w)" "sw' = (s', w')" by (cases sw, cases sw')
  have inv: "store_ok (sv_store s)" "manager_ok (sv_ebpfMgr s)" using assms(1) by (auto simp: ready_def server_inv_def sw)
  have fresh: "manager_lookup (sv_ebpfMgr s) (fst (ho_uuid h w)) = None"
    using assms(1) inv_programs [of s "fst (ho_uuid h w)"] by (auto simp: ready_def sw)
  have "rp_ExecutionId resp = fst (ho_uuid h w)"
    using Exec_answers [of h req s w resp s' w'] assms(2,3) by (auto simp: answers_def sw)
  then show ?thesis
    using Exec_restored [of h s rules qdisc req w resp s' w'] assms inv fresh by (auto simp: ready_def sw)
qed

lemma fleet_restored:
  assumes ready: "\<And>ep. ready h rules qdisc (cl_ext c ep)"
    and ex: "history h new (cl_ext c) (cl_ext c')" "list_all good_exec new" "distinct (map rpc_endpoint new)"
    and un: "cancelled h (started new) r c' d"
  shows "r = None" and "node_view rules qdisc (cl_ext d ep) = node_view rules qdisc (cl_ext c ep)"
proof -
  obtain undo where undo: "history h undo (cl_ext c') (cl_ext d)" "length (cancels undo) = length undo"
    "cancels undo = started new" "list_all cancel_ok undo \<longrightarrow> r = None"
    using un by (auto simp: cancelled_def)
  have eps: "map rpc_endpoint undo = map rpc_endpoint new"
    using cancels_only [OF undo(2)] undo(3) good_exec_endpoints [OF ex(2)] by simp
  have one: "cancel_ok (RpcCancel ep i res) \<and> node_view rules qdisc (cl_ext d ep) = node_view rules qdisc (cl_ext c ep)"
    if r: "RpcCancel ep i res \<in> set undo" for ep i res
  proof -
    have "(ep, i) \<in> set (started new)" using cancels_only [OF undo(2)] r undo(3) by fastforce
    then obtain req resp where q: "RpcExec ep req (Inr resp) \<in> set new" "rp_Success resp" "node_names_iface req" "rp_ExecutionId resp = i"
      using good_exec_started [OF ex(2)] by blast
    then have "Exec h req (cl_ext c ep) = (Some resp, cl_ext c' ep)"
      using history_local [OF ex(1,3) q(1)] by (auto split: prod.splits option.splits)
    with q have "restored h rules qdisc i (cl_ext c ep) (cl_ext c' ep)" using started_restored [OF ready] by blast
    moreover have "rpc_at h (RpcCancel ep i res) (cl_ext c' ep) (cl_ext d ep)"
      using history_local [OF undo(1) _ r] ex(3) by (simp add: eps)
    ultimately show ?thesis by (auto simp: restored_def node_view_def split: prod.splits)
  qed
  then have "list_all cancel_ok undo" using cancels_only [OF undo(2)] by (fastforce simp: list_all_iff)
  then show "r = None" using undo(4) by simp
  show "node_view rules qdisc (cl_ext d ep) = node_view rules qdisc (cl_ext c ep)"
  proof (cases "ep \<in> rpc_endpoint ` set undo")
    case True
    then show ?thesis using one cancels_only [OF undo(2)] by fastforce
  next
    case False
    moreover have "ep \<notin> rpc_endpoint ` set new" using False eps by (metis list.set_map)
    ultimately show ?thesis using history_frame [OF undo(1)] history_frame [OF ex(1)] by simp
  qed
qed

subsection \<open>The executors on a fleet\<close>

lemma kube_ext: "(\<And>x. snd (f x) = x) \<Longrightarrow> kube f c = (r, c') \<Longrightarrow> c' = c"
  by (auto simp: kube_def split: prod.splits) (metis Cluster.surjective Cluster.update_convs(1) snd_conv)

lemma get_pods_ext: "reads_only e \<Longrightarrow> get_pods e ns names ps c = (r, c') \<Longrightarrow> c' = c"
proof (induction names arbitrary: ps c)
  case (Cons name names)
  obtain a c1 where call: "kube (ee_GetPod e ns name) c = (a, c1)" by (cases "kube (ee_GetPod e ns name) c")
  then have "c1 = c" using kube_ext [OF _ call] Cons.prems(1) by (simp add: reads_only_def)
  with call Cons show ?case by (auto split: sum.splits)
qed simp

lemma get_nodes_ext: "reads_only e \<Longrightarrow> get_nodes e names ns c = (r, c') \<Longrightarrow> c' = c"
proof (induction names arbitrary: ns c)
  case (Cons name names)
  obtain a c1 where call: "kube (ee_GetNode e name) c = (a, c1)" by (cases "kube (ee_GetNode e name) c")
  then have "c1 = c" using kube_ext [OF _ call] Cons.prems(1) by (simp add: reads_only_def)
  with call Cons show ?case by (auto split: sum.splits)
qed simp

lemma ResolveTargetPods_ext: "reads_only e \<Longrightarrow> ResolveTargetPods e t c = (r, c') \<Longrightarrow> c' = c"
  by (auto simp: ResolveTargetPods_def reads_only_def split: if_splits option.splits prod.splits sum.splits
      dest: get_pods_ext [unfolded reads_only_def, rotated] kube_ext [rotated])

lemma ResolveTargetNodes_ext: "reads_only e \<Longrightarrow> ResolveTargetNodes e t c = (r, c') \<Longrightarrow> c' = c"
  by (auto simp: ResolveTargetNodes_def reads_only_def split: if_splits option.splits prod.splits sum.splits
      dest: get_nodes_ext [unfolded reads_only_def, rotated] kube_ext [rotated])

lemma on_pods_executed:
  assumes "reads_only e" and run: "on_pods (fleet_env h e) pre req fl xp (ids, c) = (None, ids', c')"
    and "\<And>params f p. req params = Inr f \<Longrightarrow> node_names_iface (f p)"
  shows "executed h c c'"
proof -
  obtain t c1 where t: "ResolveTargetPods (fleet_env h e) (s_target (e_spec xp)) c = (t, c1)"
    by (cases "ResolveTargetPods (fleet_env h e) (s_target (e_spec xp)) c")
  have "c1 = c" using ResolveTargetPods_ext [OF _ t] assms(1) by simp
  with run t obtain params f pods where "req params = Inr f"
    "run_jobs (fleet_env h e) nodeExecution.make pre (uid_of xp) (map (pod_job f fl) pods) (ids, c) = (None, ids', c')"
    by (auto simp: on_pods_def split: sum.splits)
  with assms(3) show ?thesis by (intro run_jobs_executed) (auto simp: pod_job_def Let_def)
qed

lemma on_nodes_executed:
  assumes "reads_only e" and run: "on_nodes (fleet_env h e) pre req xp (ids, c) = (None, ids', c')"
    and "\<And>params. node_names_iface (req params)"
  shows "executed h c c'"
proof -
  obtain t c1 where t: "ResolveTargetNodes (fleet_env h e) (s_target (e_spec xp)) c = (t, c1)"
    by (cases "ResolveTargetNodes (fleet_env h e) (s_target (e_spec xp)) c")
  have "c1 = c" using ResolveTargetNodes_ext [OF _ t] assms(1) by simp
  with run t obtain params nodes where
    "run_jobs (fleet_env h e) nodeExecution.make pre (uid_of xp) (map (node_job (req params)) nodes) (ids, c) = (None, ids', c')"
    by (auto simp: on_nodes_def split: sum.splits)
  with assms(3) show ?thesis by (intro run_jobs_executed) (auto simp: node_job_def)
qed

lemma execNetworkChaos_executed:
  assumes "reads_only e" and run: "execNetworkChaos (fleet_env h e) xp act params pre (ids, c) = (None, ids', c')"
  shows "executed h c c'"
proof -
  obtain t c1 where t: "ResolveTargetPods (fleet_env h e) (s_target (e_spec xp)) c = (t, c1)"
    by (cases "ResolveTargetPods (fleet_env h e) (s_target (e_spec xp)) c")
  have "c1 = c" using ResolveTargetPods_ext [OF _ t] assms(1) by simp
  with run t obtain pods where "run_jobs (fleet_env h e) at_endpoint pre (uid_of xp)
      (map (pod_job (network_request xp act params) ''daemon failure for '') pods) (ids, c) = (None, ids', c')"
    by (auto simp: execNetworkChaos_def split: sum.splits)
  then show ?thesis by (rule run_jobs_executed) (auto simp: pod_job_def network_request_def node_names_iface_def Let_def)
qed

lemma names_iface_simps [simp]:
  "node_names_iface (Network nq)" "node_names_iface (Stress sq)" "node_names_iface (DNS dq)" "node_names_iface (HTTP hq)"
  by (simp_all add: node_names_iface_def)

lemma stored_executed:
  assumes "(ex, rb) \<in> set (stored_executors (fleet_env h e))" and "reads_only e" and "ex xp (ids, c) = (None, ids', c')"
  shows "executed h c c'"
proof -
  have http: "http_request xp act key params = Inr f \<Longrightarrow> node_names_iface (f p)" for act key params f p
    by (auto simp: http_request_def split: sum.splits)
  let ?E = "fleet_env h e" and ?R = "(None, ids', c')"
  have pods: "CPUStress_Execute ?E xp (ids, c) = ?R \<Longrightarrow> executed h c c'" "MemoryStress_Execute ?E xp (ids, c) = ?R \<Longrightarrow> executed h c c'"
    "IOStress_Execute ?E xp (ids, c) = ?R \<Longrightarrow> executed h c c'" "DNSError_Execute ?E xp (ids, c) = ?R \<Longrightarrow> executed h c c'"
    "HTTPAbort_Execute ?E xp (ids, c) = ?R \<Longrightarrow> executed h c c'" "HTTPDelay_Execute ?E xp (ids, c) = ?R \<Longrightarrow> executed h c c'"
    unfolding stored_defs
    by (erule on_pods_executed [OF assms(2)], auto simp: http stress_request_def)+
  have nodes: "StressCPU_Execute ?E xp (ids, c) = ?R \<Longrightarrow> executed h c c'" "StressMemory_Execute ?E xp (ids, c) = ?R \<Longrightarrow> executed h c c'"
    "NodeCPUStress_Execute ?E xp (ids, c) = ?R \<Longrightarrow> executed h c c'"
    unfolding stored_defs by (erule on_nodes_executed [OF assms(2)], simp add: stress_request_def)+
  show ?thesis using assms(1,3) pods nodes by (auto simp: stored_executors_def)
qed

lemma network_executed:
  assumes "(ex, rb) \<in> set (network_executors (fleet_env h e))" and "reads_only e" and "ex xp (ids, c) = (Some None, ids', c')"
  shows "executed h c c'"
proof -
  have net: "network_Execute (fleet_env h e) pre act xp (ids, c) = (None, ids', c') \<Longrightarrow> executed h c c'" for pre act
    by (auto simp: network_Execute_def split: sum.splits intro: execNetworkChaos_executed [OF assms(2)])
  have ebpf: "ebpf_Execute (fleet_env h e) pre act xp (ids, c) = (Some None, ids', c') \<Longrightarrow> executed h c c'" for pre act
    by (auto simp: ebpf_Execute_def split: sum.splits if_splits intro: execNetworkChaos_executed [OF assms(2)])
  show ?thesis using assms(1,3) net ebpf
    by (auto simp: network_executors_def network_defs)
qed

text \<open>A successful execution with at most one target per node is undone by the rollback that follows.\<close>

definition heals ::
    "('w \<Rightarrow> string list multiset) \<Rightarrow> ('w \<Rightarrow> string \<rightharpoonup> string list) \<Rightarrow> 'a \<Rightarrow> (('w, 'p, 'l) Fleet, 'r, 'a) handler \<Rightarrow>
     (('w, 'p, 'l) Fleet, 'r, err option) handler \<Rightarrow> ChaosExperiment \<Rightarrow> 'r ids \<Rightarrow> ('w, 'p, 'l) Fleet Cluster \<Rightarrow> bool" where
  "heals rules qdisc ok ex rb xp ids c \<longleftrightarrow>
     (\<forall>ids' c' new. ex xp (ids, c) = (ok, ids', c') \<longrightarrow> cl_rpcs c' = cl_rpcs c @ new \<longrightarrow> distinct (map rpc_endpoint new) \<longrightarrow>
        (\<exists>ids'' d. rb xp (ids', c') = (None, ids'', d) \<and>
           (\<forall>ep. node_view rules qdisc (cl_ext d ep) = node_view rules qdisc (cl_ext c ep))))"

lemma healsI:
  assumes dex: "daemon_executor ex rb place" and ready: "\<And>ep. ready h rules qdisc (cl_ext c ep)"
    and fresh: "gm_list ids (uid_of xp) = []"
    and ex: "\<And>ids' c'. ex xp (ids, c) = (ok, ids', c') \<Longrightarrow> executed h c c'"
    and rb: "\<And>ids c r ids' c'. rb xp (ids, c) = (r, ids', c') \<Longrightarrow> cancelled h (map place (gm_list ids (uid_of xp))) r c c'"
  shows "heals rules qdisc ok ex rb xp ids c"
  unfolding heals_def
proof (intro allI impI)
  fix ids' c' new
  assume run: "ex xp (ids, c) = (ok, ids', c')" and new: "cl_rpcs c' = cl_rpcs c @ new" "distinct (map rpc_endpoint new)"
  have hist: "history h new (cl_ext c) (cl_ext c')" "list_all good_exec new"
    using ex [OF run] new(1) by (auto simp: executed_def)
  have ids: "map place (gm_list ids' (uid_of xp)) = started new"
    using daemon_executor.execute_tracks [OF dex run] fresh new(1) by (auto simp: tracks_def)
  obtain r ids'' d where undo: "rb xp (ids', c') = (r, ids'', d)" by (cases "rb xp (ids', c')")
  note un = rb [OF undo, unfolded ids]
  show "\<exists>ids'' d. rb xp (ids', c') = (None, ids'', d) \<and>
      (\<forall>ep. node_view rules qdisc (cl_ext d ep) = node_view rules qdisc (cl_ext c ep))"
    using undo fleet_restored [OF ready hist new(2) un] by blast
qed

lemma stored_cancelled:
  assumes "(ex, rb) \<in> set (stored_executors (fleet_env h e))" and "rb xp (ids, c) = (r, ids', c')"
  shows "cancelled h (map node_place (gm_list ids (uid_of xp))) r c c'"
proof -
  obtain pre where "rb = rollback_stored (fleet_env h e) pre" using stored_rollback_is [OF assms(1)] ..
  with assms(2) have "cancel_until_error (fleet_env h e) pre (gm_list ids (uid_of xp)) c = (r, c')"
    by (auto simp: rollback_stored_def Let_def split: prod.splits)
  then show ?thesis using cancel_until_error_cancelled by blast
qed

lemma network_cancelled:
  assumes "(ex, rb) \<in> set (network_executors (fleet_env h e))" and "rb xp (ids, c) = (r, ids', c')"
  shows "cancelled h (map record_place (gm_list ids (uid_of xp))) r c c'"
  using assms(2) network_rollback_is [OF assms(1)] by (simp add: rollbackExecutions_cancelled)

section \<open>A fleet for examples\<close>

definition demo_fleet :: "(MemHost, nat, nat) Fleet" where
  "demo_fleet ep = (demo_server mem_runner, mem_host)"

definition demo_api :: "(MemHost, nat, nat) Fleet ExecEnv" where
  "demo_api =
     \<lparr>ee_jsonErr = (\<lambda>_. ''bad json''), ee_selectorErr = (\<lambda>_. None), ee_labels = (\<lambda>_. []),
      ee_GetPod = (\<lambda>ns name x. (Inr \<lparr>pod_Name = name, pod_Namespace = ns, pod_NodeName = name, pod_ContainerIDs = [''containerd://c1'']\<rparr>, x)),
      ee_ListPods = (\<lambda>ns ls x. (Inr [], x)),
      ee_GetNode = (\<lambda>name x. (Inr \<lparr>no_Name = name, no_Unschedulable = False, no_Taints = [], no_Conditions = []\<rparr>, x)),
      ee_ListNodes = (\<lambda>ls x. (Inr [], x)), ee_Dial = (\<lambda>ep x. None),
      ee_Exec = (\<lambda>ep req x. (Inl [], x)), ee_Cancel = (\<lambda>ep i x. (Inl [], x))\<rparr>"

lemma demo_reads: "reads_only demo_api"
  by (simp add: reads_only_def demo_api_def)

lemma demo_ready: "ready demo_host mem_rules mem_qdisc (demo_fleet ep)"
  by (simp add: ready_def demo_fleet_def demo_view demo_names server_inv_def)

section \<open>Properties\<close>



end
