(* ===== verification/Executor_Cluster.thy ===== *)
theory Executor_Cluster
  imports Executor_Contracts Kube_World
begin

text \<open>
  The executors that change Kubernetes objects themselves: pod kill (package \<open>pod\<close>), drain, taint and the
  rollback of restart (package \<open>node\<close>), ConfigMap, PVC and etcd latency (package \<open>cluster\<close>). The writes on
  the API server, the clock and \<open>time.ParseDuration\<close> (whose fractions are rounded in floating point) are
  fields of \<open>KubeEnv\<close>. A timeout that a context carries is an argument of the calls made under it.
\<close>

section \<open>Definitions\<close>

record DrainPod = Pod +
  dp_Annotations :: "(string, string) gomap"
  dp_OwnerKinds :: "string list"
  dp_EmptyDirs :: "bool list"

record ConfigMap =
  cm_Namespace :: string
  cm_Name :: string
  cm_Labels :: "(string, string) gomap option"
  cm_Data :: "(string, string) gomap option"
  cm_BinaryData :: "(string, string) gomap option"

record PVC =
  pvc_Namespace :: string
  pvc_Name :: string
  pvc_Labels :: "(string, string) gomap option"
  pvc_Annotations :: "(string, string) gomap option"
  pvc_Spec :: json

record 'x KubeEnv =
  ke_exec :: "'x ExecEnv"
  ke_DeletePod :: "string \<Rightarrow> string \<Rightarrow> int \<Rightarrow> 'x \<Rightarrow> err option \<times> 'x"
  ke_UpdateNode :: "NodeObject \<Rightarrow> 'x \<Rightarrow> err option \<times> 'x"
  ke_ListOnNode :: "duration \<Rightarrow> string \<Rightarrow> 'x \<Rightarrow> (err + DrainPod list) \<times> 'x"
  ke_Evict :: "duration \<Rightarrow> string \<Rightarrow> string \<Rightarrow> 'x \<Rightarrow> err option \<times> 'x"
  ke_Now :: "'x \<Rightarrow> time \<times> 'x"
  ke_Sleep :: "duration \<Rightarrow> 'x \<Rightarrow> 'x"
  ke_ParseDuration :: "string \<Rightarrow> err + duration"
  ke_ParseToLabelSelector :: "string \<Rightarrow> err + LabelSelector"
  ke_GetConfigMap :: "string \<Rightarrow> string \<Rightarrow> 'x \<Rightarrow> (KErr + ConfigMap) \<times> 'x"
  ke_UpdateConfigMap :: "ConfigMap \<Rightarrow> 'x \<Rightarrow> err option \<times> 'x"
  ke_CreateConfigMap :: "ConfigMap \<Rightarrow> 'x \<Rightarrow> err option \<times> 'x"
  ke_DeleteConfigMap :: "ConfigMap \<Rightarrow> 'x \<Rightarrow> err option \<times> 'x"
  ke_GetPVC :: "string \<Rightarrow> string \<Rightarrow> 'x \<Rightarrow> (KErr + PVC) \<times> 'x"
  ke_CreatePVC :: "PVC \<Rightarrow> 'x \<Rightarrow> err option \<times> 'x"
  ke_DeletePVC :: "PVC \<Rightarrow> 'x \<Rightarrow> err option \<times> 'x"

subsection \<open>Pod kill\<close>

definition grace_period :: "(string, string) gomap \<Rightarrow> err + int" where
  "grace_period params =
     (case map_of params ''gracePeriodSeconds'' of
        None \<Rightarrow> Inr 0
      | Some v \<Rightarrow> (case ParseInt 64 v of
                     None \<Rightarrow> Inl (''invalid gracePeriodSeconds '' @ quoted v @ '': '' @ ParseInt_error v)
                   | Some g \<Rightarrow> Inr g))"

fun delete_pods :: "'x KubeEnv \<Rightarrow> int \<Rightarrow> Pod list \<Rightarrow> 'x Cluster \<Rightarrow> err option \<times> 'x Cluster" where
  "delete_pods e g [] c = (None, c)"
| "delete_pods e g (p # ps) c =
     (case kube (ke_DeletePod e (pod_Namespace p) (pod_Name p) g) c of
        (Some err, c') \<Rightarrow> (Some (''pod-kill: delete pod '' @ pod_Namespace p @ ''/'' @ pod_Name p @ '': '' @ err), c')
      | (None, c') \<Rightarrow> delete_pods e g ps c')"

definition Kill_Execute :: "'x KubeEnv \<Rightarrow> ChaosExperiment \<Rightarrow> 'x Cluster \<Rightarrow> err option \<times> 'x Cluster" where
  "Kill_Execute e xp c =
     (case ResolveTargetPods (ke_exec e) (s_target (e_spec xp)) c of
        (Inl err, c') \<Rightarrow> (Some (''pod-kill: resolve targets: '' @ err), c')
      | (Inr pods, c') \<Rightarrow>
          (case ParseParameters (ee_jsonErr (ke_exec e)) xp of
             Inl err \<Rightarrow> (Some (''pod-kill: '' @ err), c')
           | Inr params \<Rightarrow>
               (case grace_period params of
                  Inl err \<Rightarrow> (Some (''pod-kill: '' @ err), c')
                | Inr g \<Rightarrow> delete_pods e g pods c')))"

definition Kill_Rollback :: "ChaosExperiment \<Rightarrow> 'x Cluster \<Rightarrow> err option \<times> 'x Cluster" where
  "Kill_Rollback xp c = (None, c)"

definition Kill_Validate :: "ChaosExperiment \<Rightarrow> err option" where
  "Kill_Validate xp = validateTarget xp ''pod-kill''"

subsection \<open>Node drain\<close>

text \<open>\<open>strconv.ParseBool\<close> with its error ignored.\<close>

definition ParseBool_value :: "string \<Rightarrow> bool" where
  "ParseBool_value s \<longleftrightarrow> s \<in> {''1'', ''t'', ''T'', ''TRUE'', ''true'', ''True''}"

definition bool_param :: "(string, string) gomap \<Rightarrow> string \<Rightarrow> bool" where
  "bool_param params k = (case map_of params k of None \<Rightarrow> True | Some v \<Rightarrow> ParseBool_value v)"

definition skip_pod :: "bool \<Rightarrow> bool \<Rightarrow> DrainPod \<Rightarrow> bool" where
  "skip_pod ignoreDaemonSets deleteEmptyDirData p \<longleftrightarrow>
     map_of (dp_Annotations p) ''kubernetes.io/config.mirror'' \<noteq> None \<or>
     (ignoreDaemonSets \<and> ''DaemonSet'' \<in> set (dp_OwnerKinds p)) \<or>
     (\<not> deleteEmptyDirData \<and> True \<in> set (dp_EmptyDirs p))"

fun evict_loop :: "'x KubeEnv \<Rightarrow> duration \<Rightarrow> bool \<Rightarrow> bool \<Rightarrow> DrainPod list \<Rightarrow> 'x Cluster \<Rightarrow> err option \<times> 'x Cluster" where
  "evict_loop e timeout ign del [] c = (None, c)"
| "evict_loop e timeout ign del (p # ps) c =
     (if skip_pod ign del p then evict_loop e timeout ign del ps c
      else
        (case kube (ke_Evict e timeout (pod_Namespace p) (pod_Name p)) c of
           (Some err, c') \<Rightarrow> (Some (''evict pod '' @ pod_Namespace p @ ''/'' @ pod_Name p @ '': '' @ err), c')
         | (None, c') \<Rightarrow> evict_loop e timeout ign del ps c'))"

definition evictPods :: "'x KubeEnv \<Rightarrow> string \<Rightarrow> duration \<Rightarrow> bool \<Rightarrow> bool \<Rightarrow> 'x Cluster \<Rightarrow> err option \<times> 'x Cluster" where
  "evictPods e nodeName timeout ign del c =
     (case kube (ke_ListOnNode e timeout nodeName) c of
        (Inl err, c') \<Rightarrow> (Some (''list pods on node '' @ nodeName @ '': '' @ err), c')
      | (Inr pods, c') \<Rightarrow> evict_loop e timeout ign del pods c')"

fun drain_nodes :: "'x KubeEnv \<Rightarrow> duration \<Rightarrow> bool \<Rightarrow> bool \<Rightarrow> NodeObject list \<Rightarrow> 'x Cluster \<Rightarrow> err option \<times> 'x Cluster" where
  "drain_nodes e timeout ign del [] c = (None, c)"
| "drain_nodes e timeout ign del (n # ns) c =
     (case kube (ke_UpdateNode e (n\<lparr>no_Unschedulable := True\<rparr>)) c of
        (Some err, c') \<Rightarrow> (Some (''node-drain: cordon node '' @ no_Name n @ '': '' @ err), c')
      | (None, c') \<Rightarrow>
          (case evictPods e (no_Name n) timeout ign del c' of
             (Some err, c'') \<Rightarrow> (Some (''node-drain: evict pods from node '' @ no_Name n @ '': '' @ err), c'')
           | (None, c'') \<Rightarrow> drain_nodes e timeout ign del ns c''))"

definition drain_timeout :: "'x KubeEnv \<Rightarrow> (string, string) gomap \<Rightarrow> err + duration" where
  "drain_timeout e params =
     (case map_of params ''timeout'' of
        None \<Rightarrow> Inr (300 * second)
      | Some v \<Rightarrow> (case ke_ParseDuration e v of
                     Inl err \<Rightarrow> Inl (''invalid timeout '' @ quoted v @ '': '' @ err)
                   | Inr d \<Rightarrow> Inr d))"

definition Drain_Execute :: "'x KubeEnv \<Rightarrow> ChaosExperiment \<Rightarrow> 'x Cluster \<Rightarrow> err option \<times> 'x Cluster" where
  "Drain_Execute e xp c =
     (case ResolveTargetNodes (ke_exec e) (s_target (e_spec xp)) c of
        (Inl err, c') \<Rightarrow> (Some (''node-drain: resolve targets: '' @ err), c')
      | (Inr nodes, c') \<Rightarrow>
          (case ParseParameters (ee_jsonErr (ke_exec e)) xp of
             Inl err \<Rightarrow> (Some (''node-drain: '' @ err), c')
           | Inr params \<Rightarrow>
               (case drain_timeout e params of
                  Inl err \<Rightarrow> (Some (''node-drain: '' @ err), c')
                | Inr timeout \<Rightarrow>
                    drain_nodes e timeout (bool_param params ''ignoreDaemonSets'') (bool_param params ''deleteEmptyDirData'') nodes c')))"

fun uncordon :: "'x KubeEnv \<Rightarrow> NodeObject list \<Rightarrow> 'x Cluster \<Rightarrow> err option \<times> 'x Cluster" where
  "uncordon e [] c = (None, c)"
| "uncordon e (n # ns) c =
     (case kube (ke_UpdateNode e (n\<lparr>no_Unschedulable := False\<rparr>)) c of
        (Some err, c') \<Rightarrow> (Some (''node-drain: uncordon node '' @ no_Name n @ '': '' @ err), c')
      | (None, c') \<Rightarrow> uncordon e ns c')"

definition Drain_Rollback :: "'x KubeEnv \<Rightarrow> ChaosExperiment \<Rightarrow> 'x Cluster \<Rightarrow> err option \<times> 'x Cluster" where
  "Drain_Rollback e xp c =
     (case ResolveTargetNodes (ke_exec e) (s_target (e_spec xp)) c of
        (Inl err, c') \<Rightarrow> (Some (''node-drain: rollback resolve targets: '' @ err), c')
      | (Inr nodes, c') \<Rightarrow> uncordon e nodes c')"

definition Drain_Validate :: "ChaosExperiment \<Rightarrow> err option" where
  "Drain_Validate xp = validateNodes xp ''node-drain''"

subsection \<open>Node taint\<close>

definition taint_effect_ok :: "string \<Rightarrow> bool" where
  "taint_effect_ok effect \<longleftrightarrow> effect \<in> {''NoSchedule'', ''NoExecute'', ''PreferNoSchedule''}"

definition buildTaint :: "(string, string) gomap \<Rightarrow> err + Taint" where
  "buildTaint params =
     (if gm_str params ''key'' = [] then Inl (''parameter '' @ [CHR 0x27] @ ''key'' @ [CHR 0x27] @ '' is required'')
      else if \<not> taint_effect_ok (gm_str params ''effect'') then Inl (''invalid effect '' @ quoted (gm_str params ''effect''))
      else Inr \<lparr>ta_Key = gm_str params ''key'', ta_Value = gm_str params ''value'', ta_Effect = gm_str params ''effect''\<rparr>)"

definition same_taint :: "Taint \<Rightarrow> Taint \<Rightarrow> bool" where
  "same_taint taint t \<longleftrightarrow> ta_Key t = ta_Key taint \<and> ta_Effect t = ta_Effect taint"

fun add_taints :: "'x KubeEnv \<Rightarrow> Taint \<Rightarrow> NodeObject list \<Rightarrow> 'x Cluster \<Rightarrow> err option \<times> 'x Cluster" where
  "add_taints e taint [] c = (None, c)"
| "add_taints e taint (n # ns) c =
     (if list_ex (same_taint taint) (no_Taints n) then add_taints e taint ns c
      else
        (case kube (ke_UpdateNode e (n\<lparr>no_Taints := no_Taints n @ [taint]\<rparr>)) c of
           (Some err, c') \<Rightarrow> (Some (''node-taint: add taint to node '' @ no_Name n @ '': '' @ err), c')
         | (None, c') \<Rightarrow> add_taints e taint ns c'))"

definition Taint_Execute :: "'x KubeEnv \<Rightarrow> ChaosExperiment \<Rightarrow> 'x Cluster \<Rightarrow> err option \<times> 'x Cluster" where
  "Taint_Execute e xp c =
     (case ResolveTargetNodes (ke_exec e) (s_target (e_spec xp)) c of
        (Inl err, c') \<Rightarrow> (Some (''node-taint: resolve targets: '' @ err), c')
      | (Inr nodes, c') \<Rightarrow>
          (case ParseParameters (ee_jsonErr (ke_exec e)) xp of
             Inl err \<Rightarrow> (Some (''node-taint: '' @ err), c')
           | Inr params \<Rightarrow>
               (case buildTaint params of
                  Inl err \<Rightarrow> (Some (''node-taint: '' @ err), c')
                | Inr taint \<Rightarrow> add_taints e taint nodes c')))"

fun remove_taints :: "'x KubeEnv \<Rightarrow> Taint \<Rightarrow> NodeObject list \<Rightarrow> 'x Cluster \<Rightarrow> err option \<times> 'x Cluster" where
  "remove_taints e taint [] c = (None, c)"
| "remove_taints e taint (n # ns) c =
     (case kube (ke_UpdateNode e (n\<lparr>no_Taints := filter (\<lambda>t. \<not> same_taint taint t) (no_Taints n)\<rparr>)) c of
        (Some err, c') \<Rightarrow> (Some (''node-taint: remove taint from node '' @ no_Name n @ '': '' @ err), c')
      | (None, c') \<Rightarrow> remove_taints e taint ns c')"

definition Taint_Rollback :: "'x KubeEnv \<Rightarrow> ChaosExperiment \<Rightarrow> 'x Cluster \<Rightarrow> err option \<times> 'x Cluster" where
  "Taint_Rollback e xp c =
     (case ResolveTargetNodes (ke_exec e) (s_target (e_spec xp)) c of
        (Inl err, c') \<Rightarrow> (Some (''node-taint: rollback resolve targets: '' @ err), c')
      | (Inr nodes, c') \<Rightarrow>
          (case ParseParameters (ee_jsonErr (ke_exec e)) xp of
             Inl err \<Rightarrow> (Some (''node-taint: rollback parse params: '' @ err), c')
           | Inr params \<Rightarrow>
               (case buildTaint params of
                  Inl err \<Rightarrow> (Some (''node-taint: rollback: '' @ err), c')
                | Inr taint \<Rightarrow> remove_taints e taint nodes c')))"

definition Taint_Validate :: "'x KubeEnv \<Rightarrow> ChaosExperiment \<Rightarrow> err option" where
  "Taint_Validate e xp =
     (case validateNodes xp ''node-taint'' of
        Some err \<Rightarrow> Some err
      | None \<Rightarrow>
          (case ParseParameters (ee_jsonErr (ke_exec e)) xp of
             Inl err \<Rightarrow> Some (''node-taint: '' @ err)
           | Inr params \<Rightarrow>
               if gm_str params ''key'' = [] then Some (''node-taint: parameter '' @ [CHR 0x27] @ ''key'' @ [CHR 0x27] @ '' is required'')
               else if \<not> taint_effect_ok (gm_str params ''effect'') then
                 Some (''node-taint: invalid effect '' @ quoted (gm_str params ''effect'') @ '', must be NoSchedule, NoExecute, or PreferNoSchedule'')
               else None))"

subsection \<open>Waiting for a restarted node\<close>

fun isNodeReady_loop :: "NodeCondition list \<Rightarrow> bool" where
  "isNodeReady_loop [] = False"
| "isNodeReady_loop (c # cs) = (if nc_Type c = ''Ready'' then nc_Status c = ''True'' else isNodeReady_loop cs)"

definition isNodeReady :: "NodeObject \<Rightarrow> bool" where
  "isNodeReady n = isNodeReady_loop (no_Conditions n)"

definition sleep :: "'x KubeEnv \<Rightarrow> duration \<Rightarrow> 'x Cluster \<Rightarrow> 'x Cluster" where
  "sleep e d c = c\<lparr>cl_ext := ke_Sleep e d (cl_ext c)\<rparr>"

text \<open>The polling loop of one node; \<open>None\<close> is a loop that never ends.\<close>

partial_function (option) wait_ready :: "'x KubeEnv \<Rightarrow> string \<Rightarrow> time \<Rightarrow> 'x Cluster \<Rightarrow> 'x Cluster option" where
  "wait_ready e name deadline c =
     (case kube (ke_Now e) c of (now, c1) \<Rightarrow>
        if \<not> now < deadline then Some c1
        else
          (case kube (ee_GetNode (ke_exec e) name) c1 of (got, c2) \<Rightarrow>
             (case got of
                Inl err \<Rightarrow> wait_ready e name deadline (sleep e (10 * second) c2)
              | Inr current \<Rightarrow>
                  if isNodeReady current then Some c2
                  else wait_ready e name deadline (sleep e (10 * second) c2))))"

fun wait_nodes :: "'x KubeEnv \<Rightarrow> NodeObject list \<Rightarrow> 'x Cluster \<Rightarrow> 'x Cluster option" where
  "wait_nodes e [] c = Some c"
| "wait_nodes e (n # ns) c =
     (case kube (ke_Now e) c of (now, c1) \<Rightarrow>
        (case wait_ready e (no_Name n) (now + 5 * minute) c1 of None \<Rightarrow> None | Some c2 \<Rightarrow> wait_nodes e ns c2))"

definition Restart_Rollback ::
    "'x KubeEnv \<Rightarrow> ChaosExperiment \<Rightarrow> nodeExecution ids \<times> 'x Cluster \<Rightarrow> (err option \<times> nodeExecution ids \<times> 'x Cluster) option" where
  "Restart_Rollback e xp ic =
     (case ic of (ids, c) \<Rightarrow>
      (case ResolveTargetNodes (ke_exec e) (s_target (e_spec xp)) c of
         (Inl err, c') \<Rightarrow> Some (Some (''node-restart: rollback resolve targets: '' @ err), ids, c')
       | (Inr nodes, c') \<Rightarrow>
           (case wait_nodes e nodes c' of
              None \<Rightarrow> None
            | Some c'' \<Rightarrow> Some (None, gm_del (m_uid (e_meta xp)) ids, c''))))"

subsection \<open>ConfigMaps\<close>

definition targetName :: "TargetSpec \<Rightarrow> string \<Rightarrow> err + string" where
  "targetName target actionType =
     (if length (t_names target) \<noteq> 1 then Inl (actionType @ '': target must specify exactly one name'')
      else if t_namespace target = [] then Inl (actionType @ '': target namespace is required'')
      else Inr (hd (t_names target)))"

record configMapSnapshot =
  cs_existed :: bool
  cs_data :: "(string, string) gomap option"
  cs_binaryData :: "(string, string) gomap option"

text \<open>Copying a map gives an equal one, nil for nil; copies matter only for aliasing, which HOL values have not.\<close>

definition copyStringMap :: "(string, string) gomap option \<Rightarrow> (string, string) gomap option" where
  "copyStringMap m = (case m of None \<Rightarrow> None | Some kvs \<Rightarrow> Some (map (\<lambda>(k, v). (k, v)) kvs))"

definition copyBytesMap :: "(string, string) gomap option \<Rightarrow> (string, string) gomap option" where
  "copyBytesMap m = (case m of None \<Rightarrow> None | Some kvs \<Rightarrow> Some (map (\<lambda>(k, v). (k, v)) kvs))"

definition corrupt_data :: "(string, string) gomap \<Rightarrow> (string, string) gomap option \<Rightarrow> (string, string) gomap" where
  "corrupt_data params d =
     (let corruptValue = (if gm_str params ''value'' = [] then ''chaosplane-corrupted'' else gm_str params ''value'');
          data = (case d of None \<Rightarrow> [] | Some m \<Rightarrow> m);
          key = gm_str params ''key'' in
      if key \<noteq> [] then gm_put key corruptValue data
      else
        (let data' = map (\<lambda>(k, _). (k, corruptValue)) data
         in if data' = [] then gm_put ''chaosplane'' corruptValue data' else data'))"

type_synonym 'x cm_state = "(string, configMapSnapshot) gomap \<times> 'x"

definition ConfigMapChaos_Execute :: "'x KubeEnv \<Rightarrow> ChaosExperiment \<Rightarrow> 'x cm_state \<Rightarrow> err option \<times> 'x cm_state" where
  "ConfigMapChaos_Execute e xp sx =
     (case sx of (st, x) \<Rightarrow>
      (case targetName (s_target (e_spec xp)) ''configmap-chaos'' of
         Inl err \<Rightarrow> (Some err, st, x)
       | Inr name \<Rightarrow>
          (let ns = t_namespace (s_target (e_spec xp)); nsname = ns @ ''/'' @ name in
           case ParseParameters (ee_jsonErr (ke_exec e)) xp of
             Inl err \<Rightarrow> (Some (''configmap-chaos: '' @ err), st, x)
           | Inr params \<Rightarrow>
              (case ke_GetConfigMap e ns name x of
                 (Inl err, x1) \<Rightarrow> (Some (''configmap-chaos: get configmap '' @ nsname @ '': '' @ kerr_msg err), st, x1)
               | (Inr cm, x1) \<Rightarrow>
                  (let snap = \<lparr>cs_existed = True, cs_data = copyStringMap (cm_Data cm), cs_binaryData = copyBytesMap (cm_BinaryData cm)\<rparr>;
                       mode = (if gm_str params ''mode'' = [] then ''corrupt'' else gm_str params ''mode'');
                       st' = gm_put (m_uid (e_meta xp)) snap st in
                   if mode = ''delete'' then
                     (case ke_DeleteConfigMap e cm x1 of
                        (Some err, x2) \<Rightarrow> (Some (''configmap-chaos: delete '' @ nsname @ '': '' @ err), st, x2)
                      | (None, x2) \<Rightarrow> (None, st', x2))
                   else if mode = ''corrupt'' then
                     (case ke_UpdateConfigMap e (cm\<lparr>cm_Data := Some (corrupt_data params (cm_Data cm))\<rparr>) x1 of
                        (Some err, x2) \<Rightarrow> (Some (''configmap-chaos: update '' @ nsname @ '': '' @ err), st, x2)
                      | (None, x2) \<Rightarrow> (None, st', x2))
                   else (Some (''configmap-chaos: unknown mode '' @ quoted mode @ '' (want corrupt|delete)''), st, x1))))))"

text \<open>\<open>Names[0]\<close> panics when the target names nothing: the result \<open>None\<close>.\<close>

definition ConfigMapChaos_Rollback :: "'x KubeEnv \<Rightarrow> ChaosExperiment \<Rightarrow> 'x cm_state \<Rightarrow> err option option \<times> 'x cm_state" where
  "ConfigMapChaos_Rollback e xp sx =
     (case sx of (st, x) \<Rightarrow>
      (let st' = gm_del (m_uid (e_meta xp)) st in
       case map_of st (m_uid (e_meta xp)) of
         None \<Rightarrow> (Some None, st', x)
       | Some snap \<Rightarrow>
           (case t_names (s_target (e_spec xp)) of
              [] \<Rightarrow> (None, st', x)
            | name # _ \<Rightarrow>
                (let ns = t_namespace (s_target (e_spec xp)); nsname = ns @ ''/'' @ name in
                 case ke_GetConfigMap e ns name x of
                   (Inl (NotFound _), x1) \<Rightarrow>
                     (case ke_CreateConfigMap e \<lparr>cm_Namespace = ns, cm_Name = name, cm_Labels = None, cm_Data = cs_data snap, cm_BinaryData = cs_binaryData snap\<rparr> x1 of
                        (Some err, x2) \<Rightarrow> (Some (Some (''configmap-chaos: recreate '' @ nsname @ '': '' @ err)), st', x2)
                      | (None, x2) \<Rightarrow> (Some None, st', x2))
                 | (Inl (KOther err), x1) \<Rightarrow> (Some (Some (''configmap-chaos: rollback get '' @ nsname @ '': '' @ err)), st', x1)
                 | (Inr cm, x1) \<Rightarrow>
                     (case ke_UpdateConfigMap e (cm\<lparr>cm_Data := cs_data snap, cm_BinaryData := cs_binaryData snap\<rparr>) x1 of
                        (Some err, x2) \<Rightarrow> (Some (Some (''configmap-chaos: restore '' @ nsname @ '': '' @ err)), st', x2)
                      | (None, x2) \<Rightarrow> (Some None, st', x2))))))"

definition ConfigMapChaos_Validate :: "ChaosExperiment \<Rightarrow> err option" where
  "ConfigMapChaos_Validate xp =
     (case targetName (s_target (e_spec xp)) ''configmap-chaos'' of Inl err \<Rightarrow> Some err | Inr _ \<Rightarrow> None)"

subsection \<open>Persistent volume claims\<close>

type_synonym 'x pvc_state = "(string, PVC) gomap \<times> 'x"

definition PVCChaos_Execute :: "'x KubeEnv \<Rightarrow> ChaosExperiment \<Rightarrow> 'x pvc_state \<Rightarrow> err option \<times> 'x pvc_state" where
  "PVCChaos_Execute e xp sx =
     (case sx of (st, x) \<Rightarrow>
      (case targetName (s_target (e_spec xp)) ''pvc-chaos'' of
         Inl err \<Rightarrow> (Some err, st, x)
       | Inr name \<Rightarrow>
          (let ns = t_namespace (s_target (e_spec xp)); nsname = ns @ ''/'' @ name in
           case ke_GetPVC e ns name x of
             (Inl err, x1) \<Rightarrow> (Some (''pvc-chaos: get pvc '' @ nsname @ '': '' @ kerr_msg err), st, x1)
           | (Inr pvc, x1) \<Rightarrow>
               (let snap = \<lparr>pvc_Namespace = ns, pvc_Name = name, pvc_Labels = copyStringMap (pvc_Labels pvc),
                            pvc_Annotations = copyStringMap (pvc_Annotations pvc), pvc_Spec = pvc_Spec pvc\<rparr> in
                case ke_DeletePVC e pvc x1 of
                  (Some err, x2) \<Rightarrow> (Some (''pvc-chaos: delete '' @ nsname @ '': '' @ err), st, x2)
                | (None, x2) \<Rightarrow> (None, gm_put (m_uid (e_meta xp)) snap st, x2)))))"

definition PVCChaos_Rollback :: "'x KubeEnv \<Rightarrow> ChaosExperiment \<Rightarrow> 'x pvc_state \<Rightarrow> err option \<times> 'x pvc_state" where
  "PVCChaos_Rollback e xp sx =
     (case sx of (st, x) \<Rightarrow>
      (let st' = gm_del (m_uid (e_meta xp)) st in
       case map_of st (m_uid (e_meta xp)) of
         None \<Rightarrow> (None, st', x)
       | Some snap \<Rightarrow>
           (let nsname = pvc_Namespace snap @ ''/'' @ pvc_Name snap in
            case ke_GetPVC e (pvc_Namespace snap) (pvc_Name snap) x of
              (Inr _, x1) \<Rightarrow> (None, st', x1)
            | (Inl (KOther err), x1) \<Rightarrow> (Some (''pvc-chaos: rollback get '' @ nsname @ '': '' @ err), st', x1)
            | (Inl (NotFound _), x1) \<Rightarrow>
                (case ke_CreatePVC e \<lparr>pvc_Namespace = pvc_Namespace snap, pvc_Name = pvc_Name snap, pvc_Labels = pvc_Labels snap,
                        pvc_Annotations = pvc_Annotations snap, pvc_Spec = pvc_Spec snap\<rparr> x1 of
                   (Some err, x2) \<Rightarrow> (Some (''pvc-chaos: recreate '' @ nsname @ '': '' @ err), st', x2)
                 | (None, x2) \<Rightarrow> (None, st', x2)))))"

definition PVCChaos_Validate :: "ChaosExperiment \<Rightarrow> err option" where
  "PVCChaos_Validate xp = (case targetName (s_target (e_spec xp)) ''pvc-chaos'' of Inl err \<Rightarrow> Some err | Inr _ \<Rightarrow> None)"

subsection \<open>etcd latency\<close>

definition etcdExperiment :: "'x KubeEnv \<Rightarrow> ChaosExperiment \<Rightarrow> err + ChaosExperiment" where
  "etcdExperiment e xp =
     (let target = s_target (e_spec xp);
          ns = (if t_namespace target = [] then ''kube-system'' else t_namespace target);
          clone = (\<lambda>names sel. xp\<lparr>e_spec := (e_spec xp)\<lparr>s_target :=
             \<lparr>t_kind = ''Pod'', t_namespace = ns, t_labelSelector = sel, t_names = names\<rparr>\<rparr>\<rparr>);
          pointed = (if t_names target \<noteq> [] then Inr (clone (t_names target) None)
             else (case t_labelSelector target of
                     Some ls \<Rightarrow> Inr (clone [] (Some ls))
                   | None \<Rightarrow>
                       (case ke_ParseToLabelSelector e ''component=etcd'' of
                          Inl err \<Rightarrow> Inl (''etcd-latency: parse default selector: '' @ err)
                        | Inr sel \<Rightarrow> Inr (clone [] (Some sel))))) in
      case pointed of
        Inl err \<Rightarrow> Inl err
      | Inr xp' \<Rightarrow> if a_parameters (s_action (e_spec xp')) = None then Inl ''etcd-latency: latency parameter is required'' else Inr xp')"

definition EtcdLatency_Execute ::
    "'x KubeEnv \<Rightarrow> ChaosExperiment \<Rightarrow> executionRecord ids \<times> 'x Cluster \<Rightarrow> err option \<times> executionRecord ids \<times> 'x Cluster" where
  "EtcdLatency_Execute e xp ic =
     (case etcdExperiment e xp of
        Inl err \<Rightarrow> (Some err, ic)
      | Inr target \<Rightarrow>
          (case Delay_Execute (ke_exec e) target ic of
             (Some err, ic') \<Rightarrow> (Some (''etcd-latency: '' @ err), ic')
           | (None, ic') \<Rightarrow> (None, ic')))"

definition EtcdLatency_Rollback ::
    "'x KubeEnv \<Rightarrow> ChaosExperiment \<Rightarrow> executionRecord ids \<times> 'x Cluster \<Rightarrow> err option \<times> executionRecord ids \<times> 'x Cluster" where
  "EtcdLatency_Rollback e xp ic =
     (case etcdExperiment e xp of
        Inl err \<Rightarrow> (Some err, ic)
      | Inr target \<Rightarrow>
          (case Delay_Rollback (ke_exec e) target ic of
             (Some err, ic') \<Rightarrow> (Some (''etcd-latency: '' @ err), ic')
           | (None, ic') \<Rightarrow> (None, ic')))"

definition EtcdLatency_Validate :: "'x KubeEnv \<Rightarrow> ChaosExperiment \<Rightarrow> err option" where
  "EtcdLatency_Validate e xp = require_params (ke_exec e) ''etcd-latency'' xp [''latency'']"

section \<open>Specification\<close>

text \<open>The clock does not run backwards, and sleeping takes at least as long as asked.\<close>

definition clock_laws :: "'x KubeEnv \<Rightarrow> ('x \<Rightarrow> time) \<Rightarrow> bool" where
  "clock_laws e clock \<longleftrightarrow>
     (\<forall>x. fst (ke_Now e x) = clock x \<and> clock x \<le> clock (snd (ke_Now e x))) \<and>
     (\<forall>name x. clock x \<le> clock (snd (ee_GetNode (ke_exec e) name x))) \<and>
     (\<forall>d x. clock x + d \<le> clock (ke_Sleep e d x))"

text \<open>The API server as a store of nodes by name: a read answers from it, an update replaces one node.\<close>

definition node_laws :: "'x KubeEnv \<Rightarrow> ('x \<Rightarrow> string \<rightharpoonup> NodeObject) \<Rightarrow> bool" where
  "node_laws e nodes \<longleftrightarrow>
     (\<forall>name x n. nodes x name = Some n \<longrightarrow> no_Name n = name \<and> ee_GetNode (ke_exec e) name x = (Inr n, x)) \<and>
     (\<forall>name x. nodes x name = None \<longrightarrow> (\<exists>err. ee_GetNode (ke_exec e) name x = (Inl err, x))) \<and>
     (\<forall>n x. fst (ke_UpdateNode e n x) = None \<and> nodes (snd (ke_UpdateNode e n x)) = (nodes x)(no_Name n \<mapsto> n))"

text \<open>The API server as a store of ConfigMaps.\<close>

definition configmap_laws :: "'x KubeEnv \<Rightarrow> ('x \<Rightarrow> key \<rightharpoonup> ConfigMap) \<Rightarrow> bool" where
  "configmap_laws e cms \<longleftrightarrow>
     (\<forall>ns name x cm. cms x (ns, name) = Some cm \<longrightarrow>
        (cm_Namespace cm, cm_Name cm) = (ns, name) \<and> ke_GetConfigMap e ns name x = (Inr cm, x)) \<and>
     (\<forall>ns name x. cms x (ns, name) = None \<longrightarrow> (\<exists>err. ke_GetConfigMap e ns name x = (Inl (NotFound err), x))) \<and>
     (\<forall>cm x. fst (ke_UpdateConfigMap e cm x) = None \<and>
        cms (snd (ke_UpdateConfigMap e cm x)) = (cms x)((cm_Namespace cm, cm_Name cm) \<mapsto> cm)) \<and>
     (\<forall>cm x. fst (ke_CreateConfigMap e cm x) = None \<and>
        cms (snd (ke_CreateConfigMap e cm x)) = (cms x)((cm_Namespace cm, cm_Name cm) \<mapsto> cm)) \<and>
     (\<forall>cm x. fst (ke_DeleteConfigMap e cm x) = None \<and>
        cms (snd (ke_DeleteConfigMap e cm x)) = (cms x)((cm_Namespace cm, cm_Name cm) := None))"

section \<open>Lemmas\<close>

subsection \<open>Waiting\<close>

lemma kube_clock:
  "clock_laws e clock \<Longrightarrow> kube (ke_Now e) c = (now, c') \<Longrightarrow> now = clock (cl_ext c) \<and> clock (cl_ext c) \<le> clock (cl_ext c')"
  "clock_laws e clock \<Longrightarrow> kube (ee_GetNode (ke_exec e) name) c = (got, c') \<Longrightarrow> clock (cl_ext c) \<le> clock (cl_ext c')"
  by (auto simp: clock_laws_def kube_def split: prod.splits) (metis fst_conv snd_conv)+

text \<open>Each round that does not end the loop brings the deadline ten seconds closer.\<close>

lemma wait_ready_returns:
  assumes "clock_laws e clock"
  shows "\<exists>c'. wait_ready e name deadline c = Some c' \<and> cl_rpcs c' = cl_rpcs c"
proof (induction "nat (deadline - clock (cl_ext c))" arbitrary: c rule: less_induct)
  case less
  obtain now c1 where now: "kube (ke_Now e) c = (now, c1)" by (cases "kube (ke_Now e) c")
  obtain got c2 where got: "kube (ee_GetNode (ke_exec e) name) c1 = (got, c2)" by (cases "kube (ee_GetNode (ke_exec e) name) c1")
  have rpcs: "cl_rpcs c1 = cl_rpcs c" "cl_rpcs c2 = cl_rpcs c" using now got by simp_all
  let ?c3 = "sleep e (10 * second) c2"
  show ?case
  proof (cases "now < deadline \<and> (\<forall>n. got = Inr n \<longrightarrow> \<not> isNodeReady n)")
    case True
    have "clock (cl_ext c2) + 10 * second \<le> clock (cl_ext ?c3)"
      using assms by (auto simp: clock_laws_def sleep_def)
    then have "nat (deadline - clock (cl_ext ?c3)) < nat (deadline - clock (cl_ext c))"
      using kube_clock [OF assms] now got True by (auto simp: second_def) (smt (verit) kube_clock assms)
    then obtain c' where "wait_ready e name deadline ?c3 = Some c'" "cl_rpcs c' = cl_rpcs ?c3" using less by blast
    moreover have "wait_ready e name deadline c = wait_ready e name deadline ?c3"
      using True by (subst wait_ready.simps) (auto simp: now got split: sum.splits)
    ultimately show ?thesis using rpcs by (simp add: sleep_def)
  next
    case False
    then show ?thesis using rpcs by (subst wait_ready.simps) (auto simp: now got split: sum.splits)
  qed
qed

lemma wait_nodes_returns:
  assumes "clock_laws e clock"
  shows "\<exists>c'. wait_nodes e ns c = Some c' \<and> cl_rpcs c' = cl_rpcs c"
proof (induction ns arbitrary: c)
  case (Cons n ns)
  obtain now c1 where now: "kube (ke_Now e) c = (now, c1)" by (cases "kube (ke_Now e) c")
  obtain c2 where "wait_ready e (no_Name n) (now + 5 * minute) c1 = Some c2" "cl_rpcs c2 = cl_rpcs c1"
    using wait_ready_returns [OF assms] by blast
  with Cons [of c2] now kube_rpcs [OF now] show ?case by auto
qed simp

subsection \<open>Draining\<close>

text \<open>Only pods that are not to be skipped are evicted, in the order of the list.\<close>

lemma evict_loop_skips: "evict_loop e t ign del ps c = evict_loop e t ign del (filter (\<lambda>p. \<not> skip_pod ign del p) ps) c"
  by (induction ps arbitrary: c) (auto split: prod.splits option.splits)

subsection \<open>etcd latency\<close>

text \<open>The copy keeps the identity and the action, so that rollback finds the ids that execute kept.\<close>

lemma etcdExperiment_keeps:
  "etcdExperiment e xp = Inr xp' \<Longrightarrow> e_meta xp' = e_meta xp \<and> s_action (e_spec xp') = s_action (e_spec xp)"
  by (auto simp: etcdExperiment_def Let_def split: if_splits option.splits sum.splits)

lemma EtcdLatency_undone:
  assumes "etcdExperiment e xp = Inr xp'" and "gm_list ids (uid_of xp) = []"
    and "EtcdLatency_Execute e xp (ids, c) = (r, ids', c')" and "EtcdLatency_Rollback e xp (ids', d) = (None, ids'', d')"
  shows "\<exists>new undo. cl_rpcs c' = cl_rpcs c @ new \<and> cl_rpcs d' = cl_rpcs d @ undo \<and> cancels undo = started new"
proof -
  have uid: "uid_of xp' = uid_of xp" using etcdExperiment_keeps [OF assms(1)] by simp
  obtain r' where run: "map_prod Some id (Delay_Execute (ke_exec e) xp' (ids, c)) = (r', ids', c')"
    using assms(1,3) by (auto simp: EtcdLatency_Execute_def split: prod.splits option.splits)
  have undo: "Delay_Rollback (ke_exec e) xp' (ids', d) = (None, ids'', d')"
    using assms(1,4) by (auto simp: EtcdLatency_Rollback_def split: prod.splits option.splits)
  show ?thesis using net_delay.rollback_after_execute [OF run _ undo] assms(2) by (auto simp: uid)
qed

subsection \<open>Taints\<close>

lemma get_nodes_found:
  assumes "node_laws e nodes" and "\<forall>name \<in> set names. nodes (cl_ext c) name \<noteq> None"
  shows "get_nodes (ke_exec e) names acc c = (Inr (acc @ map (the \<circ> nodes (cl_ext c)) names), c)"
  using assms(2)
proof (induction names arbitrary: acc)
  case (Cons name names)
  then obtain n where n: "nodes (cl_ext c) name = Some n" by auto
  then have "kube (ee_GetNode (ke_exec e) name) c = (Inr n, c)" using assms(1) by (auto simp: node_laws_def kube_def)
  with Cons n show ?case by simp
qed simp

lemma update_node:
  assumes "node_laws e nodes"
  obtains c' where "kube (ke_UpdateNode e n) c = (None, c')" "nodes (cl_ext c') = (nodes (cl_ext c))(no_Name n \<mapsto> n)"
proof -
  obtain r x where u: "ke_UpdateNode e n (cl_ext c) = (r, x)" by (cases "ke_UpdateNode e n (cl_ext c)")
  then have "r = None" "nodes x = (nodes (cl_ext c))(no_Name n \<mapsto> n)"
    using assms unfolding node_laws_def by (metis fst_conv, metis snd_conv)
  with u show thesis by (intro that [of "c\<lparr>cl_ext := x\<rparr>"]) (auto simp: kube_def)
qed

definition tainted :: "Taint \<Rightarrow> NodeObject \<Rightarrow> NodeObject" where
  "tainted taint n = (if list_ex (same_taint taint) (no_Taints n) then n else n\<lparr>no_Taints := no_Taints n @ [taint]\<rparr>)"

definition untainted :: "Taint \<Rightarrow> NodeObject \<Rightarrow> NodeObject" where
  "untainted taint n = n\<lparr>no_Taints := filter (\<lambda>t. \<not> same_taint taint t) (no_Taints n)\<rparr>"

lemma untainted_tainted: "untainted taint (tainted taint n) = untainted taint n"
  by (simp add: untainted_def tainted_def same_taint_def)

text \<open>Both loops apply a function to every target and leave the other nodes alone.\<close>

definition each_node :: "(NodeObject \<Rightarrow> NodeObject) \<Rightarrow> NodeObject list \<Rightarrow> (string \<rightharpoonup> NodeObject) \<Rightarrow> string \<rightharpoonup> NodeObject" where
  "each_node f ns m = fold (\<lambda>n m. m(no_Name n \<mapsto> f n)) ns m"

lemma each_node_Cons: "each_node f (n # ns) m = each_node f ns (m(no_Name n \<mapsto> f n))"
  by (simp add: each_node_def)

lemma each_node_named:
  "\<forall>name \<in> set names. no_Name (the (g name)) = name \<Longrightarrow> distinct names \<Longrightarrow>
     each_node f (map (the \<circ> g) names) m = (\<lambda>name. if name \<in> set names then Some (f (the (g name))) else m name)"
  by (induction names arbitrary: m) (auto simp: each_node_def fun_eq_iff)

lemma tainted_name [simp]: "no_Name (tainted taint n) = no_Name n" "no_Name (untainted taint n) = no_Name n"
  by (simp_all add: tainted_def untainted_def)

lemma add_taints_step:
  "list_ex (same_taint taint) (no_Taints n) \<Longrightarrow> add_taints e taint (n # ns) c = add_taints e taint ns c"
  "\<not> list_ex (same_taint taint) (no_Taints n) \<Longrightarrow> kube (ke_UpdateNode e (tainted taint n)) c = (None, c1) \<Longrightarrow>
     add_taints e taint (n # ns) c = add_taints e taint ns c1"
  by (simp_all add: tainted_def)

lemma remove_taints_step:
  "kube (ke_UpdateNode e (untainted taint n)) c = (None, c1) \<Longrightarrow> remove_taints e taint (n # ns) c = remove_taints e taint ns c1"
  by (simp add: untainted_def)

lemma add_taints_result:
  assumes "node_laws e nodes"
  shows "\<forall>n \<in> set ns. nodes (cl_ext c) (no_Name n) = Some n \<Longrightarrow> distinct (map no_Name ns) \<Longrightarrow>
    \<exists>c'. add_taints e taint ns c = (None, c') \<and> nodes (cl_ext c') = each_node (tainted taint) ns (nodes (cl_ext c))"
proof (induction ns arbitrary: c)
  case (Cons n ns)
  show ?case
  proof (cases "list_ex (same_taint taint) (no_Taints n)")
    case True
    then have "(nodes (cl_ext c))(no_Name n \<mapsto> tainted taint n) = nodes (cl_ext c)"
      using Cons.prems(1) True by (simp add: tainted_def fun_upd_idem)
    moreover have "\<exists>c'. add_taints e taint ns c = (None, c') \<and> nodes (cl_ext c') = each_node (tainted taint) ns (nodes (cl_ext c))"
      using Cons.IH [of c] Cons.prems by simp
    ultimately show ?thesis unfolding add_taints_step(1) [OF True] each_node_Cons by simp
  next
    case False
    obtain c1 where c1: "kube (ke_UpdateNode e (tainted taint n)) c = (None, c1)"
      "nodes (cl_ext c1) = (nodes (cl_ext c))(no_Name n \<mapsto> tainted taint n)"
      using update_node [OF assms, of "tainted taint n" c] by (metis tainted_name(1))
    have "no_Name n \<notin> no_Name ` set ns" using Cons.prems(2) by simp
    then have "\<forall>m \<in> set ns. no_Name m \<noteq> no_Name n" by (metis image_eqI)
    then have "\<forall>m \<in> set ns. nodes (cl_ext c1) (no_Name m) = Some m" using Cons.prems(1) by (simp add: c1(2))
    moreover have "distinct (map no_Name ns)" using Cons.prems(2) by simp
    ultimately show ?thesis using Cons.IH [of c1]
      unfolding add_taints_step(2) [OF False c1(1)] each_node_Cons c1(2) by metis
  qed
qed (simp add: each_node_def)

lemma remove_taints_result:
  assumes "node_laws e nodes"
  shows "\<exists>c'. remove_taints e taint ns c = (None, c') \<and> nodes (cl_ext c') = each_node (untainted taint) ns (nodes (cl_ext c))"
proof (induction ns arbitrary: c)
  case (Cons n ns)
  obtain c1 where c1: "kube (ke_UpdateNode e (untainted taint n)) c = (None, c1)"
    "nodes (cl_ext c1) = (nodes (cl_ext c))(no_Name n \<mapsto> untainted taint n)"
    using update_node [OF assms, of "untainted taint n" c] by (metis tainted_name(2))
  show ?case using Cons [of c1] unfolding remove_taints_step [OF c1(1)] each_node_Cons c1(2) .
qed (simp add: each_node_def)

lemma named_nodes:
  assumes "node_laws e nodes" and "\<forall>name \<in> set names. nodes (cl_ext c) name \<noteq> None"
  shows "\<forall>name \<in> set names. no_Name (the (nodes (cl_ext c) name)) = name"
    and "map no_Name (map (the \<circ> nodes (cl_ext c)) names) = names"
proof -
  show named: "\<forall>name \<in> set names. no_Name (the (nodes (cl_ext c) name)) = name"
    using assms unfolding node_laws_def by fastforce
  then show "map no_Name (map (the \<circ> nodes (cl_ext c)) names) = names" by (simp add: map_idI)
qed

subsection \<open>ConfigMaps\<close>

lemma copies [simp]: "copyStringMap m = m" "copyBytesMap m = m"
  by (simp_all add: copyStringMap_def copyBytesMap_def split: option.splits)

lemma configmap_lawsD:
  assumes "configmap_laws e cms"
  shows "cms x (ns, name) = Some cm \<Longrightarrow> cm_Namespace cm = ns \<and> cm_Name cm = name \<and> ke_GetConfigMap e ns name x = (Inr cm, x)"
    and "cms x (ns, name) = None \<Longrightarrow> \<exists>err. ke_GetConfigMap e ns name x = (Inl (NotFound err), x)"
    and "\<exists>x'. ke_UpdateConfigMap e cm x = (None, x') \<and> cms x' = (cms x)((cm_Namespace cm, cm_Name cm) \<mapsto> cm)"
    and "\<exists>x'. ke_CreateConfigMap e cm x = (None, x') \<and> cms x' = (cms x)((cm_Namespace cm, cm_Name cm) \<mapsto> cm)"
    and "\<exists>x'. ke_DeleteConfigMap e cm x = (None, x') \<and> cms x' = (cms x)((cm_Namespace cm, cm_Name cm) := None)"
  using assms unfolding configmap_laws_def
  by (metis prod.inject, metis, metis prod.collapse, metis prod.collapse, metis prod.collapse)

text \<open>What a successful \<open>Execute\<close> did: the snapshot it kept, and the object it corrupted or deleted.\<close>

lemma ConfigMapChaos_Execute_ok:
  assumes laws: "configmap_laws e cms" and run: "ConfigMapChaos_Execute e xp (st, x) = (None, st', x')"
  obtains name cm snap where "t_names (s_target (e_spec xp)) = [name]"
    "cms x (t_namespace (s_target (e_spec xp)), name) = Some cm" "st' = gm_put (m_uid (e_meta xp)) snap st"
    "cs_data snap = cm_Data cm" "cs_binaryData snap = cm_BinaryData cm"
    "cms x' = (cms x)((t_namespace (s_target (e_spec xp)), name) := None) \<or>
     (\<exists>d. cms x' = (cms x)((t_namespace (s_target (e_spec xp)), name) \<mapsto> cm\<lparr>cm_Data := d\<rparr>))"
proof -
  let ?ns = "t_namespace (s_target (e_spec xp))"
  obtain name where name: "targetName (s_target (e_spec xp)) ''configmap-chaos'' = Inr name"
    using run by (cases "targetName (s_target (e_spec xp)) ''configmap-chaos''") (auto simp: ConfigMapChaos_Execute_def)
  then have names: "t_names (s_target (e_spec xp)) = [name]"
    by (auto simp: targetName_def length_Suc_conv split: if_splits)
  obtain params where params: "ParseParameters (ee_jsonErr (ke_exec e)) xp = Inr params"
    using run name by (cases "ParseParameters (ee_jsonErr (ke_exec e)) xp") (auto simp: ConfigMapChaos_Execute_def)
  obtain cm where cm: "cms x (?ns, name) = Some cm"
  proof (cases "cms x (?ns, name)")
    case None
    then show thesis using run name params configmap_lawsD(2) [OF laws None] by (auto simp: ConfigMapChaos_Execute_def Let_def)
  qed (rule that)
  note get = configmap_lawsD(1) [OF laws cm]
  let ?d = "Some (corrupt_data params (cm_Data cm))"
  obtain xu where up: "ke_UpdateConfigMap e (cm\<lparr>cm_Data := ?d\<rparr>) x = (None, xu)" "cms xu = (cms x)((?ns, name) \<mapsto> cm\<lparr>cm_Data := ?d\<rparr>)"
    using configmap_lawsD(3) [OF laws, of "cm\<lparr>cm_Data := ?d\<rparr>" x] get by auto
  obtain xd where del: "ke_DeleteConfigMap e cm x = (None, xd)" "cms xd = (cms x)((?ns, name) := None)"
    using configmap_lawsD(5) [OF laws, of cm x] get by auto
  show thesis using run name params get up del
    by (intro that [OF names cm]) (auto simp: ConfigMapChaos_Execute_def Let_def split: if_splits)
qed

section \<open>A small API server\<close>

record MiniKube =
  mk_nodes :: "NodeObject list"
  mk_configmaps :: "ConfigMap list"
  mk_clock :: int

definition mini_node :: "MiniKube \<Rightarrow> string \<rightharpoonup> NodeObject" where
  "mini_node x name = find (\<lambda>n. no_Name n = name) (mk_nodes x)"

definition mini_configmap :: "MiniKube \<Rightarrow> key \<rightharpoonup> ConfigMap" where
  "mini_configmap x k = find (\<lambda>cm. (cm_Namespace cm, cm_Name cm) = k) (mk_configmaps x)"

definition mini_put :: "ConfigMap \<Rightarrow> MiniKube \<Rightarrow> err option \<times> MiniKube" where
  "mini_put cm x = (None, x\<lparr>mk_configmaps := cm # filter (\<lambda>m. (cm_Namespace m, cm_Name m) \<noteq> (cm_Namespace cm, cm_Name cm)) (mk_configmaps x)\<rparr>)"

definition mini_exec :: "MiniKube ExecEnv" where
  "mini_exec =
     \<lparr>ee_jsonErr = (\<lambda>_. ''bad json''), ee_selectorErr = (\<lambda>_. None), ee_labels = (\<lambda>_. []),
      ee_GetPod = (\<lambda>ns name x. (Inl ''no pods'', x)), ee_ListPods = (\<lambda>ns ls x. (Inr [], x)),
      ee_GetNode = (\<lambda>name x. (case mini_node x name of None \<Rightarrow> Inl ''not found'' | Some n \<Rightarrow> Inr n, x)),
      ee_ListNodes = (\<lambda>ls x. (Inr (mk_nodes x), x)), ee_Dial = (\<lambda>ep x. None),
      ee_Exec = (\<lambda>ep req x. (Inl [], x)), ee_Cancel = (\<lambda>ep i x. (Inl [], x))\<rparr>"

definition mini_env :: "MiniKube KubeEnv" where
  "mini_env =
     \<lparr>ke_exec = mini_exec, ke_DeletePod = (\<lambda>ns name g x. (None, x)),
      ke_UpdateNode = (\<lambda>n x. (None, x\<lparr>mk_nodes := n # filter (\<lambda>m. no_Name m \<noteq> no_Name n) (mk_nodes x)\<rparr>)),
      ke_ListOnNode = (\<lambda>t name x. (Inr [], x)), ke_Evict = (\<lambda>t ns name x. (None, x)),
      ke_Now = (\<lambda>x. (mk_clock x, x)), ke_Sleep = (\<lambda>d x. x\<lparr>mk_clock := mk_clock x + d\<rparr>),
      ke_ParseDuration = (\<lambda>s. Inl ''no duration''), ke_ParseToLabelSelector = (\<lambda>s. Inl ''no selector''),
      ke_GetConfigMap = (\<lambda>ns name x. (case mini_configmap x (ns, name) of None \<Rightarrow> Inl (NotFound ''not found'') | Some cm \<Rightarrow> Inr cm, x)),
      ke_UpdateConfigMap = mini_put, ke_CreateConfigMap = mini_put,
      ke_DeleteConfigMap = (\<lambda>cm x. (None, x\<lparr>mk_configmaps := filter (\<lambda>m. (cm_Namespace m, cm_Name m) \<noteq> (cm_Namespace cm, cm_Name cm)) (mk_configmaps x)\<rparr>)),
      ke_GetPVC = (\<lambda>ns name x. (Inl (NotFound ''not found''), x)), ke_CreatePVC = (\<lambda>p x. (None, x)), ke_DeletePVC = (\<lambda>p x. (None, x))\<rparr>"

lemma mini_clock: "clock_laws mini_env mk_clock"
  by (simp add: clock_laws_def mini_env_def mini_exec_def)

lemma mini_nodes: "node_laws mini_env mini_node"
  by (auto simp: node_laws_def mini_env_def mini_exec_def mini_node_def find_filter fun_eq_iff find_None_iff
      split: option.split dest: find_holds intro!: arg_cong [where f = "\<lambda>P. find P _"])

lemma mini_configmaps: "configmap_laws mini_env mini_configmap"
  by (auto simp: configmap_laws_def mini_env_def mini_put_def mini_configmap_def find_filter fun_eq_iff find_None_iff
      split: option.split dest: find_holds intro!: arg_cong [where f = "\<lambda>P. find P _"])

definition mini_kube :: MiniKube where
  "mini_kube =
     \<lparr>mk_nodes =
        [\<lparr>no_Name = ''n1'', no_Unschedulable = False, no_Taints = [], no_Conditions = [\<lparr>nc_Type = ''Ready'', nc_Status = ''False''\<rparr>]\<rparr>,
         \<lparr>no_Name = ''n2'', no_Unschedulable = False, no_Taints = [\<lparr>ta_Key = ''chaos'', ta_Value = ''mine'', ta_Effect = ''NoSchedule''\<rparr>], no_Conditions = []\<rparr>],
      mk_configmaps = [\<lparr>cm_Namespace = ''prod'', cm_Name = ''n1'', cm_Labels = None, cm_Data = Some [(''a'', ''1''), (''b'', ''2'')], cm_BinaryData = None\<rparr>],
      mk_clock = 0\<rparr>"

definition mini_chaos :: "string list \<Rightarrow> (string \<times> string) list \<Rightarrow> ChaosExperiment" where
  "mini_chaos names params =
     \<lparr>e_meta = \<lparr>m_name = ''x'', m_namespace = ''prod'', m_uid = ''u1'', m_generation = 1, m_deletionTimestamp = None,
        m_finalizers = [], m_labels = [], m_annotations = [], m_ownerUIDs = []\<rparr>,
      e_spec = \<lparr>s_target = \<lparr>t_kind = ''Node'', t_namespace = ''prod'', t_labelSelector = None, t_names = names\<rparr>,
        s_action = \<lparr>a_type = ''x'', a_parameters = Some (JObj (map (\<lambda>(k, v). (k, JStr v)) params)), a_duration = None\<rparr>,
        s_duration = 60, s_rollback = None, s_execution = \<lparr>ex_parallelism = None\<rparr>, s_steadyState = None, s_abortConditions = []\<rparr>,
      e_status = \<lparr>st_phase = PhaseRunning, st_startTime = None, st_endTime = None, st_recoveryStartTime = None,
        st_conditions = [], st_observedGeneration = 0, st_affectedResources = [], st_message = []\<rparr>\<rparr>"

section \<open>Properties\<close>

text \<open>
  The rollback of a node restart returns. When sleeping advances the clock by at least the time
  asked for, \<open>Rollback\<close> comes back whatever the API server answers, with an error exactly when the
  targets could not be resolved; it calls no daemon and forgets the executions of the experiment.
\<close>

lemma restart_rollback_returns:
  assumes "clock_laws e clock"
  shows "\<exists>r ids' c'. Restart_Rollback e xp (ids, c) = Some (r, ids', c') \<and> cl_rpcs c' = cl_rpcs c \<and>
    (r = None \<longleftrightarrow> (\<exists>ns. fst (ResolveTargetNodes (ke_exec e) (s_target (e_spec xp)) c) = Inr ns)) \<and>
    (r = None \<longrightarrow> ids' = gm_del (m_uid (e_meta xp)) ids)"
proof -
  obtain t c1 where t: "ResolveTargetNodes (ke_exec e) (s_target (e_spec xp)) c = (t, c1)"
    by (cases "ResolveTargetNodes (ke_exec e) (s_target (e_spec xp)) c")
  note same = ResolveTargetNodes_rpcs [OF t]
  show ?thesis
  proof (cases t)
    case (Inl err)
    then show ?thesis using t same by (simp add: Restart_Rollback_def)
  next
    case (Inr ns)
    obtain c2 where "wait_nodes e ns c1 = Some c2" "cl_rpcs c2 = cl_rpcs c1" using wait_nodes_returns [OF assms] by blast
    then show ?thesis using t same Inr by (simp add: Restart_Rollback_def)
  qed
qed

text \<open>
  Tainting and its rollback. On an API server that accepts the updates, \<open>Execute\<close> gives every node
  named by the experiment a taint with the key and effect asked for, and \<open>Rollback\<close> then leaves each of
  them with its original taints less every one of that key and effect, and all other nodes as they
  were: a node that carried no such taint is restored exactly, one that did loses it.
\<close>

lemma taint_then_rollback:
  assumes "node_laws e nodes" and "t_names (s_target (e_spec xp)) = names" and "names \<noteq> []" and "distinct names"
    and "\<forall>name \<in> set names. nodes (cl_ext c) name \<noteq> None"
    and "ParseParameters (ee_jsonErr (ke_exec e)) xp = Inr params" and "buildTaint params = Inr taint"
  shows "\<exists>c1 c2. Taint_Execute e xp c = (None, c1) \<and> Taint_Rollback e xp c1 = (None, c2) \<and>
    (\<forall>name \<in> set names. \<exists>n. nodes (cl_ext c1) name = Some n \<and> list_ex (same_taint taint) (no_Taints n)) \<and>
    nodes (cl_ext c2) = (\<lambda>name. if name \<in> set names
      then map_option (\<lambda>n. n\<lparr>no_Taints := filter (\<lambda>t. \<not> same_taint taint t) (no_Taints n)\<rparr>) (nodes (cl_ext c) name)
      else nodes (cl_ext c) name)"
proof -
  let ?m = "nodes (cl_ext c)"
  let ?L = "map (the \<circ> ?m) names"
  have get: "get_nodes (ke_exec e) names [] c = (Inr ?L, c)" using get_nodes_found [OF assms(1,5), of "[]"] by simp
  have L: "\<forall>n \<in> set ?L. ?m (no_Name n) = Some n" "distinct (map no_Name ?L)"
    using named_nodes [OF assms(1,5)] assms(4,5) by auto
  obtain c1 where c1: "add_taints e taint ?L c = (None, c1)" "nodes (cl_ext c1) = each_node (tainted taint) ?L ?m"
    using add_taints_result [OF assms(1) L] by blast
  have m1: "nodes (cl_ext c1) = (\<lambda>name. if name \<in> set names then Some (tainted taint (the (?m name))) else ?m name)"
    unfolding c1(2) by (intro each_node_named named_nodes(1) [OF assms(1,5)] assms(4))
  let ?L1 = "map (the \<circ> nodes (cl_ext c1)) names"
  have there: "\<forall>name \<in> set names. nodes (cl_ext c1) name \<noteq> None" by (simp add: m1)
  have get1: "get_nodes (ke_exec e) names [] c1 = (Inr ?L1, c1)" using get_nodes_found [OF assms(1) there, of "[]"] by simp
  obtain c2 where c2: "remove_taints e taint ?L1 c1 = (None, c2)" "nodes (cl_ext c2) = each_node (untainted taint) ?L1 (nodes (cl_ext c1))"
    using remove_taints_result [OF assms(1)] by blast
  have "nodes (cl_ext c2) = (\<lambda>name. if name \<in> set names then Some (untainted taint (the (nodes (cl_ext c1) name))) else nodes (cl_ext c1) name)"
    unfolding c2(2) by (intro each_node_named named_nodes(1) [OF assms(1) there] assms(4))
  then have m2: "nodes (cl_ext c2) = (\<lambda>name. if name \<in> set names then map_option (untainted taint) (?m name) else ?m name)"
    using assms(5) by (fastforce simp: m1 untainted_tainted)
  have "Taint_Execute e xp c = (None, c1)" "Taint_Rollback e xp c1 = (None, c2)"
    using assms(2,3,6,7) get get1 c1(1) c2(1) by (simp_all add: Taint_Execute_def Taint_Rollback_def ResolveTargetNodes_def)
  moreover have "\<forall>name \<in> set names. \<exists>n. nodes (cl_ext c1) name = Some n \<and> list_ex (same_taint taint) (no_Taints n)"
    by (simp add: m1 tainted_def same_taint_def)
  ultimately show ?thesis using m2 unfolding untainted_def by blast
qed



end
