(* ===== verification/Executor_Vm.thy ===== *)
theory Executor_Vm
  imports Executor_Contracts
begin

text \<open>
  The executors for virtual machines (\<open>internal/executor/vm/vm.go\<close>): each runs one shell command on the
  machine over SSH. Running \<open>ssh\<close> is the field \<open>ve_Run\<close> of \<open>VmEnv\<close>; its error carries the text of the
  command's error and its standard error. The world keeps the list of the argument vectors given to
  \<open>ssh\<close>. \<open>int(d.Seconds())\<close> is the truncated quotient, exact for durations below \<open>2 ^ 23\<close> seconds (97 days),
  beyond which the code's floating-point sum may round up.
\<close>

section \<open>Definitions\<close>

record 'x VmWorld =
  vw_ext :: 'x
  vw_ssh :: "string list list"

record 'x VmEnv =
  ve_jsonErr :: "json \<Rightarrow> err"
  ve_Run :: "string list \<Rightarrow> 'x \<Rightarrow> ((err \<times> string) + string) \<times> 'x"

record SSHConfig =
  ssh_Host :: string
  ssh_Port :: string
  ssh_User :: string
  ssh_KeyPath :: string

definition or_default :: "string \<Rightarrow> string \<Rightarrow> string" where
  "or_default v d = (if v = [] then d else v)"

definition configFromParams :: "(string, string) gomap \<Rightarrow> SSHConfig" where
  "configFromParams params =
     \<lparr>ssh_Host = gm_str params ''sshHost'', ssh_Port = or_default (gm_str params ''sshPort'') ''22'',
      ssh_User = or_default (gm_str params ''sshUser'') ''root'', ssh_KeyPath = gm_str params ''sshKeyPath''\<rparr>"

text \<open>The arguments before the command.\<close>

definition ssh_destination :: "SSHConfig \<Rightarrow> string list" where
  "ssh_destination cfg =
     [''-o'', ''StrictHostKeyChecking=no'', ''-o'', ''ConnectTimeout=10'', ''-p'', ssh_Port cfg] @
     (if ssh_KeyPath cfg \<noteq> [] then [''-i'', ssh_KeyPath cfg] else []) @ [ssh_User cfg @ ''@'' @ ssh_Host cfg]"

definition sshExec :: "'x VmEnv \<Rightarrow> SSHConfig \<Rightarrow> string \<Rightarrow> 'x VmWorld \<Rightarrow> (err + string) \<times> 'x VmWorld" where
  "sshExec e cfg command w =
     (let args = ssh_destination cfg @ [command] in
      case ve_Run e args (vw_ext w) of (r, x) \<Rightarrow>
        (case r of
           Inl (err, stderr) \<Rightarrow> Inl (''ssh exec failed: '' @ err @ '' (stderr: '' @ stderr @ '')'')
         | Inr stdout \<Rightarrow> Inr (TrimSpace stdout),
         w\<lparr>vw_ext := x, vw_ssh := vw_ssh w @ [args]\<rparr>))"

definition validateSSHParams :: "'x VmEnv \<Rightarrow> ChaosExperiment \<Rightarrow> string \<Rightarrow> string list \<Rightarrow> err + (string, string) gomap" where
  "validateSSHParams e xp actionType required =
     (case ParseParameters (ve_jsonErr e) xp of
        Inl err \<Rightarrow> Inl (actionType @ '': '' @ err)
      | Inr params \<Rightarrow>
          (case missing_param actionType params (''sshHost'' # required) of
             Some err \<Rightarrow> Inl err
           | None \<Rightarrow> Inr params))"

definition vm_Validate :: "'x VmEnv \<Rightarrow> string \<Rightarrow> string list \<Rightarrow> ChaosExperiment \<Rightarrow> err option" where
  "vm_Validate e actionType required xp =
     (case validateSSHParams e xp actionType required of Inl err \<Rightarrow> Some err | Inr _ \<Rightarrow> None)"

text \<open>The body of \<open>Execute\<close>: validate, run one command, wrap the error.\<close>

definition vm_Execute ::
    "'x VmEnv \<Rightarrow> string \<Rightarrow> string list \<Rightarrow> ((string, string) gomap \<Rightarrow> string) \<Rightarrow> ChaosExperiment \<Rightarrow> 'x VmWorld \<Rightarrow> err option \<times> 'x VmWorld" where
  "vm_Execute e actionType required command xp w =
     (case validateSSHParams e xp actionType required of
        Inl err \<Rightarrow> (Some err, w)
      | Inr params \<Rightarrow>
          (case sshExec e (configFromParams params) (command params) w of
             (Inl err, w') \<Rightarrow> (Some (actionType @ '': '' @ err), w')
           | (Inr _, w') \<Rightarrow> (None, w')))"

text \<open>The body of \<open>Rollback\<close>: errors of parsing (then the map is nil) and of the command are dropped.\<close>

definition vm_Rollback ::
    "'x VmEnv \<Rightarrow> ((string, string) gomap \<Rightarrow> string) \<Rightarrow> ChaosExperiment \<Rightarrow> 'x VmWorld \<Rightarrow> err option \<times> 'x VmWorld" where
  "vm_Rollback e command xp w =
     (let params = (case ParseParameters (ve_jsonErr e) xp of Inl _ \<Rightarrow> [] | Inr ps \<Rightarrow> ps)
      in (None, snd (sshExec e (configFromParams params) (command params) w)))"

definition vm_seconds :: "ChaosExperiment \<Rightarrow> string" where
  "vm_seconds xp = Itoa (go_div (s_duration (e_spec xp)) second)"

definition stress_tail :: "ChaosExperiment \<Rightarrow> string" where
  "stress_tail xp = '' --timeout '' @ vm_seconds xp @ ''s > /dev/null 2>&1 &''"

definition single_quoted :: "string \<Rightarrow> string" where
  "single_quoted s = CHR 0x27 # s @ [CHR 0x27]"

definition VMCPUStress_Execute :: "'x VmEnv \<Rightarrow> ChaosExperiment \<Rightarrow> 'x VmWorld \<Rightarrow> err option \<times> 'x VmWorld" where
  "VMCPUStress_Execute e xp =
     vm_Execute e ''vm-cpu-stress'' []
       (\<lambda>params. ''nohup stress-ng --cpu '' @ or_default (gm_str params ''workers'') ''1'' @ stress_tail xp) xp"

definition VMCPUStress_Rollback :: "'x VmEnv \<Rightarrow> ChaosExperiment \<Rightarrow> 'x VmWorld \<Rightarrow> err option \<times> 'x VmWorld" where
  "VMCPUStress_Rollback e xp = vm_Rollback e (\<lambda>_. ''pkill -f stress-ng || true'') xp"

definition VMCPUStress_Validate :: "'x VmEnv \<Rightarrow> ChaosExperiment \<Rightarrow> err option" where
  "VMCPUStress_Validate e = vm_Validate e ''vm-cpu-stress'' []"

definition VMMemoryStress_Execute :: "'x VmEnv \<Rightarrow> ChaosExperiment \<Rightarrow> 'x VmWorld \<Rightarrow> err option \<times> 'x VmWorld" where
  "VMMemoryStress_Execute e xp =
     vm_Execute e ''vm-memory-stress'' []
       (\<lambda>params. ''nohup stress-ng --vm '' @ or_default (gm_str params ''workers'') ''1'' @
          '' --vm-bytes '' @ or_default (gm_str params ''size'') ''256M'' @ stress_tail xp) xp"

definition VMMemoryStress_Rollback :: "'x VmEnv \<Rightarrow> ChaosExperiment \<Rightarrow> 'x VmWorld \<Rightarrow> err option \<times> 'x VmWorld" where
  "VMMemoryStress_Rollback e xp = vm_Rollback e (\<lambda>_. ''pkill -f stress-ng || true'') xp"

definition VMMemoryStress_Validate :: "'x VmEnv \<Rightarrow> ChaosExperiment \<Rightarrow> err option" where
  "VMMemoryStress_Validate e = vm_Validate e ''vm-memory-stress'' []"

definition VMDiskStress_Execute :: "'x VmEnv \<Rightarrow> ChaosExperiment \<Rightarrow> 'x VmWorld \<Rightarrow> err option \<times> 'x VmWorld" where
  "VMDiskStress_Execute e xp =
     vm_Execute e ''vm-disk-stress'' []
       (\<lambda>params. ''nohup stress-ng --hdd '' @ or_default (gm_str params ''workers'') ''1'' @ stress_tail xp) xp"

definition VMDiskStress_Rollback :: "'x VmEnv \<Rightarrow> ChaosExperiment \<Rightarrow> 'x VmWorld \<Rightarrow> err option \<times> 'x VmWorld" where
  "VMDiskStress_Rollback e xp = vm_Rollback e (\<lambda>_. ''pkill -f stress-ng || true'') xp"

definition VMDiskStress_Validate :: "'x VmEnv \<Rightarrow> ChaosExperiment \<Rightarrow> err option" where
  "VMDiskStress_Validate e = vm_Validate e ''vm-disk-stress'' []"

definition VMNetworkDelay_Execute :: "'x VmEnv \<Rightarrow> ChaosExperiment \<Rightarrow> 'x VmWorld \<Rightarrow> err option \<times> 'x VmWorld" where
  "VMNetworkDelay_Execute e xp =
     vm_Execute e ''vm-network-delay'' [''latency'', ''iface'']
       (\<lambda>params. ''tc qdisc add dev '' @ gm_str params ''iface'' @ '' root netem delay '' @ gm_str params ''latency'') xp"

definition VMNetworkDelay_Rollback :: "'x VmEnv \<Rightarrow> ChaosExperiment \<Rightarrow> 'x VmWorld \<Rightarrow> err option \<times> 'x VmWorld" where
  "VMNetworkDelay_Rollback e xp =
     vm_Rollback e (\<lambda>params. ''tc qdisc del dev '' @ or_default (gm_str params ''iface'') ''eth0'' @ '' root || true'') xp"

definition VMNetworkDelay_Validate :: "'x VmEnv \<Rightarrow> ChaosExperiment \<Rightarrow> err option" where
  "VMNetworkDelay_Validate e = vm_Validate e ''vm-network-delay'' [''latency'', ''iface'']"

definition VMProcessKill_Execute :: "'x VmEnv \<Rightarrow> ChaosExperiment \<Rightarrow> 'x VmWorld \<Rightarrow> err option \<times> 'x VmWorld" where
  "VMProcessKill_Execute e xp =
     vm_Execute e ''vm-process-kill'' [''processName'']
       (\<lambda>params. ''pkill -'' @ or_default (gm_str params ''signal'') ''SIGKILL'' @ '' -f '' @ single_quoted (gm_str params ''processName'')) xp"

definition VMProcessKill_Rollback :: "ChaosExperiment \<Rightarrow> 'x VmWorld \<Rightarrow> err option \<times> 'x VmWorld" where
  "VMProcessKill_Rollback xp w = (None, w)"

definition VMProcessKill_Validate :: "'x VmEnv \<Rightarrow> ChaosExperiment \<Rightarrow> err option" where
  "VMProcessKill_Validate e = vm_Validate e ''vm-process-kill'' [''processName'']"

definition VMProcessSuspend_Execute :: "'x VmEnv \<Rightarrow> ChaosExperiment \<Rightarrow> 'x VmWorld \<Rightarrow> err option \<times> 'x VmWorld" where
  "VMProcessSuspend_Execute e xp =
     vm_Execute e ''vm-process-suspend'' [''processName'']
       (\<lambda>params. ''pkill -SIGSTOP -f '' @ single_quoted (gm_str params ''processName'')) xp"

definition VMProcessSuspend_Rollback :: "'x VmEnv \<Rightarrow> ChaosExperiment \<Rightarrow> 'x VmWorld \<Rightarrow> err option \<times> 'x VmWorld" where
  "VMProcessSuspend_Rollback e xp =
     vm_Rollback e (\<lambda>params. ''pkill -SIGCONT -f '' @ single_quoted (gm_str params ''processName'') @ '' || true'') xp"

definition VMProcessSuspend_Validate :: "'x VmEnv \<Rightarrow> ChaosExperiment \<Rightarrow> err option" where
  "VMProcessSuspend_Validate e = vm_Validate e ''vm-process-suspend'' [''processName'']"

section \<open>Specification\<close>

text \<open>The executors that have something to undo.\<close>

type_synonym 'x vm_handler = "ChaosExperiment \<Rightarrow> 'x VmWorld \<Rightarrow> err option \<times> 'x VmWorld"

definition vm_executors :: "'x VmEnv \<Rightarrow> ('x vm_handler \<times> 'x vm_handler) list" where
  "vm_executors e =
     [(VMCPUStress_Execute e, VMCPUStress_Rollback e), (VMMemoryStress_Execute e, VMMemoryStress_Rollback e),
      (VMDiskStress_Execute e, VMDiskStress_Rollback e), (VMNetworkDelay_Execute e, VMNetworkDelay_Rollback e),
      (VMProcessSuspend_Execute e, VMProcessSuspend_Rollback e)]"

section \<open>Lemmas\<close>

lemmas vm_defs = VMCPUStress_Execute_def VMCPUStress_Rollback_def VMMemoryStress_Execute_def VMMemoryStress_Rollback_def
  VMDiskStress_Execute_def VMDiskStress_Rollback_def VMNetworkDelay_Execute_def VMNetworkDelay_Rollback_def
  VMProcessSuspend_Execute_def VMProcessSuspend_Rollback_def

lemma sshExec_log: "sshExec e cfg cmd w = (r, w') \<Longrightarrow> vw_ssh w' = vw_ssh w @ [ssh_destination cfg @ [cmd]]"
  by (auto simp: sshExec_def Let_def split: prod.splits)

lemma vm_Execute_ok:
  "vm_Execute e ty req cmd xp w = (None, w') \<Longrightarrow>
     \<exists>params. ParseParameters (ve_jsonErr e) xp = Inr params \<and> vw_ssh w' = vw_ssh w @ [ssh_destination (configFromParams params) @ [cmd params]]"
  by (auto simp: vm_Execute_def validateSSHParams_def split: sum.splits option.splits prod.splits dest: sshExec_log)

lemma vm_Rollback_log:
  "ParseParameters (ve_jsonErr e) xp = Inr params \<Longrightarrow> vm_Rollback e cmd xp w = (r, w') \<Longrightarrow>
     r = None \<and> vw_ssh w' = vw_ssh w @ [ssh_destination (configFromParams params) @ [cmd params]]"
  by (auto simp: vm_Rollback_def sshExec_def Let_def split: prod.splits)

lemma vm_executor_form:
  "(ex, rb) \<in> set (vm_executors e) \<Longrightarrow> \<exists>ty req cmd cmd'. ex xp = vm_Execute e ty req cmd xp \<and> rb xp = vm_Rollback e cmd' xp"
  by (auto simp: vm_executors_def vm_defs) ((rule exI)+, rule refl)+

text \<open>A machine that answers the first command and is gone afterwards.\<close>

definition gone_env :: "nat VmEnv" where
  "gone_env = \<lparr>ve_jsonErr = (\<lambda>_. ''bad json''),
     ve_Run = (\<lambda>args n. (if n = 0 then Inr ''ok'' else Inl (''exit status 255'', ''timed out''), Suc n))\<rparr>"

definition vm_demo :: ChaosExperiment where
  "vm_demo = (demo_chaos ''vm-network-delay'')\<lparr>e_spec := (e_spec (demo_chaos ''vm-network-delay''))\<lparr>s_action :=
     \<lparr>a_type = ''vm-network-delay'', a_parameters = Some (JObj [(''sshHost'', JStr ''vm1''), (''latency'', JStr ''100ms''), (''iface'', JStr ''ens3'')]),
      a_duration = None\<rparr>\<rparr>\<rparr>"

section \<open>Properties\<close>

text \<open>
  What a rollback on a virtual machine is worth. After an \<open>Execute\<close> that succeeded, \<open>Rollback\<close> runs
  exactly one command, on the same host, port and user and with the same key as the fault's, and it
  reports success whatever becomes of the command: a machine that cannot be reached any more keeps the
  fault, and the controller takes the experiment for rolled back.
\<close>

lemma vm_rollback_unverified:
  assumes "(ex, rb) \<in> set (vm_executors e)" and "ex xp w = (None, w1)" and "rb xp v = (r, v1)"
  shows "r = None \<and> (\<exists>dest cmd cmd'. vw_ssh w1 = vw_ssh w @ [dest @ [cmd]] \<and> vw_ssh v1 = vw_ssh v @ [dest @ [cmd']])"
proof -
  obtain ty req cmd cmd' where form: "ex xp = vm_Execute e ty req cmd xp" "rb xp = vm_Rollback e cmd' xp"
    using vm_executor_form [OF assms(1)] by blast
  obtain params where "ParseParameters (ve_jsonErr e) xp = Inr params"
    "vw_ssh w1 = vw_ssh w @ [ssh_destination (configFromParams params) @ [cmd params]]"
    using vm_Execute_ok assms(2) form(1) by metis
  with vm_Rollback_log [of e xp params cmd' v r v1] assms(3) form(2) show ?thesis by auto
qed

end
