(* ===== verification/Time_Chaos.thy ===== *)
theory Time_Chaos
  imports Executor_Contracts Kube_World
begin

text \<open>
  The time executor (\<open>internal/executor/timechaos/timechaos.go\<close>): it makes the containers of a Deployment
  preload libfaketime, and puts the pod template back on rollback. Reading and updating a Deployment are
  fields of \<open>TimeEnv\<close>. The fields of containers, volumes and Deployments that the code does not look at are
  kept in \<open>ct_rest\<close>, \<open>vo_source\<close> and \<open>de_rest\<close>. Log output is left out.
\<close>

section \<open>Definitions\<close>

record EnvVar =
  ev_Name :: string
  ev_Value :: string
  ev_ValueFrom :: "json option"

record VolumeMount =
  vm_Name :: string
  vm_MountPath :: string
  vm_ReadOnly :: bool

record Container =
  ct_Name :: string
  ct_Image :: string
  ct_Command :: "string list"
  ct_Env :: "EnvVar list"
  ct_VolumeMounts :: "VolumeMount list"
  ct_rest :: json

record Volume =
  vo_Name :: string
  vo_source :: json

record PodTemplate =
  pt_InitContainers :: "Container list"
  pt_Containers :: "Container list"
  pt_Volumes :: "Volume list"

record Deployment =
  de_Namespace :: string
  de_Name :: string
  de_Template :: PodTemplate
  de_rest :: json

record 'x TimeEnv =
  te_jsonErr :: "json \<Rightarrow> err"
  te_GetDeployment :: "string \<Rightarrow> string \<Rightarrow> 'x \<Rightarrow> (err + Deployment) \<times> 'x"
  te_UpdateDeployment :: "Deployment \<Rightarrow> 'x \<Rightarrow> err option \<times> 'x"

definition faketimeVolumeName :: string where
  "faketimeVolumeName = ''chaosplane-faketime''"

definition faketimeMountPath :: string where
  "faketimeMountPath = ''/usr/local/lib/faketime''"

definition faketimeLibPath :: string where
  "faketimeLibPath = ''/usr/local/lib/faketime/libfaketime.so.1''"

definition faketimeInitName :: string where
  "faketimeInitName = ''chaosplane-faketime-init''"

definition defaultFaketimeImg :: string where
  "defaultFaketimeImg = ''trpsubstitution/libfaketime:latest''"

definition defaultInitCopyDest :: string where
  "defaultInitCopyDest = ''/data/libfaketime.so.1''"

record deploymentSnapshot =
  ds_initContainers :: "Container list"
  ds_containers :: "Container list"
  ds_volumes :: "Volume list"

text \<open>\<open>parseParameters\<close> differs from \<open>ParseParameters\<close> in the text of its error.\<close>

definition parseParameters :: "'x TimeEnv \<Rightarrow> ChaosExperiment \<Rightarrow> err + (string, string) gomap" where
  "parseParameters e xp =
     (case a_parameters (s_action (e_spec xp)) of
        None \<Rightarrow> Inr []
      | Some raw \<Rightarrow>
          (case unmarshal_params raw of
             None \<Rightarrow> Inl (''parse parameters: '' @ te_jsonErr e raw)
           | Some ps \<Rightarrow> Inr ps))"

definition hasFaketimeInjection :: "PodTemplate \<Rightarrow> bool" where
  "hasFaketimeInjection t = list_ex (\<lambda>ic. ct_Name ic = faketimeInitName) (pt_InitContainers t)"

definition faketime_env :: "string \<Rightarrow> EnvVar list" where
  "faketime_env offset =
     [\<lparr>ev_Name = ''LD_PRELOAD'', ev_Value = faketimeLibPath, ev_ValueFrom = None\<rparr>,
      \<lparr>ev_Name = ''FAKETIME'', ev_Value = offset, ev_ValueFrom = None\<rparr>]"

definition injectFaketime :: "string \<Rightarrow> Container \<Rightarrow> Container" where
  "injectFaketime offset c =
     (let c' = c\<lparr>ct_Env := filter (\<lambda>v. \<not> (ev_Name v = ''LD_PRELOAD'' \<or> ev_Name v = ''FAKETIME'')) (ct_Env c) @ faketime_env offset\<rparr> in
      if list_ex (\<lambda>m. vm_Name m = faketimeVolumeName) (ct_VolumeMounts c') then c'
      else c'\<lparr>ct_VolumeMounts := ct_VolumeMounts c' @ [\<lparr>vm_Name = faketimeVolumeName, vm_MountPath = faketimeMountPath, vm_ReadOnly = True\<rparr>]\<rparr>)"

definition faketime_init :: "string \<Rightarrow> Container" where
  "faketime_init img =
     (let lib = faketimeMountPath @ ''/libfaketime.so.1'' in
      \<lparr>ct_Name = faketimeInitName, ct_Image = img,
       ct_Command = [''sh'', ''-c'', ''cp /usr/lib/faketime/libfaketime.so.1 '' @ lib @ '' || cp '' @ defaultInitCopyDest @ '' '' @ lib],
       ct_Env = [], ct_VolumeMounts = [\<lparr>vm_Name = faketimeVolumeName, vm_MountPath = faketimeMountPath, vm_ReadOnly = False\<rparr>],
       ct_rest = JObj []\<rparr>)"

definition faketime_template :: "string \<Rightarrow> string \<Rightarrow> PodTemplate \<Rightarrow> PodTemplate" where
  "faketime_template img offset t =
     \<lparr>pt_InitContainers = pt_InitContainers t @ [faketime_init img],
      pt_Containers = map (injectFaketime offset) (pt_Containers t),
      pt_Volumes = pt_Volumes t @ [\<lparr>vo_Name = faketimeVolumeName, vo_source = JObj [(''emptyDir'', JObj [])]\<rparr>]\<rparr>"

text \<open>The copies of the snapshot: element by element, equal to what is copied.\<close>

definition deepCopyContainers :: "Container list \<Rightarrow> Container list" where
  "deepCopyContainers cs = map (\<lambda>c. c) cs"

definition deepCopyVolumes :: "Volume list \<Rightarrow> Volume list" where
  "deepCopyVolumes vs = map (\<lambda>v. v) vs"

definition one_deployment :: "TargetSpec \<Rightarrow> bool" where
  "one_deployment t \<longleftrightarrow> length (t_names t) = 1 \<and> t_namespace t \<noteq> []"

type_synonym 'x tc_state = "(string, deploymentSnapshot) gomap \<times> 'x"

definition TimeChaos_Execute :: "'x TimeEnv \<Rightarrow> ChaosExperiment \<Rightarrow> 'x tc_state \<Rightarrow> err option \<times> 'x tc_state" where
  "TimeChaos_Execute e xp sx =
     (case sx of (st, x) \<Rightarrow>
      (if \<not> one_deployment (s_target (e_spec xp)) then
         (Some ''time-chaos: target must specify exactly one Deployment name and a namespace'', st, x)
       else
         (case parseParameters e xp of
            Inl err \<Rightarrow> (Some (''time-chaos: '' @ err), st, x)
          | Inr params \<Rightarrow>
              (let offset = gm_str params ''offset'';
                   img = (if gm_str params ''faketimeImage'' = [] then defaultFaketimeImg else gm_str params ''faketimeImage'');
                   name = hd (t_names (s_target (e_spec xp))); ns = t_namespace (s_target (e_spec xp)); nsname = ns @ ''/'' @ name in
               if offset = [] then (Some ''time-chaos: offset parameter is required (e.g. +1h, -30m)'', st, x)
               else
                 (case te_GetDeployment e ns name x of
                    (Inl err, x1) \<Rightarrow> (Some (''time-chaos: get deployment '' @ nsname @ '': '' @ err), st, x1)
                  | (Inr dep, x1) \<Rightarrow>
                      (let t = de_Template dep;
                           snap = \<lparr>ds_initContainers = deepCopyContainers (pt_InitContainers t),
                                   ds_containers = deepCopyContainers (pt_Containers t), ds_volumes = deepCopyVolumes (pt_Volumes t)\<rparr> in
                       if hasFaketimeInjection t then
                         (Some (''time-chaos: deployment '' @ nsname @ '' already has time chaos injected''), st, x1)
                       else
                         (case te_UpdateDeployment e (dep\<lparr>de_Template := faketime_template img offset t\<rparr>) x1 of
                            (Some err, x2) \<Rightarrow> (Some (''time-chaos: update deployment '' @ nsname @ '': '' @ err), st, x2)
                          | (None, x2) \<Rightarrow> (None, gm_put (m_uid (e_meta xp)) snap st, x2))))))))"

text \<open>\<open>Names[0]\<close> panics when the target names nothing: the result \<open>None\<close>.\<close>

definition TimeChaos_Rollback :: "'x TimeEnv \<Rightarrow> ChaosExperiment \<Rightarrow> 'x tc_state \<Rightarrow> err option option \<times> 'x tc_state" where
  "TimeChaos_Rollback e xp sx =
     (case sx of (st, x) \<Rightarrow>
      (let st' = gm_del (m_uid (e_meta xp)) st in
       case map_of st (m_uid (e_meta xp)) of
         None \<Rightarrow> (Some None, st', x)
       | Some snap \<Rightarrow>
           (case t_names (s_target (e_spec xp)) of
              [] \<Rightarrow> (None, st', x)
            | name # _ \<Rightarrow>
                (let ns = t_namespace (s_target (e_spec xp)); nsname = ns @ ''/'' @ name in
                 case te_GetDeployment e ns name x of
                   (Inl err, x1) \<Rightarrow> (Some (Some (''time-chaos: rollback get deployment '' @ nsname @ '': '' @ err)), st', x1)
                 | (Inr dep, x1) \<Rightarrow>
                     (case te_UpdateDeployment e (dep\<lparr>de_Template := \<lparr>pt_InitContainers = ds_initContainers snap,
                              pt_Containers = ds_containers snap, pt_Volumes = ds_volumes snap\<rparr>\<rparr>) x1 of
                        (Some err, x2) \<Rightarrow> (Some (Some (''time-chaos: rollback update '' @ nsname @ '': '' @ err)), st', x2)
                      | (None, x2) \<Rightarrow> (Some None, st', x2))))))"

definition TimeChaos_Validate :: "'x TimeEnv \<Rightarrow> ChaosExperiment \<Rightarrow> err option" where
  "TimeChaos_Validate e xp =
     (if \<not> one_deployment (s_target (e_spec xp)) then
        Some ''time-chaos: target must specify exactly one Deployment name and a namespace''
      else
        (case parseParameters e xp of
           Inl err \<Rightarrow> Some (''time-chaos: '' @ err)
         | Inr params \<Rightarrow>
             if gm_str params ''offset'' = [] then Some ''time-chaos: offset parameter is required (e.g. +1h, -30m)'' else None))"

section \<open>Specification\<close>

text \<open>
  The API server as a store of Deployments that accepts updates. It may fill in defaults (\<open>admit\<close>) in the
  fields the executor does not look at, has done so for every stored template, and owns \<open>de_rest\<close>
  (resource version, generation, status).
\<close>

definition observed :: "PodTemplate \<Rightarrow> PodTemplate" where
  "observed t =
     t\<lparr>pt_InitContainers := map (\<lambda>c. c\<lparr>ct_rest := JNull\<rparr>) (pt_InitContainers t),
       pt_Containers := map (\<lambda>c. c\<lparr>ct_rest := JNull\<rparr>) (pt_Containers t),
       pt_Volumes := map (\<lambda>v. v\<lparr>vo_source := JNull\<rparr>) (pt_Volumes t)\<rparr>"

definition deployment_laws :: "'x TimeEnv \<Rightarrow> (PodTemplate \<Rightarrow> PodTemplate) \<Rightarrow> ('x \<Rightarrow> key \<rightharpoonup> Deployment) \<Rightarrow> bool" where
  "deployment_laws e admit deps \<longleftrightarrow>
     (\<forall>ns name x d. deps x (ns, name) = Some d \<longrightarrow> (de_Namespace d, de_Name d) = (ns, name) \<and>
        admit (de_Template d) = de_Template d \<and> te_GetDeployment e ns name x = (Inr d, x)) \<and>
     (\<forall>ns name x. deps x (ns, name) = None \<longrightarrow> (\<exists>err. te_GetDeployment e ns name x = (Inl err, x))) \<and>
     (\<forall>d x. \<exists>x' rest. te_UpdateDeployment e d x = (None, x') \<and>
        deps x' = (deps x)((de_Namespace d, de_Name d) \<mapsto> d\<lparr>de_Template := admit (de_Template d), de_rest := rest\<rparr>)) \<and>
     (\<forall>t. observed (admit t) = observed t)"

text \<open>A container that runs under libfaketime with an offset: the two variables, once each, and the library's mount.\<close>

definition skewed :: "string \<Rightarrow> Container \<Rightarrow> bool" where
  "skewed offset c \<longleftrightarrow>
     map ev_Value (filter (\<lambda>v. ev_Name v = ''LD_PRELOAD'') (ct_Env c)) = [faketimeLibPath] \<and>
     map ev_Value (filter (\<lambda>v. ev_Name v = ''FAKETIME'') (ct_Env c)) = [offset] \<and>
     faketimeVolumeName \<in> vm_Name ` set (ct_VolumeMounts c)"

section \<open>Lemmas\<close>

lemma deep_copies [simp]: "deepCopyContainers cs = cs" "deepCopyVolumes vs = vs"
  by (simp_all add: deepCopyContainers_def deepCopyVolumes_def)

lemma injectFaketime_skewed: "skewed offset (injectFaketime offset c)"
  by (auto simp: skewed_def injectFaketime_def Let_def faketime_env_def list_ex_iff filter_empty_conv intro: rev_image_eqI)

lemma injectFaketime_keeps:
  "ct_Name (injectFaketime offset c) = ct_Name c \<and> ct_Image (injectFaketime offset c) = ct_Image c \<and> ct_Command (injectFaketime offset c) = ct_Command c"
  by (simp add: injectFaketime_def Let_def)

lemma faketime_template_injected: "hasFaketimeInjection (faketime_template img offset t)"
  by (simp add: hasFaketimeInjection_def faketime_template_def faketime_init_def Let_def)

lemma skewed_rest [simp]: "skewed offset (c\<lparr>ct_rest := r\<rparr>) = skewed offset c"
  by (simp add: skewed_def)

lemma template_eta [simp]:
  "\<lparr>pt_InitContainers = pt_InitContainers t, pt_Containers = pt_Containers t, pt_Volumes = pt_Volumes t\<rparr> = t"
  by simp

text \<open>What the executor looks at does not depend on the fields the server fills in.\<close>

lemma map_eq_list_all:
  assumes "map f xs = map f ys" and same: "\<And>x y. f x = f y \<Longrightarrow> P x = P y"
  shows "list_all P xs = list_all P ys"
  using assms(1) by (induction xs ys rule: list_induct2') (auto dest: same)

lemma rest_forgotten:
  assumes "(c :: Container)\<lparr>ct_rest := r\<rparr> = c'\<lparr>ct_rest := r\<rparr>"
  shows "(ct_Name c \<noteq> n) = (ct_Name c' \<noteq> n)" and "skewed offset c = skewed offset c'"
  using arg_cong [OF assms, of ct_Name] arg_cong [OF assms, of ct_Env] arg_cong [OF assms, of ct_VolumeMounts]
  by (simp_all add: skewed_def)

lemma observed_injected:
  assumes "observed t = observed t'"
  shows "hasFaketimeInjection t = hasFaketimeInjection t'"
proof -
  have "map (\<lambda>c. c\<lparr>ct_rest := JNull\<rparr>) (pt_InitContainers t) = map (\<lambda>c. c\<lparr>ct_rest := JNull\<rparr>) (pt_InitContainers t')"
    using arg_cong [OF assms, of pt_InitContainers] by (simp add: observed_def)
  then have "list_all (\<lambda>c. ct_Name c \<noteq> faketimeInitName) (pt_InitContainers t) = list_all (\<lambda>c. ct_Name c \<noteq> faketimeInitName) (pt_InitContainers t')"
    by (rule map_eq_list_all) (rule rest_forgotten(1))
  then show ?thesis by (simp add: hasFaketimeInjection_def list_ex_iff list_all_iff) blast
qed

lemma observed_skewed:
  assumes "observed t = observed t'"
  shows "list_all (skewed offset) (pt_Containers t) = list_all (skewed offset) (pt_Containers t')"
proof -
  have "map (\<lambda>c. c\<lparr>ct_rest := JNull\<rparr>) (pt_Containers t) = map (\<lambda>c. c\<lparr>ct_rest := JNull\<rparr>) (pt_Containers t')"
    using arg_cong [OF assms, of pt_Containers] by (simp add: observed_def)
  then show ?thesis by (rule map_eq_list_all) (rule rest_forgotten(2))
qed

lemma deployment_lawsD:
  assumes "deployment_laws e admit deps"
  shows "deps x (ns, name) = Some d \<Longrightarrow>
      de_Namespace d = ns \<and> de_Name d = name \<and> admit (de_Template d) = de_Template d \<and> te_GetDeployment e ns name x = (Inr d, x)"
    and "deps x (ns, name) = None \<Longrightarrow> \<exists>err. te_GetDeployment e ns name x = (Inl err, x)"
    and "\<exists>x' rest. te_UpdateDeployment e d x = (None, x') \<and>
      deps x' = (deps x)((de_Namespace d, de_Name d) \<mapsto> d\<lparr>de_Template := admit (de_Template d), de_rest := rest\<rparr>)"
    and "observed (admit t) = observed t"
  using assms unfolding deployment_laws_def by simp_all

text \<open>What a successful \<open>Execute\<close> did.\<close>

lemma TimeChaos_Execute_ok:
  assumes laws: "deployment_laws e admit deps" and run: "TimeChaos_Execute e xp (st, x) = (None, st', x')"
  obtains name dep img params rest where "t_names (s_target (e_spec xp)) = [name]"
    "deps x (t_namespace (s_target (e_spec xp)), name) = Some dep" "\<not> hasFaketimeInjection (de_Template dep)"
    "parseParameters e xp = Inr params" "gm_str params ''offset'' \<noteq> []"
    "st' = gm_put (m_uid (e_meta xp)) \<lparr>ds_initContainers = pt_InitContainers (de_Template dep),
       ds_containers = pt_Containers (de_Template dep), ds_volumes = pt_Volumes (de_Template dep)\<rparr> st"
    "deps x' = (deps x)((t_namespace (s_target (e_spec xp)), name) \<mapsto>
       dep\<lparr>de_Template := admit (faketime_template img (gm_str params ''offset'') (de_Template dep)), de_rest := rest\<rparr>)"
proof -
  let ?ns = "t_namespace (s_target (e_spec xp))"
  have one: "one_deployment (s_target (e_spec xp))"
    using run by (auto simp: TimeChaos_Execute_def split: if_splits)
  then obtain name where names: "t_names (s_target (e_spec xp)) = [name]"
    by (auto simp: one_deployment_def length_Suc_conv)
  obtain params where params: "parseParameters e xp = Inr params"
    using run one by (cases "parseParameters e xp") (auto simp: TimeChaos_Execute_def)
  have offset: "gm_str params ''offset'' \<noteq> []"
    using run one params by (auto simp: TimeChaos_Execute_def Let_def)
  obtain dep where dep: "deps x (?ns, name) = Some dep"
  proof (cases "deps x (?ns, name)")
    case None
    then show thesis using run one names params offset deployment_lawsD(2) [OF laws None] by (auto simp: TimeChaos_Execute_def Let_def)
  qed (rule that)
  note get = deployment_lawsD(1) [OF laws dep]
  have clean: "\<not> hasFaketimeInjection (de_Template dep)"
    using run one names params offset get by (auto simp: TimeChaos_Execute_def Let_def split: if_splits)
  let ?img = "if gm_str params ''faketimeImage'' = [] then defaultFaketimeImg else gm_str params ''faketimeImage''"
  let ?t = "faketime_template ?img (gm_str params ''offset'') (de_Template dep)"
  obtain xu rest where up: "te_UpdateDeployment e (dep\<lparr>de_Template := ?t\<rparr>) x = (None, xu)"
    "deps xu = (deps x)((?ns, name) \<mapsto> dep\<lparr>de_Template := admit ?t, de_rest := rest\<rparr>)"
    using deployment_lawsD(3) [OF laws, of "dep\<lparr>de_Template := ?t\<rparr>" x] get by auto
  have "(st', x') = (gm_put (m_uid (e_meta xp)) \<lparr>ds_initContainers = pt_InitContainers (de_Template dep),
       ds_containers = pt_Containers (de_Template dep), ds_volumes = pt_Volumes (de_Template dep)\<rparr> st, xu)"
    using run one names params offset get clean up(1) by (simp add: TimeChaos_Execute_def Let_def)
  with up(2) show thesis by (intro that [OF names dep clean params offset]) auto
qed

section \<open>A small API server\<close>

definition mini_deployment :: "Deployment list \<Rightarrow> key \<rightharpoonup> Deployment" where
  "mini_deployment x k = find (\<lambda>d. (de_Namespace d, de_Name d) = k) x"

definition mini_time_env :: "Deployment list TimeEnv" where
  "mini_time_env =
     \<lparr>te_jsonErr = (\<lambda>_. ''bad JSON''),
      te_GetDeployment = (\<lambda>ns name x. (case mini_deployment x (ns, name) of None \<Rightarrow> Inl ''not found'' | Some d \<Rightarrow> Inr d, x)),
      te_UpdateDeployment = (\<lambda>d x. (None, d # filter (\<lambda>d'. (de_Namespace d', de_Name d') \<noteq> (de_Namespace d, de_Name d)) x))\<rparr>"

definition web_deployment :: Deployment where
  "web_deployment =
     \<lparr>de_Namespace = ''prod'', de_Name = ''web'',
      de_Template = \<lparr>pt_InitContainers = [],
        pt_Containers = [\<lparr>ct_Name = ''app'', ct_Image = ''web:1'', ct_Command = [],
          ct_Env = [\<lparr>ev_Name = ''LD_PRELOAD'', ev_Value = ''/lib/mine.so'', ev_ValueFrom = None\<rparr>], ct_VolumeMounts = [], ct_rest = JNull\<rparr>],
        pt_Volumes = []\<rparr>,
      de_rest = JNull\<rparr>"

definition skew_web :: ChaosExperiment where
  "skew_web = (demo_chaos ''time-chaos'')\<lparr>e_spec := (e_spec (demo_chaos ''time-chaos''))
     \<lparr>s_target := \<lparr>t_kind = ''Deployment'', t_namespace = ''prod'', t_labelSelector = None, t_names = [''web'']\<rparr>,
      s_action := \<lparr>a_type = ''time-chaos'', a_parameters = Some (JObj [(''offset'', JStr ''+1h'')]), a_duration = None\<rparr>\<rparr>\<rparr>"

lemma mini_deployments: "deployment_laws mini_time_env (\<lambda>t. t) mini_deployment"
proof -
  have put: "mini_deployment (d # filter (\<lambda>d'. (de_Namespace d', de_Name d') \<noteq> (de_Namespace d, de_Name d)) x) =
      (mini_deployment x)((de_Namespace d, de_Name d) \<mapsto> d\<lparr>de_Template := de_Template d, de_rest := de_rest d\<rparr>)" for d x
    by (auto simp: mini_deployment_def find_filter fun_eq_iff intro: arg_cong [of _ _ "\<lambda>P. find P x"])
  have update: "\<exists>x' rest. te_UpdateDeployment mini_time_env d x = (None, x') \<and>
      mini_deployment x' = (mini_deployment x)((de_Namespace d, de_Name d) \<mapsto> d\<lparr>de_Template := de_Template d, de_rest := rest\<rparr>)" for d x
    by (rule exI [of _ "snd (te_UpdateDeployment mini_time_env d x)"], rule exI [of _ "de_rest d"])
      (simp add: mini_time_env_def put [simplified])
  show ?thesis unfolding deployment_laws_def
    by (intro conjI allI update) (auto simp: mini_time_env_def mini_deployment_def dest!: find_holds)
qed

section \<open>Properties\<close>



end
