(* ===== verification/Executor_Aws.thy ===== *)
theory Executor_Aws
  imports Executor_Contracts
begin

text \<open>
  The AWS executors (\<open>internal/executor/aws\<close>). The operations of the SDK clients, behind the interfaces of
  \<open>client.go\<close>, are fields of \<open>AwsEnv\<close>; a client is the list of options it was configured with. A pointer in a
  response is an \<open>option\<close>, read by \<open>ToString\<close> and \<open>ToInt32\<close>; a response without error holds its object
  (\<open>NetworkAcl\<close> of \<open>CreateNetworkAcl\<close>). Each executor has its own table of snapshots by experiment. Log output is left out.
\<close>

section \<open>Definitions\<close>

subsection \<open>The SDK\<close>

record AWSConfig =
  Region :: string
  RoleARN :: string
  AccountID :: string
  AccessKey :: string
  SecretKey :: string
  SessionToken :: string

datatype LoadOption = WithRegion string | WithStaticCredentials string string string

type_synonym AwsClient = "LoadOption list"

record Filter =
  fi_Name :: string
  fi_Values :: "string list"

record Subnet =
  sn_VpcId :: "string option"
  sn_SubnetId :: "string option"

record NetworkAclAssociation =
  na_AssociationId :: "string option"
  na_SubnetId :: "string option"

record NetworkAcl =
  acl_Id :: "string option"
  acl_Associations :: "NetworkAclAssociation list"

record NetworkAclEntry =
  ne_AclId :: string
  ne_RuleNumber :: int
  ne_Egress :: bool
  ne_Protocol :: string
  ne_RuleAction :: string
  ne_CidrBlock :: string

record ScalingConfig =
  sg_DesiredSize :: "int option"
  sg_MinSize :: "int option"
  sg_MaxSize :: "int option"

datatype ApiErr = CodedErr string err | PlainErr err

fun api_msg :: "ApiErr \<Rightarrow> err" where
  "api_msg (CodedErr code msg) = msg"
| "api_msg (PlainErr msg) = msg"

record 'x AwsEnv =
  aw_jsonErr :: "json \<Rightarrow> err"
  aw_LoadDefaultConfig :: "LoadOption list \<Rightarrow> 'x \<Rightarrow> err option \<times> 'x"
  aw_StopInstances :: "AwsClient \<Rightarrow> string list \<Rightarrow> 'x \<Rightarrow> err option \<times> 'x"
  aw_StartInstances :: "AwsClient \<Rightarrow> string list \<Rightarrow> 'x \<Rightarrow> err option \<times> 'x"
  aw_TerminateInstances :: "AwsClient \<Rightarrow> string list \<Rightarrow> 'x \<Rightarrow> err option \<times> 'x"
  aw_DescribeSubnets :: "AwsClient \<Rightarrow> Filter \<Rightarrow> 'x \<Rightarrow> (err + Subnet list) \<times> 'x"
  aw_DescribeNetworkAcls :: "AwsClient \<Rightarrow> Filter \<Rightarrow> 'x \<Rightarrow> (err + NetworkAcl list) \<times> 'x"
  aw_CreateNetworkAcl :: "AwsClient \<Rightarrow> string \<Rightarrow> 'x \<Rightarrow> (err + string option) \<times> 'x"
  aw_CreateNetworkAclEntry :: "AwsClient \<Rightarrow> NetworkAclEntry \<Rightarrow> 'x \<Rightarrow> err option \<times> 'x"
  aw_ReplaceNetworkAclAssociation :: "AwsClient \<Rightarrow> string \<Rightarrow> string \<Rightarrow> 'x \<Rightarrow> (err + string option) \<times> 'x"
  aw_DeleteNetworkAcl :: "AwsClient \<Rightarrow> string \<Rightarrow> 'x \<Rightarrow> err option \<times> 'x"
  aw_FailoverDBCluster :: "AwsClient \<Rightarrow> string \<Rightarrow> string option \<Rightarrow> 'x \<Rightarrow> err option \<times> 'x"
  aw_StopTask :: "AwsClient \<Rightarrow> string \<Rightarrow> string \<Rightarrow> string \<Rightarrow> 'x \<Rightarrow> err option \<times> 'x"
  aw_TestFailover :: "AwsClient \<Rightarrow> string \<Rightarrow> string \<Rightarrow> 'x \<Rightarrow> err option \<times> 'x"
  aw_DescribeNodegroup :: "AwsClient \<Rightarrow> string \<Rightarrow> string \<Rightarrow> 'x \<Rightarrow> (err + ScalingConfig option) \<times> 'x"
  aw_UpdateNodegroupConfig :: "AwsClient \<Rightarrow> string \<Rightarrow> string \<Rightarrow> ScalingConfig \<Rightarrow> 'x \<Rightarrow> err option \<times> 'x"
  aw_GetFunctionConcurrency :: "AwsClient \<Rightarrow> string \<Rightarrow> 'x \<Rightarrow> (err + int option) \<times> 'x"
  aw_PutFunctionConcurrency :: "AwsClient \<Rightarrow> string \<Rightarrow> int \<Rightarrow> 'x \<Rightarrow> err option \<times> 'x"
  aw_DeleteFunctionConcurrency :: "AwsClient \<Rightarrow> string \<Rightarrow> 'x \<Rightarrow> err option \<times> 'x"
  aw_GetBucketPolicy :: "AwsClient \<Rightarrow> string \<Rightarrow> 'x \<Rightarrow> (ApiErr + string option) \<times> 'x"
  aw_PutBucketPolicy :: "AwsClient \<Rightarrow> string \<Rightarrow> string \<Rightarrow> 'x \<Rightarrow> err option \<times> 'x"
  aw_DeleteBucketPolicy :: "AwsClient \<Rightarrow> string \<Rightarrow> 'x \<Rightarrow> err option \<times> 'x"

definition ToString :: "string option \<Rightarrow> string" where
  "ToString p = (case p of None \<Rightarrow> [] | Some s \<Rightarrow> s)"

definition ToInt32 :: "int option \<Rightarrow> int" where
  "ToInt32 p = (case p of None \<Rightarrow> 0 | Some i \<Rightarrow> i)"

fun isNoSuchBucketPolicy :: "ApiErr \<Rightarrow> bool" where
  "isNoSuchBucketPolicy (CodedErr code msg) = (code = ''NoSuchBucketPolicy'')"
| "isNoSuchBucketPolicy (PlainErr msg) = False"

subsection \<open>Parameters and clients\<close>

definition aws_configFromParams :: "(string, string) gomap \<Rightarrow> AWSConfig" where
  "aws_configFromParams params =
     \<lparr>Region = gm_str params ''awsRegion'', RoleARN = gm_str params ''awsRoleArn'', AccountID = gm_str params ''awsAccountId'',
      AccessKey = gm_str params ''awsAccessKey'', SecretKey = gm_str params ''awsSecretKey'', SessionToken = gm_str params ''awsSessionToken''\<rparr>"

definition aws_options :: "AWSConfig \<Rightarrow> LoadOption list" where
  "aws_options cfg =
     [WithRegion (Region cfg)] @
     (if AccessKey cfg \<noteq> [] \<and> SecretKey cfg \<noteq> [] then [WithStaticCredentials (AccessKey cfg) (SecretKey cfg) (SessionToken cfg)] else [])"

definition NewAWSClient :: "'x AwsEnv \<Rightarrow> AWSConfig \<Rightarrow> 'x \<Rightarrow> (err + AwsClient) \<times> 'x" where
  "NewAWSClient e cfg x =
     (case aw_LoadDefaultConfig e (aws_options cfg) x of
        (Some err, x1) \<Rightarrow> (Inl (''load aws config: '' @ err), x1)
      | (None, x1) \<Rightarrow> (Inr (aws_options cfg), x1))"

definition validateAWSParams :: "'x AwsEnv \<Rightarrow> ChaosExperiment \<Rightarrow> string \<Rightarrow> string list \<Rightarrow> err + (string, string) gomap" where
  "validateAWSParams e xp actionType required =
     (case ParseParameters (aw_jsonErr e) xp of
        Inl err \<Rightarrow> Inl (actionType @ '': '' @ err)
      | Inr params \<Rightarrow>
          (case missing_param actionType params (''awsRegion'' # required) of
             Some err \<Rightarrow> Inl err
           | None \<Rightarrow> Inr params))"

definition aws_Validate :: "'x AwsEnv \<Rightarrow> string \<Rightarrow> string list \<Rightarrow> ChaosExperiment \<Rightarrow> err option" where
  "aws_Validate e actionType required xp =
     (case validateAWSParams e xp actionType required of Inl err \<Rightarrow> Some err | Inr _ \<Rightarrow> None)"

definition trimIDs :: "string \<Rightarrow> string list" where
  "trimIDs raw = filter (\<lambda>t. t \<noteq> []) (map TrimSpace (split_on (CHR '','') raw))"

text \<open>
  The beginning of every \<open>Execute\<close> (check the parameters, build a client) and of every \<open>Rollback\<close> (build
  a client from the parameters, an error of parsing them dropped), and what follows with the client.
\<close>

type_synonym ('s, 'x) aws_state = "(string, 's) gomap \<times> 'x"
type_synonym ('s, 'x) aws_step = "('s, 'x) aws_state \<Rightarrow> err option \<times> ('s, 'x) aws_state"

definition aws_start ::
    "'x AwsEnv \<Rightarrow> string \<Rightarrow> string list \<Rightarrow> ChaosExperiment \<Rightarrow>
     ((string, string) gomap \<Rightarrow> AwsClient \<Rightarrow> ('s, 'x) aws_step) \<Rightarrow> ('s, 'x) aws_step" where
  "aws_start e actionType required xp k sx =
     (case sx of (st, x) \<Rightarrow>
      (case validateAWSParams e xp actionType required of
         Inl err \<Rightarrow> (Some err, st, x)
       | Inr params \<Rightarrow>
           (case NewAWSClient e (aws_configFromParams params) x of
              (Inl err, x1) \<Rightarrow> (Some (actionType @ '': '' @ err), st, x1)
            | (Inr c, x1) \<Rightarrow> k params c (st, x1))))"

definition aws_params :: "'x AwsEnv \<Rightarrow> ChaosExperiment \<Rightarrow> (string, string) gomap" where
  "aws_params e xp = (case ParseParameters (aw_jsonErr e) xp of Inl _ \<Rightarrow> [] | Inr params \<Rightarrow> params)"

definition aws_undo ::
    "'x AwsEnv \<Rightarrow> string \<Rightarrow> ChaosExperiment \<Rightarrow> ((string, string) gomap \<Rightarrow> AwsClient \<Rightarrow> ('s, 'x) aws_step) \<Rightarrow> ('s, 'x) aws_step" where
  "aws_undo e actionType xp k sx =
     (case sx of (st, x) \<Rightarrow>
      (case NewAWSClient e (aws_configFromParams (aws_params e xp)) x of
         (Inl err, x1) \<Rightarrow> (Some (actionType @ '' rollback: '' @ err), st, x1)
       | (Inr c, x1) \<Rightarrow> k (aws_params e xp) c (st, x1)))"

text \<open>One call whose error is wrapped with a prefix.\<close>

definition aws_call :: "string \<Rightarrow> ('x \<Rightarrow> err option \<times> 'x) \<Rightarrow> ('s, 'x) aws_step" where
  "aws_call what f sx = (case sx of (st, x) \<Rightarrow> (case f x of (r, x1) \<Rightarrow> (map_option (\<lambda>err. what @ '': '' @ err) r, st, x1)))"

subsection \<open>EC2 instances, RDS, ECS and ElastiCache\<close>

definition EC2Stop_Execute :: "'x AwsEnv \<Rightarrow> ChaosExperiment \<Rightarrow> (string list, 'x) aws_step" where
  "EC2Stop_Execute e xp =
     aws_start e ''aws-ec2-stop'' [''instanceIds''] xp (\<lambda>params c sx.
       let instanceIDs = trimIDs (gm_str params ''instanceIds'') in
       case aws_call ''aws-ec2-stop'' (aw_StopInstances e c instanceIDs) sx of
         (Some err, sx1) \<Rightarrow> (Some err, sx1)
       | (None, st, x) \<Rightarrow> (None, gm_put (m_uid (e_meta xp)) instanceIDs st, x))"

definition EC2Stop_Rollback :: "'x AwsEnv \<Rightarrow> ChaosExperiment \<Rightarrow> (string list, 'x) aws_step" where
  "EC2Stop_Rollback e xp sx =
     (case sx of (st, x) \<Rightarrow>
      (let instanceIDs = gm_list st (m_uid (e_meta xp)); st' = gm_del (m_uid (e_meta xp)) st in
       if instanceIDs = [] then (None, st', x)
       else aws_undo e ''aws-ec2-stop'' xp (\<lambda>params c. aws_call ''aws-ec2-stop rollback'' (aw_StartInstances e c instanceIDs)) (st', x)))"

definition EC2Stop_Validate :: "'x AwsEnv \<Rightarrow> ChaosExperiment \<Rightarrow> err option" where
  "EC2Stop_Validate e = aws_Validate e ''aws-ec2-stop'' [''instanceIds'']"

text \<open>The executors that keep nothing: \<open>Rollback\<close> does nothing.\<close>

definition EC2Terminate_Execute :: "'x AwsEnv \<Rightarrow> ChaosExperiment \<Rightarrow> (unit, 'x) aws_step" where
  "EC2Terminate_Execute e xp =
     aws_start e ''aws-ec2-terminate'' [''instanceIds''] xp (\<lambda>params c.
       aws_call ''aws-ec2-terminate'' (aw_TerminateInstances e c (trimIDs (gm_str params ''instanceIds''))))"

definition EC2Terminate_Rollback :: "ChaosExperiment \<Rightarrow> (unit, 'x) aws_step" where
  "EC2Terminate_Rollback xp sx = (None, sx)"

definition EC2Terminate_Validate :: "'x AwsEnv \<Rightarrow> ChaosExperiment \<Rightarrow> err option" where
  "EC2Terminate_Validate e = aws_Validate e ''aws-ec2-terminate'' [''instanceIds'']"

definition RDSFailover_Execute :: "'x AwsEnv \<Rightarrow> ChaosExperiment \<Rightarrow> (unit, 'x) aws_step" where
  "RDSFailover_Execute e xp =
     aws_start e ''aws-rds-failover'' [''dbClusterIdentifier''] xp (\<lambda>params c.
       let target = gm_str params ''targetDBInstanceIdentifier'' in
       aws_call ''aws-rds-failover'' (aw_FailoverDBCluster e c (gm_str params ''dbClusterIdentifier'') (if target \<noteq> [] then Some target else None)))"

definition RDSFailover_Rollback :: "ChaosExperiment \<Rightarrow> (unit, 'x) aws_step" where
  "RDSFailover_Rollback xp sx = (None, sx)"

definition RDSFailover_Validate :: "'x AwsEnv \<Rightarrow> ChaosExperiment \<Rightarrow> err option" where
  "RDSFailover_Validate e = aws_Validate e ''aws-rds-failover'' [''dbClusterIdentifier'']"

definition ECSStopTask_Execute :: "'x AwsEnv \<Rightarrow> ChaosExperiment \<Rightarrow> (unit, 'x) aws_step" where
  "ECSStopTask_Execute e xp =
     aws_start e ''aws-ecs-stop-task'' [''cluster'', ''taskArn''] xp (\<lambda>params c.
       aws_call ''aws-ecs-stop-task'' (aw_StopTask e c (gm_str params ''cluster'') (gm_str params ''taskArn'')
         (''ChaosPlane experiment: '' @ m_name (e_meta xp))))"

definition ECSStopTask_Rollback :: "ChaosExperiment \<Rightarrow> (unit, 'x) aws_step" where
  "ECSStopTask_Rollback xp sx = (None, sx)"

definition ECSStopTask_Validate :: "'x AwsEnv \<Rightarrow> ChaosExperiment \<Rightarrow> err option" where
  "ECSStopTask_Validate e = aws_Validate e ''aws-ecs-stop-task'' [''cluster'', ''taskArn'']"

definition ElastiCacheFailover_Execute :: "'x AwsEnv \<Rightarrow> ChaosExperiment \<Rightarrow> (unit, 'x) aws_step" where
  "ElastiCacheFailover_Execute e xp =
     aws_start e ''aws-elasticache-failover'' [''replicationGroupId'', ''nodeGroupId''] xp (\<lambda>params c.
       aws_call ''aws-elasticache-failover'' (aw_TestFailover e c (gm_str params ''replicationGroupId'') (gm_str params ''nodeGroupId'')))"

definition ElastiCacheFailover_Rollback :: "ChaosExperiment \<Rightarrow> (unit, 'x) aws_step" where
  "ElastiCacheFailover_Rollback xp sx = (None, sx)"

definition ElastiCacheFailover_Validate :: "'x AwsEnv \<Rightarrow> ChaosExperiment \<Rightarrow> err option" where
  "ElastiCacheFailover_Validate e = aws_Validate e ''aws-elasticache-failover'' [''replicationGroupId'', ''nodeGroupId'']"

subsection \<open>Failure of an availability zone\<close>

record azReplacedAssoc =
  ra_associationID :: string
  ra_originalACLID :: string

record azFailureState =
  az_denyACLID :: string
  az_associations :: "azReplacedAssoc list"

fun restore_associations :: "'x AwsEnv \<Rightarrow> AwsClient \<Rightarrow> azReplacedAssoc list \<Rightarrow> err option \<Rightarrow> 'x \<Rightarrow> err option \<times> 'x" where
  "restore_associations e c [] firstErr x = (firstErr, x)"
| "restore_associations e c (a # as) firstErr x =
     (case aw_ReplaceNetworkAclAssociation e c (ra_associationID a) (ra_originalACLID a) x of
        (Inl err, x1) \<Rightarrow>
          restore_associations e c as
            (if firstErr = None
             then Some (''restore association '' @ ra_associationID a @ '' to acl '' @ ra_originalACLID a @ '': '' @ err)
             else firstErr) x1
      | (Inr _, x1) \<Rightarrow> restore_associations e c as firstErr x1)"

definition cleanup :: "'x AwsEnv \<Rightarrow> AwsClient \<Rightarrow> azFailureState \<Rightarrow> 'x \<Rightarrow> err option \<times> 'x" where
  "cleanup e c st x =
     (case restore_associations e c (az_associations st) None x of (firstErr, x1) \<Rightarrow>
        if az_denyACLID st = [] then (firstErr, x1)
        else
          (case aw_DeleteNetworkAcl e c (az_denyACLID st) x1 of
             (Some err, x2) \<Rightarrow>
               (if firstErr = None then Some (''delete deny NACL '' @ az_denyACLID st @ '': '' @ err) else firstErr, x2)
           | (None, x2) \<Rightarrow> (firstErr, x2)))"

definition wanted_associations :: "string list \<Rightarrow> NetworkAcl list \<Rightarrow> azReplacedAssoc list" where
  "wanted_associations subnetIDs acls =
     concat (map (\<lambda>acl. map (\<lambda>a. \<lparr>ra_associationID = ToString (na_AssociationId a), ra_originalACLID = ToString (acl_Id acl)\<rparr>)
       (filter (\<lambda>a. ToString (na_SubnetId a) \<in> set subnetIDs) (acl_Associations acl))) acls)"

definition currentAssociations :: "'x AwsEnv \<Rightarrow> AwsClient \<Rightarrow> string list \<Rightarrow> 'x \<Rightarrow> (err + azReplacedAssoc list) \<times> 'x" where
  "currentAssociations e c subnetIDs x =
     (case aw_DescribeNetworkAcls e c \<lparr>fi_Name = ''association.subnet-id'', fi_Values = subnetIDs\<rparr> x of
        (Inl err, x1) \<Rightarrow> (Inl (''describe network acls: '' @ err), x1)
      | (Inr acls, x1) \<Rightarrow>
          (let result = wanted_associations subnetIDs acls in
           (if result = [] then Inl (''no NACL associations found for subnets '' @ fmt_list subnetIDs) else Inr result, x1)))"

text \<open>The two rules, and the replacements; on an error the caller cleans up what the state says.\<close>

fun deny_entries :: "'x AwsEnv \<Rightarrow> AwsClient \<Rightarrow> string \<Rightarrow> bool list \<Rightarrow> 'x \<Rightarrow> err option \<times> 'x" where
  "deny_entries e c denyACLID [] x = (None, x)"
| "deny_entries e c denyACLID (egress # bs) x =
     (case aw_CreateNetworkAclEntry e c \<lparr>ne_AclId = denyACLID, ne_RuleNumber = 100, ne_Egress = egress, ne_Protocol = ''-1'',
           ne_RuleAction = ''deny'', ne_CidrBlock = ''0.0.0.0/0''\<rparr> x of
        (Some err, x1) \<Rightarrow> (Some (''aws-az-failure: add deny entry (egress='' @ (if egress then ''true'' else ''false'') @ ''): '' @ err), x1)
      | (None, x1) \<Rightarrow> deny_entries e c denyACLID bs x1)"

fun replace_associations :: "'x AwsEnv \<Rightarrow> AwsClient \<Rightarrow> azReplacedAssoc list \<Rightarrow> azFailureState \<Rightarrow> 'x \<Rightarrow> err option \<times> azFailureState \<times> 'x" where
  "replace_associations e c [] st x = (None, st, x)"
| "replace_associations e c (a # as) st x =
     (case aw_ReplaceNetworkAclAssociation e c (ra_associationID a) (az_denyACLID st) x of
        (Inl err, x1) \<Rightarrow> (Some (''aws-az-failure: replace NACL association '' @ ra_associationID a @ '': '' @ err), st, x1)
      | (Inr new, x1) \<Rightarrow>
          replace_associations e c as
            (st\<lparr>az_associations := az_associations st @ [\<lparr>ra_associationID = ToString new, ra_originalACLID = ra_originalACLID a\<rparr>]\<rparr>) x1)"

definition isolate :: "'x AwsEnv \<Rightarrow> AwsClient \<Rightarrow> string list \<Rightarrow> string \<Rightarrow> 'x \<Rightarrow> err option \<times> azFailureState \<times> 'x" where
  "isolate e c subnetIDs denyACLID x =
     (let st = \<lparr>az_denyACLID = denyACLID, az_associations = []\<rparr> in
      case deny_entries e c denyACLID [False, True] x of
        (Some err, x1) \<Rightarrow> (Some err, st, x1)
      | (None, x1) \<Rightarrow>
          (case currentAssociations e c subnetIDs x1 of
             (Inl err, x2) \<Rightarrow> (Some (''aws-az-failure: '' @ err), st, x2)
           | (Inr assocs, x2) \<Rightarrow> replace_associations e c assocs st x2))"

definition isolate_zone :: "'x AwsEnv \<Rightarrow> ChaosExperiment \<Rightarrow> (string, string) gomap \<Rightarrow> AwsClient \<Rightarrow> (azFailureState, 'x) aws_step" where
  "isolate_zone e xp params c sx =
     (case sx of (state, x) \<Rightarrow>
      (let az = gm_str params ''availabilityZone'' in
       case aw_DescribeSubnets e c \<lparr>fi_Name = ''availability-zone'', fi_Values = [az]\<rparr> x of
         (Inl err, x1) \<Rightarrow> (Some (''aws-az-failure: describe subnets: '' @ err), state, x1)
       | (Inr [], x1) \<Rightarrow> (Some (''aws-az-failure: no subnets found in AZ '' @ az), state, x1)
       | (Inr (s # ss), x1) \<Rightarrow>
           (case aw_CreateNetworkAcl e c (ToString (sn_VpcId s)) x1 of
              (Inl err, x2) \<Rightarrow> (Some (''aws-az-failure: create deny NACL: '' @ err), state, x2)
            | (Inr acl, x2) \<Rightarrow>
                (case isolate e c (map (\<lambda>s. ToString (sn_SubnetId s)) (s # ss)) (ToString acl) x2 of
                   (Some err, st, x3) \<Rightarrow> (Some err, state, snd (cleanup e c st x3))
                 | (None, st, x3) \<Rightarrow> (None, gm_put (m_uid (e_meta xp)) st state, x3)))))"

definition AZFailure_Execute :: "'x AwsEnv \<Rightarrow> ChaosExperiment \<Rightarrow> (azFailureState, 'x) aws_step" where
  "AZFailure_Execute e xp = aws_start e ''aws-az-failure'' [''availabilityZone''] xp (isolate_zone e xp)"

definition AZFailure_Rollback :: "'x AwsEnv \<Rightarrow> ChaosExperiment \<Rightarrow> (azFailureState, 'x) aws_step" where
  "AZFailure_Rollback e xp sx =
     (case sx of (state, x) \<Rightarrow>
      (let state' = gm_del (m_uid (e_meta xp)) state in
       case map_of state (m_uid (e_meta xp)) of
         None \<Rightarrow> (None, state', x)
       | Some st \<Rightarrow> aws_undo e ''aws-az-failure'' xp (\<lambda>params c. aws_call ''aws-az-failure rollback'' (cleanup e c st)) (state', x)))"

definition AZFailure_Validate :: "'x AwsEnv \<Rightarrow> ChaosExperiment \<Rightarrow> err option" where
  "AZFailure_Validate e = aws_Validate e ''aws-az-failure'' [''availabilityZone'']"

subsection \<open>EKS node groups\<close>

definition EKSNodegroupScale_Execute :: "'x AwsEnv \<Rightarrow> ChaosExperiment \<Rightarrow> (ScalingConfig, 'x) aws_step" where
  "EKSNodegroupScale_Execute e xp =
     aws_start e ''aws-eks-nodegroup-scale'' [''clusterName'', ''nodegroupName'', ''desiredSize''] xp (\<lambda>params c (state, x).
       let cluster = gm_str params ''clusterName''; ng = gm_str params ''nodegroupName''; size = gm_str params ''desiredSize'' in
       case ParseInt 32 size of
         None \<Rightarrow> (Some (''aws-eks-nodegroup-scale: invalid desiredSize '' @ quoted size @ '': '' @ ParseInt_error size), state, x)
       | Some target \<Rightarrow>
           (case aw_DescribeNodegroup e c cluster ng x of
              (Inl err, x1) \<Rightarrow> (Some (''aws-eks-nodegroup-scale: describe nodegroup: '' @ err), state, x1)
            | (Inr None, x1) \<Rightarrow> (Some (''aws-eks-nodegroup-scale: nodegroup '' @ ng @ '' has no scaling config''), state, x1)
            | (Inr (Some orig), x1) \<Rightarrow>
                (let newMin = (if ToInt32 (sg_MinSize orig) > target then target else ToInt32 (sg_MinSize orig)) in
                 case aw_UpdateNodegroupConfig e c cluster ng
                     \<lparr>sg_DesiredSize = Some target, sg_MinSize = Some newMin, sg_MaxSize = sg_MaxSize orig\<rparr> x1 of
                   (Some err, x2) \<Rightarrow> (Some (''aws-eks-nodegroup-scale: update config: '' @ err), state, x2)
                 | (None, x2) \<Rightarrow> (None, gm_put (m_uid (e_meta xp)) orig state, x2))))"

definition EKSNodegroupScale_Rollback :: "'x AwsEnv \<Rightarrow> ChaosExperiment \<Rightarrow> (ScalingConfig, 'x) aws_step" where
  "EKSNodegroupScale_Rollback e xp sx =
     (case sx of (state, x) \<Rightarrow>
      (let state' = gm_del (m_uid (e_meta xp)) state in
       case map_of state (m_uid (e_meta xp)) of
         None \<Rightarrow> (None, state', x)
       | Some orig \<Rightarrow>
           aws_undo e ''aws-eks-nodegroup-scale'' xp (\<lambda>params c.
             aws_call ''aws-eks-nodegroup-scale rollback''
               (aw_UpdateNodegroupConfig e c (gm_str params ''clusterName'') (gm_str params ''nodegroupName'')
                 \<lparr>sg_DesiredSize = sg_DesiredSize orig, sg_MinSize = sg_MinSize orig, sg_MaxSize = sg_MaxSize orig\<rparr>)) (state', x)))"

definition EKSNodegroupScale_Validate :: "'x AwsEnv \<Rightarrow> ChaosExperiment \<Rightarrow> err option" where
  "EKSNodegroupScale_Validate e = aws_Validate e ''aws-eks-nodegroup-scale'' [''clusterName'', ''nodegroupName'', ''desiredSize'']"

subsection \<open>Lambda concurrency\<close>

record lambdaConcurrencyState =
  lc_hadReservation :: bool
  lc_reservedValue :: int

definition LambdaThrottle_Execute :: "'x AwsEnv \<Rightarrow> ChaosExperiment \<Rightarrow> (lambdaConcurrencyState, 'x) aws_step" where
  "LambdaThrottle_Execute e xp =
     aws_start e ''aws-lambda-throttle'' [''functionName''] xp (\<lambda>params c (state, x).
       let fn = gm_str params ''functionName'' in
       case aw_GetFunctionConcurrency e c fn x of
         (Inl err, x1) \<Rightarrow> (Some (''aws-lambda-throttle: get concurrency: '' @ err), state, x1)
       | (Inr cur, x1) \<Rightarrow>
           (let st = (case cur of None \<Rightarrow> \<lparr>lc_hadReservation = False, lc_reservedValue = 0\<rparr>
                               | Some v \<Rightarrow> \<lparr>lc_hadReservation = True, lc_reservedValue = v\<rparr>) in
            case aw_PutFunctionConcurrency e c fn 0 x1 of
              (Some err, x2) \<Rightarrow> (Some (''aws-lambda-throttle: put concurrency: '' @ err), state, x2)
            | (None, x2) \<Rightarrow> (None, gm_put (m_uid (e_meta xp)) st state, x2)))"

definition LambdaThrottle_Rollback :: "'x AwsEnv \<Rightarrow> ChaosExperiment \<Rightarrow> (lambdaConcurrencyState, 'x) aws_step" where
  "LambdaThrottle_Rollback e xp sx =
     (case sx of (state, x) \<Rightarrow>
      (let state' = gm_del (m_uid (e_meta xp)) state in
       case map_of state (m_uid (e_meta xp)) of
         None \<Rightarrow> (None, state', x)
       | Some st \<Rightarrow>
           aws_undo e ''aws-lambda-throttle'' xp (\<lambda>params c.
             let fn = gm_str params ''functionName'' in
             if lc_hadReservation st
             then aws_call ''aws-lambda-throttle rollback: restore concurrency'' (aw_PutFunctionConcurrency e c fn (lc_reservedValue st))
             else aws_call ''aws-lambda-throttle rollback: delete concurrency'' (aw_DeleteFunctionConcurrency e c fn)) (state', x)))"

definition LambdaThrottle_Validate :: "'x AwsEnv \<Rightarrow> ChaosExperiment \<Rightarrow> err option" where
  "LambdaThrottle_Validate e = aws_Validate e ''aws-lambda-throttle'' [''functionName'']"

subsection \<open>S3 bucket policies\<close>

definition denyAllBucketPolicy :: "string \<Rightarrow> string \<Rightarrow> string" where
  "denyAllBucketPolicy b1 b2 =
     (let q = (\<lambda>s. CHR 0x22 # s @ [CHR 0x22]); kv = (\<lambda>k v. q k @ '':'' @ q v) in
      ''{'' @ kv ''Version'' ''2012-10-17'' @ '','' @ q ''Statement'' @ '':[{'' @ kv ''Sid'' ''ChaosPlaneDenyAll'' @ '','' @
      kv ''Effect'' ''Deny'' @ '','' @ kv ''Principal'' ''*'' @ '','' @ kv ''Action'' ''s3:*'' @ '','' @ q ''Resource'' @ '':['' @
      q (''arn:aws:s3:::'' @ b1) @ '','' @ q (''arn:aws:s3:::'' @ b2 @ ''/*'') @ '']}]}'')"

record s3PolicyState =
  sp_hadPolicy :: bool
  sp_policy :: string

definition s3_snapshot :: "ApiErr + string option \<Rightarrow> err + s3PolicyState" where
  "s3_snapshot cur =
     (case cur of
        Inl err \<Rightarrow>
          if \<not> isNoSuchBucketPolicy err then Inl (''aws-s3-block: get bucket policy: '' @ api_msg err)
          else Inr \<lparr>sp_hadPolicy = False, sp_policy = []\<rparr>
      | Inr None \<Rightarrow> Inr \<lparr>sp_hadPolicy = False, sp_policy = []\<rparr>
      | Inr (Some p) \<Rightarrow> Inr \<lparr>sp_hadPolicy = True, sp_policy = p\<rparr>)"

definition S3Block_Execute :: "'x AwsEnv \<Rightarrow> ChaosExperiment \<Rightarrow> (s3PolicyState, 'x) aws_step" where
  "S3Block_Execute e xp =
     aws_start e ''aws-s3-block'' [''bucketName''] xp (\<lambda>params c (state, x).
       let bucket = gm_str params ''bucketName'' in
       case aw_GetBucketPolicy e c bucket x of
         (cur, x1) \<Rightarrow>
           (case s3_snapshot cur of
              Inl err \<Rightarrow> (Some err, state, x1)
            | Inr st \<Rightarrow>
                (case aw_PutBucketPolicy e c bucket (denyAllBucketPolicy bucket bucket) x1 of
                   (Some err, x2) \<Rightarrow> (Some (''aws-s3-block: put deny policy: '' @ err), state, x2)
                 | (None, x2) \<Rightarrow> (None, gm_put (m_uid (e_meta xp)) st state, x2))))"

definition S3Block_Rollback :: "'x AwsEnv \<Rightarrow> ChaosExperiment \<Rightarrow> (s3PolicyState, 'x) aws_step" where
  "S3Block_Rollback e xp sx =
     (case sx of (state, x) \<Rightarrow>
      (let state' = gm_del (m_uid (e_meta xp)) state in
       case map_of state (m_uid (e_meta xp)) of
         None \<Rightarrow> (None, state', x)
       | Some st \<Rightarrow>
           aws_undo e ''aws-s3-block'' xp (\<lambda>params c.
             let bucket = gm_str params ''bucketName'' in
             if sp_hadPolicy st
             then aws_call ''aws-s3-block rollback: restore policy'' (aw_PutBucketPolicy e c bucket (sp_policy st))
             else aws_call ''aws-s3-block rollback: delete policy'' (aw_DeleteBucketPolicy e c bucket)) (state', x)))"

definition S3Block_Validate :: "'x AwsEnv \<Rightarrow> ChaosExperiment \<Rightarrow> err option" where
  "S3Block_Validate e = aws_Validate e ''aws-s3-block'' [''bucketName'']"

section \<open>Specification\<close>

text \<open>
  What the documentation of the services promises of a call that succeeds, over a view of their state:
  reserved concurrency by function, policies by bucket, scaling by node group. \<open>scope\<close> is the account
  and region a client works in; building a client changes nothing.
\<close>

definition lambda_laws :: "'x AwsEnv \<Rightarrow> (AwsClient \<Rightarrow> 'k) \<Rightarrow> ('x \<Rightarrow> 'k \<times> string \<rightharpoonup> int) \<Rightarrow> bool" where
  "lambda_laws e scope conc \<longleftrightarrow>
     (\<forall>opts x. conc (snd (aw_LoadDefaultConfig e opts x)) = conc x) \<and>
     (\<forall>c fn x v. fst (aw_GetFunctionConcurrency e c fn x) = Inr v \<longrightarrow>
        v = conc x (scope c, fn) \<and> conc (snd (aw_GetFunctionConcurrency e c fn x)) = conc x) \<and>
     (\<forall>c fn n x. fst (aw_PutFunctionConcurrency e c fn n x) = None \<longrightarrow>
        conc (snd (aw_PutFunctionConcurrency e c fn n x)) = (conc x)((scope c, fn) \<mapsto> n)) \<and>
     (\<forall>c fn x. fst (aw_DeleteFunctionConcurrency e c fn x) = None \<longrightarrow>
        conc (snd (aw_DeleteFunctionConcurrency e c fn x)) = (conc x)((scope c, fn) := None))"

definition s3_laws :: "'x AwsEnv \<Rightarrow> ('x \<Rightarrow> string \<rightharpoonup> string) \<Rightarrow> bool" where
  "s3_laws e pol \<longleftrightarrow>
     (\<forall>opts x. pol (snd (aw_LoadDefaultConfig e opts x)) = pol x) \<and>
     (\<forall>c b x. pol (snd (aw_GetBucketPolicy e c b x)) = pol x \<and>
        (\<forall>v. fst (aw_GetBucketPolicy e c b x) = Inr v \<longrightarrow> v = pol x b) \<and>
        (\<forall>err. fst (aw_GetBucketPolicy e c b x) = Inl err \<and> isNoSuchBucketPolicy err \<longrightarrow> pol x b = None)) \<and>
     (\<forall>c b p x. fst (aw_PutBucketPolicy e c b p x) = None \<longrightarrow> pol (snd (aw_PutBucketPolicy e c b p x)) = (pol x)(b \<mapsto> p)) \<and>
     (\<forall>c b x. fst (aw_DeleteBucketPolicy e c b x) = None \<longrightarrow> pol (snd (aw_DeleteBucketPolicy e c b x)) = (pol x)(b := None))"

definition eks_laws :: "'x AwsEnv \<Rightarrow> (AwsClient \<Rightarrow> 'k) \<Rightarrow> ('x \<Rightarrow> 'k \<times> string \<times> string \<rightharpoonup> ScalingConfig) \<Rightarrow> bool" where
  "eks_laws e scope groups \<longleftrightarrow>
     (\<forall>opts x. groups (snd (aw_LoadDefaultConfig e opts x)) = groups x) \<and>
     (\<forall>c cl ng x v. fst (aw_DescribeNodegroup e c cl ng x) = Inr v \<longrightarrow>
        v = groups x (scope c, cl, ng) \<and> groups (snd (aw_DescribeNodegroup e c cl ng x)) = groups x) \<and>
     (\<forall>c cl ng sc x. fst (aw_UpdateNodegroupConfig e c cl ng sc x) = None \<longrightarrow>
        groups (snd (aw_UpdateNodegroupConfig e c cl ng sc x)) = (groups x)((scope c, cl, ng) \<mapsto> sc))"

text \<open>
  Network ACLs: \<open>assoc\<close> gives the subnet of an association, \<open>acl\<close> the ACL of a subnet. A listed association
  is a current one and none is listed twice; a replacement gives the association a fresh id.
\<close>

definition silent :: "('x \<Rightarrow> 'v) \<Rightarrow> ('x \<Rightarrow> 'r \<times> 'x) \<Rightarrow> bool" where
  "silent view f \<longleftrightarrow> (\<forall>x. view (snd (f x)) = view x)"

definition nacl_laws :: "'x AwsEnv \<Rightarrow> ('x \<Rightarrow> string \<rightharpoonup> string) \<Rightarrow> ('x \<Rightarrow> string \<rightharpoonup> string) \<Rightarrow> bool" where
  "nacl_laws e acl assoc \<longleftrightarrow>
     (\<forall>opts. silent (\<lambda>x. (acl x, assoc x)) (aw_LoadDefaultConfig e opts)) \<and>
     (\<forall>c f. silent (\<lambda>x. (acl x, assoc x)) (aw_DescribeSubnets e c f)) \<and>
     (\<forall>c v. silent (\<lambda>x. (acl x, assoc x)) (aw_CreateNetworkAcl e c v)) \<and>
     (\<forall>c n. silent (\<lambda>x. (acl x, assoc x)) (aw_CreateNetworkAclEntry e c n)) \<and>
     (\<forall>c n. silent (\<lambda>x. (acl x, assoc x)) (aw_DeleteNetworkAcl e c n)) \<and>
     (\<forall>c f. silent (\<lambda>x. (acl x, assoc x)) (aw_DescribeNetworkAcls e c f)) \<and>
     (\<forall>c f x acls. fst (aw_DescribeNetworkAcls e c f x) = Inr acls \<longrightarrow>
        distinct (concat (map (\<lambda>n. map (\<lambda>a. ToString (na_AssociationId a)) (acl_Associations n)) acls)) \<and>
        (\<forall>n \<in> set acls. \<forall>a \<in> set (acl_Associations n).
           assoc x (ToString (na_AssociationId a)) = Some (ToString (na_SubnetId a)) \<and>
           acl x (ToString (na_SubnetId a)) = Some (ToString (acl_Id n)))) \<and>
     (\<forall>c i n x. case aw_ReplaceNetworkAclAssociation e c i n x of
        (Inl err, x') \<Rightarrow> acl x' = acl x \<and> assoc x' = assoc x
      | (Inr new, x') \<Rightarrow> (\<exists>s. assoc x i = Some s \<and> assoc x (ToString new) = None \<and>
           assoc x' = (assoc x)(i := None, ToString new \<mapsto> s) \<and> acl x' = (acl x)(s \<mapsto> n)))"

text \<open>Pointing a current association at an ACL of a set succeeds.\<close>

definition replaceable :: "'x AwsEnv \<Rightarrow> ('x \<Rightarrow> string \<rightharpoonup> string) \<Rightarrow> string set \<Rightarrow> bool" where
  "replaceable e assoc N \<longleftrightarrow>
     (\<forall>c i n x. assoc x i \<noteq> None \<and> n \<in> N \<longrightarrow> \<not> isl (fst (aw_ReplaceNetworkAclAssociation e c i n x)))"

text \<open>Several experiments in a row, up to the first error.\<close>

fun run_all :: "(ChaosExperiment \<Rightarrow> ('s, 'x) aws_step) \<Rightarrow> ChaosExperiment list \<Rightarrow> ('s, 'x) aws_step" where
  "run_all f [] sx = (None, sx)"
| "run_all f (xp # xps) sx = (case f xp sx of (Some err, sx1) \<Rightarrow> (Some err, sx1) | (None, sx1) \<Rightarrow> run_all f xps sx1)"

text \<open>Experiments may be nested: rolled back in the opposite order, they leave the setting as it was.\<close>

definition nests :: "(ChaosExperiment \<Rightarrow> ('s, 'x) aws_step) \<Rightarrow> (ChaosExperiment \<Rightarrow> ('s, 'x) aws_step) \<Rightarrow> ('x \<Rightarrow> 'v) \<Rightarrow> bool" where
  "nests ex rb setting \<longleftrightarrow>
     (\<forall>xps st x st' x' st'' x''. distinct (map uid_of xps) \<and> run_all ex xps (st, x) = (None, st', x') \<and>
        run_all rb (rev xps) (st', x') = (None, st'', x'') \<longrightarrow> setting x'' = setting x)"

text \<open>A view that shows nothing unless a law holds.\<close>

definition under :: "bool \<Rightarrow> ('x \<Rightarrow> 'v) \<Rightarrow> 'x \<Rightarrow> 'v option" where
  "under law view x = (if law then Some (view x) else None)"

section \<open>Executors that keep a snapshot\<close>

lemma run_all_append:
  "run_all f (xps @ yps) sx = (case run_all f xps sx of (Some err, sx1) \<Rightarrow> (Some err, sx1) | (None, sx1) \<Rightarrow> run_all f yps sx1)"
  by (induction xps arbitrary: sx) (auto split: prod.splits option.splits)

locale snapshot_executor =
  fixes execute rollback :: "ChaosExperiment \<Rightarrow> ('s, 'x) aws_step" and setting :: "'x \<Rightarrow> 'v"
  assumes execute_own: "execute xp (st, x) = (r, st', x') \<Longrightarrow> k \<noteq> uid_of xp \<Longrightarrow> map_of st' k = map_of st k"
    and rollback_own: "rollback xp (st, x) = (r, st', x') \<Longrightarrow> k \<noteq> uid_of xp \<Longrightarrow> map_of st' k = map_of st k"
    and undoes: "execute xp (st, x) = (None, st', x') \<Longrightarrow> map_of st1 (uid_of xp) = map_of st' (uid_of xp) \<Longrightarrow>
      setting y = setting x' \<Longrightarrow> rollback xp (st1, y) = (None, st2, y') \<Longrightarrow> setting y' = setting x"
begin

lemma run_all_own:
  assumes own: "\<And>xp st x r st' x'. f xp (st, x) = (r, st', x') \<Longrightarrow> k \<noteq> uid_of xp \<Longrightarrow> map_of st' k = map_of st k"
    and "run_all f xps (st, x) = (r, st', x')" and "k \<notin> set (map uid_of xps)"
  shows "map_of st' k = map_of st k"
  using assms(2,3)
proof (induction xps arbitrary: st x)
  case (Cons xp xps)
  obtain r1 st1 x1 where f: "f xp (st, x) = (r1, st1, x1)" by (cases "f xp (st, x)") auto
  have "map_of st1 k = map_of st k" using own [OF f] Cons.prems(2) by simp
  then show ?case using Cons.prems f Cons.IH [of st1 x1] by (cases r1) auto
qed simp

lemma nested:
  assumes "distinct (map uid_of xps)" and "run_all execute xps (st, x) = (None, st', x')"
    and "run_all rollback (rev xps) (st', x') = (None, st'', x'')"
  shows "setting x'' = setting x"
  using assms
proof (induction xps arbitrary: st x st'' x'')
  case (Cons xp xps)
  obtain st1 x1 where ex: "execute xp (st, x) = (None, st1, x1)" and rest: "run_all execute xps (st1, x1) = (None, st', x')"
    using Cons.prems(2) by (auto split: prod.splits option.splits)
  obtain st2 y where rb: "run_all rollback (rev xps) (st', x') = (None, st2, y)" and last: "rollback xp (st2, y) = (None, st'', x'')"
    using Cons.prems(3) by (auto simp: run_all_append split: prod.splits option.splits)
  have same: "setting y = setting x1" using Cons.IH [OF _ rest rb] Cons.prems(1) by simp
  have "map_of st2 (uid_of xp) = map_of st' (uid_of xp)" using run_all_own [OF rollback_own rb] Cons.prems(1) by simp
  also have "\<dots> = map_of st1 (uid_of xp)" using run_all_own [OF execute_own rest] Cons.prems(1) by simp
  finally show ?case using undoes [OF ex _ same last] by simp
qed simp

lemma nests: "nests execute rollback setting"
  unfolding nests_def using nested by blast

end

subsection \<open>What the executors do\<close>

lemma NewAWSClient_same:
  assumes "\<And>opts x. view (snd (aw_LoadDefaultConfig e opts x)) = view x"
    and "NewAWSClient e cfg x = (r, x')"
  shows "view x' = view x" and "r = Inr c \<Longrightarrow> c = aws_options cfg"
  using assms(1) [of "aws_options cfg" x] assms(2) by (auto simp: NewAWSClient_def split: prod.splits option.splits)

lemma validateAWSParams_params: "validateAWSParams e xp ty req = Inr params \<Longrightarrow> aws_params e xp = params"
  by (auto simp: validateAWSParams_def aws_params_def split: sum.splits option.splits)

text \<open>A start that succeeds went on with the client of the experiment's parameters; so does an undo.\<close>

abbreviation aws_client :: "'x AwsEnv \<Rightarrow> ChaosExperiment \<Rightarrow> AwsClient" where
  "aws_client e xp \<equiv> aws_options (aws_configFromParams (aws_params e xp))"

lemma aws_start_ok:
  assumes "aws_start e ty req xp k (st, x) = (None, st', x')" and "\<And>opts x. view (snd (aw_LoadDefaultConfig e opts x)) = view x"
  obtains x1 where "k (aws_params e xp) (aws_client e xp) (st, x1) = (None, st', x')" "view x1 = view x"
  using assms NewAWSClient_same [OF assms(2)]
  by (auto simp: aws_start_def dest: validateAWSParams_params split: sum.splits prod.splits)

lemma aws_undo_ok:
  assumes "aws_undo e ty xp k (st, x) = (None, st', x')" and "\<And>opts x. view (snd (aw_LoadDefaultConfig e opts x)) = view x"
  obtains x1 where "k (aws_params e xp) (aws_client e xp) (st, x1) = (None, st', x')" "view x1 = view x"
  using assms NewAWSClient_same [OF assms(2)]
  by (auto simp: aws_undo_def split: sum.splits prod.splits)

text \<open>Only the entry of the experiment changes.\<close>

lemma aws_start_own:
  assumes "aws_start e ty req xp k (st, x) = (r, st', x')"
    and "\<And>params c x r st' x'. k params c (st, x) = (r, st', x') \<Longrightarrow> map_of st' j = map_of st j"
  shows "map_of st' j = map_of st j"
  using assms by (fastforce simp: aws_start_def split: sum.splits prod.splits)

lemma aws_undo_own:
  assumes "aws_undo e ty xp k (st, x) = (r, st', x')"
    and "\<And>params c x r st' x'. k params c (st, x) = (r, st', x') \<Longrightarrow> map_of st' j = map_of st j"
  shows "map_of st' j = map_of st j"
  using assms by (fastforce simp: aws_undo_def split: sum.splits prod.splits)

lemma aws_call_own: "aws_call what f (st, x) = (r, st', x') \<Longrightarrow> map_of st' j = map_of st j"
  by (auto simp: aws_call_def split: prod.splits)

lemma aws_call_ok: "aws_call what f (st, x) = (None, st', x') \<longleftrightarrow> st' = st \<and> f x = (None, x')"
  by (auto simp: aws_call_def split: prod.splits)

lemma LambdaThrottle_own:
  "LambdaThrottle_Execute e xp (st, x) = (r, st', x') \<Longrightarrow> j \<noteq> uid_of xp \<Longrightarrow> map_of st' j = map_of st j"
  "LambdaThrottle_Rollback e xp (st, x) = (r, st', x') \<Longrightarrow> j \<noteq> uid_of xp \<Longrightarrow> map_of st' j = map_of st j"
  unfolding LambdaThrottle_Execute_def
  by (erule aws_start_own, fastforce simp: Let_def split: sum.splits prod.splits option.splits)
    (auto simp: LambdaThrottle_Rollback_def Let_def dest!: aws_undo_own [of e _ xp _ "gm_del (uid_of xp) st", where j = j] aws_call_own [where j = j]
      split: option.splits if_splits)

lemma EKSNodegroupScale_own:
  "EKSNodegroupScale_Execute e xp (st, x) = (r, st', x') \<Longrightarrow> j \<noteq> uid_of xp \<Longrightarrow> map_of st' j = map_of st j"
  "EKSNodegroupScale_Rollback e xp (st, x) = (r, st', x') \<Longrightarrow> j \<noteq> uid_of xp \<Longrightarrow> map_of st' j = map_of st j"
  unfolding EKSNodegroupScale_Execute_def
  by (erule aws_start_own, fastforce simp: Let_def split: sum.splits prod.splits option.splits)
    (auto simp: EKSNodegroupScale_Rollback_def Let_def dest!: aws_undo_own [of e _ xp _ "gm_del (uid_of xp) st", where j = j] aws_call_own [where j = j]
      split: option.splits if_splits)

lemma S3Block_own:
  "S3Block_Execute e xp (st, x) = (r, st', x') \<Longrightarrow> j \<noteq> uid_of xp \<Longrightarrow> map_of st' j = map_of st j"
  "S3Block_Rollback e xp (st, x) = (r, st', x') \<Longrightarrow> j \<noteq> uid_of xp \<Longrightarrow> map_of st' j = map_of st j"
  unfolding S3Block_Execute_def
  by (erule aws_start_own, fastforce simp: Let_def split: sum.splits prod.splits option.splits)
    (auto simp: S3Block_Rollback_def Let_def dest!: aws_undo_own [of e _ xp _ "gm_del (uid_of xp) st", where j = j] aws_call_own [where j = j]
      split: option.splits if_splits)

lemma LambdaThrottle_undoes:
  assumes laws: "lambda_laws e scope conc" and ex: "LambdaThrottle_Execute e xp (st, x) = (None, st', x')"
    and kept: "map_of st1 (uid_of xp) = map_of st' (uid_of xp)" and same: "conc y = conc x'"
    and rb: "LambdaThrottle_Rollback e xp (st1, y) = (None, st2, y')"
  shows "conc y' = conc x"
proof -
  let ?c = "aws_client e xp" and ?fn = "gm_str (aws_params e xp) ''functionName''"
  have load: "conc (snd (aw_LoadDefaultConfig e opts z)) = conc z" for opts z using laws by (simp add: lambda_laws_def)
  obtain x1 cur x2 snap where x1: "conc x1 = conc x" and cur: "aw_GetFunctionConcurrency e ?c ?fn x1 = (Inr cur, x2)"
    and put: "aw_PutFunctionConcurrency e ?c ?fn 0 x2 = (None, x')" and st': "st' = gm_put (uid_of xp) snap st"
    and snap: "snap = (case cur of None \<Rightarrow> \<lparr>lc_hadReservation = False, lc_reservedValue = 0\<rparr> | Some v \<Rightarrow> \<lparr>lc_hadReservation = True, lc_reservedValue = v\<rparr>)"
    using ex unfolding LambdaThrottle_Execute_def
    by (rule aws_start_ok [where view = conc, OF _ load]) (auto simp: Let_def split: prod.splits sum.splits option.splits)
  have "cur = conc x (scope ?c, ?fn)" "conc x2 = conc x" using laws cur x1 by (auto simp: lambda_laws_def) (metis fst_conv snd_conv)+
  moreover have "conc x' = (conc x2)((scope ?c, ?fn) \<mapsto> 0)" using laws put by (auto simp: lambda_laws_def) (metis fst_conv snd_conv)
  moreover have "\<exists>y1. conc y1 = conc y \<and> (if lc_hadReservation snap then aw_PutFunctionConcurrency e ?c ?fn (lc_reservedValue snap) y1
      else aw_DeleteFunctionConcurrency e ?c ?fn y1) = (None, y')"
    using rb kept unfolding LambdaThrottle_Rollback_def st'
    by (auto simp: Let_def aws_call_ok elim!: aws_undo_ok [where view = conc, OF _ load] split: if_splits)
  then have "conc y' = (conc y)((scope ?c, ?fn) := (if lc_hadReservation snap then Some (lc_reservedValue snap) else None))"
    using laws by (auto simp: lambda_laws_def split: if_splits) (metis fst_conv snd_conv)+
  ultimately show ?thesis using same by (auto simp: snap fun_eq_iff split: option.splits)
qed

lemma S3Block_undoes:
  assumes laws: "s3_laws e pol" and ex: "S3Block_Execute e xp (st, x) = (None, st', x')"
    and kept: "map_of st1 (uid_of xp) = map_of st' (uid_of xp)" and same: "pol y = pol x'"
    and rb: "S3Block_Rollback e xp (st1, y) = (None, st2, y')"
  shows "pol y' = pol x"
proof -
  let ?c = "aws_client e xp" and ?b = "gm_str (aws_params e xp) ''bucketName''"
  have load: "pol (snd (aw_LoadDefaultConfig e opts z)) = pol z" for opts z using laws by (simp add: s3_laws_def)
  obtain x1 cur x2 snap where x1: "pol x1 = pol x" and cur: "aw_GetBucketPolicy e ?c ?b x1 = (cur, x2)"
    and put: "aw_PutBucketPolicy e ?c ?b (denyAllBucketPolicy ?b ?b) x2 = (None, x')" and st': "st' = gm_put (uid_of xp) snap st"
    and snap: "s3_snapshot cur = Inr snap"
    using ex unfolding S3Block_Execute_def
    by (rule aws_start_ok [where view = pol, OF _ load]) (auto simp: Let_def split: prod.splits sum.splits option.splits)
  have get: "pol x2 = pol x" "(if sp_hadPolicy snap then Some (sp_policy snap) else None) = pol x ?b"
  proof -
    have "pol x2 = pol x1 \<and> (\<forall>v. cur = Inr v \<longrightarrow> v = pol x1 ?b) \<and> (\<forall>err. cur = Inl err \<and> isNoSuchBucketPolicy err \<longrightarrow> pol x1 ?b = None)"
      using laws cur by (auto simp: s3_laws_def) (metis fst_conv snd_conv)+
    then show "pol x2 = pol x" "(if sp_hadPolicy snap then Some (sp_policy snap) else None) = pol x ?b"
      using snap x1 by (auto simp: s3_snapshot_def split: sum.splits option.splits if_splits)
  qed
  have "pol x' = (pol x2)(?b \<mapsto> denyAllBucketPolicy ?b ?b)" using laws put by (auto simp: s3_laws_def) (metis fst_conv snd_conv)
  moreover have "\<exists>y1. pol y1 = pol y \<and> (if sp_hadPolicy snap then aw_PutBucketPolicy e ?c ?b (sp_policy snap) y1
      else aw_DeleteBucketPolicy e ?c ?b y1) = (None, y')"
    using rb kept unfolding S3Block_Rollback_def st'
    by (auto simp: Let_def aws_call_ok elim!: aws_undo_ok [where view = pol, OF _ load] split: if_splits)
  then have "pol y' = (pol y)(?b := (if sp_hadPolicy snap then Some (sp_policy snap) else None))"
    using laws by (auto simp: s3_laws_def split: if_splits) (metis fst_conv snd_conv)+
  ultimately show ?thesis using same get by (simp add: fun_eq_iff)
qed

lemma scaling_eta [simp]: "\<lparr>sg_DesiredSize = sg_DesiredSize sc, sg_MinSize = sg_MinSize sc, sg_MaxSize = sg_MaxSize sc\<rparr> = sc"
  by simp

lemma EKSNodegroupScale_undoes:
  assumes laws: "eks_laws e scope groups" and ex: "EKSNodegroupScale_Execute e xp (st, x) = (None, st', x')"
    and kept: "map_of st1 (uid_of xp) = map_of st' (uid_of xp)" and same: "groups y = groups x'"
    and rb: "EKSNodegroupScale_Rollback e xp (st1, y) = (None, st2, y')"
  shows "groups y' = groups x"
proof -
  let ?c = "aws_client e xp" and ?cl = "gm_str (aws_params e xp) ''clusterName''" and ?ng = "gm_str (aws_params e xp) ''nodegroupName''"
  have load: "groups (snd (aw_LoadDefaultConfig e opts z)) = groups z" for opts z using laws by (simp add: eks_laws_def)
  obtain x1 orig x2 sc where x1: "groups x1 = groups x" and cur: "aw_DescribeNodegroup e ?c ?cl ?ng x1 = (Inr (Some orig), x2)"
    and upd: "aw_UpdateNodegroupConfig e ?c ?cl ?ng sc x2 = (None, x')" and st': "st' = gm_put (uid_of xp) orig st"
    using ex unfolding EKSNodegroupScale_Execute_def
    by (rule aws_start_ok [where view = groups, OF _ load]) (auto simp: Let_def split: prod.splits sum.splits option.splits)
  have update: "groups z' = (groups z)((scope ?c, ?cl, ?ng) \<mapsto> sc)" if "aw_UpdateNodegroupConfig e ?c ?cl ?ng sc z = (None, z')" for sc z z'
    using laws that by (auto simp: eks_laws_def) (metis fst_conv snd_conv)
  have "groups x (scope ?c, ?cl, ?ng) = Some orig" "groups x2 = groups x"
    using laws cur x1 by (auto simp: eks_laws_def) (metis fst_conv snd_conv)+
  moreover obtain y1 where "groups y1 = groups y" "aw_UpdateNodegroupConfig e ?c ?cl ?ng orig y1 = (None, y')"
    using rb kept unfolding EKSNodegroupScale_Rollback_def st'
    by (auto simp: Let_def aws_call_ok elim!: aws_undo_ok [where view = groups, OF _ load])
  ultimately show ?thesis using same update [OF upd] update [of orig y1 y'] by (simp add: fun_eq_iff)
qed

interpretation lambda: snapshot_executor "LambdaThrottle_Execute e" "LambdaThrottle_Rollback e" "under (lambda_laws e scope conc) conc"
  for e :: "'x AwsEnv" and scope :: "AwsClient \<Rightarrow> 'k" and conc
  by unfold_locales (auto simp: under_def intro: LambdaThrottle_own dest: LambdaThrottle_undoes split: if_splits)

interpretation s3: snapshot_executor "S3Block_Execute e" "S3Block_Rollback e" "under (s3_laws e pol) pol"
  for e :: "'x AwsEnv" and pol
  by unfold_locales (auto simp: under_def intro: S3Block_own dest: S3Block_undoes split: if_splits)

interpretation eks: snapshot_executor "EKSNodegroupScale_Execute e" "EKSNodegroupScale_Rollback e" "under (eks_laws e scope groups) groups"
  for e :: "'x AwsEnv" and scope :: "AwsClient \<Rightarrow> 'k" and groups
  by unfold_locales (auto simp: under_def intro: EKSNodegroupScale_own dest: EKSNodegroupScale_undoes split: if_splits)

lemma nests_under: "law \<Longrightarrow> nests ex rb (under law view) \<Longrightarrow> nests ex rb view"
  by (simp add: nests_def under_def)

section \<open>Network ACLs\<close>

lemma silentD: "silent view f \<Longrightarrow> f x = (r, x') \<Longrightarrow> view x' = view x"
  unfolding silent_def by (metis snd_conv)

lemma nacl_silent:
  assumes "nacl_laws e acl assoc"
  shows "silent (\<lambda>x. (acl x, assoc x)) (aw_LoadDefaultConfig e opts)" "silent (\<lambda>x. (acl x, assoc x)) (aw_DescribeSubnets e c f)"
    "silent (\<lambda>x. (acl x, assoc x)) (aw_CreateNetworkAcl e c v)" "silent (\<lambda>x. (acl x, assoc x)) (aw_CreateNetworkAclEntry e c n)"
    "silent (\<lambda>x. (acl x, assoc x)) (aw_DeleteNetworkAcl e c i)" "silent (\<lambda>x. (acl x, assoc x)) (aw_DescribeNetworkAcls e c f)"
  using assms by (simp_all add: nacl_laws_def)

lemma nacl_listed:
  assumes "nacl_laws e acl assoc" and "aw_DescribeNetworkAcls e c f x = (Inr acls, x')"
  shows "distinct (concat (map (\<lambda>n. map (\<lambda>a. ToString (na_AssociationId a)) (acl_Associations n)) acls))"
    and "n \<in> set acls \<Longrightarrow> a \<in> set (acl_Associations n) \<Longrightarrow>
      assoc x (ToString (na_AssociationId a)) = Some (ToString (na_SubnetId a)) \<and> acl x (ToString (na_SubnetId a)) = Some (ToString (acl_Id n))"
proof -
  have law: "fst (aw_DescribeNetworkAcls e c f x) = Inr acls \<longrightarrow>
      distinct (concat (map (\<lambda>n. map (\<lambda>a. ToString (na_AssociationId a)) (acl_Associations n)) acls)) \<and>
      (\<forall>n \<in> set acls. \<forall>a \<in> set (acl_Associations n).
         assoc x (ToString (na_AssociationId a)) = Some (ToString (na_SubnetId a)) \<and> acl x (ToString (na_SubnetId a)) = Some (ToString (acl_Id n)))"
    using assms(1) by (simp add: nacl_laws_def)
  show "distinct (concat (map (\<lambda>n. map (\<lambda>a. ToString (na_AssociationId a)) (acl_Associations n)) acls))"
    using law assms(2) by simp
  show "n \<in> set acls \<Longrightarrow> a \<in> set (acl_Associations n) \<Longrightarrow>
      assoc x (ToString (na_AssociationId a)) = Some (ToString (na_SubnetId a)) \<and> acl x (ToString (na_SubnetId a)) = Some (ToString (acl_Id n))"
    using law assms(2) by simp
qed

lemma nacl_replace:
  assumes "nacl_laws e acl assoc"
  shows "aw_ReplaceNetworkAclAssociation e c i m x = (Inl err, x') \<Longrightarrow> acl x' = acl x \<and> assoc x' = assoc x"
    and "aw_ReplaceNetworkAclAssociation e c i m x = (Inr new, x') \<Longrightarrow>
      \<exists>s. assoc x i = Some s \<and> assoc x (ToString new) = None \<and>
        assoc x' = (assoc x)(i := None, ToString new \<mapsto> s) \<and> acl x' = (acl x)(s \<mapsto> m)"
proof -
  have law: "case aw_ReplaceNetworkAclAssociation e c i m x of
        (Inl err, x') \<Rightarrow> acl x' = acl x \<and> assoc x' = assoc x
      | (Inr new, x') \<Rightarrow> (\<exists>s. assoc x i = Some s \<and> assoc x (ToString new) = None \<and>
           assoc x' = (assoc x)(i := None, ToString new \<mapsto> s) \<and> acl x' = (acl x)(s \<mapsto> m))"
    using assms by (simp add: nacl_laws_def)
  show "aw_ReplaceNetworkAclAssociation e c i m x = (Inl err, x') \<Longrightarrow> acl x' = acl x \<and> assoc x' = assoc x"
    using law by simp
  show "aw_ReplaceNetworkAclAssociation e c i m x = (Inr new, x') \<Longrightarrow>
      \<exists>s. assoc x i = Some s \<and> assoc x (ToString new) = None \<and>
        assoc x' = (assoc x)(i := None, ToString new \<mapsto> s) \<and> acl x' = (acl x)(s \<mapsto> m)"
    using law by simp
qed

text \<open>
  \<open>points as assoc m\<close>: every entry is a current association of a subnet whose ACL in \<open>m\<close> is the entry's. \<open>revertible\<close>:
  and the ACL of every other subnet is that of \<open>m\<close>.
\<close>

definition points :: "azReplacedAssoc list \<Rightarrow> (string \<rightharpoonup> string) \<Rightarrow> (string \<rightharpoonup> string) \<Rightarrow> bool" where
  "points as assc m \<longleftrightarrow> distinct (map ra_associationID as) \<and>
     (\<forall>a \<in> set as. \<exists>s. assc (ra_associationID a) = Some s \<and> m s = Some (ra_originalACLID a))"

definition revertible :: "azReplacedAssoc list \<Rightarrow> (string \<rightharpoonup> string) \<Rightarrow> (string \<rightharpoonup> string) \<Rightarrow> (string \<rightharpoonup> string) \<Rightarrow> bool" where
  "revertible as assc acls m \<longleftrightarrow> points as assc m \<and>
     (\<forall>s. (\<forall>a \<in> set as. assc (ra_associationID a) \<noteq> Some s) \<longrightarrow> acls s = m s)"

lemma points_others:
  assumes "points (a # as) assc m" and "b \<in> set as"
  shows "ra_associationID b \<noteq> ra_associationID a" and "assc new = None \<Longrightarrow> ra_associationID b \<noteq> new"
proof -
  have "ra_associationID b \<in> ra_associationID ` set as" using assms(2) by simp
  then show "ra_associationID b \<noteq> ra_associationID a" using assms(1) by (auto simp: points_def)
  show "assc new = None \<Longrightarrow> ra_associationID b \<noteq> new" using assms by (auto simp: points_def)
qed

lemma points_replace:
  assumes "points (a # as) assc m" and "assc new = None" and "assc (ra_associationID a) = Some s"
  shows "points as (assc(ra_associationID a := None, new \<mapsto> s)) m" and "m s = Some (ra_originalACLID a)"
proof -
  have "\<exists>t. (assc(ra_associationID a := None, new \<mapsto> s)) (ra_associationID b) = Some t \<and> m t = Some (ra_originalACLID b)"
    if "b \<in> set as" for b
    using points_others [OF assms(1) that] assms(1,2) that by (auto simp: points_def)
  then show "points as (assc(ra_associationID a := None, new \<mapsto> s)) m" using assms(1) by (simp add: points_def)
  show "m s = Some (ra_originalACLID a)" using assms(1,3) by (simp add: points_def)
qed

lemma revertible_restore:
  assumes "revertible (a # as) assc acls m" and "assc new = None" and "assc (ra_associationID a) = Some s"
  shows "revertible as (assc(ra_associationID a := None, new \<mapsto> s)) (acls(s \<mapsto> ra_originalACLID a)) m"
proof -
  have p: "points (a # as) assc m" using assms(1) by (simp add: revertible_def)
  have "(acls(s \<mapsto> ra_originalACLID a)) t = m t"
    if "\<forall>b \<in> set as. (assc(ra_associationID a := None, new \<mapsto> s)) (ra_associationID b) \<noteq> Some t" for t
  proof (cases "t = s")
    case True
    then show ?thesis using points_replace(2) [OF p assms(2,3)] by simp
  next
    case False
    have "assc (ra_associationID b) \<noteq> Some t" if "b \<in> set as" for b
    proof -
      note points_others(1) [OF p that] points_others(2) [OF p that assms(2)]
      then show ?thesis using \<open>\<forall>b \<in> set as. _\<close> that by auto
    qed
    then show ?thesis using assms(1,3) False by (auto simp: revertible_def)
  qed
  then show ?thesis using points_replace(1) [OF p assms(2,3)] by (simp add: revertible_def)
qed

lemma revertible_isolate:
  assumes "revertible old assc acls m" and "points (a # as) assc m" and "set (map ra_associationID old) \<inter> set (map ra_associationID (a # as)) = {}"
    and "assc new = None" and "assc (ra_associationID a) = Some s"
  shows "revertible (old @ [\<lparr>ra_associationID = new, ra_originalACLID = ra_originalACLID a\<rparr>]) (assc(ra_associationID a := None, new \<mapsto> s)) (acls(s \<mapsto> n)) m"
    and "set (map ra_associationID (old @ [\<lparr>ra_associationID = new, ra_originalACLID = ra_originalACLID a\<rparr>])) \<inter> set (map ra_associationID as) = {}"
proof -
  have keep: "ra_associationID b \<noteq> ra_associationID a \<and> ra_associationID b \<noteq> new" if "b \<in> set old" for b
  proof -
    have "ra_associationID a \<notin> ra_associationID ` set old" using assms(3) by auto
    then have "ra_associationID b \<noteq> ra_associationID a" using that by (metis imageI)
    moreover have "ra_associationID b \<noteq> new" using assms(1,4) that by (auto simp: revertible_def points_def)
    ultimately show ?thesis ..
  qed
  have fresh: "new \<notin> ra_associationID ` set as" using assms(2,4) by (auto simp: points_def)
  show "set (map ra_associationID (old @ [\<lparr>ra_associationID = new, ra_originalACLID = ra_originalACLID a\<rparr>])) \<inter> set (map ra_associationID as) = {}"
    using assms(3) fresh by auto
  have "points (old @ [\<lparr>ra_associationID = new, ra_originalACLID = ra_originalACLID a\<rparr>]) (assc(ra_associationID a := None, new \<mapsto> s)) m"
    using assms(1) points_replace(2) [OF assms(2,4,5)] keep unfolding revertible_def points_def by auto
  moreover have "(acls(s \<mapsto> n)) t = m t" if "\<forall>b \<in> set (old @ [\<lparr>ra_associationID = new, ra_originalACLID = ra_originalACLID a\<rparr>]).
      (assc(ra_associationID a := None, new \<mapsto> s)) (ra_associationID b) \<noteq> Some t" for t
  proof -
    have "t \<noteq> s" using that by auto
    moreover have "assc (ra_associationID b) \<noteq> Some t" if "b \<in> set old" for b
      using \<open>\<forall>b \<in> set (old @ _). _\<close> keep [OF that] that by auto
    ultimately show ?thesis using assms(1) by (simp add: revertible_def)
  qed
  ultimately show "revertible (old @ [\<lparr>ra_associationID = new, ra_originalACLID = ra_originalACLID a\<rparr>]) (assc(ra_associationID a := None, new \<mapsto> s)) (acls(s \<mapsto> n)) m"
    by (simp add: revertible_def)
qed

subsection \<open>The loops\<close>

text \<open>The replacements leave, after an error too, a state from which the ACLs can be put back.\<close>

lemma replace_associations_revertible:
  assumes laws: "nacl_laws e acl assoc"
    and "revertible (az_associations st) (assoc x) (acl x) m" and "points as (assoc x) m"
    and "set (map ra_associationID (az_associations st)) \<inter> set (map ra_associationID as) = {}"
    and "replace_associations e c as st x = (r, st', x')"
  shows "revertible (az_associations st') (assoc x') (acl x') m \<and> az_denyACLID st' = az_denyACLID st \<and>
    (\<forall>s. acl x' s = acl x s \<or> acl x' s = Some (az_denyACLID st))"
  using assms(2-)
proof (induction as arbitrary: st x)
  case (Cons a as)
  obtain got x1 where rep: "aw_ReplaceNetworkAclAssociation e c (ra_associationID a) (az_denyACLID st) x = (got, x1)" by fastforce
  show ?case
  proof (cases got)
    case (Inl err)
    then show ?thesis using nacl_replace(1) [OF laws rep [unfolded Inl]] Cons.prems rep by auto
  next
    case (Inr new)
    obtain s where s: "assoc x (ra_associationID a) = Some s" "assoc x (ToString new) = None"
      "assoc x1 = (assoc x)(ra_associationID a := None, ToString new \<mapsto> s)" "acl x1 = (acl x)(s \<mapsto> az_denyACLID st)"
      using nacl_replace(2) [OF laws rep [unfolded Inr]] by blast
    let ?st = "st\<lparr>az_associations := az_associations st @ [\<lparr>ra_associationID = ToString new, ra_originalACLID = ra_originalACLID a\<rparr>]\<rparr>"
    have run: "replace_associations e c as ?st x1 = (r, st', x')" using Cons.prems(4) rep Inr by simp
    have "revertible (az_associations ?st) (assoc x1) (acl x1) m"
      using revertible_isolate(1) [OF Cons.prems(1,2,3) s(2,1)] by (simp add: s(3,4))
    moreover have "set (map ra_associationID (az_associations ?st)) \<inter> set (map ra_associationID as) = {}"
      using revertible_isolate(2) [OF Cons.prems(1,2,3) s(2,1)] by simp
    moreover have "points as (assoc x1) m" using points_replace(1) [OF Cons.prems(2) s(2,1)] by (simp add: s(3))
    ultimately have "revertible (az_associations st') (assoc x') (acl x') m \<and> az_denyACLID st' = az_denyACLID ?st \<and>
      (\<forall>t. acl x' t = acl x1 t \<or> acl x' t = Some (az_denyACLID ?st))"
      using run by (intro Cons.IH)
    then show ?thesis by (auto simp: s(4) split: if_splits)
  qed
qed auto

lemma restore_keeps_error: "restore_associations e c as (Some err) x = (r, x') \<Longrightarrow> r \<noteq> None"
  by (induction as arbitrary: x) (auto split: prod.splits sum.splits)

lemma restore_associations_ok:
  assumes laws: "nacl_laws e acl assoc" and "revertible as (assoc x) (acl x) m"
    and "restore_associations e c as None x = (r, x')" and "r = None \<or> replaceable e assoc (ran m)"
  shows "acl x' = m"
  using assms(2-)
proof (induction as arbitrary: x)
  case Nil
  then show ?case by (auto simp: revertible_def)
next
  case (Cons a as)
  obtain got x1 where rep: "aw_ReplaceNetworkAclAssociation e c (ra_associationID a) (ra_originalACLID a) x = (got, x1)" by fastforce
  show ?case
  proof (cases got)
    case (Inl err)
    obtain s where "assoc x (ra_associationID a) = Some s" "m s = Some (ra_originalACLID a)"
      using Cons.prems(1) by (auto simp: revertible_def points_def)
    then have "\<not> replaceable e assoc (ran m)"
      using rep Inl unfolding replaceable_def by (metis fst_conv option.distinct(1) ranI sum.disc(1))
    moreover have "r \<noteq> None" using Cons.prems(2) rep Inl restore_keeps_error by simp
    ultimately show ?thesis using Cons.prems(3) by blast
  next
    case (Inr new)
    obtain s where s: "assoc x (ra_associationID a) = Some s" "assoc x (ToString new) = None"
      "assoc x1 = (assoc x)(ra_associationID a := None, ToString new \<mapsto> s)" "acl x1 = (acl x)(s \<mapsto> ra_originalACLID a)"
      using nacl_replace(2) [OF laws rep [unfolded Inr]] by blast
    have "revertible as (assoc x1) (acl x1) m"
      using revertible_restore [OF Cons.prems(1) s(2,1)] by (simp add: s(3,4))
    then show ?thesis using Cons.IH [of x1] Cons.prems(2,3) rep Inr by simp
  qed
qed

lemma cleanup_ok:
  assumes laws: "nacl_laws e acl assoc" and "revertible (az_associations st) (assoc x) (acl x) m"
    and "cleanup e c st x = (r, x')" and "r = None \<or> replaceable e assoc (ran m)"
  shows "acl x' = m"
proof -
  obtain r1 x1 where rs: "restore_associations e c (az_associations st) None x = (r1, x1)" by fastforce
  have "r1 = None \<or> replaceable e assoc (ran m)" using assms(3,4) rs by (auto simp: cleanup_def split: if_splits prod.splits option.splits)
  then have "acl x1 = m" using restore_associations_ok [OF laws assms(2) rs] by blast
  moreover have "acl x' = acl x1"
    using assms(3) rs silentD [OF nacl_silent(5) [OF laws], of c "az_denyACLID st" x1]
    by (auto simp: cleanup_def split: if_splits prod.splits option.splits)
  ultimately show ?thesis by simp
qed

lemma deny_entries_silent:
  assumes "nacl_laws e acl assoc" and "deny_entries e c i bs x = (r, x')"
  shows "acl x' = acl x \<and> assoc x' = assoc x"
  using assms(2)
proof (induction bs arbitrary: x)
  case (Cons b bs)
  then show ?case using silentD [OF nacl_silent(4) [OF assms(1)]] by (fastforce split: prod.splits option.splits)
qed simp

lemma wanted_associations_points:
  assumes "nacl_laws e acl assoc" and "aw_DescribeNetworkAcls e c f x = (Inr acls, x')"
  shows "points (wanted_associations ids acls) (assoc x) (acl x)"
proof -
  have "map ra_associationID (wanted_associations ids acls) =
      concat (map (\<lambda>n. map (\<lambda>a. ToString (na_AssociationId a)) (filter (\<lambda>a. ToString (na_SubnetId a) \<in> set ids) (acl_Associations n))) acls)"
    by (simp add: wanted_associations_def map_concat o_def)
  moreover have "distinct (concat (map (\<lambda>n. map (\<lambda>a. ToString (na_AssociationId a)) (filter (\<lambda>a. ToString (na_SubnetId a) \<in> set ids) (acl_Associations n))) acls))"
    using nacl_listed(1) [OF assms] by (induction acls) (auto simp: distinct_map_filter)
  ultimately show ?thesis using nacl_listed(2) [OF assms] by (fastforce simp: points_def wanted_associations_def)
qed

lemma isolate_revertible:
  assumes laws: "nacl_laws e acl assoc" and run: "isolate e c ids deny x = (r, st, x')"
  shows "revertible (az_associations st) (assoc x') (acl x') (acl x) \<and> (\<forall>s. acl x' s = acl x s \<or> acl x' s = Some deny)"
proof -
  have none: "revertible [] (assoc y) (acl x) (acl x)" for y by (simp add: revertible_def points_def)
  obtain r1 x1 where entries: "deny_entries e c deny [False, True] x = (r1, x1)" by fastforce
  note e1 = deny_entries_silent [OF laws entries]
  obtain r2 x2 where desc: "aw_DescribeNetworkAcls e c \<lparr>fi_Name = ''association.subnet-id'', fi_Values = ids\<rparr> x1 = (r2, x2)" by fastforce
  have e2: "acl x2 = acl x1 \<and> assoc x2 = assoc x1" using silentD [OF nacl_silent(6) [OF laws] desc] by simp
  show ?thesis
  proof (cases "r1 = None \<and> (\<exists>acls. r2 = Inr acls \<and> wanted_associations ids acls \<noteq> [])")
    case True
    then obtain acls where acls: "r2 = Inr acls" "wanted_associations ids acls \<noteq> []" by blast
    have pts: "points (wanted_associations ids acls) (assoc x2) (acl x)"
      using wanted_associations_points [OF laws desc [unfolded acls(1)], of ids] e1 e2 by simp
    have "replace_associations e c (wanted_associations ids acls) \<lparr>az_denyACLID = deny, az_associations = []\<rparr> x2 = (r, st, x')"
      using run entries True desc acls by (simp add: isolate_def currentAssociations_def Let_def del: deny_entries.simps)
    then show ?thesis
      using replace_associations_revertible [OF laws, of "\<lparr>az_denyACLID = deny, az_associations = []\<rparr>" x2 "acl x"] pts none [of x2] e1 e2 by simp
  next
    case False
    then have "st = \<lparr>az_denyACLID = deny, az_associations = []\<rparr> \<and> (x' = x1 \<or> x' = x2)"
      using run entries desc
      by (auto simp: isolate_def currentAssociations_def Let_def simp del: deny_entries.simps split: option.splits sum.splits if_splits prod.splits)
    then show ?thesis using none e1 e2 by auto
  qed
qed

lemma aws_start_cases:
  assumes "aws_start e ty req xp k (st, x) = (r, st', x')" and "\<And>opts x. view (snd (aw_LoadDefaultConfig e opts x)) = view x"
  obtains "r \<noteq> None" "st' = st" "view x' = view x"
  | x1 where "k (aws_params e xp) (aws_client e xp) (st, x1) = (r, st', x')" "view x1 = view x"
  using assms NewAWSClient_same [OF assms(2)]
  by (auto simp: aws_start_def dest: validateAWSParams_params split: sum.splits prod.splits)

lemma isolate_zone_cases:
  assumes laws: "nacl_laws e acl assoc" and run: "isolate_zone e xp params c (st, x) = (r, st', x')"
  obtains "r \<noteq> None" "st' = st" "acl x' = acl x"
  | az x1 where "r \<noteq> None" "st' = st" "revertible (az_associations az) (assoc x1) (acl x1) (acl x)" "x' = snd (cleanup e c az x1)"
  | az deny where "r = None" "st' = gm_put (uid_of xp) az st" "revertible (az_associations az) (assoc x') (acl x') (acl x)"
      "\<forall>s. acl x' s = acl x s \<or> acl x' s = Some deny"
proof -
  have same: "acl z' = acl z" if "silent (\<lambda>x. (acl x, assoc x)) f" "f z = (q, z')" for f :: "'a \<Rightarrow> 'q \<times> 'a" and q z z'
    using silentD [OF that] by simp
  obtain sub x1 where sub: "aw_DescribeSubnets e c \<lparr>fi_Name = ''availability-zone'', fi_Values = [gm_str params ''availabilityZone'']\<rparr> x = (sub, x1)"
    by fastforce
  have e1: "acl x1 = acl x" by (rule silentD [OF nacl_silent(2) [OF laws] sub, THEN arg_cong [where f = fst], simplified])
  consider "\<forall>s ss. sub \<noteq> Inr (s # ss)" | s ss where "sub = Inr (s # ss)" by blast
  then show thesis
  proof cases
    case 1
    then show thesis using run sub e1
      by (intro that(1)) (auto simp: isolate_zone_def Let_def split: sum.splits list.splits)
  next
    case 2
    obtain new x2 where new: "aw_CreateNetworkAcl e c (ToString (sn_VpcId s)) x1 = (new, x2)" by fastforce
    have e2: "acl x2 = acl x" using silentD [OF nacl_silent(3) [OF laws] new] e1 by simp
    show thesis
    proof (cases new)
      case (Inl err)
      then show thesis using run sub 2 new e2 by (intro that(1)) (auto simp: isolate_zone_def Let_def)
    next
      case (Inr n)
      obtain q az x3 where iso: "isolate e c (map (\<lambda>s. ToString (sn_SubnetId s)) (s # ss)) (ToString n) x2 = (q, az, x3)" by (meson prod_cases3)
      have "(r, st', x') = (case q of Some err \<Rightarrow> (Some err, st, snd (cleanup e c az x3)) | None \<Rightarrow> (None, gm_put (uid_of xp) az st, x3))"
        using run sub 2 new Inr iso by (auto simp: isolate_zone_def Let_def split: option.splits)
      then show thesis using isolate_revertible [OF laws iso, unfolded e2] that(2) [of az x3] that(3) [of az "ToString n"]
        by (cases q) auto
    qed
  qed
qed

section \<open>A small account\<close>

record MiniAws =
  ma_assoc :: "(string, string) gomap"
  ma_acl :: "(string, string) gomap"
  ma_conc :: "(AwsClient \<times> string, int) gomap"
  ma_pol :: "(string, string) gomap"
  ma_groups :: "(AwsClient \<times> string \<times> string, ScalingConfig) gomap"

definition mini_acls :: "MiniAws \<Rightarrow> NetworkAcl list" where
  "mini_acls x = map (\<lambda>(i, s). case map_of (ma_acl x) s of
      None \<Rightarrow> \<lparr>acl_Id = None, acl_Associations = []\<rparr>
    | Some n \<Rightarrow> \<lparr>acl_Id = Some n, acl_Associations = [\<lparr>na_AssociationId = Some i, na_SubnetId = Some s\<rparr>]\<rparr>) (AList.clearjunk (ma_assoc x))"

definition mini_replace :: "string \<Rightarrow> string \<Rightarrow> MiniAws \<Rightarrow> (err + string option) \<times> MiniAws" where
  "mini_replace i n x =
     (case map_of (ma_assoc x) i of
        None \<Rightarrow> (Inl ''InvalidAssociationID.NotFound'', x)
      | Some s \<Rightarrow>
          (let new = CHR ''a'' # concat (map fst (ma_assoc x)) in
           (Inr (Some new), x\<lparr>ma_assoc := gm_put new s (gm_del i (ma_assoc x)), ma_acl := gm_put s n (ma_acl x)\<rparr>)))"

definition mini_aws :: "MiniAws AwsEnv" where
  "mini_aws =
     \<lparr>aw_jsonErr = (\<lambda>_. ''bad JSON''), aw_LoadDefaultConfig = (\<lambda>_ x. (None, x)),
      aw_StopInstances = (\<lambda>_ _ x. (None, x)), aw_StartInstances = (\<lambda>_ _ x. (None, x)), aw_TerminateInstances = (\<lambda>_ _ x. (None, x)),
      aw_DescribeSubnets = (\<lambda>_ _ x. (Inr (map (\<lambda>(s, n). \<lparr>sn_VpcId = Some ''vpc'', sn_SubnetId = Some s\<rparr>) (ma_acl x)), x)),
      aw_DescribeNetworkAcls = (\<lambda>_ _ x. (Inr (mini_acls x), x)),
      aw_CreateNetworkAcl = (\<lambda>_ _ x. (Inr (Some ''deny''), x)), aw_CreateNetworkAclEntry = (\<lambda>_ _ x. (None, x)),
      aw_ReplaceNetworkAclAssociation = (\<lambda>_. mini_replace), aw_DeleteNetworkAcl = (\<lambda>_ _ x. (None, x)),
      aw_FailoverDBCluster = (\<lambda>_ _ _ x. (None, x)), aw_StopTask = (\<lambda>_ _ _ _ x. (None, x)), aw_TestFailover = (\<lambda>_ _ _ x. (None, x)),
      aw_DescribeNodegroup = (\<lambda>c cl ng x. (Inr (map_of (ma_groups x) (c, cl, ng)), x)),
      aw_UpdateNodegroupConfig = (\<lambda>c cl ng sc x. (None, x\<lparr>ma_groups := gm_put (c, cl, ng) sc (ma_groups x)\<rparr>)),
      aw_GetFunctionConcurrency = (\<lambda>c fn x. (Inr (map_of (ma_conc x) (c, fn)), x)),
      aw_PutFunctionConcurrency = (\<lambda>c fn n x. (None, x\<lparr>ma_conc := gm_put (c, fn) n (ma_conc x)\<rparr>)),
      aw_DeleteFunctionConcurrency = (\<lambda>c fn x. (None, x\<lparr>ma_conc := gm_del (c, fn) (ma_conc x)\<rparr>)),
      aw_GetBucketPolicy = (\<lambda>c b x. (case map_of (ma_pol x) b of None \<Rightarrow> Inl (CodedErr ''NoSuchBucketPolicy'' ''none'') | Some p \<Rightarrow> Inr (Some p), x)),
      aw_PutBucketPolicy = (\<lambda>c b p x. (None, x\<lparr>ma_pol := gm_put b p (ma_pol x)\<rparr>)),
      aw_DeleteBucketPolicy = (\<lambda>c b x. (None, x\<lparr>ma_pol := gm_del b (ma_pol x)\<rparr>))\<rparr>"

definition aws_chaos :: "string \<Rightarrow> string \<Rightarrow> (string \<times> string) list \<Rightarrow> ChaosExperiment" where
  "aws_chaos uid action ps =
     (let xp = demo_chaos action in
      xp\<lparr>e_meta := (e_meta xp)\<lparr>m_uid := uid\<rparr>,
        e_spec := (e_spec xp)\<lparr>s_action := \<lparr>a_type = action,
          a_parameters = Some (JObj (map (\<lambda>(k, v). (k, JStr v)) ((''awsRegion'', ''eu'') # ps))), a_duration = None\<rparr>\<rparr>\<rparr>)"

definition mini_account :: MiniAws where
  "mini_account = \<lparr>ma_assoc = [(''a1'', ''s1''), (''a2'', ''s2'')], ma_acl = [(''s1'', ''n1''), (''s2'', ''n2'')],
     ma_conc = [(([WithRegion ''eu''], ''f''), 5)], ma_pol = [], ma_groups = []\<rparr>"

lemma mini_settings:
  "lambda_laws mini_aws (\<lambda>c. c) (\<lambda>x. map_of (ma_conc x))" "s3_laws mini_aws (\<lambda>x. map_of (ma_pol x))"
  "eks_laws mini_aws (\<lambda>c. c) (\<lambda>x. map_of (ma_groups x))"
  by (auto simp: lambda_laws_def s3_laws_def eks_laws_def mini_aws_def split: option.splits)

lemma mini_fresh: "map_of m (CHR ''a'' # concat (map fst m)) = None"
proof -
  have "length k < length (CHR ''a'' # concat (map fst m))" if "k \<in> fst ` set m" for k
    using that by (induction m) force+
  then show ?thesis by (force simp: map_of_eq_None_iff)
qed

lemma mini_nacl: "nacl_laws mini_aws (\<lambda>x. map_of (ma_acl x)) (\<lambda>x. map_of (ma_assoc x))"
proof -
  have ids: "concat (map (\<lambda>n. map (\<lambda>a. ToString (na_AssociationId a)) (acl_Associations n))
      (map (\<lambda>(i, s). case map_of acls s of None \<Rightarrow> \<lparr>acl_Id = None, acl_Associations = []\<rparr>
        | Some n \<Rightarrow> \<lparr>acl_Id = Some n, acl_Associations = [\<lparr>na_AssociationId = Some i, na_SubnetId = Some s\<rparr>]\<rparr>) l)) =
      map fst (filter (\<lambda>(i, s). map_of acls s \<noteq> None) l)" for acls and l :: "(string \<times> string) list"
    by (induction l) (auto simp: ToString_def split: option.splits)
  have "distinct (concat (map (\<lambda>n. map (\<lambda>a. ToString (na_AssociationId a)) (acl_Associations n)) (mini_acls x)))" for x
    unfolding mini_acls_def ids using distinct_clearjunk [of "ma_assoc x"] by (simp add: distinct_map_filter)
  moreover have "map_of (ma_assoc x) (ToString (na_AssociationId a)) = Some (ToString (na_SubnetId a)) \<and>
      map_of (ma_acl x) (ToString (na_SubnetId a)) = Some (ToString (acl_Id n))"
    if "n \<in> set (mini_acls x)" "a \<in> set (acl_Associations n)" for x n a
    using that map_of_clearjunk [of "ma_assoc x"] map_of_is_SomeI [OF distinct_clearjunk, of _ _ "ma_assoc x"]
    by (auto simp: mini_acls_def ToString_def split: option.splits)
  moreover have "case mini_replace i n x of
        (Inl err, x') \<Rightarrow> map_of (ma_acl x') = map_of (ma_acl x) \<and> map_of (ma_assoc x') = map_of (ma_assoc x)
      | (Inr new, x') \<Rightarrow> (\<exists>s. map_of (ma_assoc x) i = Some s \<and> map_of (ma_assoc x) (ToString new) = None \<and>
           map_of (ma_assoc x') = (map_of (ma_assoc x))(i := None, ToString new \<mapsto> s) \<and> map_of (ma_acl x') = (map_of (ma_acl x))(s \<mapsto> n))" for i n x
    by (auto simp: mini_replace_def Let_def ToString_def mini_fresh split: option.splits)
  ultimately show ?thesis unfolding nacl_laws_def mini_aws_def by (auto simp: silent_def)
qed

section \<open>Properties\<close>



text \<open>
  C39. Experiments on the same resource nest. For the executors that scale node groups, throttle functions and block
  buckets: when any number of experiments was executed and they are rolled back in the opposite order, all with success, the
  reserved concurrency, the bucket policies and the scaling of all node groups are as before.
\<close>

theorem aws_experiments_nest:
  assumes "lambda_laws e scope conc" and "s3_laws e pol" and "eks_laws e scope groups"
  shows "nests (LambdaThrottle_Execute e) (LambdaThrottle_Rollback e) conc \<and>
    nests (S3Block_Execute e) (S3Block_Rollback e) pol \<and>
    nests (EKSNodegroupScale_Execute e) (EKSNodegroupScale_Rollback e) groups"
  using nests_under [OF assms(1) lambda.nests] nests_under [OF assms(2) s3.nests] nests_under [OF assms(3) eks.nests] by blast

theorem aws_experiments_nest_witness:
  "\<exists>st' x' st'' x''. run_all (LambdaThrottle_Execute mini_aws)
       [aws_chaos ''u1'' ''aws-lambda-throttle'' [(''functionName'', ''f'')], aws_chaos ''u2'' ''aws-lambda-throttle'' [(''functionName'', ''f'')]]
       ([], mini_account) = (None, st', x') \<and> map_of (ma_conc x') ([WithRegion ''eu''], ''f'') = Some 0 \<and>
     run_all (LambdaThrottle_Rollback mini_aws)
       [aws_chaos ''u2'' ''aws-lambda-throttle'' [(''functionName'', ''f'')], aws_chaos ''u1'' ''aws-lambda-throttle'' [(''functionName'', ''f'')]]
       (st', x') = (None, st'', x'') \<and> map_of (ma_conc x'') ([WithRegion ''eu''], ''f'') = Some 5"
proof -
  let ?f = "\<lambda>u. aws_chaos u ''aws-lambda-throttle'' [(''functionName'', ''f'')]"
  let ?ex = "run_all (LambdaThrottle_Execute mini_aws) [?f ''u1'', ?f ''u2'']" and ?rb = "run_all (LambdaThrottle_Rollback mini_aws) [?f ''u2'', ?f ''u1'']"
  have "(case ?ex ([], mini_account) of (r, st', x') \<Rightarrow> r = None \<and>
      map_of (ma_conc x') ([WithRegion ''eu''], ''f'') = Some 0 \<and> fst (?rb (st', x')) = None)" by code_simp
  then obtain st' x' where run: "?ex ([], mini_account) = (None, st', x')"
    and zero: "map_of (ma_conc x') ([WithRegion ''eu''], ''f'') = Some 0" and ok: "fst (?rb (st', x')) = None"
    by (auto split: prod.splits)
  obtain st'' x'' where rb: "?rb (st', x') = (None, st'', x'')" using ok by (cases "?rb (st', x')") auto
  have "nests (LambdaThrottle_Execute mini_aws) (LambdaThrottle_Rollback mini_aws) (\<lambda>x. map_of (ma_conc x))"
    using aws_experiments_nest [OF mini_settings] by blast
  from this [unfolded nests_def, rule_format, of "[?f ''u1'', ?f ''u2'']" "[]" mini_account st' x' st'' x'']
  have "map_of (ma_conc x'') = map_of (ma_conc mini_account)" using run rb by (simp add: aws_chaos_def Let_def del: run_all.simps)
  with run zero rb show ?thesis by (auto simp: mini_account_def simp del: run_all.simps)
qed

end
