(* ===== verification/Executor_Rest.thy ===== *)
theory Executor_Rest
  imports Executor_Contracts
begin

text \<open>
  The Azure and Google Cloud executors (\<open>internal/executor/azure\<close>, \<open>internal/executor/gcp\<close>), which call REST
  APIs. The HTTP client is the field \<open>re_Do\<close> of \<open>RestEnv\<close>; a response is its status and the text of its body, or
  the error of reading it. \<open>rw_sent\<close> logs the requests. The white space that \<open>Sscanf\<close> skips is that of ASCII. Log
  output is left out.
\<close>

section \<open>Definitions\<close>

record RestRequest =
  rr_method :: string
  rr_url :: string
  rr_token :: string
  rr_body :: "json option"

record 'x RestEnv =
  re_jsonErr :: "json \<Rightarrow> err"
  re_urlErr :: "string \<Rightarrow> err option"
  re_Do :: "RestRequest \<Rightarrow> 'x \<Rightarrow> (err + int \<times> (err + string)) \<times> 'x"

record 'x RestWorld =
  rw_ext :: 'x
  rw_sent :: "RestRequest list"

text \<open>\<open>fmt.Sscanf(s, "%d", &n)\<close>: blanks, a sign, digits; what follows is ignored. \<open>None\<close> is an error, which leaves \<open>n\<close> as it was.\<close>

definition sscanf_d :: "string \<Rightarrow> int option" where
  "sscanf_d s =
     (let t = dropWhile (\<lambda>c. is_space c \<and> c \<noteq> CHR 0x0A) s;
          sign = (case t of c # _ \<Rightarrow> if c = CHR ''+'' \<or> c = CHR ''-'' then [c] else [] | [] \<Rightarrow> []);
          ds = takeWhile (\<lambda>c. digit_val c \<noteq> None) (drop (length sign) t) in
      if ds = [] then None else ParseInt 64 (sign @ ds))"

definition scan_size :: "string \<Rightarrow> int" where
  "scan_size s = (case sscanf_d s of None \<Rightarrow> 0 | Some n \<Rightarrow> n)"

text \<open>The method \<open>request\<close> of both clients; \<open>p\<close> is the provider's name in its errors.\<close>

definition rest_request ::
    "string \<Rightarrow> 'x RestEnv \<Rightarrow> string \<Rightarrow> string \<Rightarrow> string \<Rightarrow> json option \<Rightarrow> 'x RestWorld \<Rightarrow> (err + string) \<times> 'x RestWorld" where
  "rest_request p e token meth url body w =
     (case re_urlErr e url of
        Some err \<Rightarrow> (Inl (p @ '' create request: '' @ err), w)
      | None \<Rightarrow>
          (let rq = \<lparr>rr_method = meth, rr_url = url, rr_token = token, rr_body = body\<rparr> in
           case re_Do e rq (rw_ext w) of (resp, x) \<Rightarrow>
             (case resp of
                Inl err \<Rightarrow> Inl (p @ '' api request failed: '' @ err)
              | Inr (status, Inl err) \<Rightarrow> Inl (p @ '' read response body: '' @ err)
              | Inr (status, Inr text) \<Rightarrow>
                  if status \<ge> 400 then Inl (p @ '' api error '' @ Itoa status @ '': '' @ text) else Inr text,
              w\<lparr>rw_ext := x, rw_sent := rw_sent w @ [rq]\<rparr>)))"

text \<open>A call of a client, whose error is wrapped.\<close>

definition rest_call :: "string \<Rightarrow> (err + string) \<times> 'x RestWorld \<Rightarrow> err option \<times> 'x RestWorld" where
  "rest_call what rw = (case rw of (Inl err, w) \<Rightarrow> (Some (what @ '': '' @ err), w) | (Inr _, w) \<Rightarrow> (None, w))"

definition wrapped :: "string \<Rightarrow> err option \<times> 'w \<Rightarrow> err option \<times> 'w" where
  "wrapped what rw = (case rw of (r, w) \<Rightarrow> (map_option (\<lambda>err. what @ '': '' @ err) r, w))"

definition rest_params :: "'x RestEnv \<Rightarrow> ChaosExperiment \<Rightarrow> (string, string) gomap" where
  "rest_params e xp = (case ParseParameters (re_jsonErr e) xp of Inl _ \<Rightarrow> [] | Inr params \<Rightarrow> params)"

subsection \<open>Azure\<close>

record AzureClient =
  SubscriptionID :: string
  ResourceGroup :: string
  az_BearerToken :: string

definition NewAzureClient :: "(string, string) gomap \<Rightarrow> AzureClient" where
  "NewAzureClient params =
     \<lparr>SubscriptionID = gm_str params ''subscriptionId'', ResourceGroup = gm_str params ''resourceGroup'',
      az_BearerToken = gm_str params ''azureBearerToken''\<rparr>"

definition azure_request :: "'x RestEnv \<Rightarrow> AzureClient \<Rightarrow> string \<Rightarrow> string \<Rightarrow> json option \<Rightarrow> 'x RestWorld \<Rightarrow> (err + string) \<times> 'x RestWorld" where
  "azure_request e c = rest_request ''azure'' e (az_BearerToken c)"

definition azure_base :: "AzureClient \<Rightarrow> string" where
  "azure_base c = ''https://management.azure.com/subscriptions/'' @ SubscriptionID c @ ''/resourceGroups/'' @ ResourceGroup c @ ''/providers/''"

definition VMDeallocate :: "'x RestEnv \<Rightarrow> AzureClient \<Rightarrow> string \<Rightarrow> 'x RestWorld \<Rightarrow> err option \<times> 'x RestWorld" where
  "VMDeallocate e c vmName w =
     rest_call (''azure vm deallocate '' @ vmName)
       (azure_request e c ''POST'' (azure_base c @ ''Microsoft.Compute/virtualMachines/'' @ vmName @ ''/deallocate?api-version=2024-03-01'') None w)"

definition VMStart :: "'x RestEnv \<Rightarrow> AzureClient \<Rightarrow> string \<Rightarrow> 'x RestWorld \<Rightarrow> err option \<times> 'x RestWorld" where
  "VMStart e c vmName w =
     rest_call (''azure vm start '' @ vmName)
       (azure_request e c ''POST'' (azure_base c @ ''Microsoft.Compute/virtualMachines/'' @ vmName @ ''/start?api-version=2024-03-01'') None w)"

definition AKSScaleNodePool :: "'x RestEnv \<Rightarrow> AzureClient \<Rightarrow> string \<Rightarrow> string \<Rightarrow> int \<Rightarrow> 'x RestWorld \<Rightarrow> err option \<times> 'x RestWorld" where
  "AKSScaleNodePool e c clusterName nodePool sz w =
     rest_call (''azure aks scale node pool '' @ clusterName @ ''/'' @ nodePool)
       (azure_request e c ''PUT''
         (azure_base c @ ''Microsoft.ContainerService/managedClusters/'' @ clusterName @ ''/agentPools/'' @ nodePool @ ''?api-version=2024-01-01'')
         (Some (JObj [(''properties'', JObj [(''count'', JNum (Itoa sz))])])) w)"

definition CosmosDBFailover :: "'x RestEnv \<Rightarrow> AzureClient \<Rightarrow> string \<Rightarrow> string \<Rightarrow> 'x RestWorld \<Rightarrow> err option \<times> 'x RestWorld" where
  "CosmosDBFailover e c accountName targetRegion w =
     rest_call (''azure cosmosdb failover '' @ accountName @ '' to '' @ targetRegion)
       (azure_request e c ''POST''
         (azure_base c @ ''Microsoft.DocumentDB/databaseAccounts/'' @ accountName @ ''/failoverPriorityChange?api-version=2024-02-15-preview'')
         (Some (JObj [(''failoverPolicies'', JArr [JObj [(''failoverPriority'', JNum ''0''), (''locationName'', JStr targetRegion)]])])) w)"

definition validateAzureParams :: "'x RestEnv \<Rightarrow> ChaosExperiment \<Rightarrow> string \<Rightarrow> string list \<Rightarrow> err + (string, string) gomap" where
  "validateAzureParams e xp actionType required =
     (case ParseParameters (re_jsonErr e) xp of
        Inl err \<Rightarrow> Inl (actionType @ '': '' @ err)
      | Inr params \<Rightarrow>
          (case missing_param actionType params (''subscriptionId'' # ''resourceGroup'' # required) of
             Some err \<Rightarrow> Inl err
           | None \<Rightarrow> Inr params))"

definition azure_Validate :: "'x RestEnv \<Rightarrow> string \<Rightarrow> string list \<Rightarrow> ChaosExperiment \<Rightarrow> err option" where
  "azure_Validate e actionType required xp =
     (case validateAzureParams e xp actionType required of Inl err \<Rightarrow> Some err | Inr _ \<Rightarrow> None)"

type_synonym 'x vm_stop_state = "(string, string list) gomap \<times> 'x RestWorld"

definition VMStop_Execute :: "'x RestEnv \<Rightarrow> ChaosExperiment \<Rightarrow> 'x vm_stop_state \<Rightarrow> err option \<times> 'x vm_stop_state" where
  "VMStop_Execute e xp sw =
     (case sw of (st, w) \<Rightarrow>
      (case validateAzureParams e xp ''azure-vm-stop'' [''vmName''] of
         Inl err \<Rightarrow> (Some err, st, w)
       | Inr params \<Rightarrow>
           (let vmName = gm_str params ''vmName'' in
            case wrapped ''azure-vm-stop'' (VMDeallocate e (NewAzureClient params) vmName w) of
              (Some err, w1) \<Rightarrow> (Some err, st, w1)
            | (None, w1) \<Rightarrow> (None, gm_put (m_uid (e_meta xp)) [vmName] st, w1))))"

fun start_vms :: "'x RestEnv \<Rightarrow> AzureClient \<Rightarrow> string list \<Rightarrow> 'x RestWorld \<Rightarrow> err option \<times> 'x RestWorld" where
  "start_vms e c [] w = (None, w)"
| "start_vms e c (vm # vms) w =
     (case VMStart e c vm w of
        (Some err, w1) \<Rightarrow> (Some (''azure-vm-stop rollback '' @ vm @ '': '' @ err), w1)
      | (None, w1) \<Rightarrow> start_vms e c vms w1)"

definition VMStop_Rollback :: "'x RestEnv \<Rightarrow> ChaosExperiment \<Rightarrow> 'x vm_stop_state \<Rightarrow> err option \<times> 'x vm_stop_state" where
  "VMStop_Rollback e xp sw =
     (case sw of (st, w) \<Rightarrow>
      (let vms = gm_list st (m_uid (e_meta xp)); st' = gm_del (m_uid (e_meta xp)) st in
       if vms = [] then (None, st', w)
       else (case start_vms e (NewAzureClient (rest_params e xp)) vms w of (r, w1) \<Rightarrow> (r, st', w1))))"

definition VMStop_Validate :: "'x RestEnv \<Rightarrow> ChaosExperiment \<Rightarrow> err option" where
  "VMStop_Validate e = azure_Validate e ''azure-vm-stop'' [''vmName'']"

definition AKSNodePoolScale_Execute :: "'x RestEnv \<Rightarrow> ChaosExperiment \<Rightarrow> 'x RestWorld \<Rightarrow> err option \<times> 'x RestWorld" where
  "AKSNodePoolScale_Execute e xp w =
     (case validateAzureParams e xp ''azure-aks-scale'' [''clusterName'', ''nodePool'', ''targetCount''] of
        Inl err \<Rightarrow> (Some err, w)
      | Inr params \<Rightarrow>
          wrapped ''azure-aks-scale'' (AKSScaleNodePool e (NewAzureClient params) (gm_str params ''clusterName'') (gm_str params ''nodePool'')
            (scan_size (gm_str params ''targetCount'')) w))"

definition AKSNodePoolScale_Rollback :: "ChaosExperiment \<Rightarrow> 'x RestWorld \<Rightarrow> err option \<times> 'x RestWorld" where
  "AKSNodePoolScale_Rollback xp w = (None, w)"

definition AKSNodePoolScale_Validate :: "'x RestEnv \<Rightarrow> ChaosExperiment \<Rightarrow> err option" where
  "AKSNodePoolScale_Validate e = azure_Validate e ''azure-aks-scale'' [''clusterName'', ''nodePool'', ''targetCount'']"

definition CosmosDBFailover_Execute :: "'x RestEnv \<Rightarrow> ChaosExperiment \<Rightarrow> 'x RestWorld \<Rightarrow> err option \<times> 'x RestWorld" where
  "CosmosDBFailover_Execute e xp w =
     (case validateAzureParams e xp ''azure-cosmosdb-failover'' [''accountName'', ''targetRegion''] of
        Inl err \<Rightarrow> (Some err, w)
      | Inr params \<Rightarrow>
          wrapped ''azure-cosmosdb-failover''
            (CosmosDBFailover e (NewAzureClient params) (gm_str params ''accountName'') (gm_str params ''targetRegion'') w))"

definition CosmosDBFailover_Rollback :: "ChaosExperiment \<Rightarrow> 'x RestWorld \<Rightarrow> err option \<times> 'x RestWorld" where
  "CosmosDBFailover_Rollback xp w = (None, w)"

definition CosmosDBFailover_Validate :: "'x RestEnv \<Rightarrow> ChaosExperiment \<Rightarrow> err option" where
  "CosmosDBFailover_Validate e = azure_Validate e ''azure-cosmosdb-failover'' [''accountName'', ''targetRegion'']"

subsection \<open>Google Cloud\<close>

record GCPClient =
  ProjectID :: string
  gcp_BearerToken :: string

definition NewGCPClient :: "(string, string) gomap \<Rightarrow> GCPClient" where
  "NewGCPClient params = \<lparr>ProjectID = gm_str params ''projectId'', gcp_BearerToken = gm_str params ''gcpBearerToken''\<rparr>"

definition gcp_request :: "'x RestEnv \<Rightarrow> GCPClient \<Rightarrow> string \<Rightarrow> string \<Rightarrow> json option \<Rightarrow> 'x RestWorld \<Rightarrow> (err + string) \<times> 'x RestWorld" where
  "gcp_request e c = rest_request ''gcp'' e (gcp_BearerToken c)"

definition GKESetNodePoolSize :: "'x RestEnv \<Rightarrow> GCPClient \<Rightarrow> string \<Rightarrow> string \<Rightarrow> string \<Rightarrow> int \<Rightarrow> 'x RestWorld \<Rightarrow> err option \<times> 'x RestWorld" where
  "GKESetNodePoolSize e c zone cluster nodePool sz w =
     rest_call (''gcp gke set node pool size '' @ cluster @ ''/'' @ nodePool)
       (gcp_request e c ''POST''
         (''https://container.googleapis.com/v1/projects/'' @ ProjectID c @ ''/zones/'' @ zone @ ''/clusters/'' @ cluster @ ''/nodePools/'' @ nodePool @ ''/setSize'')
         (Some (JObj [(''nodeCount'', JNum (Itoa sz))])) w)"

definition CloudSQLFailover :: "'x RestEnv \<Rightarrow> GCPClient \<Rightarrow> string \<Rightarrow> 'x RestWorld \<Rightarrow> err option \<times> 'x RestWorld" where
  "CloudSQLFailover e c inst w =
     rest_call (''gcp cloudsql failover '' @ inst)
       (gcp_request e c ''POST''
         (''https://sqladmin.googleapis.com/v1/projects/'' @ ProjectID c @ ''/instances/'' @ inst @ ''/failover'')
         (Some (JObj [(''failoverContext'', JObj [(''kind'', JStr ''sql#failoverContext'')])])) w)"

definition CloudRunUpdateTraffic :: "'x RestEnv \<Rightarrow> GCPClient \<Rightarrow> string \<Rightarrow> string \<Rightarrow> int \<Rightarrow> 'x RestWorld \<Rightarrow> err option \<times> 'x RestWorld" where
  "CloudRunUpdateTraffic e c region service percent w =
     rest_call (''gcp cloudrun update traffic '' @ region @ ''/'' @ service)
       (gcp_request e c ''PATCH''
         (''https://run.googleapis.com/v2/projects/'' @ ProjectID c @ ''/locations/'' @ region @ ''/services/'' @ service)
         (Some (JObj [(''traffic'', JArr [JObj [(''percent'', JNum (Itoa percent)), (''type'', JStr ''TRAFFIC_TARGET_ALLOCATION_TYPE_LATEST'')]])])) w)"

definition validateGCPParams :: "'x RestEnv \<Rightarrow> ChaosExperiment \<Rightarrow> string \<Rightarrow> string list \<Rightarrow> err + (string, string) gomap" where
  "validateGCPParams e xp actionType required =
     (case ParseParameters (re_jsonErr e) xp of
        Inl err \<Rightarrow> Inl (actionType @ '': '' @ err)
      | Inr params \<Rightarrow>
          (case missing_param actionType params (''projectId'' # required) of
             Some err \<Rightarrow> Inl err
           | None \<Rightarrow> Inr params))"

definition gcp_Validate :: "'x RestEnv \<Rightarrow> string \<Rightarrow> string list \<Rightarrow> ChaosExperiment \<Rightarrow> err option" where
  "gcp_Validate e actionType required xp =
     (case validateGCPParams e xp actionType required of Inl err \<Rightarrow> Some err | Inr _ \<Rightarrow> None)"

definition GKENodePoolScale_Execute :: "'x RestEnv \<Rightarrow> ChaosExperiment \<Rightarrow> 'x RestWorld \<Rightarrow> err option \<times> 'x RestWorld" where
  "GKENodePoolScale_Execute e xp w =
     (case validateGCPParams e xp ''gcp-gke-scale'' [''clusterName'', ''nodePool'', ''zone'', ''targetSize''] of
        Inl err \<Rightarrow> (Some err, w)
      | Inr params \<Rightarrow>
          wrapped ''gcp-gke-scale'' (GKESetNodePoolSize e (NewGCPClient params) (gm_str params ''zone'') (gm_str params ''clusterName'')
            (gm_str params ''nodePool'') (scan_size (gm_str params ''targetSize'')) w))"

definition GKENodePoolScale_Rollback :: "ChaosExperiment \<Rightarrow> 'x RestWorld \<Rightarrow> err option \<times> 'x RestWorld" where
  "GKENodePoolScale_Rollback xp w = (None, w)"

definition GKENodePoolScale_Validate :: "'x RestEnv \<Rightarrow> ChaosExperiment \<Rightarrow> err option" where
  "GKENodePoolScale_Validate e = gcp_Validate e ''gcp-gke-scale'' [''clusterName'', ''nodePool'', ''zone'', ''targetSize'']"

definition CloudSQLFailover_Execute :: "'x RestEnv \<Rightarrow> ChaosExperiment \<Rightarrow> 'x RestWorld \<Rightarrow> err option \<times> 'x RestWorld" where
  "CloudSQLFailover_Execute e xp w =
     (case validateGCPParams e xp ''gcp-cloudsql-failover'' [''instanceName''] of
        Inl err \<Rightarrow> (Some err, w)
      | Inr params \<Rightarrow> wrapped ''gcp-cloudsql-failover'' (CloudSQLFailover e (NewGCPClient params) (gm_str params ''instanceName'') w))"

definition CloudSQLFailover_Rollback :: "ChaosExperiment \<Rightarrow> 'x RestWorld \<Rightarrow> err option \<times> 'x RestWorld" where
  "CloudSQLFailover_Rollback xp w = (None, w)"

definition CloudSQLFailover_Validate :: "'x RestEnv \<Rightarrow> ChaosExperiment \<Rightarrow> err option" where
  "CloudSQLFailover_Validate e = gcp_Validate e ''gcp-cloudsql-failover'' [''instanceName'']"

definition CloudRunStop_Execute :: "'x RestEnv \<Rightarrow> ChaosExperiment \<Rightarrow> 'x RestWorld \<Rightarrow> err option \<times> 'x RestWorld" where
  "CloudRunStop_Execute e xp w =
     (case validateGCPParams e xp ''gcp-cloudrun-stop'' [''serviceName'', ''region''] of
        Inl err \<Rightarrow> (Some err, w)
      | Inr params \<Rightarrow>
          wrapped ''gcp-cloudrun-stop'' (CloudRunUpdateTraffic e (NewGCPClient params) (gm_str params ''region'') (gm_str params ''serviceName'') 0 w))"

definition CloudRunStop_Rollback :: "ChaosExperiment \<Rightarrow> 'x RestWorld \<Rightarrow> err option \<times> 'x RestWorld" where
  "CloudRunStop_Rollback xp w = (None, w)"

definition CloudRunStop_Validate :: "'x RestEnv \<Rightarrow> ChaosExperiment \<Rightarrow> err option" where
  "CloudRunStop_Validate e = gcp_Validate e ''gcp-cloudrun-stop'' [''serviceName'', ''region'']"

section \<open>Lemmas\<close>

lemma rest_request_ok:
  "rest_request p e tk meth url body w = (Inr text, w') \<Longrightarrow>
     rw_sent w' = rw_sent w @ [\<lparr>rr_method = meth, rr_url = url, rr_token = tk, rr_body = body\<rparr>]"
  by (auto simp: rest_request_def Let_def split: option.splits prod.splits sum.splits if_splits)

lemma rest_call_ok: "rest_call what rw = (None, w') \<longleftrightarrow> (\<exists>text. rw = (Inr text, w'))"
  by (auto simp: rest_call_def split: prod.splits sum.splits)

lemma wrapped_ok: "wrapped what rw = (None, w') \<longleftrightarrow> rw = (None, w')"
  by (auto simp: wrapped_def split: prod.splits)

lemma validate_params:
  "validateAzureParams e xp ty req = Inr params \<Longrightarrow> rest_params e xp = params"
  "validateGCPParams e xp ty req' = Inr params \<Longrightarrow> rest_params e xp = params"
  by (auto simp: validateAzureParams_def validateGCPParams_def rest_params_def split: sum.splits option.splits)

lemma GKENodePoolScale_sends:
  assumes "GKENodePoolScale_Execute e xp w = (None, w')"
  shows "\<exists>rq. rw_sent w' = rw_sent w @ [rq] \<and>
    rr_body rq = Some (JObj [(''nodeCount'', JNum (Itoa (scan_size (gm_str (rest_params e xp) ''targetSize''))))])"
  using assms by (auto simp: GKENodePoolScale_Execute_def GKESetNodePoolSize_def gcp_request_def wrapped_ok rest_call_ok
      dest!: rest_request_ok dest: validate_params split: sum.splits)

lemma AKSNodePoolScale_sends:
  assumes "AKSNodePoolScale_Execute e xp w = (None, w')"
  shows "\<exists>rq. rw_sent w' = rw_sent w @ [rq] \<and>
    rr_body rq = Some (JObj [(''properties'', JObj [(''count'', JNum (Itoa (scan_size (gm_str (rest_params e xp) ''targetCount''))))])])"
  using assms by (auto simp: AKSNodePoolScale_Execute_def AKSScaleNodePool_def azure_request_def wrapped_ok rest_call_ok
      dest!: rest_request_ok dest: validate_params split: sum.splits)

lemma Itoa_zero: "Itoa 0 = ''0''"
  by code_simp

text \<open>Stopping a virtual machine and starting it again: two requests for the same machine.\<close>

lemma VMStop_undone:
  assumes "VMStop_Execute e xp (st, w) = (None, st', w')" and "VMStop_Rollback e xp (st', v) = (None, st'', v')"
  shows "\<exists>c vm. rw_sent w' = rw_sent w @ [\<lparr>rr_method = ''POST'', rr_url = azure_base c @ ''Microsoft.Compute/virtualMachines/'' @ vm @ ''/deallocate?api-version=2024-03-01'',
      rr_token = az_BearerToken c, rr_body = None\<rparr>] \<and>
    rw_sent v' = rw_sent v @ [\<lparr>rr_method = ''POST'', rr_url = azure_base c @ ''Microsoft.Compute/virtualMachines/'' @ vm @ ''/start?api-version=2024-03-01'',
      rr_token = az_BearerToken c, rr_body = None\<rparr>] \<and> map_of st'' (uid_of xp) = None"
proof -
  let ?ps = "rest_params e xp"
  let ?c = "NewAzureClient ?ps" and ?vm = "gm_str ?ps ''vmName''"
  have ex: "VMDeallocate e ?c ?vm w = (None, w')" "st' = gm_put (uid_of xp) [?vm] st"
    using assms(1) by (auto simp: VMStop_Execute_def Let_def wrapped_ok dest!: validate_params split: sum.splits prod.splits option.splits)
  have rb: "VMStart e ?c ?vm v = (None, v')" "st'' = gm_del (uid_of xp) st'"
    using assms(2) by (auto simp: VMStop_Rollback_def ex(2) Let_def split: prod.splits option.splits)
  show ?thesis using ex(1) rb
    by (intro exI [of _ ?c] exI [of _ ?vm]) (auto simp: VMDeallocate_def VMStart_def azure_request_def rest_call_ok dest!: rest_request_ok)
qed

definition quiet_rest :: "nat RestEnv" where
  "quiet_rest = \<lparr>re_jsonErr = (\<lambda>_. ''bad JSON''), re_urlErr = (\<lambda>_. None), re_Do = (\<lambda>_ x. (Inr (200, Inr []), Suc x))\<rparr>"

definition rest_chaos :: "(string \<times> string) list \<Rightarrow> ChaosExperiment" where
  "rest_chaos ps =
     (let xp = demo_chaos ''scale'' in
      xp\<lparr>e_spec := (e_spec xp)\<lparr>s_action := \<lparr>a_type = ''scale'', a_parameters = Some (JObj (map (\<lambda>(k, v). (k, JStr v)) ps)), a_duration = None\<rparr>\<rparr>\<rparr>)"

section \<open>Properties\<close>

text \<open>
  Scaling a node pool. The GKE and AKS executors send the number that the parameter begins with, and zero when it begins with none:
  a mistyped size empties the pool. Their \<open>Rollback\<close> reports success without a request, so the pool keeps that size.
\<close>

lemma node_pool_size_lost:
  assumes "GKENodePoolScale_Execute e xp w = (None, w1)" and "AKSNodePoolScale_Execute e yp v = (None, v1)"
  shows "(\<exists>rq n. rw_sent w1 = rw_sent w @ [rq] \<and> rr_body rq = Some (JObj [(''nodeCount'', JNum n)]) \<and>
      n = (case sscanf_d (gm_str (rest_params e xp) ''targetSize'') of Some i \<Rightarrow> Itoa i | None \<Rightarrow> ''0'')) \<and>
    (\<exists>rq n. rw_sent v1 = rw_sent v @ [rq] \<and> rr_body rq = Some (JObj [(''properties'', JObj [(''count'', JNum n)])]) \<and>
      n = (case sscanf_d (gm_str (rest_params e yp) ''targetCount'') of Some i \<Rightarrow> Itoa i | None \<Rightarrow> ''0'')) \<and>
    GKENodePoolScale_Rollback xp w1 = (None, w1) \<and> AKSNodePoolScale_Rollback yp v1 = (None, v1)"
  using GKENodePoolScale_sends [OF assms(1)] AKSNodePoolScale_sends [OF assms(2)]
  by (auto simp: scan_size_def Itoa_zero GKENodePoolScale_Rollback_def AKSNodePoolScale_Rollback_def split: option.splits)

end
