(* ===== verification/Agent.thy ===== *)
theory Agent
  imports Experiment_Runs
begin

text \<open>
  The agent (\<open>cmd/agent/work.go\<close>, \<open>cmd/agent/main.go\<close>): it claims experiments from the platform over HTTP,
  creates the ChaosExperiment in the cluster, follows its phase, reports it, and passes a request to abort
  on to the controller. HTTP client, Kubernetes client, \<open>kubectl\<close>, tickers and clock are fields of \<open>AgentEnv\<close>.
  \<open>ag_sent\<close> logs the requests handed to the HTTP client, and \<open>ag_patched\<close> the objects handed to
  \<open>Patch\<close> with a merge patch. A body of a response is kept as the first JSON value it holds. Log output,
  flags, signals and the process's start-up are left out.
\<close>

section \<open>Definitions\<close>

subsection \<open>Decoding JSON into structs\<close>

text \<open>\<open>encoding/json\<close> matches the key of an object with the name of a field up to simple case folding.\<close>

definition field_values :: "string \<Rightarrow> (string \<times> json) list \<Rightarrow> json list" where
  "field_values name fs = map snd (filter (\<lambda>(k, _). foldName k = foldName name) fs)"

text \<open>The values given to one field, in order, starting from what the field holds; \<open>None\<close> is a type error.\<close>

fun decode_string :: "string \<Rightarrow> json list \<Rightarrow> string option" where
  "decode_string s [] = Some s"
| "decode_string s (JNull # vs) = decode_string s vs"
| "decode_string s (JStr t # vs) = decode_string t vs"
| "decode_string s (_ # vs) = None"

fun decode_int :: "int \<Rightarrow> json list \<Rightarrow> int option" where
  "decode_int i [] = Some i"
| "decode_int i (JNull # vs) = decode_int i vs"
| "decode_int i (JNum s # vs) = (case ParseInt 64 s of None \<Rightarrow> None | Some j \<Rightarrow> decode_int j vs)"
| "decode_int i (_ # vs) = None"

fun decode_bool :: "bool \<Rightarrow> json list \<Rightarrow> bool option" where
  "decode_bool b [] = Some b"
| "decode_bool b (JNull # vs) = decode_bool b vs"
| "decode_bool b (JBool c # vs) = decode_bool c vs"
| "decode_bool b (_ # vs) = None"

fun decode_map :: "(string, string) gomap \<Rightarrow> json list \<Rightarrow> (string, string) gomap option" where
  "decode_map m [] = Some m"
| "decode_map m (JNull # vs) = decode_map [] vs"
| "decode_map m (JObj fs # vs) = (case unmarshal_fields m fs of None \<Rightarrow> None | Some m' \<Rightarrow> decode_map m' vs)"
| "decode_map m (_ # vs) = None"

text \<open>A \<open>json.RawMessage\<close> keeps the last value, a \<open>null\<close> included.\<close>

definition decode_raw :: "json option \<Rightarrow> json list \<Rightarrow> json option" where
  "decode_raw r vs = (if vs = [] then r else Some (last vs))"

subsection \<open>Messages\<close>

record workItem =
  wi_ID :: string
  wi_Name :: string
  wi_ExperimentType :: string
  wi_Target :: "json option"
  wi_Action :: "json option"
  wi_DurationSeconds :: int
  wi_DesiredState :: string
  wi_Generation :: int

definition no_work :: workItem where
  "no_work = \<lparr>wi_ID = [], wi_Name = [], wi_ExperimentType = [], wi_Target = None, wi_Action = None,
     wi_DurationSeconds = 0, wi_DesiredState = [], wi_Generation = 0\<rparr>"

definition decode_workItem :: "workItem \<Rightarrow> (string \<times> json) list \<Rightarrow> workItem option" where
  "decode_workItem w fs =
     (case decode_string (wi_ID w) (field_values ''id'' fs) of None \<Rightarrow> None | Some i \<Rightarrow>
      (case decode_string (wi_Name w) (field_values ''name'' fs) of None \<Rightarrow> None | Some n \<Rightarrow>
       (case decode_string (wi_ExperimentType w) (field_values ''experimentType'' fs) of None \<Rightarrow> None | Some t \<Rightarrow>
        (case decode_int (wi_DurationSeconds w) (field_values ''durationSeconds'' fs) of None \<Rightarrow> None | Some d \<Rightarrow>
         (case decode_string (wi_DesiredState w) (field_values ''desiredState'' fs) of None \<Rightarrow> None | Some s \<Rightarrow>
          (case decode_int (wi_Generation w) (field_values ''generation'' fs) of None \<Rightarrow> None | Some g \<Rightarrow>
             Some \<lparr>wi_ID = i, wi_Name = n, wi_ExperimentType = t,
               wi_Target = decode_raw (wi_Target w) (field_values ''target'' fs),
               wi_Action = decode_raw (wi_Action w) (field_values ''action'' fs),
               wi_DurationSeconds = d, wi_DesiredState = s, wi_Generation = g\<rparr>))))))"

text \<open>\<open>workResponse\<close> has one field, a pointer to the item.\<close>

fun decode_experiment :: "workItem option \<Rightarrow> json list \<Rightarrow> workItem option option" where
  "decode_experiment w [] = Some w"
| "decode_experiment w (JNull # vs) = decode_experiment None vs"
| "decode_experiment w (JObj fs # vs) =
     (case decode_workItem (case w of None \<Rightarrow> no_work | Some w' \<Rightarrow> w') fs of
        None \<Rightarrow> None | Some w' \<Rightarrow> decode_experiment (Some w') vs)"
| "decode_experiment w (_ # vs) = None"

fun decode_workResponse :: "json \<Rightarrow> workItem option option" where
  "decode_workResponse (JObj fs) = decode_experiment None (field_values ''experiment'' fs)"
| "decode_workResponse JNull = Some None"
| "decode_workResponse _ = None"

record statusReport =
  sr_Status :: string
  sr_ObservedGeneration :: "int option"
  sr_Phase :: string
  sr_Result :: "json option"

definition report_json :: "statusReport \<Rightarrow> json" where
  "report_json r =
     JObj ([(''status'', JStr (sr_Status r))] @
       (case sr_ObservedGeneration r of None \<Rightarrow> [] | Some g \<Rightarrow> [(''observedGeneration'', JNum (Itoa g))]) @
       (if sr_Phase r = [] then [] else [(''phase'', JStr (sr_Phase r))]) @
       (case sr_Result r of None \<Rightarrow> [] | Some j \<Rightarrow> [(''result'', j)]))"

record statusAck =
  sa_Acknowledged :: bool
  sa_DesiredState :: string
  sa_Generation :: int

fun decode_statusAck :: "json \<Rightarrow> statusAck option" where
  "decode_statusAck (JObj fs) =
     (case decode_bool False (field_values ''acknowledged'' fs) of None \<Rightarrow> None | Some a \<Rightarrow>
      (case decode_string [] (field_values ''desiredState'' fs) of None \<Rightarrow> None | Some s \<Rightarrow>
       (case decode_int 0 (field_values ''generation'' fs) of None \<Rightarrow> None | Some g \<Rightarrow>
          Some \<lparr>sa_Acknowledged = a, sa_DesiredState = s, sa_Generation = g\<rparr>)))"
| "decode_statusAck JNull = Some \<lparr>sa_Acknowledged = False, sa_DesiredState = [], sa_Generation = 0\<rparr>"
| "decode_statusAck _ = None"

record targetPayload =
  tp_Namespace :: string
  tp_LabelSelector :: "(string, string) gomap"
  tp_Mode :: string

fun decode_targetPayload :: "json \<Rightarrow> targetPayload option" where
  "decode_targetPayload (JObj fs) =
     (case decode_string [] (field_values ''namespace'' fs) of None \<Rightarrow> None | Some n \<Rightarrow>
      (case decode_map [] (field_values ''labelSelector'' fs) of None \<Rightarrow> None | Some l \<Rightarrow>
       (case decode_string [] (field_values ''mode'' fs) of None \<Rightarrow> None | Some m \<Rightarrow>
          Some \<lparr>tp_Namespace = n, tp_LabelSelector = l, tp_Mode = m\<rparr>)))"
| "decode_targetPayload JNull = Some \<lparr>tp_Namespace = [], tp_LabelSelector = [], tp_Mode = []\<rparr>"
| "decode_targetPayload _ = None"

record actionPayload =
  ap_Type :: string
  ap_Parameters :: "json option"

fun decode_actionPayload :: "json \<Rightarrow> actionPayload option" where
  "decode_actionPayload (JObj fs) =
     (case decode_string [] (field_values ''type'' fs) of None \<Rightarrow> None | Some t \<Rightarrow>
        Some \<lparr>ap_Type = t, ap_Parameters = decode_raw None (field_values ''parameters'' fs)\<rparr>)"
| "decode_actionPayload JNull = Some \<lparr>ap_Type = [], ap_Parameters = None\<rparr>"
| "decode_actionPayload _ = None"

subsection \<open>The outside\<close>

record AgentConfig =
  PlatformURL :: string
  Token :: string
  EnvironmentID :: string

record HttpRequest =
  rq_method :: string
  rq_url :: string
  rq_headers :: "(string, string) gomap"
  rq_body :: "json option"

record HttpResponse =
  rs_status :: int
  rs_json :: json
  rs_text :: "err + string"

datatype CreateErr = AlreadyExists err | CreateOther err

record 'x AgentEnv =
  ae_jsonErr :: "string \<Rightarrow> json option \<Rightarrow> err"
  ae_urlErr :: "string \<Rightarrow> err option"
  ae_Do :: "HttpRequest \<Rightarrow> 'x \<Rightarrow> (err + HttpResponse) \<times> 'x"
  ae_CreateNamespace :: "string \<Rightarrow> 'x \<Rightarrow> CreateErr option \<times> 'x"
  ae_Apply :: "ChaosExperiment \<Rightarrow> 'x \<Rightarrow> err option \<times> 'x"
  ae_Get :: "key \<Rightarrow> 'x \<Rightarrow> (err + ChaosExperiment) \<times> 'x"
  ae_MergePatch :: "ChaosExperiment \<Rightarrow> ChaosExperiment \<Rightarrow> 'x \<Rightarrow> err option \<times> 'x"
  ae_Now :: "'x \<Rightarrow> time \<times> 'x"
  ae_Tick :: "'x \<Rightarrow> bool \<times> 'x"
  ae_kubectl :: "string list \<Rightarrow> 'x \<Rightarrow> (err + json) \<times> 'x"

record 'x Agent =
  ag_ext :: 'x
  ag_sent :: "HttpRequest list"
  ag_patched :: "ChaosExperiment list"

definition outside :: "('x \<Rightarrow> 'r \<times> 'x) \<Rightarrow> 'x Agent \<Rightarrow> 'r \<times> 'x Agent" where
  "outside f a = (case f (ag_ext a) of (r, x) \<Rightarrow> (r, a\<lparr>ag_ext := x\<rparr>))"

definition Do :: "'x AgentEnv \<Rightarrow> HttpRequest \<Rightarrow> 'x Agent \<Rightarrow> (err + HttpResponse) \<times> 'x Agent" where
  "Do e rq a = outside (ae_Do e rq) (a\<lparr>ag_sent := ag_sent a @ [rq]\<rparr>)"

subsection \<open>Claiming and reporting\<close>

definition work_url :: "AgentConfig \<Rightarrow> string" where
  "work_url cfg = PlatformURL cfg @ ''/agent/v1/work''"

definition status_url :: "AgentConfig \<Rightarrow> string \<Rightarrow> string" where
  "status_url cfg i = PlatformURL cfg @ ''/agent/v1/experiments/'' @ i @ ''/status''"

definition claimWork :: "'x AgentEnv \<Rightarrow> AgentConfig \<Rightarrow> string \<Rightarrow> 'x Agent \<Rightarrow> (err + workItem option) \<times> 'x Agent" where
  "claimWork e cfg agentInstance a =
     (case ae_urlErr e (work_url cfg) of
        Some err \<Rightarrow> (Inl err, a)
      | None \<Rightarrow>
          (case Do e \<lparr>rq_method = ''GET'', rq_url = work_url cfg,
                rq_headers = [(''Authorization'', ''Bearer '' @ Token cfg), (''X-Agent-Instance'', agentInstance)], rq_body = None\<rparr> a of
             (Inl err, a1) \<Rightarrow> (Inl err, a1)
           | (Inr resp, a1) \<Rightarrow>
               if rs_status resp = 204 then (Inr None, a1)
               else if rs_status resp \<ge> 400 then (Inl (''claim status '' @ Itoa (rs_status resp)), a1)
               else
                 (case decode_workResponse (rs_json resp) of
                    None \<Rightarrow> (Inl (ae_jsonErr e ''workResponse'' (Some (rs_json resp))), a1)
                  | Some w \<Rightarrow> (Inr w, a1))))"

definition resultJSON :: "bool \<Rightarrow> string \<Rightarrow> json" where
  "resultJSON steadyStateMet errMsg =
     JObj ((if errMsg \<noteq> [] then [(''errorMessage'', JStr errMsg)] else []) @ [(''steadyStateMet'', JBool steadyStateMet)])"

definition reportStatus ::
    "'x AgentEnv \<Rightarrow> AgentConfig \<Rightarrow> string \<Rightarrow> string \<Rightarrow> statusReport \<Rightarrow> 'x Agent \<Rightarrow> statusAck option \<times> 'x Agent" where
  "reportStatus e cfg agentInstance experimentID report a =
     (case ae_urlErr e (status_url cfg experimentID) of
        Some _ \<Rightarrow> (None, a)
      | None \<Rightarrow>
          (case Do e \<lparr>rq_method = ''POST'', rq_url = status_url cfg experimentID,
                rq_headers = [(''Authorization'', ''Bearer '' @ Token cfg), (''X-Agent-Instance'', agentInstance),
                  (''Content-Type'', ''application/json'')],
                rq_body = Some (report_json report)\<rparr> a of
             (Inl err, a1) \<Rightarrow> (None, a1)
           | (Inr resp, a1) \<Rightarrow>
               (if rs_status resp \<ge> 400 then None else decode_statusAck (rs_json resp), a1)))"

subsection \<open>From a work item to a ChaosExperiment\<close>

definition agentManagedNamespace :: string where
  "agentManagedNamespace = ''chaosplane-experiments''"

definition crName :: "string \<Rightarrow> string" where
  "crName experimentID = ''exp-'' @ experimentID"

definition toChaosExperiment :: "'x AgentEnv \<Rightarrow> workItem \<Rightarrow> err + ChaosExperiment" where
  "toChaosExperiment e w =
     (case Option.bind (wi_Target w) decode_targetPayload of
        None \<Rightarrow> Inl (''decode target: '' @ ae_jsonErr e ''targetPayload'' (wi_Target w))
      | Some tp \<Rightarrow>
          (case Option.bind (wi_Action w) decode_actionPayload of
             None \<Rightarrow> Inl (''decode action: '' @ ae_jsonErr e ''actionPayload'' (wi_Action w))
           | Some ap \<Rightarrow>
               (let ns = (if tp_Namespace tp = [] then ''default'' else tp_Namespace tp);
                    target = \<lparr>t_kind = ''Pod'', t_namespace = ns,
                      t_labelSelector = (if tp_LabelSelector tp \<noteq> []
                        then Some \<lparr>sel_matchLabels = Some (tp_LabelSelector tp), sel_matchExpressions = []\<rparr> else None),
                      t_names = []\<rparr>;
                    action = \<lparr>a_type = ap_Type ap, a_parameters = ap_Parameters ap, a_duration = None\<rparr> in
                Inr \<lparr>e_meta = \<lparr>m_name = crName (wi_ID w), m_namespace = agentManagedNamespace, m_uid = [], m_generation = 0,
                       m_deletionTimestamp = None, m_finalizers = [], m_labels = [(''chaosplane.dev/experiment-id'', wi_ID w)],
                       m_annotations = [], m_ownerUIDs = []\<rparr>,
                     e_spec = \<lparr>s_target = target, s_action = action, s_duration = wrap64 (wi_DurationSeconds w * second),
                       s_rollback = None, s_execution = \<lparr>ex_parallelism = None\<rparr>, s_steadyState = None, s_abortConditions = []\<rparr>,
                     e_status = \<lparr>st_phase = PhaseEmpty, st_startTime = None, st_endTime = None, st_recoveryStartTime = None,
                       st_conditions = [], st_observedGeneration = 0, st_affectedResources = [], st_message = []\<rparr>\<rparr>)))"

subsection \<open>Following an experiment\<close>

definition mapPhase :: "ExperimentPhase \<Rightarrow> string \<Rightarrow> statusReport" where
  "mapPhase phase message =
     (case phase of
        PhaseCompleted \<Rightarrow> \<lparr>sr_Status = ''completed'', sr_ObservedGeneration = None, sr_Phase = phase_string phase, sr_Result = Some (resultJSON True [])\<rparr>
      | PhaseFailed \<Rightarrow> \<lparr>sr_Status = ''failed'', sr_ObservedGeneration = None, sr_Phase = phase_string phase, sr_Result = Some (resultJSON False message)\<rparr>
      | PhaseAborted \<Rightarrow> \<lparr>sr_Status = ''aborted'', sr_ObservedGeneration = None, sr_Phase = phase_string phase, sr_Result = Some (resultJSON False message)\<rparr>
      | _ \<Rightarrow> \<lparr>sr_Status = ''running'', sr_ObservedGeneration = None, sr_Phase = phase_string phase, sr_Result = None\<rparr>)"

definition failed_report :: "string \<Rightarrow> statusReport" where
  "failed_report msg = \<lparr>sr_Status = ''failed'', sr_ObservedGeneration = None, sr_Phase = [], sr_Result = Some (resultJSON False msg)\<rparr>"

definition abort_annotated :: "ChaosExperiment \<Rightarrow> ChaosExperiment" where
  "abort_annotated cr = cr\<lparr>e_meta := (e_meta cr)\<lparr>m_annotations := gm_put ''chaosplane.dev/abort'' ''true'' (m_annotations (e_meta cr))\<rparr>\<rparr>"

definition annotateAbort :: "'x AgentEnv \<Rightarrow> ChaosExperiment \<Rightarrow> 'x Agent \<Rightarrow> 'x Agent" where
  "annotateAbort e cr a =
     snd (outside (ae_MergePatch e cr (abort_annotated cr)) (a\<lparr>ag_patched := ag_patched a @ [abort_annotated cr]\<rparr>))"

text \<open>What one tick does; the flag says that the loop returns.\<close>

definition watch_tick :: "'x AgentEnv \<Rightarrow> AgentConfig \<Rightarrow> string \<Rightarrow> workItem \<Rightarrow> time \<Rightarrow> 'x Agent \<Rightarrow> bool \<times> 'x Agent" where
  "watch_tick e cfg agentInstance w deadline a =
     (case outside (ae_Get e (agentManagedNamespace, crName (wi_ID w))) a of
        (Inl err, a1) \<Rightarrow> (case outside (ae_Now e) a1 of (now, a2) \<Rightarrow> (now > deadline, a2))
      | (Inr cr, a1) \<Rightarrow>
          (case reportStatus e cfg agentInstance (wi_ID w) (mapPhase (st_phase (e_status cr)) (st_message (e_status cr))) a1 of
             (ack, a2) \<Rightarrow>
               (let a3 = (case ack of
                            None \<Rightarrow> a2
                          | Some k \<Rightarrow> if sa_DesiredState k = ''abort'' then annotateAbort e cr a2 else a2) in
                if st_phase (e_status cr) \<in> {PhaseCompleted, PhaseFailed, PhaseAborted} then (True, a3)
                else
                  (case outside (ae_Now e) a3 of
                     (now, a4) \<Rightarrow>
                       if now > deadline then
                         (True, snd (reportStatus e cfg agentInstance (wi_ID w) (failed_report ''agent watch deadline exceeded'') a4))
                       else (False, a4)))))"

text \<open>The loop over the ticks, which a cancelled context ends; \<open>None\<close> is a loop that never ends.\<close>

partial_function (option) watch_loop ::
    "'x AgentEnv \<Rightarrow> AgentConfig \<Rightarrow> string \<Rightarrow> workItem \<Rightarrow> time \<Rightarrow> 'x Agent \<Rightarrow> 'x Agent option" where
  "watch_loop e cfg agentInstance w deadline a =
     (case outside (ae_Tick e) a of (fired, a1) \<Rightarrow>
        if \<not> fired then Some a1
        else (case watch_tick e cfg agentInstance w deadline a1 of (stop, a2) \<Rightarrow>
                if stop then Some a2 else watch_loop e cfg agentInstance w deadline a2))"

definition watch_deadline :: "workItem \<Rightarrow> time \<Rightarrow> time" where
  "watch_deadline w now = now + wrap64 (wrap64 (wi_DurationSeconds w + 120) * second)"

definition watchExperiment :: "'x AgentEnv \<Rightarrow> AgentConfig \<Rightarrow> string \<Rightarrow> workItem \<Rightarrow> 'x Agent \<Rightarrow> 'x Agent option" where
  "watchExperiment e cfg agentInstance w a =
     (case outside (ae_Now e) a of (now, a1) \<Rightarrow> watch_loop e cfg agentInstance w (watch_deadline w now) a1)"

definition ensureNamespace :: "'x AgentEnv \<Rightarrow> 'x Agent \<Rightarrow> err option \<times> 'x Agent" where
  "ensureNamespace e a =
     (case outside (ae_CreateNamespace e agentManagedNamespace) a of
        (Some (CreateOther err), a1) \<Rightarrow> (Some err, a1)
      | (_, a1) \<Rightarrow> (None, a1))"

text \<open>\<open>runExperiment\<close> up to the call of \<open>watchExperiment\<close>; the flag says that it is reached.\<close>

definition start_experiment :: "'x AgentEnv \<Rightarrow> AgentConfig \<Rightarrow> string \<Rightarrow> workItem \<Rightarrow> 'x Agent \<Rightarrow> bool \<times> 'x Agent" where
  "start_experiment e cfg agentInstance w a =
     (case toChaosExperiment e w of
        Inl err \<Rightarrow> (False, snd (reportStatus e cfg agentInstance (wi_ID w) (failed_report err) a))
      | Inr cr \<Rightarrow>
          (case ensureNamespace e a of (_, a1) \<Rightarrow>
             (case outside (ae_Apply e cr) a1 of
                (Some err, a2) \<Rightarrow> (False, snd (reportStatus e cfg agentInstance (wi_ID w) (failed_report err) a2))
              | (None, a2) \<Rightarrow>
                  (True, snd (reportStatus e cfg agentInstance (wi_ID w)
                    \<lparr>sr_Status = ''running'', sr_ObservedGeneration = None, sr_Phase = ''Running'', sr_Result = None\<rparr> a2)))))"

definition runExperiment :: "'x AgentEnv \<Rightarrow> AgentConfig \<Rightarrow> string \<Rightarrow> workItem \<Rightarrow> 'x Agent \<Rightarrow> 'x Agent option" where
  "runExperiment e cfg agentInstance w a =
     (case start_experiment e cfg agentInstance w a of
        (False, a1) \<Rightarrow> Some a1
      | (True, a1) \<Rightarrow> watchExperiment e cfg agentInstance w a1)"

subsection \<open>Registration, heartbeats and topology\<close>

definition postJSON :: "'x AgentEnv \<Rightarrow> string \<Rightarrow> json \<Rightarrow> string \<Rightarrow> 'x Agent \<Rightarrow> (err + string) \<times> 'x Agent" where
  "postJSON e url body token a =
     (case ae_urlErr e url of
        Some err \<Rightarrow> (Inl err, a)
      | None \<Rightarrow>
          (case Do e \<lparr>rq_method = ''POST'', rq_url = url,
                rq_headers = [(''Content-Type'', ''application/json'')] @ (if token \<noteq> [] then [(''Authorization'', ''Bearer '' @ token)] else []),
                rq_body = Some body\<rparr> a of
             (Inl err, a1) \<Rightarrow> (Inl err, a1)
           | (Inr resp, a1) \<Rightarrow>
               (case rs_text resp of
                  Inl err \<Rightarrow> (Inl err, a1)
                | Inr text \<Rightarrow>
                    if rs_status resp \<ge> 400 then (Inl (''api error '' @ Itoa (rs_status resp) @ '': '' @ text), a1)
                    else (Inr text, a1))))"

definition register :: "'x AgentEnv \<Rightarrow> AgentConfig \<Rightarrow> 'x Agent \<Rightarrow> err option \<times> 'x Agent" where
  "register e cfg a =
     (case postJSON e (PlatformURL cfg @ ''/agent/register'')
         (JObj [(''token'', JStr (Token cfg)), (''agentVersion'', JStr ''1.0.0'')]) (Token cfg) a of
        (Inl err, a1) \<Rightarrow> (Some err, a1)
      | (Inr _, a1) \<Rightarrow> (None, a1))"

definition heartbeat_tick :: "'x AgentEnv \<Rightarrow> AgentConfig \<Rightarrow> 'x Agent \<Rightarrow> 'x Agent" where
  "heartbeat_tick e cfg a =
     snd (postJSON e (PlatformURL cfg @ ''/agent/heartbeat'')
       (JObj [(''token'', JStr (Token cfg)), (''status'', JStr ''connected'')]) (Token cfg) a)"

fun decode_items :: "json \<Rightarrow> json option option" where
  "decode_items (JObj fs) = Some (decode_raw None (field_values ''items'' fs))"
| "decode_items JNull = Some None"
| "decode_items _ = None"

text \<open>A nil \<open>RawMessage\<close> is written as \<open>null\<close>.\<close>

definition raw_json :: "json option \<Rightarrow> json" where
  "raw_json r = (case r of None \<Rightarrow> JNull | Some j \<Rightarrow> j)"

definition collectKubeResource :: "'x AgentEnv \<Rightarrow> string \<Rightarrow> 'x Agent \<Rightarrow> json option \<times> 'x Agent" where
  "collectKubeResource e resource a =
     (case outside (ae_kubectl e [''get'', resource, ''-A'', ''-o'', ''json'']) a of
        (Inl err, a1) \<Rightarrow> (Some (JArr []), a1)
      | (Inr out, a1) \<Rightarrow> (case decode_items out of None \<Rightarrow> Some (JArr []) | Some items \<Rightarrow> items, a1))"

fun collect_all :: "'x AgentEnv \<Rightarrow> string list \<Rightarrow> 'x Agent \<Rightarrow> (string \<times> json) list \<times> 'x Agent" where
  "collect_all e [] a = ([], a)"
| "collect_all e (r # rs) a =
     (case collectKubeResource e r a of (j, a1) \<Rightarrow> (case collect_all e rs a1 of (fs, a2) \<Rightarrow> ((r, raw_json j) # fs, a2)))"

definition collectTopology :: "'x AgentEnv \<Rightarrow> string \<Rightarrow> 'x Agent \<Rightarrow> json \<times> 'x Agent" where
  "collectTopology e environmentID a =
     (case collect_all e [''nodes'', ''namespaces'', ''services'', ''deployments'', ''pods''] a of
        (fs, a1) \<Rightarrow> (JObj ((''environmentId'', JStr environmentID) # fs), a1))"

definition collectAndSubmit :: "'x AgentEnv \<Rightarrow> AgentConfig \<Rightarrow> 'x Agent \<Rightarrow> 'x Agent" where
  "collectAndSubmit e cfg a =
     (case collectTopology e (EnvironmentID cfg) a of
        (snapshot, a1) \<Rightarrow> snd (postJSON e (PlatformURL cfg @ ''/agent/topology'') snapshot (Token cfg) a1))"

subsection \<open>The process\<close>

text \<open>
  After \<open>register\<close> the process runs \<open>heartbeatLoop\<close>, \<open>topologyLoop\<close> and \<open>workLoop\<close>, and a goroutine for every
  item that \<open>workLoop\<close> claimed. A task is such a goroutine: before its CRD is applied, or in the watch loop
  with its deadline. The steps of the process are the rounds of the loops in any order; \<open>claimed\<close> lists the
  ids of the items claimed so far.
\<close>

datatype task = Starting workItem | Watching workItem time

fun task_item :: "task \<Rightarrow> workItem" where
  "task_item (Starting w) = w"
| "task_item (Watching w _) = w"

record 'x Process =
  pr_tasks :: "task list"
  pr_claimed :: "string list"
  pr_agent :: "'x Agent"

inductive process_step :: "'x AgentEnv \<Rightarrow> AgentConfig \<Rightarrow> string \<Rightarrow> 'x Process \<Rightarrow> 'x Process \<Rightarrow> bool"
  for e cfg agentInstance where
  heartbeat: "process_step e cfg agentInstance p (p\<lparr>pr_agent := heartbeat_tick e cfg (pr_agent p)\<rparr>)"
| topology: "process_step e cfg agentInstance p (p\<lparr>pr_agent := collectAndSubmit e cfg (pr_agent p)\<rparr>)"
| claim_none: "claimWork e cfg agentInstance (pr_agent p) = (r, a) \<Longrightarrow> r = Inl err \<or> r = Inr None \<Longrightarrow>
    process_step e cfg agentInstance p (p\<lparr>pr_agent := a\<rparr>)"
| claim: "claimWork e cfg agentInstance (pr_agent p) = (Inr (Some w), a) \<Longrightarrow>
    process_step e cfg agentInstance p
      (p\<lparr>pr_tasks := pr_tasks p @ [Starting w], pr_claimed := pr_claimed p @ [wi_ID w], pr_agent := a\<rparr>)"
| start_fails: "pr_tasks p = ts @ Starting w # us \<Longrightarrow> start_experiment e cfg agentInstance w (pr_agent p) = (False, a) \<Longrightarrow>
    process_step e cfg agentInstance p (p\<lparr>pr_tasks := ts @ us, pr_agent := a\<rparr>)"
| start: "pr_tasks p = ts @ Starting w # us \<Longrightarrow> start_experiment e cfg agentInstance w (pr_agent p) = (True, a) \<Longrightarrow>
    outside (ae_Now e) a = (now, a') \<Longrightarrow>
    process_step e cfg agentInstance p (p\<lparr>pr_tasks := ts @ Watching w (watch_deadline w now) # us, pr_agent := a'\<rparr>)"
| watch: "pr_tasks p = ts @ Watching w d # us \<Longrightarrow> watch_tick e cfg agentInstance w d (pr_agent p) = (False, a) \<Longrightarrow>
    process_step e cfg agentInstance p (p\<lparr>pr_agent := a\<rparr>)"
| watch_ends: "pr_tasks p = ts @ Watching w d # us \<Longrightarrow> watch_tick e cfg agentInstance w d (pr_agent p) = (True, a) \<Longrightarrow>
    process_step e cfg agentInstance p (p\<lparr>pr_tasks := ts @ us, pr_agent := a\<rparr>)"

inductive process_run :: "'x AgentEnv \<Rightarrow> AgentConfig \<Rightarrow> string \<Rightarrow> 'x Process \<Rightarrow> bool"
  for e cfg agentInstance where
  registered: "register e cfg \<lparr>ag_ext = x, ag_sent = [], ag_patched = []\<rparr> = (None, a) \<Longrightarrow>
    process_run e cfg agentInstance \<lparr>pr_tasks = [], pr_claimed = [], pr_agent = a\<rparr>"
| step: "process_run e cfg agentInstance p \<Longrightarrow> process_step e cfg agentInstance p p' \<Longrightarrow> process_run e cfg agentInstance p'"

section \<open>Specification\<close>

text \<open>The bodies posted to the status URL of an experiment, and what they may be: running reports, then at most one that ends it.\<close>

definition reports :: "AgentConfig \<Rightarrow> string \<Rightarrow> HttpRequest list \<Rightarrow> json list" where
  "reports cfg i rs = List.map_filter (\<lambda>r. if rq_url r = status_url cfg i then rq_body r else None) rs"

fun report_status :: "json \<Rightarrow> string" where
  "report_status (JObj ((k, JStr s) # _)) = s"
| "report_status _ = []"

definition is_running :: "json \<Rightarrow> bool" where
  "is_running j \<longleftrightarrow> report_status j = ''running''"

definition is_final :: "json \<Rightarrow> bool" where
  "is_final j \<longleftrightarrow> report_status j \<in> {''completed'', ''failed'', ''aborted''}"

fun report_protocol :: "json list \<Rightarrow> bool" where
  "report_protocol [] = True"
| "report_protocol (j # js) = (is_running j \<and> report_protocol js \<or> is_final j \<and> js = [])"

text \<open>\<open>ends_well l\<close>: the last of the reports ends the experiment.\<close>

definition ends_well :: "json list \<Rightarrow> bool" where
  "ends_well l \<longleftrightarrow> l \<noteq> [] \<and> is_final (last l)"

text \<open>The clock does not run backwards, and a tick comes later than the one before it.\<close>

definition agent_clock :: "'x AgentEnv \<Rightarrow> ('x \<Rightarrow> time) \<Rightarrow> bool" where
  "agent_clock e clock \<longleftrightarrow>
     (\<forall>x. fst (ae_Now e x) = clock x \<and> clock x \<le> clock (snd (ae_Now e x))) \<and>
     (\<forall>ns name x. clock x \<le> clock (snd (ae_Get e (ns, name) x))) \<and> (\<forall>rq x. clock x \<le> clock (snd (ae_Do e rq x))) \<and>
     (\<forall>cr cr' x. clock x \<le> clock (snd (ae_MergePatch e cr cr' x))) \<and>
     (\<forall>x. clock x < clock (snd (ae_Tick e x)))"

text \<open>The platform and the cluster can be reached: the context is not cancelled, the URL is well formed, the CRD can be read.\<close>

definition undisturbed :: "'x AgentEnv \<Rightarrow> AgentConfig \<Rightarrow> string \<Rightarrow> bool" where
  "undisturbed e cfg i \<longleftrightarrow> (\<forall>x. fst (ae_Tick e x)) \<and> ae_urlErr e (status_url cfg i) = None \<and>
     (\<forall>x. isl (fst (ae_Get e (agentManagedNamespace, crName i) x)) = False)"

text \<open>\<open>adds cfg i l a a'\<close>: between two states the reports \<open>l\<close> were posted for \<open>i\<close>, and none for another experiment.\<close>

definition adds :: "AgentConfig \<Rightarrow> string \<Rightarrow> json list \<Rightarrow> 'x Agent \<Rightarrow> 'x Agent \<Rightarrow> bool" where
  "adds cfg i l a a' \<longleftrightarrow> (\<forall>j. reports cfg j (ag_sent a') = reports cfg j (ag_sent a) @ (if j = i then l else []))"

section \<open>Lemmas\<close>

subsection \<open>The logs\<close>

lemma outside_logs [simp]:
  "ag_sent (snd (outside f a)) = ag_sent a" "ag_patched (snd (outside f a)) = ag_patched a"
  by (simp_all add: outside_def split: prod.split)

lemma outside_fst: "fst (outside f a) = fst (f (ag_ext a))" and outside_ext: "ag_ext (snd (outside f a)) = snd (f (ag_ext a))"
  by (simp_all add: outside_def split: prod.split)

lemma Do_logs [simp]: "ag_sent (snd (Do e rq a)) = ag_sent a @ [rq]" "ag_patched (snd (Do e rq a)) = ag_patched a"
  by (simp_all add: Do_def)

lemma DoD: "Do e rq a = (r, a') \<Longrightarrow> ag_sent a' = ag_sent a @ [rq] \<and> ag_patched a' = ag_patched a"
  using Do_logs [of e rq a] by simp

lemma outsideD: "outside f a = (r, a') \<Longrightarrow> ag_sent a' = ag_sent a \<and> ag_patched a' = ag_patched a"
  using outside_logs [of f a] by simp

lemma reports_append [simp]: "reports cfg i (rs @ ss) = reports cfg i rs @ reports cfg i ss"
  by (simp add: reports_def List.map_filter_def)

lemma reports_one [simp]:
  "reports cfg i [r] = (if rq_url r = status_url cfg i then case rq_body r of None \<Rightarrow> [] | Some j \<Rightarrow> [j] else [])"
  by (simp add: reports_def List.map_filter_def split: option.split)

lemma urls [simp]:
  "status_url cfg i = status_url cfg j \<longleftrightarrow> i = j" "work_url cfg \<noteq> status_url cfg i"
  "PlatformURL cfg @ ''/agent/register'' \<noteq> status_url cfg i" "PlatformURL cfg @ ''/agent/heartbeat'' \<noteq> status_url cfg i"
  "PlatformURL cfg @ ''/agent/topology'' \<noteq> status_url cfg i"
  by (simp_all add: status_url_def work_url_def)

lemma adds_none: "ag_sent a' = ag_sent a \<Longrightarrow> adds cfg i [] a a'"
  by (simp add: adds_def)

lemma adds_trans: "adds cfg i l a b \<Longrightarrow> adds cfg i k b c \<Longrightarrow> adds cfg i (l @ k) a c"
  by (simp add: adds_def)

lemma adds_reportStatus:
  "\<exists>l. set l \<subseteq> {report_json r} \<and> length l \<le> 1 \<and> adds cfg i l a (snd (reportStatus e cfg ai i r a)) \<and>
     (ae_urlErr e (status_url cfg i) = None \<longrightarrow> l = [report_json r])"
proof (cases "ae_urlErr e (status_url cfg i)")
  case None
  then have "adds cfg i [report_json r] a (snd (reportStatus e cfg ai i r a))"
    by (auto simp: reportStatus_def adds_def dest!: DoD split: prod.split sum.split)
  then show ?thesis by (intro exI [of _ "[report_json r]"]) simp
qed (auto simp: reportStatus_def intro!: exI [of _ "[]"] adds_none)

lemma reports_postJSON:
  "url \<noteq> status_url cfg i \<Longrightarrow> reports cfg i (ag_sent (snd (postJSON e url body tk a))) = reports cfg i (ag_sent a)"
  by (auto simp: postJSON_def dest!: DoD split: prod.split sum.split option.split)

lemma collect_all_sent: "collect_all e rs a = (fs, a') \<Longrightarrow> ag_sent a' = ag_sent a"
  by (induction rs arbitrary: a fs) (fastforce simp: collectKubeResource_def dest!: outsideD split: prod.splits sum.splits)+

lemma reports_others [simp]:
  "reports cfg i (ag_sent (snd (claimWork e cfg ai a))) = reports cfg i (ag_sent a)"
  "reports cfg i (ag_sent (heartbeat_tick e cfg a)) = reports cfg i (ag_sent a)"
  "reports cfg i (ag_sent (snd (register e cfg a))) = reports cfg i (ag_sent a)"
  "reports cfg i (ag_sent (collectAndSubmit e cfg a)) = reports cfg i (ag_sent a)"
proof -
  show "reports cfg i (ag_sent (snd (claimWork e cfg ai a))) = reports cfg i (ag_sent a)"
    by (auto simp: claimWork_def dest!: DoD split: prod.split sum.split option.split)
  show "reports cfg i (ag_sent (heartbeat_tick e cfg a)) = reports cfg i (ag_sent a)"
    unfolding heartbeat_tick_def by (rule reports_postJSON) (rule urls)
  have "snd (register e cfg a) = snd (postJSON e (PlatformURL cfg @ ''/agent/register'')
      (JObj [(''token'', JStr (Token cfg)), (''agentVersion'', JStr ''1.0.0'')]) (Token cfg) a)"
    unfolding register_def by (simp split: prod.split sum.split)
  then show "reports cfg i (ag_sent (snd (register e cfg a))) = reports cfg i (ag_sent a)"
    by (simp only: reports_postJSON urls not_False_eq_True)
  obtain j a1 where c: "collectTopology e (EnvironmentID cfg) a = (j, a1)" by fastforce
  then have "ag_sent a1 = ag_sent a"
    by (auto simp: collectTopology_def simp del: collect_all.simps dest: collect_all_sent split: prod.splits)
  then show "reports cfg i (ag_sent (collectAndSubmit e cfg a)) = reports cfg i (ag_sent a)"
    unfolding collectAndSubmit_def c prod.case by (simp only: reports_postJSON urls not_False_eq_True)
qed

subsection \<open>The reports of one goroutine\<close>

lemma report_status_json [simp]: "report_status (report_json r) = sr_Status r"
  by (simp add: report_json_def)

lemma mapPhase_status:
  "is_final (report_json (mapPhase ph msg)) \<longleftrightarrow> ph \<in> {PhaseCompleted, PhaseFailed, PhaseAborted}"
  "is_running (report_json (mapPhase ph msg)) \<longleftrightarrow> ph \<notin> {PhaseCompleted, PhaseFailed, PhaseAborted}"
  by (cases ph; simp add: is_final_def is_running_def mapPhase_def)+

lemma failed_report_final: "is_final (report_json (failed_report msg))"
  by (simp add: is_final_def failed_report_def)

lemma protocol_append: "list_all is_running rs \<Longrightarrow> report_protocol l \<Longrightarrow> report_protocol (rs @ l)"
  by (induction rs) auto

lemma running_protocol: "list_all is_running rs \<Longrightarrow> report_protocol rs"
  by (induction rs) auto

lemma protocol_short: "set l \<subseteq> {j} \<Longrightarrow> length l \<le> 1 \<Longrightarrow> is_running j \<or> is_final j \<Longrightarrow> report_protocol l"
  by (cases l) auto

lemma annotateAbort_sent: "ag_sent (annotateAbort e cr a) = ag_sent a"
  by (simp add: annotateAbort_def)

lemma start_experiment_reports:
  assumes "start_experiment e cfg ai w a = (go, a')"
  shows "\<exists>l. adds cfg (wi_ID w) l a a' \<and> (if go then list_all is_running l else report_protocol l) \<and>
    (\<not> go \<and> ae_urlErr e (status_url cfg (wi_ID w)) = None \<longrightarrow> ends_well l)"
proof -
  let ?fails = "\<lambda>l err a2. set l \<subseteq> {report_json (failed_report err)} \<and> length l \<le> 1 \<and>
    adds cfg (wi_ID w) l a2 (snd (reportStatus e cfg ai (wi_ID w) (failed_report err) a2)) \<and>
    (ae_urlErr e (status_url cfg (wi_ID w)) = None \<longrightarrow> l = [report_json (failed_report err)])"
  have failing: "report_protocol l \<and> (ae_urlErr e (status_url cfg (wi_ID w)) = None \<longrightarrow> ends_well l)" if "?fails l err a2" for l err a2
    using that protocol_short [of l] failed_report_final by (auto simp: ends_well_def)
  show ?thesis
  proof (cases "toChaosExperiment e w")
    case (Inl err)
    obtain l where "?fails l err a" using adds_reportStatus by blast
    with failing [OF this] show ?thesis using assms Inl by (intro exI [of _ l]) (auto simp: start_experiment_def)
  next
    case (Inr cr)
    obtain r1 a1 where ns: "ensureNamespace e a = (r1, a1)" by fastforce
    obtain r2 a2 where ap: "outside (ae_Apply e cr) a1 = (r2, a2)" by fastforce
    have "ag_sent a1 = ag_sent a" using ns by (auto simp: ensureNamespace_def dest!: outsideD split: prod.splits option.splits CreateErr.splits)
    then have pre: "adds cfg (wi_ID w) [] a a2" using outsideD [OF ap] by (intro adds_none) simp
    let ?run = "\<lparr>sr_Status = ''running'', sr_ObservedGeneration = None, sr_Phase = ''Running'', sr_Result = None\<rparr>"
    show ?thesis
    proof (cases r2)
      case None
      obtain l where l: "set l \<subseteq> {report_json ?run}" "adds cfg (wi_ID w) l a2 (snd (reportStatus e cfg ai (wi_ID w) ?run a2))"
        using adds_reportStatus by blast
      have "list_all is_running l" using l(1) by (auto simp: list_all_iff is_running_def)
      with adds_trans [OF pre l(2)] show ?thesis using assms Inr ns ap None by (intro exI [of _ l]) (auto simp: start_experiment_def)
    next
      case (Some err)
      obtain l where l: "?fails l err a2" using adds_reportStatus by blast
      with failing [OF this] adds_trans [OF pre, of l] show ?thesis
        using assms Inr ns ap Some by (intro exI [of _ l]) (auto simp: start_experiment_def)
    qed
  qed
qed

text \<open>One tick over a CRD that was read: the report of its phase, the annotation, and the report of a deadline.\<close>

lemma watch_tick_read:
  assumes "outside (ae_Get e (agentManagedNamespace, crName (wi_ID w))) a = (Inr cr, a1)"
  obtains ack a2 a3 now a4 where
    "reportStatus e cfg ai (wi_ID w) (mapPhase (st_phase (e_status cr)) (st_message (e_status cr))) a1 = (ack, a2)"
    "a3 = (if map_option sa_DesiredState ack = Some ''abort'' then annotateAbort e cr a2 else a2)"
    "outside (ae_Now e) a3 = (now, a4)"
    "watch_tick e cfg ai w d a =
      (if st_phase (e_status cr) \<in> {PhaseCompleted, PhaseFailed, PhaseAborted} then (True, a3)
       else if now > d then (True, snd (reportStatus e cfg ai (wi_ID w) (failed_report ''agent watch deadline exceeded'') a4)) else (False, a4))"
proof -
  obtain ack a2 where ack: "reportStatus e cfg ai (wi_ID w) (mapPhase (st_phase (e_status cr)) (st_message (e_status cr))) a1 = (ack, a2)"
    by fastforce
  define a3 where "a3 = (if map_option sa_DesiredState ack = Some ''abort'' then annotateAbort e cr a2 else a2)"
  obtain now a4 where now: "outside (ae_Now e) a3 = (now, a4)" by fastforce
  have a3: "(case ack of None \<Rightarrow> a2 | Some k \<Rightarrow> if sa_DesiredState k = ''abort'' then annotateAbort e cr a2 else a2) = a3"
    by (simp add: a3_def split: option.split)
  show thesis using assms ack a3 now by (intro that [OF ack a3_def now]) (simp add: watch_tick_def Let_def)
qed

lemma watch_tick_reports:
  assumes "watch_tick e cfg ai w d a = (stop, a')"
  shows "\<exists>l. adds cfg (wi_ID w) l a a' \<and> (if stop then report_protocol l else list_all is_running l) \<and>
    (stop \<and> undisturbed e cfg (wi_ID w) \<longrightarrow> ends_well l)"
proof -
  obtain got a1 where get: "outside (ae_Get e (agentManagedNamespace, crName (wi_ID w))) a = (got, a1)" by fastforce
  have pre: "adds cfg (wi_ID w) [] a a1" using outsideD [OF get] by (intro adds_none) simp
  show ?thesis
  proof (cases got)
    case (Inl err)
    obtain now a2 where now: "outside (ae_Now e) a1 = (now, a2)" by fastforce
    have "adds cfg (wi_ID w) [] a a2" using outsideD [OF get] outsideD [OF now] by (intro adds_none) simp
    moreover have "\<not> undisturbed e cfg (wi_ID w)"
      using get Inl outside_fst [of "ae_Get e (agentManagedNamespace, crName (wi_ID w))" a] unfolding undisturbed_def by (metis fst_conv sum.disc(1))
    ultimately show ?thesis using assms get Inl now by (intro exI [of _ "[]"]) (auto simp: watch_tick_def)
  next
    case (Inr cr)
    let ?ph = "st_phase (e_status cr)" and ?r = "mapPhase (st_phase (e_status cr)) (st_message (e_status cr))"
    let ?late = "failed_report ''agent watch deadline exceeded''"
    obtain ack a2 a3 now a4 where ack: "reportStatus e cfg ai (wi_ID w) ?r a1 = (ack, a2)"
      and a3: "a3 = (if map_option sa_DesiredState ack = Some ''abort'' then annotateAbort e cr a2 else a2)"
      and now: "outside (ae_Now e) a3 = (now, a4)"
      and tick: "watch_tick e cfg ai w d a =
        (if ?ph \<in> {PhaseCompleted, PhaseFailed, PhaseAborted} then (True, a3)
         else if now > d then (True, snd (reportStatus e cfg ai (wi_ID w) ?late a4)) else (False, a4))"
      by (rule watch_tick_read [OF get [unfolded Inr], of cfg ai d])
    obtain l where l: "set l \<subseteq> {report_json ?r}" "length l \<le> 1" "adds cfg (wi_ID w) l a1 a2"
      "ae_urlErr e (status_url cfg (wi_ID w)) = None \<longrightarrow> l = [report_json ?r]"
      using adds_reportStatus [of ?r cfg "wi_ID w" a1 e ai] ack by auto
    have "ag_sent a3 = ag_sent a2" by (simp add: a3 annotateAbort_sent)
    then have l3: "adds cfg (wi_ID w) l a a3" "adds cfg (wi_ID w) l a a4"
      using adds_trans [OF pre l(3)] outsideD [OF now] by (simp_all add: adds_def)
    obtain k where k: "set k \<subseteq> {report_json ?late}" "length k \<le> 1" "adds cfg (wi_ID w) k a4 (snd (reportStatus e cfg ai (wi_ID w) ?late a4))"
      "ae_urlErr e (status_url cfg (wi_ID w)) = None \<longrightarrow> k = [report_json ?late]"
      using adds_reportStatus by blast
    have "report_protocol k" using protocol_short [OF k(1,2)] failed_report_final by blast
    moreover have "report_protocol l" using protocol_short [OF l(1,2)] mapPhase_status by blast
    moreover have "list_all is_running l" if "?ph \<notin> {PhaseCompleted, PhaseFailed, PhaseAborted}"
      using l(1) mapPhase_status(2) that by (auto simp: list_all_iff)
    moreover have "ends_well l" if "undisturbed e cfg (wi_ID w)" "?ph \<in> {PhaseCompleted, PhaseFailed, PhaseAborted}"
      using l(4) mapPhase_status(1) that by (auto simp: ends_well_def undisturbed_def)
    moreover have "ends_well (l @ k)" if "undisturbed e cfg (wi_ID w)"
      using k(4) failed_report_final that by (auto simp: ends_well_def undisturbed_def)
    ultimately show ?thesis
      using assms l3 adds_trans [OF l3(2) k(3)] protocol_append [of l k] unfolding tick by (auto split: if_splits)
  qed
qed

subsection \<open>The watch loop returns\<close>

lemma outside_clock:
  assumes "agent_clock e clock"
  shows "outside (ae_Now e) a = (now, a') \<Longrightarrow> now = clock (ag_ext a) \<and> clock (ag_ext a) \<le> clock (ag_ext a')"
    and "outside (ae_Get e k) a = (got, a') \<Longrightarrow> clock (ag_ext a) \<le> clock (ag_ext a')"
    and "outside (ae_Tick e) a = (fired, a') \<Longrightarrow> clock (ag_ext a) < clock (ag_ext a')"
    and "clock (ag_ext a) \<le> clock (ag_ext (annotateAbort e cr a))"
    and "reportStatus e cfg ai i r a = (ack, a') \<Longrightarrow> clock (ag_ext a) \<le> clock (ag_ext a')"
proof -
  note laws = assms [unfolded agent_clock_def]
  show "outside (ae_Now e) a = (now, a') \<Longrightarrow> now = clock (ag_ext a) \<and> clock (ag_ext a) \<le> clock (ag_ext a')"
    using laws outside_fst [of "ae_Now e" a] outside_ext [of "ae_Now e" a] by simp
  show "outside (ae_Get e k) a = (got, a') \<Longrightarrow> clock (ag_ext a) \<le> clock (ag_ext a')"
    using laws outside_ext [of "ae_Get e k" a] by (cases k) simp
  show "outside (ae_Tick e) a = (fired, a') \<Longrightarrow> clock (ag_ext a) < clock (ag_ext a')"
    using laws outside_ext [of "ae_Tick e" a] by simp
  show "clock (ag_ext a) \<le> clock (ag_ext (annotateAbort e cr a))"
    using laws by (simp add: annotateAbort_def outside_ext)
  have "clock (ag_ext a) \<le> clock (ag_ext a')" if "Do e rq a = (r, a')" for rq r a'
    using laws that outside_ext [of "ae_Do e rq" "a\<lparr>ag_sent := ag_sent a @ [rq]\<rparr>"] by (simp add: Do_def)
  then show "reportStatus e cfg ai i r a = (ack, a') \<Longrightarrow> clock (ag_ext a) \<le> clock (ag_ext a')"
    by (auto simp: reportStatus_def split: option.splits prod.splits sum.splits)
qed

text \<open>A tick that does not end the loop was taken before the deadline.\<close>

lemma watch_tick_clock:
  assumes "agent_clock e clock" and "watch_tick e cfg ai w d a = (False, a')"
  shows "clock (ag_ext a) \<le> d \<and> clock (ag_ext a) \<le> clock (ag_ext a')"
proof -
  obtain got a1 where get: "outside (ae_Get e (agentManagedNamespace, crName (wi_ID w))) a = (got, a1)" by fastforce
  note c1 = outside_clock(2) [OF assms(1) get]
  show ?thesis
  proof (cases got)
    case (Inl err)
    obtain now a2 where now: "outside (ae_Now e) a1 = (now, a2)" by fastforce
    show ?thesis using assms(2) get Inl now c1 outside_clock(1) [OF assms(1) now] by (auto simp: watch_tick_def)
  next
    case (Inr cr)
    obtain ack a2 a3 now a4 where ack: "reportStatus e cfg ai (wi_ID w) (mapPhase (st_phase (e_status cr)) (st_message (e_status cr))) a1 = (ack, a2)"
      and a3: "a3 = (if map_option sa_DesiredState ack = Some ''abort'' then annotateAbort e cr a2 else a2)"
      and now: "outside (ae_Now e) a3 = (now, a4)" and tick: "watch_tick e cfg ai w d a =
        (if st_phase (e_status cr) \<in> {PhaseCompleted, PhaseFailed, PhaseAborted} then (True, a3)
         else if now > d then (True, snd (reportStatus e cfg ai (wi_ID w) (failed_report ''agent watch deadline exceeded'') a4)) else (False, a4))"
      by (rule watch_tick_read [OF get [unfolded Inr], of cfg ai d])
    have "clock (ag_ext a2) \<le> clock (ag_ext a3)" using outside_clock(4) [OF assms(1)] by (simp add: a3)
    then show ?thesis using assms(2) c1 outside_clock(5) [OF assms(1) ack] outside_clock(1) [OF assms(1) now]
      unfolding tick by (auto split: if_splits)
  qed
qed

lemma watch_loop_returns:
  assumes "agent_clock e clock"
  shows "\<exists>a' l. watch_loop e cfg ai w d a = Some a' \<and> adds cfg (wi_ID w) l a a' \<and> report_protocol l \<and>
    (undisturbed e cfg (wi_ID w) \<longrightarrow> ends_well l)"
proof (induction "nat (d - clock (ag_ext a))" arbitrary: a rule: less_induct)
  case less
  obtain fired a1 where t: "outside (ae_Tick e) a = (fired, a1)" by fastforce
  obtain stop a2 where w: "watch_tick e cfg ai w d a1 = (stop, a2)" by fastforce
  have loop: "watch_loop e cfg ai w d a = (if \<not> fired then Some a1 else if stop then Some a2 else watch_loop e cfg ai w d a2)"
    by (subst watch_loop.simps) (simp add: t w)
  have pre: "adds cfg (wi_ID w) [] a a1" using outsideD [OF t] by (intro adds_none) simp
  obtain l where l: "adds cfg (wi_ID w) l a a2" "if stop then report_protocol l else list_all is_running l"
    "stop \<and> undisturbed e cfg (wi_ID w) \<longrightarrow> ends_well l"
    using watch_tick_reports [OF w] adds_trans [OF pre] by fastforce
  consider "\<not> fired" | "fired" "stop" | "fired" "\<not> stop" by blast
  then show ?case
  proof cases
    case 1
    then have "\<not> undisturbed e cfg (wi_ID w)" using t outside_fst [of "ae_Tick e" a] by (auto simp: undisturbed_def)
    with 1 pre show ?thesis by (intro exI [of _ a1] exI [of _ "[]"]) (simp add: loop)
  next
    case 2
    then show ?thesis using l by (intro exI [of _ a2] exI [of _ l]) (simp add: loop)
  next
    case 3
    have "nat (d - clock (ag_ext a2)) < nat (d - clock (ag_ext a))"
      using watch_tick_clock [OF assms, of cfg ai w d a1 a2] w 3 outside_clock(3) [OF assms t] by simp
    then obtain a' k where k: "watch_loop e cfg ai w d a2 = Some a'" "adds cfg (wi_ID w) k a2 a'" "report_protocol k"
      "undisturbed e cfg (wi_ID w) \<longrightarrow> ends_well k"
      using less by blast
    then show ?thesis using 3 l adds_trans [OF l(1) k(2)] protocol_append [of l k]
      by (intro exI [of _ a'] exI [of _ "l @ k"]) (auto simp: loop ends_well_def)
  qed
qed

subsection \<open>The invariant of the process\<close>

abbreviation task_ids :: "'x Process \<Rightarrow> string list" where
  "task_ids p \<equiv> map (\<lambda>t. wi_ID (task_item t)) (pr_tasks p)"

abbreviation process_reports :: "AgentConfig \<Rightarrow> 'x Process \<Rightarrow> string \<Rightarrow> json list" where
  "process_reports cfg p i \<equiv> reports cfg i (ag_sent (pr_agent p))"

definition process_inv :: "AgentConfig \<Rightarrow> 'x Process \<Rightarrow> bool" where
  "process_inv cfg p \<longleftrightarrow> distinct (task_ids p) \<and> set (task_ids p) \<subseteq> set (pr_claimed p) \<and>
     (\<forall>i. report_protocol (process_reports cfg p i)) \<and>
     (\<forall>i \<in> set (task_ids p). list_all is_running (process_reports cfg p i)) \<and>
     (\<forall>i. i \<notin> set (pr_claimed p) \<longrightarrow> process_reports cfg p i = [])"

lemma process_inv_same:
  assumes "process_inv cfg p" and "\<And>i. reports cfg i (ag_sent a) = process_reports cfg p i"
  shows "process_inv cfg (p\<lparr>pr_agent := a\<rparr>)"
  using assms by (simp add: process_inv_def)

lemma process_inv_claim:
  assumes "process_inv cfg p" and "\<And>i. reports cfg i (ag_sent a) = process_reports cfg p i" and "wi_ID w \<notin> set (pr_claimed p)"
  shows "process_inv cfg (p\<lparr>pr_tasks := pr_tasks p @ [Starting w], pr_claimed := pr_claimed p @ [wi_ID w], pr_agent := a\<rparr>)"
  using assms by (auto simp: process_inv_def)

text \<open>A round of one goroutine: it goes on after running reports, and ends after reports that follow the protocol.\<close>

lemma process_inv_goes_on:
  assumes "process_inv cfg p" and "pr_tasks p = ts @ t # us" and "task_item t' = task_item t"
    and "adds cfg (wi_ID (task_item t)) l (pr_agent p) a" and "list_all is_running l"
  shows "process_inv cfg (p\<lparr>pr_tasks := ts @ t' # us, pr_agent := a\<rparr>)"
  using assms by (auto simp: process_inv_def adds_def running_protocol)

lemma process_inv_ends:
  assumes "process_inv cfg p" and "pr_tasks p = ts @ t # us"
    and "adds cfg (wi_ID (task_item t)) l (pr_agent p) a" and "report_protocol l"
  shows "process_inv cfg (p\<lparr>pr_tasks := ts @ us, pr_agent := a\<rparr>)"
  using assms by (auto simp: process_inv_def adds_def protocol_append)

lemma process_step_inv:
  assumes "process_step e cfg ai p p'" and "process_inv cfg p" and "distinct (pr_claimed p')"
  shows "process_inv cfg p'"
  using assms
proof cases
  case heartbeat
  then show ?thesis using assms(2) by (auto intro: process_inv_same)
next
  case topology
  then show ?thesis using assms(2) by (auto intro: process_inv_same)
next
  case (claim_none r a err)
  then show ?thesis using assms(2) reports_others(1) [of cfg _ e ai "pr_agent p"] by (auto intro: process_inv_same)
next
  case (claim w a)
  then show ?thesis using assms(2,3) reports_others(1) [of cfg _ e ai "pr_agent p"] by (auto intro!: process_inv_claim)
next
  case (start_fails ts w us a)
  then show ?thesis using assms(2) start_experiment_reports [OF start_fails(3)] by (auto intro: process_inv_ends)
next
  case (start ts w us a now a')
  obtain l where l: "adds cfg (wi_ID w) l (pr_agent p) a" "list_all is_running l" using start_experiment_reports [OF start(3)] by auto
  have "adds cfg (wi_ID w) l (pr_agent p) a'" using l(1) outsideD [OF start(4)] by (simp add: adds_def)
  then show ?thesis using process_inv_goes_on [OF assms(2) start(2), of "Watching w (watch_deadline w now)" l a'] l(2) start(1) by simp
next
  case (watch ts w d us a)
  obtain l where "adds cfg (wi_ID w) l (pr_agent p) a" "list_all is_running l" using watch_tick_reports [OF watch(3)] by auto
  then have "process_inv cfg (p\<lparr>pr_tasks := ts @ Watching w d # us, pr_agent := a\<rparr>)"
    using process_inv_goes_on [OF assms(2) watch(2), of "Watching w d" l a] by simp
  moreover have "p\<lparr>pr_tasks := ts @ Watching w d # us, pr_agent := a\<rparr> = p\<lparr>pr_agent := a\<rparr>" using watch(2) by simp
  ultimately show ?thesis using watch(1) by simp
next
  case (watch_ends ts w d us a)
  then show ?thesis using assms(2) watch_tick_reports [OF watch_ends(3)] by (auto intro: process_inv_ends)
qed

lemma process_run_inv: "process_run e cfg ai p \<Longrightarrow> distinct (pr_claimed p) \<Longrightarrow> process_inv cfg p"
proof (induction rule: process_run.induct)
  case (registered x a)
  then have "reports cfg i (ag_sent a) = []" for i
    using reports_others(3) [of cfg i e "\<lparr>ag_ext = x, ag_sent = [], ag_patched = []\<rparr>"] by (simp add: reports_def List.map_filter_def)
  then show ?case by (simp add: process_inv_def)
next
  case (step p p')
  have "distinct (pr_claimed p)" using step.hyps(2) step.prems by cases auto
  then show ?case using step process_step_inv by blast
qed

subsection \<open>The work item\<close>

lemma decode_map_ok: "decode_map m vs = Some m' \<Longrightarrow> gm_ok m \<Longrightarrow> gm_ok m'"
  by (induction m vs rule: decode_map.induct) (auto split: option.splits dest: unmarshal_fields_ok simp: gm_ok_def)

lemma decode_targetPayload_ok: "decode_targetPayload j = Some tp \<Longrightarrow> gm_ok (tp_LabelSelector tp)"
  by (cases j rule: decode_targetPayload.cases) (auto split: option.splits dest: decode_map_ok simp: gm_ok_def)

lemma toChaosExperiment_ok:
  assumes "toChaosExperiment e w = Inr cr"
  obtains tp ap where "Option.bind (wi_Target w) decode_targetPayload = Some tp" "Option.bind (wi_Action w) decode_actionPayload = Some ap"
    "e_meta cr = \<lparr>m_name = crName (wi_ID w), m_namespace = agentManagedNamespace, m_uid = [], m_generation = 0,
       m_deletionTimestamp = None, m_finalizers = [], m_labels = [(''chaosplane.dev/experiment-id'', wi_ID w)],
       m_annotations = [], m_ownerUIDs = []\<rparr>"
    "s_target (e_spec cr) = \<lparr>t_kind = ''Pod'', t_namespace = (if tp_Namespace tp = [] then ''default'' else tp_Namespace tp),
       t_labelSelector = (if tp_LabelSelector tp \<noteq> [] then Some \<lparr>sel_matchLabels = Some (tp_LabelSelector tp), sel_matchExpressions = []\<rparr> else None),
       t_names = []\<rparr>"
    "s_duration (e_spec cr) = wrap64 (wi_DurationSeconds w * second)" "phase_of cr = PhaseEmpty"
  using assms unfolding toChaosExperiment_def Let_def
  by (auto split: option.splits)

lemma toChaosExperiment_name: "toChaosExperiment e w = Inr cr \<Longrightarrow> m_name (e_meta cr) = crName (wi_ID w)"
  by (erule toChaosExperiment_ok) simp

section \<open>A small platform and cluster\<close>

text \<open>
  A platform that hands out one item and asks for its abort, and a cluster whose experiment is running for
  ten units of the clock and then completed.
\<close>

definition demo_item :: workItem where
  "demo_item = \<lparr>wi_ID = ''7'', wi_Name = ''kill'', wi_ExperimentType = ''pod'',
     wi_Target = Some (JObj [(''namespace'', JStr ''prod''), (''LabelSelector'', JObj [(''app'', JStr ''web'')])]),
     wi_Action = Some (JObj [(''type'', JStr ''pod-kill'')]), wi_DurationSeconds = 60, wi_DesiredState = ''running'', wi_Generation = 1\<rparr>"

definition demo_work :: json where
  "demo_work = JObj [(''experiment'', JObj [(''id'', JStr ''7''), (''name'', JStr ''kill''), (''experimentType'', JStr ''pod''),
     (''target'', JObj [(''namespace'', JStr ''prod''), (''LabelSelector'', JObj [(''app'', JStr ''web'')])]),
     (''action'', JObj [(''type'', JStr ''pod-kill'')]), (''durationSeconds'', JNum ''60''), (''desiredState'', JStr ''running''),
     (''generation'', JNum ''1'')])]"

definition demo_running :: "ExperimentPhase \<Rightarrow> ChaosExperiment" where
  "demo_running ph = mem_aborting\<lparr>e_meta := (e_meta mem_aborting)\<lparr>m_annotations := []\<rparr>, e_status := (e_status mem_aborting)\<lparr>st_phase := ph\<rparr>\<rparr>"

definition demo_agent_env :: "int AgentEnv" where
  "demo_agent_env =
     \<lparr>ae_jsonErr = (\<lambda>_ _. ''bad JSON''), ae_urlErr = (\<lambda>_. None),
      ae_Do = (\<lambda>rq x. (Inr \<lparr>rs_status = 200, rs_json = (if rq_method rq = ''GET'' then demo_work else JObj [(''desiredState'', JStr ''abort'')]), rs_text = Inr []\<rparr>, x)),
      ae_CreateNamespace = (\<lambda>_ x. (Some (AlreadyExists ''exists''), x)), ae_Apply = (\<lambda>_ x. (None, x)),
      ae_Get = (\<lambda>_ x. (Inr (demo_running (if x < 10 then PhaseRunning else PhaseCompleted)), x)),
      ae_MergePatch = (\<lambda>_ _ x. (None, x)), ae_Now = (\<lambda>x. (x, x)), ae_Tick = (\<lambda>x. (True, x + 3)),
      ae_kubectl = (\<lambda>_ x. (Inl ''no kubectl'', x))\<rparr>"

definition demo_config :: AgentConfig where
  "demo_config = \<lparr>PlatformURL = ''http://platform'', Token = ''t'', EnvironmentID = ''env''\<rparr>"

definition demo_agent :: "int Agent" where
  "demo_agent = \<lparr>ag_ext = 0, ag_sent = [], ag_patched = []\<rparr>"

lemma demo_agent_clock: "agent_clock demo_agent_env (\<lambda>x. x)"
  by (simp add: agent_clock_def demo_agent_env_def)

lemma demo_numbers: "ParseInt 64 ''60'' = Some 60" "ParseInt 64 ''1'' = Some 1"
  by code_simp+

lemmas demo_decode = field_values_def upper_char_def decode_workItem_def no_work_def decode_raw_def demo_numbers

lemma demo_work_decoded: "decode_workResponse demo_work = Some (Some demo_item)"
  by (simp add: demo_work_def demo_item_def demo_decode)

lemma demo_item_translated: "\<exists>cr. toChaosExperiment demo_agent_env demo_item = Inr cr"
  by (simp add: toChaosExperiment_def demo_item_def demo_decode Let_def)

lemmas demo_calls = demo_agent_env_def demo_agent_def outside_def Do_def register_def postJSON_def claimWork_def start_experiment_def
   reportStatus_def ensureNamespace_def demo_work_decoded

section \<open>Properties\<close>



text \<open>
  C19. The goroutine of an item ends. With a clock that moves, \<open>runExperiment\<close> returns, whatever platform and
  cluster answer; its reports follow the protocol and concern no other experiment, and when the context is not
  cancelled, the URL is well formed and the CRD can be read, the last one says how the experiment ended.
\<close>

theorem run_experiment_returns:
  assumes "agent_clock e clock"
  shows "\<exists>a' l. runExperiment e cfg agentInstance w a = Some a' \<and> adds cfg (wi_ID w) l a a' \<and> report_protocol l \<and>
    (undisturbed e cfg (wi_ID w) \<longrightarrow> ends_well l)"
proof -
  obtain go a1 where s: "start_experiment e cfg agentInstance w a = (go, a1)" by fastforce
  obtain l where l: "adds cfg (wi_ID w) l a a1" "if go then list_all is_running l else report_protocol l"
    "\<not> go \<and> ae_urlErr e (status_url cfg (wi_ID w)) = None \<longrightarrow> ends_well l"
    using start_experiment_reports [OF s] by blast
  obtain now a2 where now: "outside (ae_Now e) a1 = (now, a2)" by fastforce
  obtain a' k where k: "watch_loop e cfg agentInstance w (watch_deadline w now) a2 = Some a'" "adds cfg (wi_ID w) k a2 a'"
    "report_protocol k" "undisturbed e cfg (wi_ID w) \<longrightarrow> ends_well k"
    using watch_loop_returns [OF assms] by blast
  have "adds cfg (wi_ID w) l a a2" using l(1) outsideD [OF now] by (simp add: adds_def)
  from adds_trans [OF this k(2)] show ?thesis
    using s l k now protocol_append [of l k]
    by (cases go) (auto simp: runExperiment_def watchExperiment_def undisturbed_def ends_well_def)
qed

theorem run_experiment_returns_witness:
  "\<exists>a' l. runExperiment demo_agent_env demo_config ''pod-1'' demo_item demo_agent = Some a' \<and>
     reports demo_config ''7'' (ag_sent a') = l \<and> report_protocol l \<and> ends_well l"
proof -
  have calm: "undisturbed demo_agent_env demo_config (wi_ID demo_item)" by (simp add: undisturbed_def demo_agent_env_def)
  have none: "reports demo_config i (ag_sent demo_agent) = []" for i by (simp add: reports_def demo_agent_def List.map_filter_def)
  obtain a' l where "runExperiment demo_agent_env demo_config ''pod-1'' demo_item demo_agent = Some a'"
    "adds demo_config (wi_ID demo_item) l demo_agent a'" "report_protocol l" "ends_well l"
    using run_experiment_returns [OF demo_agent_clock, of demo_config "''pod-1''" demo_item demo_agent] calm by blast
  then show ?thesis by (auto simp: adds_def none demo_item_def)
qed

text \<open>
  C18. An abort asked for by the platform reaches the target. A tick of the watch loop patches the experiment
  exactly when the platform's answer asks for an abort; the patch changes nothing but one annotation, and on the
  patched experiment, if it is running with its finalizer, the controller rolls the action back once and writes
  Aborted, or Failed when the rollback reports an error.
\<close>

theorem agent_abort_rolls_back:
  assumes get: "outside (ae_Get e (agentManagedNamespace, crName (wi_ID w))) a = (Inr cr, a1)"
    and ack: "reportStatus e cfg agentInstance (wi_ID w) (mapPhase (phase_of cr) (st_message (e_status cr))) a1 = (ack, a2)"
    and cr: "phase_of cr = PhaseRunning" "m_deletionTimestamp (e_meta cr) = None" "ContainsFinalizer cr finalizerName"
    and reg: "registry_Get (env_Registry env) (action_type cr) = Inr ex"
  shows "\<exists>ps. ag_patched (snd (watch_tick e cfg agentInstance w d a)) = ag_patched a @ ps \<and>
    (if map_option sa_DesiredState ack = Some ''abort'' then \<exists>xp. ps = [xp] \<and> e_spec xp = e_spec cr \<and> e_status xp = e_status cr \<and>
       map_of (m_annotations (e_meta xp)) = (map_of (m_annotations (e_meta cr)))(abortAnnotation \<mapsto> ''true'') \<and>
       (\<exists>xp' r. calls (snd (run_state (reconcileObject env xp) wd)) =
          calls wd @ [CRollback r, CStatusUpdate xp' (snd (fst (run_state (reconcileObject env xp) wd)))] \<and> phase_of xp' = abort_phase r)
     else ps = [])"
proof -
  have patched: "ag_patched (snd (reportStatus e cfg agentInstance i r b)) = ag_patched b" for i r b
    by (auto simp: reportStatus_def dest!: DoD split: option.split prod.split sum.split)
  obtain ack' a2' a3 now a4 where ack': "reportStatus e cfg agentInstance (wi_ID w) (mapPhase (phase_of cr) (st_message (e_status cr))) a1 = (ack', a2')"
    and a3: "a3 = (if map_option sa_DesiredState ack' = Some ''abort'' then annotateAbort e cr a2' else a2')"
    and now: "outside (ae_Now e) a3 = (now, a4)" and tick: "watch_tick e cfg agentInstance w d a =
        (if phase_of cr \<in> {PhaseCompleted, PhaseFailed, PhaseAborted} then (True, a3)
         else if now > d then (True, snd (reportStatus e cfg agentInstance (wi_ID w) (failed_report ''agent watch deadline exceeded'') a4)) else (False, a4))"
    by (rule watch_tick_read [OF get, of cfg agentInstance d])
  define ps where "ps = (if map_option sa_DesiredState ack = Some ''abort'' then [abort_annotated cr] else [])"
  have "ag_patched a2 = ag_patched a" using patched [of "wi_ID w" _ a1] ack outsideD [OF get] by (metis snd_conv)
  then have "ag_patched a3 = ag_patched a @ ps"
    using ack ack' by (simp add: a3 annotateAbort_def ps_def)
  then have log: "ag_patched (snd (watch_tick e cfg agentInstance w d a)) = ag_patched a @ ps"
    using outsideD [OF now] unfolding tick by (simp add: patched)
  have "\<exists>xp' r. calls (snd (run_state (reconcileObject env (abort_annotated cr)) wd)) =
      calls wd @ [CRollback r, CStatusUpdate xp' (snd (fst (run_state (reconcileObject env (abort_annotated cr)) wd)))] \<and>
      phase_of xp' = abort_phase r \<and> e_meta xp' = e_meta (abort_annotated cr) \<and> e_spec xp' = e_spec (abort_annotated cr)"
    using cr reg by (intro aborting_calls) (simp_all add: abort_annotated_def is_aborting_def abortAnnotation_def ContainsFinalizer_def action_type_def)
  then show ?thesis unfolding log
    by (intro exI [of _ ps]) (auto simp: ps_def abort_annotated_def abortAnnotation_def)
qed

theorem agent_abort_rolls_back_witness:
  "\<exists>xp xp' r. ag_patched (snd (watch_tick demo_agent_env demo_config ''pod-1'' demo_item 100 demo_agent)) = [xp] \<and>
     gm_str (m_annotations (e_meta xp)) abortAnnotation = ''true'' \<and>
     calls (snd (run_state (reconcileObject mem_env xp) \<lparr>w_ext = (None, 0), w_log = []\<rparr>)) =
       [CRollback r, CStatusUpdate xp' (snd (fst (run_state (reconcileObject mem_env xp) \<lparr>w_ext = (None, 0), w_log = []\<rparr>)))] \<and>
     phase_of xp' = abort_phase r"
proof -
  let ?cr = "demo_running PhaseRunning"
  have get: "outside (ae_Get demo_agent_env (agentManagedNamespace, crName (wi_ID demo_item))) demo_agent = (Inr ?cr, demo_agent)"
    by (simp add: demo_agent_env_def demo_agent_def outside_def)
  obtain k a2 where ack: "reportStatus demo_agent_env demo_config ''pod-1'' (wi_ID demo_item) (mapPhase (phase_of ?cr) (st_message (e_status ?cr))) demo_agent = (Some k, a2)"
    and k: "sa_DesiredState k = ''abort''"
    by (simp add: demo_calls demo_decode)
  show ?thesis
    using agent_abort_rolls_back [OF get ack, of mem_env mem_executor 100 "\<lparr>w_ext = (None, 0), w_log = []\<rparr>"] k
    by (auto simp: demo_agent_def demo_running_def mem_aborting_def mem_xp_def ContainsFinalizer_def registry_Get_def mem_env_def
        Register_def NewRegistry_def action_type_def gm_str_def calls_def)
qed

text \<open>
  C20. The experiment an item becomes. It carries the item's id in its name, which differs for items with different ids, stands
  in the agent's namespace, targets pods of a non-empty namespace by a non-empty selector with distinct keys
  or by none, and has a duration that is a 64-bit count of nanoseconds: the item's seconds, when these are within
  the range of a duration.
\<close>

theorem agent_experiment_well_formed:
  assumes "toChaosExperiment e w = Inr cr"
  shows "m_namespace (e_meta cr) = agentManagedNamespace \<and> phase_of cr = PhaseEmpty \<and>
    (\<forall>w' cr'. toChaosExperiment e w' = Inr cr' \<and> m_name (e_meta cr') = m_name (e_meta cr) \<longrightarrow> wi_ID w' = wi_ID w) \<and>
    t_kind (s_target (e_spec cr)) = ''Pod'' \<and> t_namespace (s_target (e_spec cr)) \<noteq> [] \<and>
    (\<forall>sel. t_labelSelector (s_target (e_spec cr)) = Some sel \<longrightarrow>
       (\<exists>m. sel_matchLabels sel = Some m \<and> m \<noteq> [] \<and> gm_ok m) \<and> sel_matchExpressions sel = []) \<and>
    int64 (s_duration (e_spec cr)) \<and>
    (\<bar>wi_DurationSeconds w\<bar> \<le> 9223372036 \<longrightarrow> s_duration (e_spec cr) = wi_DurationSeconds w * second)"
proof -
  obtain tp ap where tp: "Option.bind (wi_Target w) decode_targetPayload = Some tp"
    and meta: "e_meta cr = \<lparr>m_name = crName (wi_ID w), m_namespace = agentManagedNamespace, m_uid = [], m_generation = 0,
       m_deletionTimestamp = None, m_finalizers = [], m_labels = [(''chaosplane.dev/experiment-id'', wi_ID w)],
       m_annotations = [], m_ownerUIDs = []\<rparr>"
    and target: "s_target (e_spec cr) = \<lparr>t_kind = ''Pod'', t_namespace = (if tp_Namespace tp = [] then ''default'' else tp_Namespace tp),
       t_labelSelector = (if tp_LabelSelector tp \<noteq> [] then Some \<lparr>sel_matchLabels = Some (tp_LabelSelector tp), sel_matchExpressions = []\<rparr> else None),
       t_names = []\<rparr>"
    and dur: "s_duration (e_spec cr) = wrap64 (wi_DurationSeconds w * second)" and ph: "phase_of cr = PhaseEmpty"
    by (rule toChaosExperiment_ok [OF assms])
  have "gm_ok (tp_LabelSelector tp)" using tp by (auto simp: bind_eq_Some_conv dest: decode_targetPayload_ok)
  moreover have "wi_ID w' = wi_ID w" if "toChaosExperiment e w' = Inr cr'" "m_name (e_meta cr') = m_name (e_meta cr)" for w' cr'
    using that(2) meta toChaosExperiment_name [OF that(1)] by (simp add: crName_def)
  moreover have "wrap64 (wi_DurationSeconds w * second) = wi_DurationSeconds w * second" if "\<bar>wi_DurationSeconds w\<bar> \<le> 9223372036"
    using that by (intro wrap64_id) (auto simp: int64_def second_def abs_le_iff)
  ultimately show ?thesis using meta target ph by (auto simp: dur int64_wrap64)
qed

theorem agent_experiment_well_formed_witness:
  "\<exists>cr. toChaosExperiment demo_agent_env demo_item = Inr cr \<and> s_duration (e_spec cr) = 60 * second \<and> m_name (e_meta cr) = ''exp-7''"
proof -
  obtain cr where cr: "toChaosExperiment demo_agent_env demo_item = Inr cr" and name: "m_name (e_meta cr) = ''exp-7''"
  proof -
    have "(case toChaosExperiment demo_agent_env demo_item of Inl _ \<Rightarrow> False | Inr cr \<Rightarrow> m_name (e_meta cr) = ''exp-7'')" by code_simp
    then show thesis using that by (auto split: sum.splits)
  qed
  with agent_experiment_well_formed [OF cr] show ?thesis by (simp add: demo_item_def)
qed

end
