(* ===== verification/Migrate.thy ===== *)
theory Migrate
  imports Executor_Registry
begin

text \<open>
  The migrations of \<open>chaosctl\<close> (\<open>cmd/chaosctl/cmd/migrate_litmus.go\<close>, \<open>migrate_gremlin.go\<close>): LitmusChaos
  engines and Gremlin attacks become ChaosExperiment documents. A \<open>map[string]any\<close> is the list of the fields
  of a \<open>json\<close> object, a nil map the empty one (the code only reads them); the converters return the document
  as a \<open>json\<close> tree. The clock reading is an argument, and so is the order in which a map is ranged over.

  The theorems compare what is written with what the rest of the system and the API server accept: names,
  label values, action types and action parameters.
\<close>

section \<open>Definitions\<close>

subsection \<open>Times\<close>

text \<open>The civil date of a number of days since 1970-01-01, as year, month and day.\<close>

definition civil_date :: "int \<Rightarrow> int \<times> int \<times> int" where
  "civil_date days =
     (let z = days + 719468; era = z div 146097; doe = z mod 146097;
          yoe = (doe - doe div 1460 + doe div 36524 - doe div 146096) div 365;
          doy = doe - (365 * yoe + yoe div 4 - yoe div 100);
          mp = (5 * doy + 2) div 153;
          d = doy - (153 * mp + 2) div 5 + 1;
          m = (if mp < 10 then mp + 3 else mp - 9);
          y = yoe + era * 400 + (if m \<le> 2 then 1 else 0)
      in (y, m, d))"

definition padded :: "nat \<Rightarrow> int \<Rightarrow> string" where
  "padded w i = pad_zero w (dec_nat (nat i))"

text \<open>\<open>t.UTC().Format(time.RFC3339)\<close> of a time in the years 0 to 9999, in nanoseconds since the epoch.\<close>

definition rfc3339_utc :: "time \<Rightarrow> string" where
  "rfc3339_utc t =
     (let s = t div second; days = s div 86400; r = s mod 86400; (y, m, d) = civil_date days in
      padded 4 y @ ''-'' @ padded 2 m @ ''-'' @ padded 2 d @ ''T'' @
      padded 2 (r div 3600) @ '':'' @ padded 2 (r mod 3600 div 60) @ '':'' @ padded 2 (r mod 60) @ ''Z'')"

subsection \<open>Names\<close>

text \<open>
  The width in bytes of the first rune of a string, as \<open>utf8.DecodeRuneInString\<close> determines it: a byte
  that does not start a well-formed sequence is a rune of its own.
\<close>

definition in_range :: "nat \<Rightarrow> nat \<Rightarrow> char \<Rightarrow> bool" where
  "in_range a b c \<longleftrightarrow> a \<le> of_char c \<and> of_char c \<le> b"

definition cont :: "char \<Rightarrow> bool" where
  "cont c = in_range 0x80 0xBF c"

definition two_bytes :: "char \<Rightarrow> char \<Rightarrow> bool" where
  "two_bytes c d \<longleftrightarrow> in_range 0xC2 0xDF c \<and> cont d"

definition three_bytes :: "char \<Rightarrow> char \<Rightarrow> char \<Rightarrow> bool" where
  "three_bytes c d e \<longleftrightarrow> in_range 0xE0 0xEF c \<and> cont d \<and> cont e \<and>
     (c = CHR 0xE0 \<longrightarrow> in_range 0xA0 0xBF d) \<and> (c = CHR 0xED \<longrightarrow> in_range 0x80 0x9F d)"

definition four_bytes :: "char \<Rightarrow> char \<Rightarrow> char \<Rightarrow> char \<Rightarrow> bool" where
  "four_bytes c d e f \<longleftrightarrow> in_range 0xF0 0xF4 c \<and> cont d \<and> cont e \<and> cont f \<and>
     (c = CHR 0xF0 \<longrightarrow> in_range 0x90 0xBF d) \<and> (c = CHR 0xF4 \<longrightarrow> in_range 0x80 0x8F d)"

fun rune_width :: "string \<Rightarrow> nat" where
  "rune_width (c # d # e # f # s) =
     (if two_bytes c d then 2 else if three_bytes c d e then 3 else if four_bytes c d e f then 4 else 1)"
| "rune_width [c, d, e] = (if two_bytes c d then 2 else if three_bytes c d e then 3 else 1)"
| "rune_width [c, d] = (if two_bytes c d then 2 else 1)"
| "rune_width s = 1"

definition name_char :: "char \<Rightarrow> bool" where
  "name_char c \<longleftrightarrow> in_range 97 122 c \<or> in_range 48 57 c \<or> c = CHR ''-''"

text \<open>The \<open>strings.Map\<close> of \<open>sanitizeName\<close>: one byte for every rune.\<close>

function map_runes :: "string \<Rightarrow> string" where
  "map_runes [] = []"
| "map_runes (c # cs) = (if name_char c then c else CHR ''-'') # map_runes (drop (rune_width (c # cs) - 1) cs)"
  by pat_completeness auto
termination by (relation "measure length") auto

definition trim_dashes :: "string \<Rightarrow> string" where
  "trim_dashes s = rev (dropWhile (\<lambda>c. c = CHR ''-'') (rev (dropWhile (\<lambda>c. c = CHR ''-'') s)))"

definition sanitizeName :: "string \<Rightarrow> string" where
  "sanitizeName name =
     (let name = trim_dashes (map_runes (ToLower name)) in
      if length name > 63 then take 63 name else name)"

subsection \<open>Litmus\<close>

definition litmusActionMap :: "(string, string) gomap" where
  "litmusActionMap =
     [(''pod-delete'', ''pod-kill''),
      (''pod-kill'', ''pod-kill''),
      (''container-kill'', ''container-kill''),
      (''pod-cpu-hog'', ''cpu-stress''),
      (''pod-memory-hog'', ''memory-stress''),
      (''pod-network-latency'', ''network-latency''),
      (''pod-network-loss'', ''network-loss''),
      (''pod-network-corruption'', ''network-corruption''),
      (''node-drain'', ''node-drain''),
      (''node-cpu-hog'', ''cpu-stress''),
      (''node-memory-hog'', ''memory-stress''),
      (''disk-fill'', ''disk-fill''),
      (''pod-io-stress'', ''io-stress''),
      (''pod-dns-error'', ''dns-chaos'')]"

definition getNestedString :: "(string, json) gomap \<Rightarrow> string \<Rightarrow> string" where
  "getNestedString m key = (case map_of m key of Some (JStr s) \<Rightarrow> s | _ \<Rightarrow> [])"

definition getNestedMap :: "(string, json) gomap \<Rightarrow> string \<Rightarrow> (string, json) gomap" where
  "getNestedMap m key = (case map_of m key of Some (JObj fs) \<Rightarrow> fs | _ \<Rightarrow> [])"

definition getNestedSlice :: "(string, json) gomap \<Rightarrow> string \<Rightarrow> json list" where
  "getNestedSlice m key = (case map_of m key of Some (JArr vs) \<Rightarrow> vs | _ \<Rightarrow> [])"

definition toMap :: "json \<Rightarrow> (string, json) gomap" where
  "toMap v = (case v of JObj fs \<Rightarrow> fs | _ \<Rightarrow> [])"

definition mapLitmusAction :: "string \<Rightarrow> string" where
  "mapLitmusAction litmusName =
     (case map_of litmusActionMap (ToLower litmusName) of
        None \<Rightarrow> ToLower litmusName
      | Some actionType \<Rightarrow> actionType)"

definition skipKeys :: "string list" where
  "skipKeys = [''TOTAL_CHAOS_DURATION'', ''CHAOS_INTERVAL'', ''LIB'', ''RAMP_TIME'', ''SEQUENCE'']"

fun litmus_params :: "(string, json) gomap \<Rightarrow> string list \<Rightarrow> (string, json) gomap \<Rightarrow> (string, json) gomap" where
  "litmus_params envVars [] params = params"
| "litmus_params envVars (k # ks) params =
     (case map_of envVars k of
        None \<Rightarrow> litmus_params envVars ks params
      | Some v \<Rightarrow>
          litmus_params envVars ks (if k \<in> set skipKeys then params else gm_put (ToLower k) v params))"

text \<open>The loop ranges over the map \<open>envVars\<close> in the order \<open>ord\<close>.\<close>

definition buildLitmusParams :: "(string list \<Rightarrow> string list) \<Rightarrow> (string, json) gomap \<Rightarrow> (string, json) gomap" where
  "buildLitmusParams ord envVars = litmus_params envVars (ord (gm_keys envVars)) []"

fun env_loop :: "(string, json) gomap \<Rightarrow> json list \<Rightarrow> (string, json) gomap" where
  "env_loop result [] = result"
| "env_loop result (item # items) =
     (let m = toMap item;
          name = getNestedString m ''name'';
          val = getNestedString m ''value''
      in env_loop (if name \<noteq> [] then gm_put name (JStr val) result else result) items)"

definition extractEnvMap :: "json list \<Rightarrow> (string, json) gomap" where
  "extractEnvMap envSlice = env_loop [] envSlice"

definition getEnvOrDefault :: "(string, json) gomap \<Rightarrow> string \<Rightarrow> string \<Rightarrow> string" where
  "getEnvOrDefault envVars key fallback =
     (case map_of envVars key of Some (JStr s) \<Rightarrow> (if s \<noteq> [] then s else fallback) | _ \<Rightarrow> fallback)"

definition litmusMigrationLabels :: "time \<Rightarrow> json" where
  "litmusMigrationLabels now =
     JObj [(''chaosplane.io/migrated-from'', JStr ''litmuschaos''),
           (''chaosplane.io/migrated-at'', JStr (rfc3339_utc now))]"

text \<open>The document both Litmus converters return.\<close>

definition litmus_document :: "time \<Rightarrow> string \<Rightarrow> string \<Rightarrow> json \<Rightarrow> string \<Rightarrow> (string, json) gomap \<Rightarrow> string \<Rightarrow> json" where
  "litmus_document now migName ns target actionType params dur =
     JObj [(''apiVersion'', JStr ''chaos.chaosplane.io/v1alpha1''),
           (''kind'', JStr ''ChaosExperiment''),
           (''metadata'', JObj
              [(''name'', JStr (sanitizeName migName)),
               (''namespace'', JStr ns),
               (''labels'', litmusMigrationLabels now)]),
           (''spec'', JObj
              [(''target'', target),
               (''action'', JObj [(''type'', JStr actionType), (''parameters'', JObj params)]),
               (''duration'', JStr (dur @ ''s'')),
               (''rollback'', JObj [(''enabled'', JBool True)])])]"

definition convertChaosEngine :: "time \<Rightarrow> (string list \<Rightarrow> string list) \<Rightarrow> string \<Rightarrow> string \<Rightarrow> (string, json) gomap \<Rightarrow> json" where
  "convertChaosEngine now ord name ns spec =
     (let appInfo = getNestedMap spec ''appinfo'';
          appLabel = getNestedString appInfo ''applabel'';
          appKind = getNestedString appInfo ''appkind'';
          targetKind = (if EqualFold appKind ''node'' then ''Node'' else ''Pod'');
          (expName, envVars) =
            (case getNestedSlice spec ''experiments'' of
               [] \<Rightarrow> ([], [])
             | e # _ \<Rightarrow>
                 (let first = toMap e;
                      components = getNestedMap (getNestedMap first ''spec'') ''components''
                  in (getNestedString first ''name'', extractEnvMap (getNestedSlice components ''env''))));
          actionType = mapLitmusAction expName;
          dur = getEnvOrDefault envVars ''TOTAL_CHAOS_DURATION'' ''60'';
          params = buildLitmusParams ord envVars;
          target = [(''kind'', JStr targetKind)];
          target = (if appLabel \<noteq> [] then
                      (case cut ''='' appLabel of
                         Some (k, v) \<Rightarrow> gm_put ''labelSelector'' (JObj [(''matchLabels'', JObj [(k, JStr v)])]) target
                       | None \<Rightarrow> target)
                    else target);
          target = (if ns \<noteq> [] then gm_put ''namespace'' (JStr ns) target else target);
          migName = (if name = [] then ''migrated-litmus-'' @ actionType else name)
      in litmus_document now migName ns (JObj target) actionType params dur)"

definition convertChaosExperimentDef :: "time \<Rightarrow> (string list \<Rightarrow> string list) \<Rightarrow> string \<Rightarrow> string \<Rightarrow> (string, json) gomap \<Rightarrow> json" where
  "convertChaosExperimentDef now ord name ns spec =
     (let defn = getNestedMap spec ''definition'';
          scope = getNestedString defn ''scope'';
          targetKind = (if EqualFold scope ''node'' \<or> EqualFold scope ''cluster'' then ''Node'' else ''Pod'');
          envVars = extractEnvMap (getNestedSlice defn ''env'');
          expName = getNestedString defn ''name'';
          expName = (if expName = [] then name else expName);
          actionType = mapLitmusAction expName;
          dur = getEnvOrDefault envVars ''TOTAL_CHAOS_DURATION'' ''60'';
          params = buildLitmusParams ord envVars;
          migName = (if name = [] then ''migrated-litmus-'' @ actionType else name)
      in litmus_document now migName ns (JObj [(''kind'', JStr targetKind), (''namespace'', JStr ns)])
           actionType params dur)"

definition convertLitmusExperiment :: "time \<Rightarrow> (string list \<Rightarrow> string list) \<Rightarrow> (string, json) gomap \<Rightarrow> err + json" where
  "convertLitmusExperiment now ord raw =
     (let kind = getNestedString raw ''kind'' in
      if kind \<noteq> ''ChaosEngine'' \<and> kind \<noteq> ''ChaosExperiment''
      then Inl (''unsupported LitmusChaos kind '' @ quoted kind @ '', expected ChaosEngine or ChaosExperiment'')
      else
        (let metadata = getNestedMap raw ''metadata'';
             spec = getNestedMap raw ''spec'';
             name = getNestedString metadata ''name'';
             ns = getNestedString metadata ''namespace''
         in Inr (if kind = ''ChaosEngine'' then convertChaosEngine now ord name ns spec
                 else convertChaosExperimentDef now ord name ns spec)))"

subsection \<open>Gremlin\<close>

record gremlinCommand =
  gc_Type :: string
  gc_Args :: "string list"
  gc_Length :: int
  gc_Percentage :: int
  gc_Port :: int
  gc_Protocol :: string
  gc_Delay :: int

record gremlinTarget =
  gt_Type :: string
  gt_Exact :: int
  gt_Tags :: "(string, string) gomap"
  gt_Hosts :: "string list"

record gremlinAttack =
  ga_Name :: string
  ga_Type :: string
  ga_Command :: gremlinCommand
  ga_Target :: gremlinTarget
  ga_ScheduleAt :: string
  ga_Labels :: "(string, string) gomap"

definition gremlinActionMap :: "(string, string) gomap" where
  "gremlinActionMap =
     [(''cpu'', ''cpu-stress''),
      (''memory'', ''memory-stress''),
      (''disk'', ''disk-fill''),
      (''io'', ''io-stress''),
      (''shutdown'', ''pod-kill''),
      (''process'', ''process-kill''),
      (''latency'', ''network-latency''),
      (''packet_loss'', ''network-loss''),
      (''dns'', ''dns-chaos''),
      (''blackhole'', ''network-partition'')]"

fun gremlin_args :: "string list \<Rightarrow> (string, json) gomap \<Rightarrow> (string, json) gomap" where
  "gremlin_args [] params = params"
| "gremlin_args (arg # args) params =
     gremlin_args args (case cut ''='' arg of None \<Rightarrow> params | Some (k, v) \<Rightarrow> gm_put k (JStr v) params)"

definition buildGremlinParams :: "gremlinCommand \<Rightarrow> (string, json) gomap" where
  "buildGremlinParams cmd =
     (let params = [];
          params = (if gc_Percentage cmd > 0 then gm_put ''percentage'' (JNum (Itoa (gc_Percentage cmd))) params else params);
          params = (if gc_Port cmd > 0 then gm_put ''port'' (JNum (Itoa (gc_Port cmd))) params else params);
          params = (if gc_Protocol cmd \<noteq> [] then gm_put ''protocol'' (JStr (gc_Protocol cmd)) params else params);
          params = (if gc_Delay cmd > 0 then gm_put ''latencyMs'' (JNum (Itoa (gc_Delay cmd))) params else params)
      in gremlin_args (gc_Args cmd) params)"

definition string_map :: "(string, string) gomap \<Rightarrow> json" where
  "string_map m = JObj (map (\<lambda>(k, v). (k, JStr v)) m)"

definition buildGremlinTarget :: "string \<Rightarrow> gremlinTarget \<Rightarrow> json" where
  "buildGremlinTarget kind t =
     (let target = [(''kind'', JStr kind)];
          target = (if gt_Tags t \<noteq> [] then gm_put ''labelSelector'' (JObj [(''matchLabels'', string_map (gt_Tags t))]) target
                    else target);
          target = (if gt_Hosts t \<noteq> [] then gm_put ''names'' (JArr (map JStr (gt_Hosts t))) target else target)
      in JObj target)"

definition mergeMigrationLabels :: "time \<Rightarrow> (string, string) gomap \<Rightarrow> (string, string) gomap" where
  "mergeMigrationLabels now extra =
     foldl (\<lambda>labels (k, v). gm_put k v labels)
       [(''chaosplane.io/migrated-from'', ''gremlin''), (''chaosplane.io/migrated-at'', rfc3339_utc now)] extra"

text \<open>The action type at the head of \<open>convertGremlinAttack\<close>.\<close>

definition gremlin_action :: "string \<Rightarrow> string" where
  "gremlin_action commandType =
     (case map_of gremlinActionMap (ToLower commandType) of
        None \<Rightarrow> ToLower commandType
      | Some actionType \<Rightarrow> actionType)"

definition convertGremlinAttack :: "time \<Rightarrow> gremlinAttack \<Rightarrow> json" where
  "convertGremlinAttack now attack =
     (let actionType = gremlin_action (gc_Type (ga_Command attack));
          params = buildGremlinParams (ga_Command attack);
          dur = gc_Length (ga_Command attack);
          dur = (if dur = 0 then 60 else dur);
          name = (if ga_Name attack = [] then ''migrated-gremlin-'' @ actionType else ga_Name attack);
          targetKind = (if gt_Type (ga_Target attack) = ''host'' then ''Node'' else ''Pod'')
      in JObj [(''apiVersion'', JStr ''chaos.chaosplane.io/v1alpha1''),
               (''kind'', JStr ''ChaosExperiment''),
               (''metadata'', JObj
                  [(''name'', JStr (sanitizeName name)),
                   (''labels'', string_map (mergeMigrationLabels now (ga_Labels attack)))]),
               (''spec'', JObj
                  [(''target'', buildGremlinTarget targetKind (ga_Target attack)),
                   (''action'', JObj [(''type'', JStr actionType), (''parameters'', JObj params)]),
                   (''duration'', JStr (Itoa dur @ ''s'')),
                   (''rollback'', JObj [(''enabled'', JBool True)])])])"

text \<open>
  What the API server accepts: a name as a DNS label, and the value of a label (letters, digits, dashes,
  underscores and dots, a letter or digit at both ends, at most 63 bytes, or nothing).
\<close>

definition dns1123_label :: "string \<Rightarrow> bool" where
  "dns1123_label s \<longleftrightarrow> s \<noteq> [] \<and> length s \<le> 63 \<and> list_all name_char s \<and> hd s \<noteq> CHR ''-'' \<and> last s \<noteq> CHR ''-''"

definition alnum :: "char \<Rightarrow> bool" where
  "alnum c \<longleftrightarrow> in_range 97 122 c \<or> in_range 65 90 c \<or> in_range 48 57 c"

definition label_value_ok :: "string \<Rightarrow> bool" where
  "label_value_ok s \<longleftrightarrow> s = [] \<or> length s \<le> 63 \<and> alnum (hd s) \<and> alnum (last s) \<and>
     list_all (\<lambda>c. alnum c \<or> c \<in> {CHR ''-'', CHR ''_'', CHR ''.''}) s"

text \<open>The labels and the action parameters of a document.\<close>

definition doc_labels :: "json \<Rightarrow> (string, json) gomap" where
  "doc_labels doc = getNestedMap (getNestedMap (toMap doc) ''metadata'') ''labels''"

definition doc_action :: "json \<Rightarrow> (string, json) gomap" where
  "doc_action doc = getNestedMap (getNestedMap (toMap doc) ''spec'') ''action''"

definition has_executor :: "'x Registry \<Rightarrow> string \<Rightarrow> bool" where
  "has_executor r a = (case registry_Get r a of Inl _ \<Rightarrow> False | Inr _ \<Rightarrow> True)"

text \<open>The value that the items of an environment give to a name: the last one counts.\<close>

definition env_entry :: "json \<Rightarrow> (string \<times> string) list" where
  "env_entry item =
     (let name = getNestedString (toMap item) ''name''
      in if name = [] then [] else [(name, getNestedString (toMap item) ''value'')])"

definition env_value :: "json list \<Rightarrow> string \<Rightarrow> string option" where
  "env_value env n = map_of (rev (concat (map env_entry env))) n"

text \<open>The parameters that the arguments of a Gremlin command set.\<close>

definition arg_keys :: "gremlinCommand \<Rightarrow> string list" where
  "arg_keys cmd = concat (map (\<lambda>arg. case cut ''='' arg of None \<Rightarrow> [] | Some (k, _) \<Rightarrow> [k]) (gc_Args cmd))"

section \<open>Names\<close>

lemmas bytes_defs = two_bytes_def three_bytes_def four_bytes_def in_range_def

lemma rune_width_ascii: "(of_char c :: nat) < 128 \<Longrightarrow> rune_width (c # cs) = 1"
  by (cases "c # cs" rule: rune_width.cases) (auto simp: bytes_defs)

lemma map_runes_name: "list_all name_char (map_runes s)"
  by (induction s rule: map_runes.induct) (auto simp: name_char_def)

lemma name_char_ascii: "name_char c \<Longrightarrow> (of_char c :: nat) < 128"
  by (auto simp: name_char_def in_range_def)

lemma map_runes_id: "list_all name_char s \<Longrightarrow> map_runes s = s"
  by (induction s) (auto simp: rune_width_ascii name_char_ascii)

lemma ToLower_name_char: "name_char c \<Longrightarrow> ToLower (c # cs) = c # ToLower cs"
  by (cases cs) (auto simp: name_char_def in_range_def to_lower_def)

declare ToLower.simps(2) [simp del]

lemma ToLower_id: "list_all name_char s \<Longrightarrow> ToLower s = s"
  by (induction s) (simp_all add: ToLower_name_char)

lemma trim_dashes_name: "list_all name_char s \<Longrightarrow> list_all name_char (trim_dashes s)"
  using set_trim [of "\<lambda>c. c = CHR ''-''" s] by (auto simp: trim_dashes_def list_all_iff)

text \<open>
  \<open>sanitizeName\<close> keeps a valid name, and otherwise returns a valid one, the empty string, or, when the
  cut at 63 bytes falls behind a dash, a name that ends with that dash and that the API server refuses.
\<close>

lemma sanitizeName_label:
  "(dns1123_label s \<longrightarrow> sanitizeName s = s) \<and>
   (let r = sanitizeName s in
      r = [] \<or> dns1123_label r \<or>
      (length r = 63 \<and> list_all name_char r \<and> hd r \<noteq> CHR ''-'' \<and> last r = CHR ''-''))"
proof (intro conjI impI)
  assume "dns1123_label s"
  then show "sanitizeName s = s"
    by (simp add: sanitizeName_def dns1123_label_def ToLower_id map_runes_id trim_dashes_def trim_id)
next
  define t where "t = trim_dashes (map_runes (ToLower s))"
  have ok: "list_all name_char t" by (simp add: t_def trim_dashes_name map_runes_name)
  have ends: "t = [] \<or> hd t \<noteq> CHR ''-'' \<and> last t \<noteq> CHR ''-''"
    using trim_ends [of "\<lambda>c. c = CHR ''-''"] by (simp add: t_def trim_dashes_def)
  have r: "sanitizeName s = (if length t > 63 then take 63 t else t)" by (simp add: sanitizeName_def t_def)
  show "let r = sanitizeName s in r = [] \<or> dns1123_label r \<or>
      (length r = 63 \<and> list_all name_char r \<and> hd r \<noteq> CHR ''-'' \<and> last r = CHR ''-'')"
  proof (cases "length t > 63")
    case True
    then have "t \<noteq> []" by auto
    moreover have "list_all name_char (take 63 t)" using ok set_take_subset [of 63 t] by (auto simp: list_all_iff)
    ultimately show ?thesis using True ends by (auto simp: r dns1123_label_def hd_take Let_def)
  qed (use ok ends in \<open>auto simp: r dns1123_label_def Let_def\<close>)
qed

section \<open>Labels\<close>

lemma colon_not_ok:
  assumes "CHR '':'' \<in> set s"
  shows "\<not> label_value_ok s"
proof -
  have "\<not> alnum (CHR '':'')" by code_simp
  with assms show ?thesis by (auto simp: label_value_ok_def list_all_iff)
qed

lemma rfc3339_colon: "CHR '':'' \<in> set (rfc3339_utc t)"
  by (cases "civil_date (t div second div 86400)") (simp add: rfc3339_utc_def Let_def)

lemma map_of_string_map: "map_of (map (\<lambda>(k, v). (k, JStr v)) m) k = map_option JStr (map_of m k)"
  by (induction m) auto

lemma map_of_copy:
  "map_of extra k = None \<Longrightarrow> map_of (foldl (\<lambda>m (k, v). gm_put k v m) m extra) k = map_of m k"
  by (induction extra arbitrary: m) (auto split: if_splits)

lemma litmus_document_labels:
  "convertLitmusExperiment now ord raw = Inr doc \<Longrightarrow> JObj (doc_labels doc) = litmusMigrationLabels now"
  by (auto simp: convertLitmusExperiment_def convertChaosEngine_def convertChaosExperimentDef_def Let_def
      litmus_document_def doc_labels_def getNestedMap_def toMap_def litmusMigrationLabels_def
      split: if_splits prod.splits)

text \<open>
  C22. No migrated experiment can be created as it is written: the label with the time of the migration
  holds colons, which the API server does not allow in the value of a label. A Gremlin attack escapes only by
  carrying a label of that name itself.
\<close>

theorem migrated_label_refused:
  "(convertLitmusExperiment now ord raw = Inr doc \<or>
    (convertGremlinAttack now attack = doc \<and> map_of (ga_Labels attack) ''chaosplane.io/migrated-at'' = None)) \<Longrightarrow>
   \<exists>v. map_of (doc_labels doc) ''chaosplane.io/migrated-at'' = Some (JStr v) \<and> \<not> label_value_ok v"
proof (elim disjE conjE)
  assume "convertLitmusExperiment now ord raw = Inr doc"
  then have "JObj (doc_labels doc) = litmusMigrationLabels now" by (rule litmus_document_labels)
  then show ?thesis by (auto simp: litmusMigrationLabels_def rfc3339_colon colon_not_ok)
next
  assume doc: "convertGremlinAttack now attack = doc"
    and no: "map_of (ga_Labels attack) ''chaosplane.io/migrated-at'' = None"
  have "doc_labels doc = map (\<lambda>(k, v). (k, JStr v)) (mergeMigrationLabels now (ga_Labels attack))"
    by (simp add: doc [symmetric] convertGremlinAttack_def Let_def doc_labels_def toMap_def getNestedMap_def
        string_map_def)
  then show ?thesis
    by (simp add: map_of_string_map mergeMigrationLabels_def map_of_copy [OF no] rfc3339_colon colon_not_ok)
qed

definition demo_engine :: "(string, json) gomap" where
  "demo_engine =
     [(''kind'', JStr ''ChaosEngine''),
      (''metadata'', JObj [(''name'', JStr ''nginx-chaos''), (''namespace'', JStr ''shop'')]),
      (''spec'', JObj
         [(''appinfo'', JObj [(''applabel'', JStr ''app=nginx''), (''appkind'', JStr ''deployment'')]),
          (''experiments'', JArr [JObj
             [(''name'', JStr ''pod-network-loss''),
              (''spec'', JObj [(''components'', JObj [(''env'', JArr
                 [JObj [(''name'', JStr ''TOTAL_CHAOS_DURATION''), (''value'', JStr ''30'')],
                  JObj [(''name'', JStr ''PERCENTAGE''), (''value'', JStr ''40'')]])])])]])])]"

theorem migrated_label_refused_witness:
  "\<exists>doc v. convertLitmusExperiment 0 (\<lambda>ks. ks) demo_engine = Inr doc \<and>
     map_of (doc_labels doc) ''chaosplane.io/migrated-at'' = Some (JStr v) \<and> \<not> label_value_ok v"
proof -
  obtain doc where doc: "convertLitmusExperiment 0 (\<lambda>ks. ks) demo_engine = Inr doc"
    by (simp add: convertLitmusExperiment_def demo_engine_def getNestedString_def Let_def)
  with migrated_label_refused [of 0 "\<lambda>ks. ks" demo_engine doc] show ?thesis by blast
qed

section \<open>Actions and parameters\<close>


text \<open>\<open>json.Unmarshal\<close> into a \<open>map[string]string\<close> fails exactly on a field that is neither a string nor null.\<close>

fun stringy :: "json \<Rightarrow> bool" where
  "stringy (JStr s) = True"
| "stringy JNull = True"
| "stringy _ = False"

lemma unmarshal_fields_None: "unmarshal_fields m fs = None \<longleftrightarrow> (\<exists>kv \<in> set fs. \<not> stringy (snd kv))"
  by (induction m fs rule: unmarshal_fields.induct) auto

lemma unmarshal_fields_Some:
  "unmarshal_fields m fs = Some m' \<Longrightarrow> gm_ok fs \<Longrightarrow> map_of fs k = Some (JStr v) \<Longrightarrow> map_of m' k = Some v"
  "unmarshal_fields m fs = Some m' \<Longrightarrow> map_of fs k = None \<Longrightarrow> map_of m' k = map_of m k"
proof (induction m fs rule: unmarshal_fields.induct)
  case (2 m j s r)
  { case 1 with 2 show ?case by (cases "k = j") (auto simp: gm_ok_def map_of_eq_None_iff [symmetric]) }
  { case 2 with "2.IH" show ?case by (auto split: if_splits) }
qed (auto simp: gm_ok_def split: if_splits)

lemma map_of_not_stringy:
  "gm_ok fs \<Longrightarrow> (\<exists>kv \<in> set fs. \<not> stringy (snd kv)) \<longleftrightarrow> (\<exists>k v. map_of fs k = Some v \<and> \<not> stringy v)"
  by (force simp: gm_ok_def)

lemma env_loop_value:
  "map_of (env_loop r env) n = (case env_value env n of None \<Rightarrow> map_of r n | Some v \<Rightarrow> Some (JStr v))"
  by (induction r env rule: env_loop.induct)
    (auto simp: env_value_def env_entry_def Let_def map_add_def split: option.splits)

lemma env_loop_ok: "gm_ok r \<Longrightarrow> gm_ok (env_loop r env)"
  by (induction r env rule: env_loop.induct) (auto simp: Let_def)

lemma extractEnvMap_value: "map_of (extractEnvMap env) n = map_option JStr (env_value env n)"
  by (simp add: extractEnvMap_def env_loop_value split: option.splits)

lemma litmus_params_ok: "gm_ok p \<Longrightarrow> gm_ok (litmus_params env ks p)"
  by (induction env ks p rule: litmus_params.induct) (auto split: option.splits)

lemma litmus_params_other:
  "\<forall>n \<in> set ks - set skipKeys. map_of env n \<noteq> None \<longrightarrow> ToLower n \<noteq> k \<Longrightarrow>
     map_of (litmus_params env ks p) k = map_of p k"
  by (induction env ks p rule: litmus_params.induct) (auto split: option.splits)

lemma litmus_params_value:
  assumes "map_of env n = Some v" "n \<in> set ks - set skipKeys"
    and "inj_on ToLower (set ks - set skipKeys)"
  shows "map_of (litmus_params env ks p) (ToLower n) = Some v"
  using assms
proof (induction env ks p rule: litmus_params.induct)
  case (2 env k ks p)
  have inj: "inj_on ToLower (set ks - set skipKeys)"
    by (rule inj_on_subset [OF "2.prems"(3)]) auto
  show ?case
  proof (cases "n \<in> set ks")
    case True
    then show ?thesis using 2 inj by (auto split: option.splits)
  next
    case False
    then have k: "k = n" using "2.prems" by auto
    have "\<forall>j \<in> set ks - set skipKeys. map_of env j \<noteq> None \<longrightarrow> ToLower j \<noteq> ToLower n"
      using False "2.prems" unfolding inj_on_def by (metis DiffD1 DiffD2 DiffI k list.set_intros(1) list.set_intros(2))
    then have "map_of (litmus_params env ks q) (ToLower n) = map_of q (ToLower n)" for q
      by (rule litmus_params_other)
    then show ?thesis using "2.prems" by (simp add: k)
  qed
qed simp

lemma litmus_params_values:
  "map_of (litmus_params env ks p) k = Some v \<Longrightarrow>
     map_of p k = Some v \<or> (\<exists>n \<in> set ks - set skipKeys. map_of env n = Some v \<and> ToLower n = k)"
  by (induction env ks p rule: litmus_params.induct)
    (auto split: option.splits if_splits)

lemma litmus_params_decode:
  fixes env
  assumes "any_order ord"
  defines "params \<equiv> buildLitmusParams ord (extractEnvMap env)"
  shows "\<exists>ps. unmarshal_params (JObj params) = Some ps \<and>
     (inj_on ToLower ({n. env_value env n \<noteq> None} - set skipKeys) \<longrightarrow>
        (\<forall>n v. n \<notin> set skipKeys \<longrightarrow> env_value env n = Some v \<longrightarrow> map_of ps (ToLower n) = Some v)) \<and>
     (\<forall>k. map_of ps k \<noteq> None \<longrightarrow> (\<exists>n. n \<notin> set skipKeys \<and> env_value env n \<noteq> None \<and> ToLower n = k))"
proof -
  let ?ks = "ord (gm_keys (extractEnvMap env))"
  have ks: "set ?ks = {n. env_value env n \<noteq> None}"
    by (auto simp: any_order_set [OF assms(1)] set_gm_keys extractEnvMap_value dom_def)
  have params: "params = litmus_params (extractEnvMap env) ?ks []" by (simp add: params_def buildLitmusParams_def)
  have ok: "gm_ok params" by (simp add: params litmus_params_ok)
  have vals: "\<exists>n v. x = JStr v \<and> n \<notin> set skipKeys \<and> env_value env n = Some v \<and> ToLower n = k"
    if "map_of params k = Some x" for k x
    using litmus_params_values [OF that [unfolded params]] by (auto simp: extractEnvMap_value)
  have "unmarshal_fields [] params \<noteq> None"
    unfolding unmarshal_fields_None map_of_not_stringy [OF ok] using vals by fastforce
  then obtain ps where ps: "unmarshal_fields [] params = Some ps" by auto
  have "map_of ps (ToLower n) = Some v"
    if inj: "inj_on ToLower ({n. env_value env n \<noteq> None} - set skipKeys)"
      and n: "n \<notin> set skipKeys" "env_value env n = Some v" for n v
  proof (rule unmarshal_fields_Some(1) [OF ps ok], unfold params, rule litmus_params_value)
    show "map_of (extractEnvMap env) n = Some (JStr v)" using n by (simp add: extractEnvMap_value)
    show "n \<in> set ?ks - set skipKeys" using n by (simp add: ks)
    show "inj_on ToLower (set ?ks - set skipKeys)" using inj by (simp only: ks)
  qed
  moreover have "\<exists>n. n \<notin> set skipKeys \<and> env_value env n \<noteq> None \<and> ToLower n = k" if "map_of ps k \<noteq> None" for k
  proof -
    have "map_of params k \<noteq> None" using that unmarshal_fields_Some(2) [OF ps, of k] by (cases "map_of params k") auto
    then show ?thesis using vals by fastforce
  qed
  ultimately show ?thesis using ps by auto
qed

lemma gremlin_args_value:
  "map_of (gremlin_args args p) k = Some v \<Longrightarrow> \<not> stringy v \<Longrightarrow>
     map_of p k = Some v \<and> k \<notin> set (concat (map (\<lambda>arg. case cut ''='' arg of None \<Rightarrow> [] | Some (k, _) \<Rightarrow> [k]) args))"
  by (induction args p rule: gremlin_args.induct) (auto split: option.splits if_splits)

lemma gremlin_args_other:
  "k \<notin> set (concat (map (\<lambda>arg. case cut ''='' arg of None \<Rightarrow> [] | Some (k, _) \<Rightarrow> [k]) args)) \<Longrightarrow>
     map_of (gremlin_args args p) k = map_of p k"
  by (induction args p rule: gremlin_args.induct) (auto split: option.splits)

lemma gremlin_args_ok: "gm_ok p \<Longrightarrow> gm_ok (gremlin_args args p)"
  by (induction args p rule: gremlin_args.induct) (auto split: option.splits)

lemma gremlin_params_fail:
  "unmarshal_params (JObj (buildGremlinParams cmd)) = None \<longleftrightarrow>
     (gc_Percentage cmd > 0 \<and> ''percentage'' \<notin> set (arg_keys cmd)) \<or>
     (gc_Port cmd > 0 \<and> ''port'' \<notin> set (arg_keys cmd)) \<or>
     (gc_Delay cmd > 0 \<and> ''latencyMs'' \<notin> set (arg_keys cmd))" (is "?fails \<longleftrightarrow> ?numbers")
proof -
  define p where "p = (let p1 = (if gc_Percentage cmd > 0 then gm_put ''percentage'' (JNum (Itoa (gc_Percentage cmd))) [] else []);
      p2 = (if gc_Port cmd > 0 then gm_put ''port'' (JNum (Itoa (gc_Port cmd))) p1 else p1);
      p3 = (if gc_Protocol cmd \<noteq> [] then gm_put ''protocol'' (JStr (gc_Protocol cmd)) p2 else p2)
    in if gc_Delay cmd > 0 then gm_put ''latencyMs'' (JNum (Itoa (gc_Delay cmd))) p3 else p3)"
  have b: "buildGremlinParams cmd = gremlin_args (gc_Args cmd) p" by (simp add: buildGremlinParams_def p_def Let_def)
  have ok: "gm_ok (gremlin_args (gc_Args cmd) p)" by (intro gremlin_args_ok) (simp add: p_def Let_def)
  have p: "(map_of p k = Some v \<and> \<not> stringy v) \<longleftrightarrow>
      (k = ''percentage'' \<and> gc_Percentage cmd > 0 \<and> v = JNum (Itoa (gc_Percentage cmd))) \<or>
      (k = ''port'' \<and> gc_Port cmd > 0 \<and> v = JNum (Itoa (gc_Port cmd))) \<or>
      (k = ''latencyMs'' \<and> gc_Delay cmd > 0 \<and> v = JNum (Itoa (gc_Delay cmd)))" for k v
    by (cases "k = ''percentage''"; cases "k = ''port''"; cases "k = ''latencyMs''"; cases "k = ''protocol''")
      (auto simp: p_def Let_def)
  have "?fails \<longleftrightarrow> (\<exists>k v. map_of (gremlin_args (gc_Args cmd) p) k = Some v \<and> \<not> stringy v)"
    by (simp add: b unmarshal_fields_None map_of_not_stringy [OF ok])
  also have "\<dots> \<longleftrightarrow> (\<exists>k v. (map_of p k = Some v \<and> \<not> stringy v) \<and> k \<notin> set (arg_keys cmd))"
    unfolding arg_keys_def using gremlin_args_value gremlin_args_other by metis
  also have "\<dots> \<longleftrightarrow> ?numbers"
    unfolding p by auto
  finally show ?thesis .
qed

text \<open>
  C24. What the executors' \<open>ParseParameters\<close> makes of migrated parameters. Those of a Litmus experiment always
  decode: to the last value of every environment variable that is not skipped, under its name in lower
  case, and to nothing else (variables whose names differ only in case aside). Those of a Gremlin attack do not decode
  exactly when a percentage, a port or a delay is written as a number and no argument overwrites it.
\<close>

theorem migrated_parameters_decode:
  assumes "any_order ord"
  shows "(\<exists>ps. unmarshal_params (JObj (buildLitmusParams ord (extractEnvMap env))) = Some ps \<and>
       (inj_on ToLower ({n. env_value env n \<noteq> None} - set skipKeys) \<longrightarrow>
          (\<forall>n v. n \<notin> set skipKeys \<longrightarrow> env_value env n = Some v \<longrightarrow> map_of ps (ToLower n) = Some v)) \<and>
       (\<forall>k. map_of ps k \<noteq> None \<longrightarrow> (\<exists>n. n \<notin> set skipKeys \<and> env_value env n \<noteq> None \<and> ToLower n = k))) \<and>
     (unmarshal_params (JObj (buildGremlinParams cmd)) = None \<longleftrightarrow>
       (gc_Percentage cmd > 0 \<and> ''percentage'' \<notin> set (arg_keys cmd)) \<or>
       (gc_Port cmd > 0 \<and> ''port'' \<notin> set (arg_keys cmd)) \<or>
       (gc_Delay cmd > 0 \<and> ''latencyMs'' \<notin> set (arg_keys cmd)))"
  using litmus_params_decode [OF assms, of env] gremlin_params_fail [of cmd] by (rule conjI)

definition litmus_env :: "json list" where
  "litmus_env =
     [JObj [(''name'', JStr ''TOTAL_CHAOS_DURATION''), (''value'', JStr ''30'')],
      JObj [(''name'', JStr ''PERCENTAGE''), (''value'', JStr ''40'')]]"

definition demo_latency :: gremlinCommand where
  "demo_latency = \<lparr>gc_Type = ''latency'', gc_Args = [''device=eth0''], gc_Length = 60, gc_Percentage = 0,
     gc_Port = 0, gc_Protocol = [], gc_Delay = 100\<rparr>"

theorem migrated_parameters_decode_witness:
  "(\<exists>ps. unmarshal_params (JObj (buildLitmusParams rev (extractEnvMap litmus_env))) = Some ps \<and>
      map_of ps ''percentage'' = Some ''40'') \<and>
   unmarshal_params (JObj (buildGremlinParams demo_latency)) = None"
proof -
  have ord: "any_order rev" by (simp add: any_order_def)
  have vals: "env_value litmus_env n =
      (if n = ''PERCENTAGE'' then Some ''40'' else if n = ''TOTAL_CHAOS_DURATION'' then Some ''30'' else None)" for n
    by (simp add: env_value_def litmus_env_def env_entry_def toMap_def getNestedString_def)
  have names: "{n. env_value litmus_env n \<noteq> None} - set skipKeys = {''PERCENTAGE''}"
    by (auto simp: vals skipKeys_def)
  have low: "ToLower ''PERCENTAGE'' = ''percentage''" by code_simp
  have notin: "''PERCENTAGE'' \<notin> set skipKeys" by (simp add: skipKeys_def)
  have keys: "''latencyMs'' \<notin> set (arg_keys demo_latency)" by code_simp
  have delay: "gc_Delay demo_latency > 0" by (simp add: demo_latency_def)
  obtain ps where ps: "unmarshal_params (JObj (buildLitmusParams rev (extractEnvMap litmus_env))) = Some ps"
    and pv: "\<forall>n v. n \<notin> set skipKeys \<longrightarrow> env_value litmus_env n = Some v \<longrightarrow> map_of ps (ToLower n) = Some v"
    and g: "unmarshal_params (JObj (buildGremlinParams demo_latency)) = None"
    using migrated_parameters_decode [OF ord, of litmus_env demo_latency] keys delay
    unfolding names by (auto simp del: unmarshal_params.simps)
  have "map_of ps ''percentage'' = Some ''40''" using pv notin vals low by metis
  with ps g show ?thesis by blast
qed

end
