(* ===== verification/Chaosctl.thy ===== *)
theory Chaosctl
  imports Migrate Experiment_Runs
begin

text \<open>
  The command line client: \<open>internal/cli\<close> and the commands of \<open>cmd/chaosctl/cmd\<close>. Each \<open>RunE\<close> is a function
  from the state of the process to its error, if any, and the new state. Files, the environment, the clients
  of the API server, YAML and JSON encoders and the clock are fields of \<open>CliEnv\<close>; the creation time of an
  object, which nothing else reads, comes with the listed item. \<open>cl_out\<close> collects what is written to standard
  output, a table as the rows given to \<open>tabwriter\<close>, and \<open>cl_writes\<close> the objects handed to the API client.
  Values of flags are a record. The float64 arithmetic of \<open>Duration.Seconds\<close>, \<open>Minutes\<close> and \<open>Hours\<close> in \<open>age\<close> is
  exact here; rounding can show the next unit within a few nanoseconds of a boundary.

  The theorem at the end follows \<open>chaosctl experiment stop\<close> into the controller.
\<close>

section \<open>Definitions\<close>

datatype StatusReason = ReasonNotFound | ReasonForbidden | ReasonConflict | ReasonOther

text \<open>An error with the reason that \<open>apierrors\<close> finds in it, through any wrapping with \<open>%w\<close>.\<close>

record CliErr =
  cx_reason :: StatusReason
  cx_msg :: err

definition Errorf :: "err \<Rightarrow> CliErr" where
  "Errorf msg = \<lparr>cx_reason = ReasonOther, cx_msg = msg\<rparr>"

definition wrap_err :: "string \<Rightarrow> CliErr \<Rightarrow> CliErr" where
  "wrap_err pre er = er\<lparr>cx_msg := pre @ '': '' @ cx_msg er\<rparr>"

datatype Printable =
    PExperiment ChaosExperiment
  | PExperiments "(ChaosExperiment \<times> time) list"
  | PPolicy BlastRadiusPolicy
  | PPolicies "(BlastRadiusPolicy \<times> time) list"

datatype Output = OText string | OTable "string list list"

datatype CliWrite = WCreate ChaosExperiment | WUpdate ChaosExperiment | WDelete key

record ('x, 'c, 'k) CliEnv =
  ce_Getenv :: "string \<Rightarrow> string"
  ce_UserHomeDir :: "err + string"
  ce_BuildConfig :: "string \<Rightarrow> 'x \<Rightarrow> (CliErr + 'c) \<times> 'x"
  ce_NewClient :: "'c \<Rightarrow> 'x \<Rightarrow> (CliErr + 'k) \<times> 'x"
  ce_Create :: "'k \<Rightarrow> ChaosExperiment \<Rightarrow> 'x \<Rightarrow> (CliErr + ChaosExperiment) \<times> 'x"
  ce_Update :: "'k \<Rightarrow> ChaosExperiment \<Rightarrow> 'x \<Rightarrow> CliErr option \<times> 'x"
  ce_Delete :: "'k \<Rightarrow> key \<Rightarrow> 'x \<Rightarrow> CliErr option \<times> 'x"
  ce_Get :: "'k \<Rightarrow> key \<Rightarrow> 'x \<Rightarrow> (CliErr + ChaosExperiment) \<times> 'x"
  ce_List :: "'k \<Rightarrow> string option \<Rightarrow> 'x \<Rightarrow> (CliErr + (ChaosExperiment \<times> time) list) \<times> 'x"
  ce_GetPolicy :: "'k \<Rightarrow> string \<Rightarrow> 'x \<Rightarrow> (CliErr + BlastRadiusPolicy) \<times> 'x"
  ce_ListPolicies :: "'k \<Rightarrow> 'x \<Rightarrow> (CliErr + (BlastRadiusPolicy \<times> time) list) \<times> 'x"
  ce_Now :: "'x \<Rightarrow> time \<times> 'x"
  ce_Tick :: "'x \<Rightarrow> unit \<times> 'x"
  ce_LocalRFC3339 :: "time \<Rightarrow> string"
  ce_ReadFile :: "string \<Rightarrow> 'x \<Rightarrow> (CliErr + string) \<times> 'x"
  ce_WriteFile :: "string \<Rightarrow> string \<Rightarrow> 'x \<Rightarrow> CliErr option \<times> 'x"
  ce_UnmarshalStrict :: "string \<Rightarrow> CliErr + ChaosExperiment"
  ce_DecodeYAML :: "string \<Rightarrow> CliErr + (string, json) gomap"
  ce_DecodeAttack :: "string \<Rightarrow> CliErr + gremlinAttack"
  ce_MarshalDoc :: "json \<Rightarrow> CliErr + string"
  ce_MarshalIndent :: "Printable \<Rightarrow> CliErr + string"
  ce_MarshalYAML :: "Printable \<Rightarrow> CliErr + string"

record CliFlags =
  fl_kubeconfig :: string
  fl_namespace :: string
  fl_outputFmt :: string
  fl_allNamespaces :: bool
  fl_file :: string
  fl_out :: string
  fl_watch :: bool

record 'x Cli =
  cl_ext :: 'x
  cl_out :: "Output list"
  cl_writes :: "CliWrite list"

definition cli_call :: "('x \<Rightarrow> 'r \<times> 'x) \<Rightarrow> 'x Cli \<Rightarrow> 'r \<times> 'x Cli" where
  "cli_call f c = (case f (cl_ext c) of (r, x) \<Rightarrow> (r, c\<lparr>cl_ext := x\<rparr>))"

definition cli_write :: "CliWrite \<Rightarrow> ('x \<Rightarrow> 'r \<times> 'x) \<Rightarrow> 'x Cli \<Rightarrow> 'r \<times> 'x Cli" where
  "cli_write wr f c = cli_call f (c\<lparr>cl_writes := cl_writes c @ [wr]\<rparr>)"

definition print :: "string \<Rightarrow> 'x Cli \<Rightarrow> 'x Cli" where
  "print s c = c\<lparr>cl_out := cl_out c @ [OText s]\<rparr>"

definition println :: "string \<Rightarrow> 'x Cli \<Rightarrow> 'x Cli" where
  "println s = print (s @ [CHR 0x0A])"

subsection \<open>internal/cli\<close>

definition FormatError :: "CliErr option \<Rightarrow> string \<Rightarrow> string \<Rightarrow> string \<Rightarrow> CliErr option" where
  "FormatError er resourceKind name namespace =
     (case er of
        None \<Rightarrow> None
      | Some x \<Rightarrow>
          if cx_reason x = ReasonNotFound then
            Some (Errorf (resourceKind @ '' '' @ [CHR 0x27] @ name @ [CHR 0x27] @ '' not found in namespace '' @ [CHR 0x27] @
              namespace @ [CHR 0x27] @ ''. Try: chaosctl '' @ ToLower resourceKind @ '' list -n '' @ namespace))
          else if cx_reason x = ReasonForbidden then
            Some (Errorf ''permission denied. Check your kubeconfig and RBAC settings'')
          else if cx_reason x = ReasonConflict then
            Some (Errorf (resourceKind @ '' '' @ [CHR 0x27] @ name @ [CHR 0x27] @ '' was modified by another process. Please retry''))
          else if str_contains (cx_msg x) ''connection refused'' \<or> str_contains (cx_msg x) ''no such host'' then
            Some (Errorf ''cannot connect to cluster. Is your kubeconfig correct? Try: kubectl cluster-info'')
          else if str_contains (cx_msg x) ''certificate'' then
            Some (Errorf ''TLS certificate error. Check your kubeconfig certificates or try: kubectl cluster-info'')
          else Some x)"

text \<open>\<open>filepath.Clean\<close> and \<open>filepath.Join\<close> on Unix.\<close>

fun clean_elems :: "bool \<Rightarrow> string list \<Rightarrow> string list \<Rightarrow> string list" where
  "clean_elems rooted acc [] = rev acc"
| "clean_elems rooted acc (e # es) =
     (if e = [] \<or> e = ''.'' then clean_elems rooted acc es
      else if e = ''..'' then
        (case acc of
           [] \<Rightarrow> clean_elems rooted (if rooted then [] else [e]) es
         | d # ds \<Rightarrow> clean_elems rooted (if d = ''..'' then e # acc else ds) es)
      else clean_elems rooted (e # acc) es)"

definition Clean :: "string \<Rightarrow> string" where
  "Clean path =
     (if path = [] then ''.''
      else let rooted = (hd path = CHR ''/'');
               p = join_on (CHR ''/'') (clean_elems rooted [] (split_on (CHR ''/'') path))
           in if rooted then CHR ''/'' # p else if p = [] then ''.'' else p)"

definition Join :: "string list \<Rightarrow> string" where
  "Join elem = (case dropWhile (\<lambda>e. e = []) elem of [] \<Rightarrow> [] | es \<Rightarrow> Clean (join_on (CHR ''/'') es))"

definition ResolveKubeconfig :: "('x, 'c, 'k) CliEnv \<Rightarrow> string \<Rightarrow> string" where
  "ResolveKubeconfig e flagValue =
     (if flagValue \<noteq> [] then flagValue
      else if ce_Getenv e ''KUBECONFIG'' \<noteq> [] then ce_Getenv e ''KUBECONFIG''
      else case ce_UserHomeDir e of Inl _ \<Rightarrow> [] | Inr home \<Rightarrow> Join [home, ''.kube'', ''config''])"

definition NewK8sClient :: "('x, 'c, 'k) CliEnv \<Rightarrow> string \<Rightarrow> 'x Cli \<Rightarrow> (CliErr + 'k) \<times> 'x Cli" where
  "NewK8sClient e kubeconfig c =
     (case cli_call (ce_BuildConfig e (ResolveKubeconfig e kubeconfig)) c of
        (Inl er, c) \<Rightarrow> (Inl (wrap_err ''loading kubeconfig'' er), c)
      | (Inr cfg, c) \<Rightarrow>
          (case cli_call (ce_NewClient e cfg) c of
             (Inl er, c) \<Rightarrow> (Inl (wrap_err ''creating kubernetes client'' er), c)
           | (Inr k, c) \<Rightarrow> (Inr k, c)))"

definition PrintTable :: "string list \<Rightarrow> string list list \<Rightarrow> 'x Cli \<Rightarrow> 'x Cli" where
  "PrintTable headers rows c = c\<lparr>cl_out := cl_out c @ [OTable (headers # rows)]\<rparr>"

definition PrintJSON :: "('x, 'c, 'k) CliEnv \<Rightarrow> Printable \<Rightarrow> 'x Cli \<Rightarrow> CliErr option \<times> 'x Cli" where
  "PrintJSON e obj c =
     (case ce_MarshalIndent e obj of
        Inl er \<Rightarrow> (Some (wrap_err ''marshalling JSON'' er), c)
      | Inr s \<Rightarrow> (None, println s c))"

definition PrintYAML :: "('x, 'c, 'k) CliEnv \<Rightarrow> Printable \<Rightarrow> 'x Cli \<Rightarrow> CliErr option \<times> 'x Cli" where
  "PrintYAML e obj c =
     (case ce_MarshalYAML e obj of
        Inl er \<Rightarrow> (Some (wrap_err ''marshalling YAML'' er), c)
      | Inr s \<Rightarrow> (None, print s c))"

definition PrintObject :: "('x, 'c, 'k) CliEnv \<Rightarrow> string \<Rightarrow> Printable \<Rightarrow> string list \<Rightarrow> string list list \<Rightarrow> 'x Cli \<Rightarrow>
    CliErr option \<times> 'x Cli" where
  "PrintObject e fmt obj headers rows c =
     (if fmt = ''json'' then PrintJSON e obj c
      else if fmt = ''yaml'' then PrintYAML e obj c
      else (None, PrintTable headers rows c))"

subsection \<open>Experiments\<close>

text \<open>The head that the commands share: the client, or the formatted error.\<close>

definition with_client :: "('x, 'c, 'k) CliEnv \<Rightarrow> CliFlags \<Rightarrow> (CliErr \<Rightarrow> CliErr option) \<Rightarrow>
    ('k \<Rightarrow> 'x Cli \<Rightarrow> CliErr option \<times> 'x Cli) \<Rightarrow> 'x Cli \<Rightarrow> CliErr option \<times> 'x Cli" where
  "with_client e fl fmt body c =
     (case NewK8sClient e (fl_kubeconfig fl) c of
        (Inl er, c) \<Rightarrow> (fmt er, c)
      | (Inr k, c) \<Rightarrow> body k c)"

definition experiment_error :: "CliFlags \<Rightarrow> string \<Rightarrow> CliErr \<Rightarrow> CliErr option" where
  "experiment_error fl name er = FormatError (Some er) ''experiment'' name (fl_namespace fl)"

definition with_experiment :: "('x, 'c, 'k) CliEnv \<Rightarrow> 'k \<Rightarrow> CliFlags \<Rightarrow> string \<Rightarrow>
    (ChaosExperiment \<Rightarrow> 'x Cli \<Rightarrow> CliErr option \<times> 'x Cli) \<Rightarrow> 'x Cli \<Rightarrow> CliErr option \<times> 'x Cli" where
  "with_experiment e k fl name body c =
     (case cli_call (ce_Get e k (fl_namespace fl, name)) c of
        (Inl er, c) \<Rightarrow> (experiment_error fl name er, c)
      | (Inr xp, c) \<Rightarrow> body xp c)"

definition shown_phase :: "ChaosExperiment \<Rightarrow> string" where
  "shown_phase xp = (let ph = phase_string (phase_of xp) in if ph = [] then ''Pending'' else ph)"

definition experimentCreate :: "('x, 'c, 'k) CliEnv \<Rightarrow> CliFlags \<Rightarrow> 'x Cli \<Rightarrow> CliErr option \<times> 'x Cli" where
  "experimentCreate e fl c =
     (if fl_file fl = [] then (Some (Errorf ''flag -f / --file is required''), c)
      else case cli_call (ce_ReadFile e (fl_file fl)) c of
        (Inl er, c) \<Rightarrow> (Some (wrap_err (''reading file '' @ fl_file fl) er), c)
      | (Inr txt, c) \<Rightarrow>
          (case ce_UnmarshalStrict e txt of
             Inl er \<Rightarrow> (Some (wrap_err ''parsing YAML'' er), c)
           | Inr xp \<Rightarrow>
               (let xp = (if m_namespace (e_meta xp) = [] then xp\<lparr>e_meta := (e_meta xp)\<lparr>m_namespace := fl_namespace fl\<rparr>\<rparr> else xp);
                    fmt = (\<lambda>er. FormatError (Some er) ''experiment'' (m_name (e_meta xp)) (m_namespace (e_meta xp)))
                in with_client e fl fmt
                     (\<lambda>k c. case cli_write (WCreate xp) (ce_Create e k xp) c of
                        (Inl er, c) \<Rightarrow> (fmt er, c)
                      | (Inr xp, c) \<Rightarrow> (None, println (''experiment/'' @ m_name (e_meta xp) @ '' created'') c)) c)))"

definition experimentDelete :: "('x, 'c, 'k) CliEnv \<Rightarrow> CliFlags \<Rightarrow> string \<Rightarrow> 'x Cli \<Rightarrow> CliErr option \<times> 'x Cli" where
  "experimentDelete e fl name =
     with_client e fl (experiment_error fl name)
       (\<lambda>k c. case cli_write (WDelete (fl_namespace fl, name)) (ce_Delete e k (fl_namespace fl, name)) c of
          (Some er, c) \<Rightarrow> (experiment_error fl name er, c)
        | (None, c) \<Rightarrow> (None, println (''experiment/'' @ name @ '' deleted'') c))"

definition experimentGet :: "('x, 'c, 'k) CliEnv \<Rightarrow> CliFlags \<Rightarrow> string \<Rightarrow> 'x Cli \<Rightarrow> CliErr option \<times> 'x Cli" where
  "experimentGet e fl name =
     with_client e fl (experiment_error fl name)
       (\<lambda>k. with_experiment e k fl name
         (\<lambda>xp. PrintObject e (fl_outputFmt fl) (PExperiment xp)
            [''NAME'', ''NAMESPACE'', ''TARGET'', ''ACTION'', ''DURATION'', ''PHASE'', ''MESSAGE'']
            [[m_name (e_meta xp), m_namespace (e_meta xp),
              t_kind (s_target (e_spec xp)) @ ''/'' @ join_on (CHR '','') (t_names (s_target (e_spec xp))),
              a_type (s_action (e_spec xp)), dur_str (s_duration (e_spec xp)), shown_phase xp, st_message (e_status xp)]]))"

definition age :: "('x, 'c, 'k) CliEnv \<Rightarrow> time \<Rightarrow> 'x Cli \<Rightarrow> string \<times> 'x Cli" where
  "age e t c =
     (case cli_call (ce_Now e) c of
        (now, c) \<Rightarrow>
          (let d = time_since now t in
           (if d < minute then Itoa (go_div d second) @ ''s''
            else if d < 60 * minute then Itoa (go_div d minute) @ ''m''
            else if d < 24 * 60 * minute then Itoa (go_div d (60 * minute)) @ ''h''
            else Itoa (d div (24 * 60 * minute)) @ ''d'', c)))"

fun experiment_rows :: "('x, 'c, 'k) CliEnv \<Rightarrow> (ChaosExperiment \<times> time) list \<Rightarrow> 'x Cli \<Rightarrow> string list list \<times> 'x Cli" where
  "experiment_rows e [] c = ([], c)"
| "experiment_rows e ((xp, created) # items) c =
     (case age e created c of
        (a, c) \<Rightarrow>
          (case experiment_rows e items c of
             (rows, c) \<Rightarrow>
               ([m_name (e_meta xp), m_namespace (e_meta xp), a_type (s_action (e_spec xp)), shown_phase xp, a] # rows, c)))"

definition experimentList :: "('x, 'c, 'k) CliEnv \<Rightarrow> CliFlags \<Rightarrow> 'x Cli \<Rightarrow> CliErr option \<times> 'x Cli" where
  "experimentList e fl =
     with_client e fl (experiment_error fl [])
       (\<lambda>k c. case cli_call (ce_List e k (if fl_allNamespaces fl then None else Some (fl_namespace fl))) c of
          (Inl er, c) \<Rightarrow> (experiment_error fl [] er, c)
        | (Inr items, c) \<Rightarrow>
            (case experiment_rows e items c of
               (rows, c) \<Rightarrow>
                 if rows = [] then
                   (None, println (''No experiments found in '' @
                      (if fl_allNamespaces fl then ''all namespaces'' else fl_namespace fl)) c)
                 else PrintObject e (fl_outputFmt fl) (PExperiments items)
                   [''NAME'', ''NAMESPACE'', ''ACTION'', ''PHASE'', ''AGE''] rows c))"

definition pausedAnnotation :: string where
  "pausedAnnotation = ''chaosplane.io/paused''"

definition experimentRun :: "('x, 'c, 'k) CliEnv \<Rightarrow> CliFlags \<Rightarrow> string \<Rightarrow> 'x Cli \<Rightarrow> CliErr option \<times> 'x Cli" where
  "experimentRun e fl name =
     with_client e fl (experiment_error fl name)
       (\<lambda>k. with_experiment e k fl name
         (\<lambda>xp c.
            if map_of (m_annotations (e_meta xp)) pausedAnnotation \<noteq> None then
              (let xp = xp\<lparr>e_meta := (e_meta xp)\<lparr>m_annotations := gm_del pausedAnnotation (m_annotations (e_meta xp))\<rparr>\<rparr> in
               case cli_write (WUpdate xp) (ce_Update e k xp) c of
                 (Some er, c) \<Rightarrow> (experiment_error fl name er, c)
               | (None, c) \<Rightarrow> (None, println (''experiment/'' @ name @ '' unpaused'') c))
            else (None, println (''experiment/'' @ name @ '' is '' @ shown_phase xp @ '' (experiments auto-start on creation)'') c)))"

definition stop_annotated :: "ChaosExperiment \<Rightarrow> ChaosExperiment" where
  "stop_annotated xp = xp\<lparr>e_meta := (e_meta xp)\<lparr>m_annotations :=
     gm_put ''chaosplane.io/abort'' ''true'' (m_annotations (e_meta xp))\<rparr>\<rparr>"

definition experimentStop :: "('x, 'c, 'k) CliEnv \<Rightarrow> CliFlags \<Rightarrow> string \<Rightarrow> 'x Cli \<Rightarrow> CliErr option \<times> 'x Cli" where
  "experimentStop e fl name =
     with_client e fl (experiment_error fl name)
       (\<lambda>k. with_experiment e k fl name
         (\<lambda>xp c. case cli_write (WUpdate (stop_annotated xp)) (ce_Update e k (stop_annotated xp)) c of
            (Some er, c) \<Rightarrow> (experiment_error fl name er, c)
          | (None, c) \<Rightarrow> (None, println (''experiment/'' @ name @ '' abort requested'') c)))"

fun condition_string :: "ConditionStatus \<Rightarrow> string" where
  "condition_string ConditionTrue = ''True''"
| "condition_string ConditionFalse = ''False''"
| "condition_string ConditionUnknown = ''Unknown''"

definition printStatus :: "('x, 'c, 'k) CliEnv \<Rightarrow> 'k \<Rightarrow> CliFlags \<Rightarrow> string \<Rightarrow> 'x Cli \<Rightarrow> CliErr option \<times> 'x Cli" where
  "printStatus e k fl name =
     with_experiment e k fl name
       (\<lambda>xp c.
          (let st = e_status xp;
               ls = [''Name:      '' @ m_name (e_meta xp), ''Namespace: '' @ m_namespace (e_meta xp), ''Phase:     '' @ shown_phase xp] @
                 (if st_message st \<noteq> [] then [''Message:   '' @ st_message st] else []) @
                 (case st_startTime st of None \<Rightarrow> [] | Some t \<Rightarrow> [''Started:   '' @ ce_LocalRFC3339 e t]) @
                 (case st_endTime st of None \<Rightarrow> [] | Some t \<Rightarrow> [''Ended:     '' @ ce_LocalRFC3339 e t]) @
                 (if st_affectedResources st \<noteq> [] then [''Affected:  '' @ fmt_list (st_affectedResources st)] else []) @
                 map (\<lambda>cd. ''Condition: '' @ c_type cd @ ''='' @ condition_string (c_status cd) @ '' ('' @ c_message cd @ '')'')
                   (st_conditions st)
           in (None, foldl (\<lambda>c l. println l c) c ls)))"

text \<open>One round of the loop over the ticker, and the loop, which ends only with an error.\<close>

definition watch_round :: "('x, 'c, 'k) CliEnv \<Rightarrow> 'k \<Rightarrow> CliFlags \<Rightarrow> string \<Rightarrow> 'x Cli \<Rightarrow> CliErr option \<times> 'x Cli" where
  "watch_round e k fl name c = printStatus e k fl name (println ''---'' (snd (cli_call (ce_Tick e) c)))"

partial_function (option) status_loop :: "('x, 'c, 'k) CliEnv \<Rightarrow> 'k \<Rightarrow> CliFlags \<Rightarrow> string \<Rightarrow> 'x Cli \<Rightarrow>
    (CliErr option \<times> 'x Cli) option" where
  "status_loop e k fl name c =
     (case watch_round e k fl name c of
        (Some er, c) \<Rightarrow> Some (Some er, c)
      | (None, c) \<Rightarrow> status_loop e k fl name c)"

definition experimentStatus :: "('x, 'c, 'k) CliEnv \<Rightarrow> CliFlags \<Rightarrow> string \<Rightarrow> 'x Cli \<Rightarrow> (CliErr option \<times> 'x Cli) option" where
  "experimentStatus e fl name c =
     (case NewK8sClient e (fl_kubeconfig fl) c of
        (Inl er, c) \<Rightarrow> Some (experiment_error fl name er, c)
      | (Inr k, c) \<Rightarrow>
          (case printStatus e k fl name c of
             (Some er, c) \<Rightarrow> Some (Some er, c)
           | (None, c) \<Rightarrow> if fl_watch fl then status_loop e k fl name c else Some (None, c)))"

subsection \<open>Policies\<close>

fun enforcement_string :: "EnforcementMode \<Rightarrow> string" where
  "enforcement_string EnforcementEnforce = ''Enforce''"
| "enforcement_string EnforcementAudit = ''Audit''"
| "enforcement_string (EnforcementOther s) = s"

definition policy_error :: "string \<Rightarrow> CliErr \<Rightarrow> CliErr option" where
  "policy_error name er = FormatError (Some er) ''BlastRadiusPolicy'' name []"

definition shown_max :: "string \<Rightarrow> int option \<Rightarrow> string" where
  "shown_max unt m = (case m of None \<Rightarrow> ''<none>'' | Some i \<Rightarrow> Itoa i @ unt)"

fun policy_rows :: "('x, 'c, 'k) CliEnv \<Rightarrow> (BlastRadiusPolicy \<times> time) list \<Rightarrow> 'x Cli \<Rightarrow> string list list \<times> 'x Cli" where
  "policy_rows e [] c = ([], c)"
| "policy_rows e ((p, created) # items) c =
     (case age e created c of
        (a, c) \<Rightarrow>
          (case policy_rows e items c of
             (rows, c) \<Rightarrow>
               ([m_name (b_meta p), enforcement_string (bp_enforcement (b_spec p)),
                 shown_max [] (tl_maxTargets (bp_targetLimits (b_spec p))), a] # rows, c)))"

definition policyList :: "('x, 'c, 'k) CliEnv \<Rightarrow> CliFlags \<Rightarrow> 'x Cli \<Rightarrow> CliErr option \<times> 'x Cli" where
  "policyList e fl =
     with_client e fl (policy_error [])
       (\<lambda>k c. case cli_call (ce_ListPolicies e k) c of
          (Inl er, c) \<Rightarrow> (policy_error [] er, c)
        | (Inr items, c) \<Rightarrow>
            (case policy_rows e items c of
               (rows, c) \<Rightarrow> PrintObject e (fl_outputFmt fl) (PPolicies items)
                 [''NAME'', ''ENFORCEMENT'', ''MAX TARGETS'', ''AGE''] rows c))"

definition policyGet :: "('x, 'c, 'k) CliEnv \<Rightarrow> CliFlags \<Rightarrow> string \<Rightarrow> 'x Cli \<Rightarrow> CliErr option \<times> 'x Cli" where
  "policyGet e fl name =
     with_client e fl (policy_error name)
       (\<lambda>k c. case cli_call (ce_GetPolicy e k name) c of
          (Inl er, c) \<Rightarrow> (policy_error name er, c)
        | (Inr p, c) \<Rightarrow>
            PrintObject e (fl_outputFmt fl) (PPolicy p)
              [''NAME'', ''ENFORCEMENT'', ''MAX TARGETS'', ''MAX %'', ''NAMESPACES'']
              [[m_name (b_meta p), enforcement_string (bp_enforcement (b_spec p)),
                shown_max [] (tl_maxTargets (bp_targetLimits (b_spec p))),
                shown_max ''%'' (tl_maxPercentage (bp_targetLimits (b_spec p))),
                (if sc_namespaces (bp_scope (b_spec p)) \<noteq> [] then fmt_list (sc_namespaces (bp_scope (b_spec p))) else ''<all>'')]] c)"

subsection \<open>Migrations\<close>

text \<open>The tail of both commands: the document is written to the output file or printed.\<close>

definition emit_document :: "('x, 'c, 'k) CliEnv \<Rightarrow> CliFlags \<Rightarrow> json \<Rightarrow> 'x Cli \<Rightarrow> CliErr option \<times> 'x Cli" where
  "emit_document e fl doc c =
     (case ce_MarshalDoc e doc of
        Inl er \<Rightarrow> (Some (wrap_err ''marshalling YAML'' er), c)
      | Inr out \<Rightarrow>
          if fl_out fl \<noteq> [] then
            (case cli_call (ce_WriteFile e (fl_out fl) out) c of
               (Some er, c) \<Rightarrow> (Some (wrap_err ''writing output file'' er), c)
             | (None, c) \<Rightarrow> (None, println (''wrote ChaosPlane experiment to '' @ fl_out fl) c))
          else (None, print out c))"

definition migrateLitmus :: "('x, 'c, 'k) CliEnv \<Rightarrow> (string list \<Rightarrow> string list) \<Rightarrow> CliFlags \<Rightarrow> 'x Cli \<Rightarrow> CliErr option \<times> 'x Cli" where
  "migrateLitmus e ord fl c =
     (if fl_file fl = [] then (Some (Errorf ''flag -f / --file is required''), c)
      else case cli_call (ce_ReadFile e (fl_file fl)) c of
        (Inl er, c) \<Rightarrow> (Some (wrap_err (''reading file '' @ fl_file fl) er), c)
      | (Inr txt, c) \<Rightarrow>
          (case ce_DecodeYAML e txt of
             Inl er \<Rightarrow> (Some (wrap_err ''parsing LitmusChaos YAML'' er), c)
           | Inr raw \<Rightarrow>
               (case cli_call (ce_Now e) c of
                  (now, c1) \<Rightarrow>
                    (case convertLitmusExperiment now ord raw of
                       Inl msg \<Rightarrow> (Some (wrap_err ''converting LitmusChaos experiment'' (Errorf msg)), c)
                     | Inr doc \<Rightarrow> emit_document e fl doc c1))))"

definition migrateGremlin :: "('x, 'c, 'k) CliEnv \<Rightarrow> CliFlags \<Rightarrow> 'x Cli \<Rightarrow> CliErr option \<times> 'x Cli" where
  "migrateGremlin e fl c =
     (if fl_file fl = [] then (Some (Errorf ''flag -f / --file is required''), c)
      else case cli_call (ce_ReadFile e (fl_file fl)) c of
        (Inl er, c) \<Rightarrow> (Some (wrap_err (''reading file '' @ fl_file fl) er), c)
      | (Inr txt, c) \<Rightarrow>
          (case ce_DecodeAttack e txt of
             Inl er \<Rightarrow> (Some (wrap_err ''parsing Gremlin JSON'' er), c)
           | Inr attack \<Rightarrow>
               (case cli_call (ce_Now e) c of
                  (now, c) \<Rightarrow> emit_document e fl (convertGremlinAttack now attack) c)))"

section \<open>Watching a status\<close>

text \<open>The state after a number of rounds of the loop.\<close>

definition watched :: "('x, 'c, 'k) CliEnv \<Rightarrow> 'k \<Rightarrow> CliFlags \<Rightarrow> string \<Rightarrow> nat \<Rightarrow> 'x Cli \<Rightarrow> 'x Cli" where
  "watched e k fl name n c = ((\<lambda>c. snd (watch_round e k fl name c)) ^^ n) c"

lemma status_loop_step:
  "status_loop e k fl name c =
     (case fst (watch_round e k fl name c) of
        Some er \<Rightarrow> Some (Some er, snd (watch_round e k fl name c))
      | None \<Rightarrow> status_loop e k fl name (snd (watch_round e k fl name c)))"
  by (subst status_loop.simps) (auto split: prod.splits option.splits)

lemma watched_Suc: "watched e k fl name (Suc n) c = watched e k fl name n (snd (watch_round e k fl name c))"
  by (simp only: watched_def funpow_Suc_right comp_def)

lemma status_loop_unfold:
  "\<forall>m < n. fst (watch_round e k fl name (watched e k fl name m c)) = None \<Longrightarrow>
     status_loop e k fl name c = status_loop e k fl name (watched e k fl name n c)"
proof (induction n arbitrary: c)
  case (Suc n)
  have "fst (watch_round e k fl name c) = None" using Suc.prems [rule_format, of 0] by (simp add: watched_def)
  moreover have "\<forall>m < n. fst (watch_round e k fl name (watched e k fl name m (snd (watch_round e k fl name c)))) = None"
    using Suc.prems by (metis watched_Suc Suc_less_eq)
  ultimately show ?case by (subst status_loop_step) (simp add: watched_Suc Suc.IH)
qed (simp add: watched_def)

lemma status_loop_fails:
  assumes "status_loop e k fl name c = Some y"
  shows "\<exists>n. fst (watch_round e k fl name (watched e k fl name n c)) = fst y \<and> fst y \<noteq> None"
proof (rule status_loop.raw_induct [OF _ assms], goal_cases)
  case (1 loop e k fl name c y)
  obtain o1 c1 where w: "watch_round e k fl name c = (o1, c1)" by fastforce
  show ?case
  proof (cases o1)
    case None
    with 1(2) w have "loop e k fl name c1 = Some y" by simp
    from 1(1) [OF this] obtain n where n: "fst (watch_round e k fl name (watched e k fl name n c1)) = fst y" "fst y \<noteq> None"
      by blast
    then show ?thesis by (intro exI [of _ "Suc n"]) (simp add: watched_Suc w)
  next
    case (Some er)
    with 1(2) w show ?thesis by (intro exI [of _ 0]) (auto simp: watched_def)
  qed
qed

text \<open>
  \<open>chaosctl experiment status --watch\<close> returns exactly when a later read fails, with the error of the first one
  that does: it does not stop when the experiment has ended.
\<close>

lemma status_loop_returns:
  "(\<exists>r. status_loop e k fl name c = Some r) \<longleftrightarrow>
     (\<exists>n. fst (watch_round e k fl name (watched e k fl name n c)) \<noteq> None)"
proof
  assume "\<exists>r. status_loop e k fl name c = Some r"
  then show "\<exists>n. fst (watch_round e k fl name (watched e k fl name n c)) \<noteq> None"
    using status_loop_fails by (metis surj_pair)
next
  let ?P = "\<lambda>n. fst (watch_round e k fl name (watched e k fl name n c)) \<noteq> None"
  assume "\<exists>n. ?P n"
  then obtain n where n: "?P n" "\<forall>m < n. \<not> ?P m" using exists_least_iff [of ?P] by auto
  then have "status_loop e k fl name c = status_loop e k fl name (watched e k fl name n c)"
    by (intro status_loop_unfold) simp
  with n(1) show "\<exists>r. status_loop e k fl name c = Some r" by (subst (asm) status_loop_step) auto
qed

section \<open>Stopping an experiment\<close>

lemma FormatError_Some: "FormatError (Some er) kind name ns \<noteq> None"
  by (simp add: FormatError_def)

lemma experiment_error_Some [simp]: "experiment_error fl name er \<noteq> None" "experiment_error fl name er = None \<longleftrightarrow> False"
  by (simp_all add: experiment_error_def FormatError_Some)

text \<open>What the client library does not touch: only the printing commands add output, only writes are logged.\<close>

lemma cli_callD: "cli_call f c = (r, c') \<Longrightarrow> cl_out c' = cl_out c \<and> cl_writes c' = cl_writes c \<and> f (cl_ext c) = (r, cl_ext c')"
  by (auto simp: cli_call_def split: prod.splits)

lemma NewK8sClientD: "NewK8sClient e kc c = (r, c') \<Longrightarrow> cl_out c' = cl_out c \<and> cl_writes c' = cl_writes c"
  by (auto simp: NewK8sClient_def dest!: cli_callD split: prod.splits sum.splits)

lemma experimentStop_ok:
  assumes "experimentStop e fl name c = (None, c')"
  obtains k x xp x' where "ce_Get e k (fl_namespace fl, name) x = (Inr xp, x')"
    and "cl_writes c' = cl_writes c @ [WUpdate (stop_annotated xp)]"
    and "cl_out c' = cl_out c @ [OText (''experiment/'' @ name @ '' abort requested'' @ [CHR 0x0A])]"
proof -
  obtain k c1 where k: "NewK8sClient e (fl_kubeconfig fl) c = (Inr k, c1)"
    and s1: "with_experiment e k fl name
         (\<lambda>xp c. case cli_write (WUpdate (stop_annotated xp)) (ce_Update e k (stop_annotated xp)) c of
            (Some er, c) \<Rightarrow> (experiment_error fl name er, c)
          | (None, c) \<Rightarrow> (None, println (''experiment/'' @ name @ '' abort requested'') c)) c1 = (None, c')"
    using assms by (auto simp: experimentStop_def with_client_def split: prod.splits sum.splits)
  obtain xp c2 where xp: "cli_call (ce_Get e k (fl_namespace fl, name)) c1 = (Inr xp, c2)"
    and s2: "(case cli_write (WUpdate (stop_annotated xp)) (ce_Update e k (stop_annotated xp)) c2 of
            (Some er, c) \<Rightarrow> (experiment_error fl name er, c)
          | (None, c) \<Rightarrow> (None, println (''experiment/'' @ name @ '' abort requested'') c)) = (None, c')"
    using s1 by (auto simp: with_experiment_def split: prod.splits sum.splits)
  obtain c3 where c3: "cli_write (WUpdate (stop_annotated xp)) (ce_Update e k (stop_annotated xp)) c2 = (None, c3)"
    and c': "c' = println (''experiment/'' @ name @ '' abort requested'') c3"
    using s2 by (auto split: prod.splits option.splits)
  show thesis
    using that [of k "cl_ext c1" xp "cl_ext c2"] NewK8sClientD [OF k] cli_callD [OF xp] cli_callD [OF c3 [unfolded cli_write_def]]
    by (simp add: c' println_def print_def)
qed

lemma stop_annotated_keeps:
  "e_spec (stop_annotated xp) = e_spec xp" "e_status (stop_annotated xp) = e_status xp"
  "is_aborting (stop_annotated xp) = is_aborting xp" "is_executed (stop_annotated xp) = is_executed xp"
  "m_deletionTimestamp (e_meta (stop_annotated xp)) = m_deletionTimestamp (e_meta xp)"
  "ContainsFinalizer (stop_annotated xp) f = ContainsFinalizer xp f"
  by (simp_all add: stop_annotated_def is_aborting_def is_executed_def abortAnnotation_def executedAnnotation_def
      ContainsFinalizer_def)

lemma reconcileObject_running:
  assumes "phase_of xp = PhaseRunning" "\<not> is_aborting xp" "s_abortConditions (e_spec xp) = []"
    and "m_deletionTimestamp (e_meta xp) = None" "ContainsFinalizer xp finalizerName"
  shows "reconcileObject env xp = runningTimed env xp"
  using assms by (simp add: reconcileObject_def reconcilePhase_def reconcileRunning_def is_aborting_def Let_def)

text \<open>
  C21. \<open>chaosctl experiment stop\<close> reports that the abort was requested and has then written one thing: an
  annotation that the controller does not read. An experiment that is running is not aborted by it: a reconcile of the
  experiment as written makes no call at all, neither a rollback nor a status write, and asks for the
  next look at it.
\<close>

theorem chaosctl_stop_ignored:
  assumes "experimentStop e fl name c = (None, c')"
  shows "\<exists>k x xp x'. ce_Get e k (fl_namespace fl, name) x = (Inr xp, x') \<and>
    cl_writes c' = cl_writes c @ [WUpdate (stop_annotated xp)] \<and>
    cl_out c' = cl_out c @ [OText (''experiment/'' @ name @ '' abort requested'' @ [CHR 0x0A])] \<and>
    (\<forall>env now start (w :: 'y World). phase_of xp = PhaseRunning \<and> is_executed xp \<and> \<not> is_aborting xp \<and>
       s_abortConditions (e_spec xp) = [] \<and> m_deletionTimestamp (e_meta xp) = None \<and> ContainsFinalizer xp finalizerName \<and>
       st_startTime (e_status xp) = Some start \<and> (\<forall>y. fst (env_Now env y) = now) \<and>
       start \<le> now \<and> now - start < s_duration (e_spec xp) \<and> s_duration (e_spec xp) < 2 ^ 62 \<longrightarrow>
       (\<exists>d > 0. fst (run_state (reconcileObject env (stop_annotated xp)) w) = requeue_after d \<and>
          calls (snd (run_state (reconcileObject env (stop_annotated xp)) w)) = calls w))"
proof -
  obtain k x xp x' where get: "ce_Get e k (fl_namespace fl, name) x = (Inr xp, x')"
    and log: "cl_writes c' = cl_writes c @ [WUpdate (stop_annotated xp)]"
      "cl_out c' = cl_out c @ [OText (''experiment/'' @ name @ '' abort requested'' @ [CHR 0x0A])]"
    using assms by (rule experimentStop_ok)
  have "\<exists>d > 0. fst (run_state (reconcileObject env (stop_annotated xp)) w) = requeue_after d \<and>
      calls (snd (run_state (reconcileObject env (stop_annotated xp)) w)) = calls w"
    if "phase_of xp = PhaseRunning" "is_executed xp" "\<not> is_aborting xp" "s_abortConditions (e_spec xp) = []"
      "m_deletionTimestamp (e_meta xp) = None" "ContainsFinalizer xp finalizerName"
      and t: "st_startTime (e_status xp) = Some start" "\<And>y. fst (env_Now env y) = now"
        "start \<le> now" "now - start < s_duration (e_spec xp)" "s_duration (e_spec xp) < 2 ^ 62"
    for env now start and w :: "'y World"
  proof -
    have "reconcileObject env (stop_annotated xp) = runningTimed env (stop_annotated xp)"
      using that by (intro reconcileObject_running) (simp_all add: stop_annotated_keeps)
    with runningTimed_waits [of "stop_annotated xp" start env now w] that show ?thesis
      by (auto simp: stop_annotated_keeps)
  qed
  with get log show ?thesis by blast
qed

definition demo_held :: ChaosExperiment where
  "demo_held = mem_executed\<lparr>e_meta := (e_meta mem_executed)\<lparr>m_finalizers := [finalizerName]\<rparr>\<rparr>"

definition demo_cli_env :: "(unit, unit, unit) CliEnv" where
  "demo_cli_env =
     \<lparr>ce_Getenv = (\<lambda>_. []), ce_UserHomeDir = Inr ''/root'',
      ce_BuildConfig = (\<lambda>_ x. (Inr (), x)), ce_NewClient = (\<lambda>_ x. (Inr (), x)),
      ce_Create = (\<lambda>_ xp x. (Inr xp, x)), ce_Update = (\<lambda>_ _ x. (None, x)), ce_Delete = (\<lambda>_ _ x. (None, x)),
      ce_Get = (\<lambda>_ _ x. (Inr demo_held, x)), ce_List = (\<lambda>_ _ x. (Inr [], x)),
      ce_GetPolicy = (\<lambda>_ _ x. (Inl (Errorf ''none''), x)), ce_ListPolicies = (\<lambda>_ x. (Inr [], x)),
      ce_Now = (\<lambda>x. (0, x)), ce_Tick = (\<lambda>x. ((), x)), ce_LocalRFC3339 = rfc3339_utc,
      ce_ReadFile = (\<lambda>_ x. (Inl (Errorf ''no file''), x)), ce_WriteFile = (\<lambda>_ _ x. (None, x)),
      ce_UnmarshalStrict = (\<lambda>_. Inr demo_held), ce_DecodeYAML = (\<lambda>_. Inr demo_engine),
      ce_DecodeAttack = (\<lambda>_. Inl (Errorf ''not JSON'')), ce_MarshalDoc = (\<lambda>_. Inr []),
      ce_MarshalIndent = (\<lambda>_. Inr []), ce_MarshalYAML = (\<lambda>_. Inr [])\<rparr>"

definition demo_flags :: CliFlags where
  "demo_flags = \<lparr>fl_kubeconfig = [], fl_namespace = ''prod'', fl_outputFmt = ''table'', fl_allNamespaces = False,
     fl_file = [], fl_out = [], fl_watch = False\<rparr>"

theorem chaosctl_stop_ignored_witness:
  "\<exists>c'. experimentStop demo_cli_env demo_flags ''kill-web'' \<lparr>cl_ext = (), cl_out = [], cl_writes = []\<rparr> = (None, c') \<and>
     cl_writes c' = [WUpdate (stop_annotated demo_held)] \<and>
     (\<exists>d > 0. fst (run_state (reconcileObject mem_still_env (stop_annotated demo_held)) \<lparr>w_ext = (None, 0), w_log = []\<rparr>) = requeue_after d \<and>
        calls (snd (run_state (reconcileObject mem_still_env (stop_annotated demo_held)) \<lparr>w_ext = (None, 0), w_log = []\<rparr>)) = [])"
proof -
  let ?c = "\<lparr>cl_ext = (), cl_out = [], cl_writes = []\<rparr> :: unit Cli"
  let ?w = "\<lparr>w_ext = (None, 0), w_log = []\<rparr> :: (ChaosExperiment option \<times> time) World"
  obtain c' where c': "experimentStop demo_cli_env demo_flags ''kill-web'' ?c = (None, c')"
    by (simp add: experimentStop_def with_client_def NewK8sClient_def with_experiment_def cli_call_def cli_write_def
        demo_cli_env_def)
  have held: "phase_of demo_held = PhaseRunning" "is_executed demo_held" "\<not> is_aborting demo_held"
    "s_abortConditions (e_spec demo_held) = []" "m_deletionTimestamp (e_meta demo_held) = None"
    "ContainsFinalizer demo_held finalizerName" "st_startTime (e_status demo_held) = Some (10 * second)"
    "s_duration (e_spec demo_held) = 60 * second"
    by (simp_all add: demo_held_def mem_executed_def mem_running_def mem_xp_def is_executed_def is_aborting_def
        gm_str_def executedAnnotation_def abortAnnotation_def ContainsFinalizer_def)
  have now: "\<forall>y. fst (env_Now mem_still_env y) = 30 * second" by (simp add: mem_still_env_def)
  obtain k x xp x' where get: "ce_Get demo_cli_env k (fl_namespace demo_flags, ''kill-web'') x = (Inr xp, x')"
    and log: "cl_writes c' = cl_writes ?c @ [WUpdate (stop_annotated xp)]"
    and waits: "\<And>env now start (w :: (ChaosExperiment option \<times> time) World). phase_of xp = PhaseRunning \<and> is_executed xp \<and> \<not> is_aborting xp \<and>
       s_abortConditions (e_spec xp) = [] \<and> m_deletionTimestamp (e_meta xp) = None \<and> ContainsFinalizer xp finalizerName \<and>
       st_startTime (e_status xp) = Some start \<and> (\<forall>y. fst (env_Now env y) = now) \<and>
       start \<le> now \<and> now - start < s_duration (e_spec xp) \<and> s_duration (e_spec xp) < 2 ^ 62 \<Longrightarrow>
       \<exists>d > 0. fst (run_state (reconcileObject env (stop_annotated xp)) w) = requeue_after d \<and>
          calls (snd (run_state (reconcileObject env (stop_annotated xp)) w)) = calls w"
    using chaosctl_stop_ignored [OF c'] by metis
  have xp: "xp = demo_held" using get by (simp add: demo_cli_env_def)
  have "\<exists>d > 0. fst (run_state (reconcileObject mem_still_env (stop_annotated demo_held)) ?w) = requeue_after d \<and>
      calls (snd (run_state (reconcileObject mem_still_env (stop_annotated demo_held)) ?w)) = calls ?w"
    using waits [unfolded xp, of "10 * second" mem_still_env "30 * second" ?w] held now by (simp add: second_def)
  then show ?thesis using c' log by (simp add: calls_def xp)
qed

end
