(* ===== verification/Spec2Isabelle.thy ===== *)
theory Spec2Isabelle
  imports Experiment_Runs Workflow_Controller Webhook Fleet_Faults Executor_Cluster Executor_Vm Time_Chaos
    Executor_Aws Executor_Rest Agent Chaosctl
begin

text \<open>
  ChaosPlane injects faults into Kubernetes clusters. An operator (\<open>cmd/operator\<close>) reconciles
  experiments and workflows and runs an executor per kind of action; executors change Kubernetes objects
  themselves or ask the daemon of a node (\<open>cmd/daemon\<close>) to run the system commands of a fault; an
  admission webhook refuses experiments that a blast-radius policy forbids; an agent (\<open>cmd/agent\<close>) takes
  experiments from a remote platform into the cluster and reports on them; \<open>chaosctl\<close> is the client for
  people, which also converts experiments of other tools. This development models
  those parts as executable definitions and proves what makes them safe to run: faults are executed when
  they should be, every fault that was started is rolled back, and what a rollback leaves behind is
  known.

  \<^bold>\<open>Theories and sources\<close> (paths under \<open>src/\<close>)

  \<^item> \<open>Prelude\<close>: Go's maps, 64-bit arithmetic, \<open>strconv\<close>, \<open>strings\<close>, \<open>%q\<close> and durations.
  \<^item> \<open>Api_Types\<close>: the resource types of \<open>api/v1alpha1\<close> as records and datatypes, JSON parameters and
    \<open>ParseParameters\<close>.
  \<^item> \<open>Executor_Registry\<close>: the \<open>Executor\<close> interface, the executor registry, the plugin registry and the
    registrations of \<open>cmd/operator/main.go\<close>; the locales \<open>keyed_table\<close> and \<open>removable_table\<close>, the contract
    of every table of the system.
  \<^item> \<open>Probe\<close>: \<open>internal/probe\<close> (HTTP, Kubernetes and Prometheus probes, selector parsers).
  \<^item> \<open>Kube_World\<close>: the world of a controller, an opaque outside and a log of the calls made on it, as a
    state monad, and the list of status conditions.
  \<^item> \<open>Experiment_Controller\<close>, \<open>Experiment_Runs\<close>: \<open>internal/controller/experiment_controller.go\<close>, one
    definition per handler; runs of the reconciler as an inductive relation in which the outside may
    answer anything.
  \<^item> \<open>Workflow_Dag\<close>, \<open>Workflow_Controller\<close>: \<open>internal/controller/workflow_controller.go\<close>, the
    dependency graph and the whole reconciler.
  \<^item> \<open>Webhook\<close>: \<open>internal/webhook/blastradius_webhook.go\<close> with its glob and cron matchers.
  \<^item> \<open>Daemon_Sys\<close>, \<open>Daemon_Netns\<close>, \<open>Daemon_Ebpf\<close>, \<open>Daemon_Server\<close>, \<open>Daemon_Faults\<close>: \<open>internal/daemon\<close>,
    namely the commands of \<open>syscmd.go\<close>, the resolution of pods to interfaces (\<open>netns\<close>), the eBPF
    classifier at the level of its instructions and the table of loaded programs (\<open>ebpf\<close>), the
    execution store and the gRPC handlers; runs of the daemon and what cancelling restores.
  \<^item> \<open>Executor_Daemon\<close>, \<open>Executor_Contracts\<close>: the executors of \<open>internal/executor/{pod,network,stress,node}\<close>
    that act through daemons, and the contract they share, the locale \<open>daemon_executor\<close>, interpreted for
    each of them.
  \<^item> \<open>Executor_Cluster\<close>: the executors that write Kubernetes objects (\<open>pod/kill.go\<close>, \<open>node/drain.go\<close>,
    \<open>node/taint.go\<close>, the rollback of \<open>node/restart.go\<close>, \<open>cluster\<close>).
  \<^item> \<open>Fleet_Faults\<close>: executors and daemons together, one daemon per node.
  \<^item> \<open>Executor_Vm\<close>, \<open>Time_Chaos\<close>: the executors that reach virtual machines over SSH
    (\<open>internal/executor/vm\<close>) and that preload libfaketime into a Deployment (\<open>internal/executor/timechaos\<close>).
  \<^item> \<open>Executor_Aws\<close>, \<open>Executor_Rest\<close>: the cloud executors (\<open>internal/executor/aws\<close>; \<open>azure\<close> and \<open>gcp\<close>); the
    locale \<open>snapshot_executor\<close> is the contract of those that keep what they found and put it back.
  \<^item> \<open>Agent\<close>: \<open>cmd/agent\<close>, the work item from claim to final report, heartbeats and topology, and the agent
    process as a step relation in which the rounds of its loops and goroutines interleave.
  \<^item> \<open>Migrate\<close>, \<open>Chaosctl\<close>: \<open>cmd/chaosctl/cmd\<close> and \<open>internal/cli\<close>, the converters of Litmus and Gremlin documents
    and one definition per command.

  \<^bold>\<open>How code became definitions\<close>

  A struct is a record, an enumeration a datatype, a Go map an association list with distinct keys (a
  list keeps the model executable; where the code ranges over a map the order is a parameter), an error a
  string in an option or in the left of a sum, with the text that the code builds. A method takes and
  returns the state it mutates. Log output is left out, events are kept. What is not in the
  repository is an argument of the definitions that use it, gathered in a record per component
  (\<open>ExpEnv\<close>, \<open>WfEnv\<close>, \<open>HookEnv\<close>, \<open>Host\<close>, \<open>CommandRunner\<close>, \<open>Resolver\<close>, \<open>ExecEnv\<close>, \<open>KubeEnv\<close>, \<open>VmEnv\<close>,
  \<open>TimeEnv\<close>, \<open>AwsEnv\<close>, \<open>RestEnv\<close>, \<open>AgentEnv\<close>, \<open>CliEnv\<close>): the API server, the clock, the command runner, the kernel, the container runtime,
  gRPC, HTTP, SSH, the AWS SDK and Prometheus. Most
  theorems hold whatever these answer. Where one needs more, the hypothesis is a named law of documented
  behaviour (\<open>iptables_laws\<close>, \<open>tc_laws\<close>, \<open>host_view\<close>, \<open>node_laws\<close>, \<open>configmap_laws\<close>, \<open>clock_laws\<close>,
  \<open>reads_only\<close>, \<open>deployment_laws\<close>, \<open>nacl_laws\<close>, \<open>lambda_laws\<close>, \<open>s3_laws\<close>, \<open>eks_laws\<close>, \<open>agent_clock\<close>), and its witness instantiates it with a concrete host or API server.
  Panics that the code can run into are values (\<open>None\<close>): an execution id shorter than eight bytes, an
  assignment to a nil map, an index into an empty list.

  \<^bold>\<open>What the lemmas show\<close>

  \<^item> Experiments: the action runs at most once more often than writes of the status failed; a stored phase
    Recovering, Completed or Aborted means that nothing is left to roll back; phases follow the life cycle;
    abort, failure and deletion roll back first; requeue times are positive and bounded.
  \<^item> Workflows: \<open>TopologicalSort\<close> is sound and complete, ready templates make progress, a reconcile respects
    the dependencies; the retry limit is never reached and a paused workflow waits for ever.
  \<^item> Probes and webhook: order and short-circuit, parser round trips and errors, the decision of \<open>Handle\<close>,
    globs, cron fields and time windows against textbook definitions.
  \<^item> Daemon: cancelling restores rules, disciplines, executions and programs; faults of a pod stay on it;
    the tables agree in every run; the classifier's drop rate; two ways in which faults leak.
  \<^item> Executors: rollback cancels exactly what execute started, the difference between the two kinds of
    rollback loops on errors, round trips of taints, ConfigMaps and skewed Deployments, termination of the polling
    loop, that a failed or rolled-back isolation of an availability zone leaves every subnet its ACL, that
    AWS experiments nest, that a mistyped size empties a node pool, the VM executors' rollback that reports success whatever happens, and across executors and
    daemons that an experiment leaves no trace on any node.
  \<^item> Agent: the reports of an experiment follow the protocol in every interleaving, the goroutine of an item
    returns and says how the experiment ended, an abort asked for by the platform makes the controller roll
    back, and the experiment made of an item is well formed.
  \<^item> Command line: \<open>chaosctl experiment stop\<close> does not stop an experiment; no migrated document is accepted as it
    is written, and what the operator's registry and the executors' decoding make of migrated action types and
    parameters; migrated names; when watching a status ends.

  \<^bold>\<open>Bounds and loops\<close>

  Loops over lists and maps are structural recursion. The sort \<open>kahn\<close> terminates by the length of its queue
  and the number of positive in-degrees, the rune-wise map of \<open>sanitizeName\<close> by the length of the rest. The polling
  loop \<open>wait_ready\<close> and the agent's \<open>watch_loop\<close> are partial functions, proved to return when the clock advances;
  \<open>None\<close> would be a loop that never ends. \<open>status_loop\<close> of the command line is one that returns exactly when a read
  fails.
  64-bit values that can overflow are wrapped
  explicitly, the classifier works on 32- and 64-bit words.

  \<^bold>\<open>Concurrency\<close>

  Every method of a registry, the execution store and the eBPF manager holds its mutex throughout and is one
  step. Requests to a daemon run one after the other in \<open>daemon_run\<close>: two handlers interleaved between
  their commands are not modelled. A reconcile is one step of a run; what happens to the outside between
  its calls is arbitrary. A round of one of the agent's loops is one step; each goroutine talks to the platform
  about its own experiment only.

  \<^bold>\<open>Not modelled\<close>

  Flags, signals and client construction in the \<open>main\<close> functions, the command tree of \<open>chaosctl\<close> with its version
  command, TLS and FIPS set-up are I/O and wiring; text of JSON and YAML is parsed and printed by libraries; the
  types ChaosSchedule and ChaosAgent have no code that uses them; \<open>zz_generated.deepcopy.go\<close> and \<open>gen/\<close> are generated.
\<close>

end
